(* ===== verification/Go_Prelude.thy ===== *)
theory Go_Prelude
  imports Main "HOL-Library.Word"
begin

text \<open>
  Shared vocabulary of the development: Go's strings, byte slices and machine integers, the
  error values the program builds, calls that may change the outside state or panic (type
  \<open>go\<close> with its bind, laws and weakest-precondition rules), and a handful of generic lemmas.
  A Go string and a \<^verbatim>\<open>[]byte\<close> are both a list of bytes, \<^typ>\<open>string\<close>; a pointer that may be
  nil is an \<open>option\<close>; a pair \<^verbatim>\<open>(T, error)\<close> of which the program only ever uses one half is a
  sum with the error on the left.
\<close>

named_theorems go_defs \<open>definitions of the monadic primitives, for evaluation\<close>
named_theorems wp_simps \<open>weakest preconditions of the monadic primitives\<close>

section \<open>Base types\<close>

type_synonym bytes = string
type_synonym goint = "64 word"  \<comment> \<open>Go's int on the 64-bit platforms the image is built for\<close>
type_synonym int32 = "32 word"
type_synonym Time = int         \<comment> \<open>time.Time: nanoseconds since Go's zero time\<close>
type_synonym Duration = int     \<comment> \<open>time.Duration in nanoseconds\<close>

definition Second :: Duration where
  "Second = 1000000000"

text \<open>The conversion \<^verbatim>\<open>int32(x)\<close> of a Go int keeps the low 32 bits.\<close>

definition int32_of_int :: "goint \<Rightarrow> int32" where
  "int32_of_int x = ucast x"

lemma sint_int32_of_int:
  assumes "- (2 ^ 31) \<le> sint x" and "sint x < 2 ^ 31"
  shows "sint (int32_of_int x) = sint x"
proof -
  have "sint (int32_of_int x) = signed_take_bit 31 (sint x)"
    unfolding int32_of_int_def
    by (simp add: sint_uint unsigned_ucast_eq signed_take_bit_take_bit flip: signed_take_bit_eq_iff_take_bit_eq)
  also have "\<dots> = sint x"
    using assms by (intro signed_take_bit_int_eq_self) auto
  finally show ?thesis .
qed

section \<open>Errors\<close>

text \<open>
  \<^verbatim>\<open>fmt.Errorf\<close> and \<^verbatim>\<open>fmt.Sprintf\<close> values keep the format string and its arguments (strings
  for \<^verbatim>\<open>%s\<close>, \<^verbatim>\<open>%q\<close> and \<^verbatim>\<open>%T\<close>, integers for \<^verbatim>\<open>%d\<close>); \<open>Wrapf\<close> is an \<^verbatim>\<open>Errorf\<close> whose format ends
  in \<^verbatim>\<open>%w\<close>. \<open>ForeignError\<close> stands for every error value made outside the repository: the
  Kubernetes client, the HTTP transport, the JSON decoder and the like. The constructors after it
  are the parameter errors of the generated server, with the name of the parameter and the cause.
\<close>

datatype fmt_arg = FmtS string | FmtD int

datatype formatted = Sprintf string "fmt_arg list"

datatype error =
    ConflictError string
  | NotFoundError string
  | Errorf string "fmt_arg list"
  | Wrapf string "fmt_arg list" error
  | ForeignError string
  | UnescapedCookieParamError string error
  | UnmarshalingParamError string error
  | RequiredParamError string
  | RequiredHeaderError string error
  | InvalidParamFormatError string error
  | TooManyValuesForParamError string int

section \<open>Calls that act on a state and may panic\<close>

datatype 'a outcome = Returns 'a | Panics string

type_synonym ('s, 'a) go = "'s \<Rightarrow> 'a outcome \<times> 's"

definition go_return :: "'a \<Rightarrow> ('s, 'a) go" where
  [go_defs]: "go_return a s = (Returns a, s)"

definition go_panic :: "string \<Rightarrow> ('s, 'a) go" where
  [go_defs]: "go_panic m s = (Panics m, s)"

definition go_bind :: "('s, 'a) go \<Rightarrow> ('a \<Rightarrow> ('s, 'b) go) \<Rightarrow> ('s, 'b) go" where
  [go_defs]: "go_bind m f s =
     (case m s of (Returns a, s') \<Rightarrow> f a s' | (Panics e, s') \<Rightarrow> (Panics e, s'))"

lemma go_bind_return_left [simp]: "go_bind (go_return a) f = f a"
  by (rule ext) (simp add: go_bind_def go_return_def)

lemma go_bind_return_right [simp]: "go_bind m go_return = m"
  by (rule ext) (simp add: go_bind_def go_return_def split: prod.split outcome.split)

lemma go_bind_assoc: "go_bind (go_bind m f) g = go_bind m (\<lambda>x. go_bind (f x) g)"
  by (rule ext) (simp add: go_bind_def split: prod.split outcome.split)

lemma go_bind_panic [simp]: "go_bind (go_panic e) f = go_panic e"
  by (rule ext) (simp add: go_bind_def go_panic_def)

lemma go_bind_Returns:
  "m s = (Returns a, s') \<Longrightarrow> go_bind m f s = f a s'"
  by (simp add: go_bind_def)

lemma go_bind_Panics:
  "m s = (Panics e, s') \<Longrightarrow> go_bind m f s = (Panics e, s')"
  by (simp add: go_bind_def)

text \<open>A call to code outside that acts on a state and always returns.\<close>

definition go_call :: "('s \<Rightarrow> 'a \<times> 's) \<Rightarrow> ('s, 'a) go" where
  [go_defs]: "go_call f s = (case f s of (a, s') \<Rightarrow> (Returns a, s'))"

text \<open>
  \<open>wp m Q E s\<close>: run from \<open>s\<close>, the call returns a value and a state satisfying \<open>Q\<close>, or
  panics in a state satisfying \<open>E\<close>.
\<close>

definition wp :: "('s, 'a) go \<Rightarrow> ('a \<Rightarrow> 's \<Rightarrow> bool) \<Rightarrow> ('s \<Rightarrow> bool) \<Rightarrow> 's \<Rightarrow> bool" where
  "wp m Q E s = (case m s of (Returns a, s') \<Rightarrow> Q a s' | (Panics e, s') \<Rightarrow> E s')"

lemma wp_return [wp_simps]: "wp (go_return a) Q E s = Q a s"
  by (simp add: wp_def go_return_def)

lemma wp_panic [wp_simps]: "wp (go_panic e) Q E s = E s"
  by (simp add: wp_def go_panic_def)

lemma wp_bind [wp_simps]: "wp (go_bind m f) Q E s = wp m (\<lambda>a. wp (f a) Q E) E s"
  by (simp add: wp_def go_bind_def split: prod.split outcome.split)

lemma wp_call [wp_simps]: "wp (go_call f) Q E s = (case f s of (a, s') \<Rightarrow> Q a s')"
  by (simp add: wp_def go_call_def split: prod.split)

lemma wp_mono:
  assumes "wp m Q E s" and "\<And>a s'. Q a s' \<Longrightarrow> Q' a s'" and "\<And>s'. E s' \<Longrightarrow> E' s'"
  shows "wp m Q' E' s"
  using assms by (auto simp: wp_def split: prod.splits outcome.splits)

lemma wp_Returns: "wp m Q E s \<Longrightarrow> m s = (Returns a, s') \<Longrightarrow> Q a s'"
  by (simp add: wp_def)

end
