(* ===== verification/Noplane_Api.thy ===== *)
theory Noplane_Api
  imports Go_Prelude
begin

text \<open>
  Package \<^verbatim>\<open>internal/api/noplane\<close>, minus its HTTP client: the data types of \<^verbatim>\<open>types.go\<close>, the
  error types and predicates of \<^verbatim>\<open>errors.go\<close>, and the interface \<^verbatim>\<open>ClientInterface\<close> of
  \<^verbatim>\<open>client.go\<close> through which the controller talks to the hosted service. The interface is a
  record of operations on a client state \<open>'c\<close>; what its two implementations promise is the
  locale \<open>plane_client\<close>.
\<close>

section \<open>Data types (types.go)\<close>

record Endpoint =
  ep_Host :: string
  ep_Port :: goint

record Plane =
  plane_ID :: string
  plane_Name :: string
  plane_Status :: string
  plane_Endpoint :: Endpoint
  plane_KubernetesVersion :: string

record CreateRequest =
  cr_Name :: string
  cr_KubernetesVersion :: string

record UpdateRequest =
  ur_KubernetesVersion :: string

section \<open>Errors (errors.go)\<close>

text \<open>
  The constructors \<^const>\<open>ConflictError\<close> and \<^const>\<open>NotFoundError\<close> are the two struct types; a
  Go error is nil (\<open>None\<close>) or a value. The predicates are type assertions on the error itself:
  they do not look through a wrapped error.
\<close>

definition ConflictError_Error :: "string \<Rightarrow> formatted" where
  "ConflictError_Error name = Sprintf ''conflict: plane with name %q already exists'' [FmtS name]"

definition NewConflictError :: "string \<Rightarrow> error" where
  "NewConflictError name = ConflictError name"

definition IsConflict :: "error option \<Rightarrow> bool" where
  "IsConflict err =
     (case err of
        None \<Rightarrow> False
      | Some e \<Rightarrow> (case e of ConflictError _ \<Rightarrow> True | _ \<Rightarrow> False))"

definition NotFoundError_Error :: "string \<Rightarrow> formatted" where
  "NotFoundError_Error ident = Sprintf ''not found: plane %q does not exist'' [FmtS ident]"

definition NewNotFoundError :: "string \<Rightarrow> error" where
  "NewNotFoundError ident = NotFoundError ident"

definition IsNotFound :: "error option \<Rightarrow> bool" where
  "IsNotFound err =
     (case err of
        None \<Rightarrow> False
      | Some e \<Rightarrow> (case e of NotFoundError _ \<Rightarrow> True | _ \<Rightarrow> False))"

lemma IsConflict_None [simp]: "\<not> IsConflict None"
  by (simp add: IsConflict_def)

lemma IsConflict_Some: "IsConflict (Some e) \<longleftrightarrow> (\<exists>n. e = ConflictError n)"
  by (auto simp: IsConflict_def split: error.splits)

lemma IsConflict_simps [simp]:
  "IsConflict (Some (ConflictError n))" "\<not> IsConflict (Some (NotFoundError n))"
  "\<not> IsConflict (Some (Errorf f xs))" "\<not> IsConflict (Some (Wrapf f xs e))"
  "\<not> IsConflict (Some (ForeignError m))" "IsConflict (Some (NewConflictError n))"
  "\<not> IsConflict (Some (InvalidParamFormatError n e))"
  by (simp_all add: IsConflict_Some NewConflictError_def)

lemma IsNotFound_None [simp]: "\<not> IsNotFound None"
  by (simp add: IsNotFound_def)

lemma IsNotFound_Some: "IsNotFound (Some e) \<longleftrightarrow> (\<exists>n. e = NotFoundError n)"
  by (auto simp: IsNotFound_def split: error.splits)

lemma IsNotFound_simps [simp]:
  "IsNotFound (Some (NotFoundError n))" "\<not> IsNotFound (Some (ConflictError n))"
  "\<not> IsNotFound (Some (Errorf f xs))" "\<not> IsNotFound (Some (Wrapf f xs e))"
  "\<not> IsNotFound (Some (ForeignError m))" "IsNotFound (Some (NewNotFoundError n))"
  "\<not> IsNotFound (Some (InvalidParamFormatError n e))"
  by (simp_all add: IsNotFound_Some NewNotFoundError_def)

section \<open>The client interface (client.go)\<close>

record 'c ClientInterface =
  CreatePlane :: "CreateRequest \<Rightarrow> ('c, error + Plane) go"
  GetPlane :: "string \<Rightarrow> ('c, error + Plane) go"
  GetPlaneByName :: "string \<Rightarrow> ('c, error + Plane) go"
  UpdatePlane :: "string \<Rightarrow> UpdateRequest \<Rightarrow> ('c, error option) go"
  DeletePlane :: "string \<Rightarrow> ('c, error option) go"
  GetKubeconfig :: "string \<Rightarrow> ('c, error + bytes) go"

type_synonym 'c ClientFactory = "string \<Rightarrow> error + 'c ClientInterface"

text \<open>
  What every implementation of the interface promises. \<open>inv\<close> is the implementation's own
  invariant on its state; every operation keeps it. A lookup that succeeds returns the plane
  that was asked for, and only \<open>CreatePlane\<close> can panic.
\<close>

locale plane_client =
  fixes api :: "'c ClientInterface"
    and inv :: "'c \<Rightarrow> bool"
  assumes CreatePlane_inv: "inv s \<Longrightarrow> inv (snd (CreatePlane api req s))"
    and GetPlane_inv: "inv s \<Longrightarrow> inv (snd (GetPlane api ident s))"
    and GetPlaneByName_inv: "inv s \<Longrightarrow> inv (snd (GetPlaneByName api name s))"
    and UpdatePlane_inv: "inv s \<Longrightarrow> inv (snd (UpdatePlane api ident u s))"
    and DeletePlane_inv: "inv s \<Longrightarrow> inv (snd (DeletePlane api ident s))"
    and GetKubeconfig_inv: "inv s \<Longrightarrow> inv (snd (GetKubeconfig api ident s))"
    and GetPlane_ID: "inv s \<Longrightarrow> GetPlane api ident s = (Returns (Inr p), s') \<Longrightarrow> plane_ID p = ident"
    and GetPlaneByName_Name:
      "inv s \<Longrightarrow> GetPlaneByName api name s = (Returns (Inr p), s') \<Longrightarrow> plane_Name p = name"
    and GetPlane_total: "inv s \<Longrightarrow> \<exists>r s'. GetPlane api ident s = (Returns r, s')"
    and GetPlaneByName_total: "inv s \<Longrightarrow> \<exists>r s'. GetPlaneByName api name s = (Returns r, s')"
    and UpdatePlane_total: "inv s \<Longrightarrow> \<exists>r s'. UpdatePlane api ident u s = (Returns r, s')"
    and DeletePlane_total: "inv s \<Longrightarrow> \<exists>r s'. DeletePlane api ident s = (Returns r, s')"
    and GetKubeconfig_total: "inv s \<Longrightarrow> \<exists>r s'. GetKubeconfig api ident s = (Returns r, s')"
begin

text \<open>The same promises as weakest preconditions, the form the controller's proofs use.\<close>

lemma wp_GetPlane:
  assumes "inv s"
  shows "wp (GetPlane api ident) (\<lambda>r s'. inv s' \<and> (\<forall>p. r = Inr p \<longrightarrow> plane_ID p = ident)) (\<lambda>_. False) s"
proof -
  obtain r s' where run: "GetPlane api ident s = (Returns r, s')"
    using GetPlane_total assms by blast
  then show ?thesis
    using GetPlane_inv [OF assms, of ident] GetPlane_ID [OF assms, of ident] by (simp add: wp_def)
qed

lemma wp_GetPlaneByName:
  assumes "inv s"
  shows "wp (GetPlaneByName api name)
           (\<lambda>r s'. inv s' \<and> (\<forall>p. r = Inr p \<longrightarrow> plane_Name p = name)) (\<lambda>_. False) s"
proof -
  obtain r s' where run: "GetPlaneByName api name s = (Returns r, s')"
    using GetPlaneByName_total assms by blast
  then show ?thesis
    using GetPlaneByName_inv [OF assms, of name] GetPlaneByName_Name [OF assms, of name]
    by (simp add: wp_def)
qed

lemma wp_CreatePlane:
  "inv s \<Longrightarrow> wp (CreatePlane api req) (\<lambda>_. inv) inv s"
  using CreatePlane_inv [of s req] by (auto simp: wp_def split: prod.split outcome.split)

lemma wp_UpdatePlane:
  "inv s \<Longrightarrow> wp (UpdatePlane api ident u) (\<lambda>_. inv) (\<lambda>_. False) s"
  using UpdatePlane_inv [of s ident u] UpdatePlane_total [of s ident u] by (auto simp: wp_def)

lemma wp_DeletePlane:
  "inv s \<Longrightarrow> wp (DeletePlane api ident) (\<lambda>_. inv) (\<lambda>_. False) s"
  using DeletePlane_inv [of s ident] DeletePlane_total [of s ident] by (auto simp: wp_def)

lemma wp_GetKubeconfig:
  "inv s \<Longrightarrow> wp (GetKubeconfig api ident) (\<lambda>_. inv) (\<lambda>_. False) s"
  using GetKubeconfig_inv [of s ident] GetKubeconfig_total [of s ident] by (auto simp: wp_def)

end

end
