(* ===== verification/V1alpha1.thy ===== *)
theory V1alpha1
  imports Go_Prelude
begin

text \<open>
  Package \<^verbatim>\<open>api/v1alpha1\<close>: the custom resource \<^verbatim>\<open>NoPlaneControlPlane\<close>, its template, their
  lists and accessors, over the Kubernetes and Cluster API structs they embed. Of those foreign
  structs a record keeps the fields the repository reads or writes. Go maps are HOL maps, an
  optional pointer is an \<open>option\<close>, and the slice \<^verbatim>\<open>Conditions\<close>, whose nil-ness the generated
  deep copies test, is an \<open>option\<close> of a list.
\<close>

section \<open>Foreign structs (Kubernetes and Cluster API)\<close>

record TypeMeta =
  tm_Kind :: string
  tm_APIVersion :: string

record OwnerReference =
  or_APIVersion :: string
  or_Kind :: string
  or_Name :: string
  or_UID :: string
  or_Controller :: "bool option"
  or_BlockOwnerDeletion :: "bool option"

record ObjectMeta =
  om_Name :: string
  om_Namespace :: string
  om_UID :: string
  om_ResourceVersion :: string
  om_Labels :: "string \<rightharpoonup> string"
  om_Annotations :: "string \<rightharpoonup> string"
  om_OwnerReferences :: "OwnerReference list"
  om_Finalizers :: "string list"
  om_DeletionTimestamp :: "Time option"

record ListMeta =
  lm_ResourceVersion :: string
  lm_Continue :: string

record NamespacedName =
  nn_Namespace :: string
  nn_Name :: string

record SecretReference =
  sr_Name :: string
  sr_Namespace :: string

record Secret =
  sec_ObjectMeta :: ObjectMeta
  sec_Type :: string
  sec_Data :: "string \<rightharpoonup> bytes"

record APIEndpoint =
  ae_Host :: string
  ae_Port :: int32

record Condition =
  cond_Type :: string
  cond_Status :: string
  cond_Severity :: string
  cond_LastTransitionTime :: Time
  cond_Reason :: string
  cond_Message :: string

record Cluster =
  cl_ObjectMeta :: ObjectMeta
  cl_Paused :: "bool option"

definition empty_ObjectMeta :: ObjectMeta where
  "empty_ObjectMeta = \<lparr> om_Name = '''', om_Namespace = '''', om_UID = '''', om_ResourceVersion = '''',
     om_Labels = Map.empty, om_Annotations = Map.empty, om_OwnerReferences = [], om_Finalizers = [],
     om_DeletionTimestamp = None \<rparr>"

definition empty_Secret :: Secret where
  "empty_Secret = \<lparr> sec_ObjectMeta = empty_ObjectMeta, sec_Type = '''', sec_Data = Map.empty \<rparr>"

text \<open>\<^verbatim>\<open>(*metav1.Time).IsZero\<close>: a nil pointer or the zero time.\<close>

definition Time_IsZero :: "Time option \<Rightarrow> bool" where
  "Time_IsZero t = (case t of None \<Rightarrow> True | Some x \<Rightarrow> x = 0)"

section \<open>NoPlaneControlPlane (noplanecontrolplane_types.go)\<close>

record NoPlaneControlPlaneSpec =
  spec_Version :: string
  spec_Replicas :: "int32 option"
  spec_ControlPlaneEndpoint :: APIEndpoint
  spec_CredentialsSecretRef :: SecretReference
  spec_PlaneID :: string

record NoPlaneControlPlaneStatus =
  st_Ready :: bool
  st_Initialized :: bool
  st_PlaneID :: string
  st_Version :: string
  st_Replicas :: "int32 option"
  st_ReadyReplicas :: "int32 option"
  st_Selector :: string
  st_Conditions :: "Condition list option"

record NoPlaneControlPlane =
  ncp_TypeMeta :: TypeMeta
  ncp_ObjectMeta :: ObjectMeta
  ncp_Spec :: NoPlaneControlPlaneSpec
  ncp_Status :: NoPlaneControlPlaneStatus

record NoPlaneControlPlaneList =
  ncpl_TypeMeta :: TypeMeta
  ncpl_ListMeta :: ListMeta
  ncpl_Items :: "NoPlaneControlPlane list option"

definition GetConditions :: "NoPlaneControlPlane \<Rightarrow> Condition list option" where
  "GetConditions n = st_Conditions (ncp_Status n)"

definition SetConditions :: "NoPlaneControlPlane \<Rightarrow> Condition list option \<Rightarrow> NoPlaneControlPlane" where
  "SetConditions n conditions = n\<lparr>ncp_Status := (ncp_Status n)\<lparr>st_Conditions := conditions\<rparr>\<rparr>"

section \<open>NoPlaneControlPlaneTemplate (noplanecontrolplanetemplate_types.go)\<close>

text \<open>The template's metadata is Cluster API's own \<^verbatim>\<open>ObjectMeta\<close>: labels and annotations only.\<close>

record TemplateObjectMeta =
  tom_Labels :: "string \<rightharpoonup> string"
  tom_Annotations :: "string \<rightharpoonup> string"

record NoPlaneControlPlaneTemplateResource =
  tr_ObjectMeta :: TemplateObjectMeta
  tr_Spec :: NoPlaneControlPlaneSpec

record NoPlaneControlPlaneTemplateSpec =
  ts_Template :: NoPlaneControlPlaneTemplateResource

record NoPlaneControlPlaneTemplate =
  ncpt_TypeMeta :: TypeMeta
  ncpt_ObjectMeta :: ObjectMeta
  ncpt_Spec :: NoPlaneControlPlaneTemplateSpec

record NoPlaneControlPlaneTemplateList =
  ncptl_TypeMeta :: TypeMeta
  ncptl_ListMeta :: ListMeta
  ncptl_Items :: "NoPlaneControlPlaneTemplate list option"

section \<open>Group and version (groupversion_info.go)\<close>

record SchemeGroupVersion =
  gv_Group :: string
  gv_Version :: string

definition GroupVersion :: SchemeGroupVersion where
  "GroupVersion = \<lparr> gv_Group = ''controlplane.cluster.x-k8s.io'', gv_Version = ''v1alpha1'' \<rparr>"

section \<open>The conditions accessors as a lens\<close>

text \<open>
  Cluster API's conditions utilities reach an object's conditions only through a getter and a
  setter; they rely on the two being the halves of a lens.
\<close>

locale conditions_object =
  fixes get_conditions :: "'o \<Rightarrow> Condition list option"
    and set_conditions :: "'o \<Rightarrow> Condition list option \<Rightarrow> 'o"
  assumes get_set: "get_conditions (set_conditions n cs) = cs"
    and set_get: "set_conditions n (get_conditions n) = n"
    and set_set: "set_conditions (set_conditions n cs) ds = set_conditions n ds"
begin

lemma set_conditions_inj: "set_conditions n cs = set_conditions n ds \<Longrightarrow> cs = ds"
  using get_set by metis

lemma set_conditions_restore: "set_conditions (set_conditions n cs) (get_conditions n) = n"
  by (simp add: set_set set_get)

end

interpretation ncp_conditions: conditions_object GetConditions SetConditions
  by unfold_locales (simp_all add: GetConditions_def SetConditions_def)

lemma SetConditions_frame [simp]:
  "ncp_TypeMeta (SetConditions n cs) = ncp_TypeMeta n"
  "ncp_ObjectMeta (SetConditions n cs) = ncp_ObjectMeta n"
  "ncp_Spec (SetConditions n cs) = ncp_Spec n"
  "st_PlaneID (ncp_Status (SetConditions n cs)) = st_PlaneID (ncp_Status n)"
  "st_Initialized (ncp_Status (SetConditions n cs)) = st_Initialized (ncp_Status n)"
  by (simp_all add: SetConditions_def)

end
