(* ===== verification/Go_Encoding.thy ===== *)
theory Go_Encoding
  imports Go_Prelude
begin

text \<open>
  The part of Go's \<^verbatim>\<open>encoding/base64\<close> and \<^verbatim>\<open>encoding/pem\<close> that the controller uses to write the
  placeholder CA key: standard base64 with padding, broken into lines of 64 characters, between
  the BEGIN and END lines of a PEM block without headers.
\<close>

definition base64_alphabet :: string where
  "base64_alphabet = ''ABCDEFGHIJKLMNOPQRSTUVWXYZabcdefghijklmnopqrstuvwxyz0123456789+/''"

definition b64 :: "nat \<Rightarrow> char" where
  "b64 i = base64_alphabet ! (i mod 64)"

fun base64_encode :: "bytes \<Rightarrow> string" where
  "base64_encode [] = []"
| "base64_encode [a] =
     (let x = of_char a :: nat in [b64 (x div 4), b64 (x * 16), CHR ''='', CHR ''=''])"
| "base64_encode [a, b] =
     (let x = of_char a :: nat; y = of_char b :: nat in
      [b64 (x div 4), b64 (x * 16 + y div 16), b64 (y * 4), CHR ''=''])"
| "base64_encode (a # b # c # rest) =
     (let x = of_char a :: nat; y = of_char b :: nat; z = of_char c :: nat in
      b64 (x div 4) # b64 (x * 16 + y div 16) # b64 (y * 4 + z div 64) # b64 z
        # base64_encode rest)"

fun break_lines :: "nat \<Rightarrow> string \<Rightarrow> string" where
  "break_lines n s =
     (if s = [] \<or> n = 0 then []
      else take n s @ [CHR 0x0A] @ break_lines n (drop n s))"

declare break_lines.simps [simp del]

definition pem_EncodeToMemory :: "string \<Rightarrow> bytes \<Rightarrow> bytes" where
  "pem_EncodeToMemory ty bs =
     ''-----BEGIN '' @ ty @ ''-----'' @ [CHR 0x0A]
       @ break_lines 64 (base64_encode bs)
       @ ''-----END '' @ ty @ ''-----'' @ [CHR 0x0A]"

lemma pem_EncodeToMemory_nonempty [simp]: "pem_EncodeToMemory ty bs \<noteq> []"
  by (simp add: pem_EncodeToMemory_def)

lemma length_base64_encode: "length (base64_encode bs) = 4 * ((length bs + 2) div 3)"
  by (induction bs rule: base64_encode.induct) (simp_all add: Let_def, presburger)

end
