(* ===== verification/Kube_World.thy ===== *)
theory Kube_World
  imports Noplane_Api V1alpha1 Go_Encoding
begin

text \<open>
  What surrounds the reconciler. The Kubernetes client (controller-runtime), the Cluster API
  helpers, the kubeconfig loader and the key generator are not part of the repository: they are
  fields of the records \<open>KubeClient\<close> and \<open>KubeLib\<close>, arbitrary functions the model is
  parametric in. A \<open>world\<close> pairs their state with the state of the noplane.io client and keeps
  the history of every call that left the process, with its answer.
\<close>

section \<open>Parameters\<close>

text \<open>
  The methods of \<^verbatim>\<open>client.Client\<close> the controller calls. \<open>Update\<close> and \<open>Status().Update\<close> decode the
  server's answer into the object they were given, so on success they yield the object as it is
  afterwards; on an error the object is left alone.
\<close>

record 'k KubeClient =
  kc_GetNCP :: "NamespacedName \<Rightarrow> 'k \<Rightarrow> (error + NoPlaneControlPlane) \<times> 'k"
  kc_UpdateNCP :: "NoPlaneControlPlane \<Rightarrow> 'k \<Rightarrow> (error + NoPlaneControlPlane) \<times> 'k"
  kc_StatusUpdateNCP :: "NoPlaneControlPlane \<Rightarrow> 'k \<Rightarrow> (error + NoPlaneControlPlane) \<times> 'k"
  kc_GetSecret :: "NamespacedName \<Rightarrow> 'k \<Rightarrow> (error + Secret) \<times> 'k"
  kc_CreateSecret :: "Secret \<Rightarrow> 'k \<Rightarrow> error option \<times> 'k"
  kc_UpdateSecret :: "Secret \<Rightarrow> 'k \<Rightarrow> error option \<times> 'k"
  kc_DeleteSecret :: "Secret \<Rightarrow> 'k \<Rightarrow> error option \<times> 'k"

text \<open>
  A parsed kubeconfig: \<^verbatim>\<open>Clusters\<close> is a Go map to pointers. The list holds its entries in the
  order the \<^verbatim>\<open>range\<close> loop happens to visit them, which Go leaves open.
\<close>

record KubeconfigCluster =
  kcc_Server :: string
  kcc_CertificateAuthorityData :: bytes

record Kubeconfig =
  cfg_Clusters :: "(string \<times> KubeconfigCluster option) list"

text \<open>
  Helper functions of other packages: \<^verbatim>\<open>util.GetOwnerCluster\<close>, \<^verbatim>\<open>annotations.IsPaused\<close>, the
  finalizer helpers of \<^verbatim>\<open>controllerutil\<close>, \<^verbatim>\<open>apierrors.IsNotFound\<close>, \<^verbatim>\<open>client.IgnoreNotFound\<close>,
  \<^verbatim>\<open>metav1.NewControllerRef\<close>, \<^verbatim>\<open>clientcmd.Load\<close>, the generator of RSA keys with the marshalling of
  a key, and Cluster API's constants.
\<close>

record ('k, 'key) KubeLib =
  lib_GetOwnerCluster :: "ObjectMeta \<Rightarrow> 'k \<Rightarrow> (error + Cluster option) \<times> 'k"
  lib_IsPaused :: "Cluster \<Rightarrow> NoPlaneControlPlane \<Rightarrow> bool"
  lib_ContainsFinalizer :: "NoPlaneControlPlane \<Rightarrow> string \<Rightarrow> bool"
  lib_AddFinalizer :: "NoPlaneControlPlane \<Rightarrow> string \<Rightarrow> NoPlaneControlPlane"
  lib_RemoveFinalizer :: "NoPlaneControlPlane \<Rightarrow> string \<Rightarrow> NoPlaneControlPlane"
  lib_IsNotFound :: "error \<Rightarrow> bool"
  lib_IgnoreNotFound :: "error \<Rightarrow> error option"
  lib_NewControllerRef :: "Cluster \<Rightarrow> string \<Rightarrow> string \<Rightarrow> OwnerReference"
  lib_Load :: "bytes \<Rightarrow> error + Kubeconfig"
  lib_GenerateKey :: "goint \<Rightarrow> 'k \<Rightarrow> (error + 'key) \<times> 'k"
  lib_MarshalPKCS1PrivateKey :: "'key \<Rightarrow> bytes"
  lib_ClusterGroupVersion :: string
  lib_ClusterNameLabel :: string
  lib_ClusterSecretType :: string

section \<open>World and history\<close>

datatype event =
    EvGetNCP NamespacedName "error + NoPlaneControlPlane"
  | EvUpdateNCP NoPlaneControlPlane "error + NoPlaneControlPlane"
  | EvStatusUpdateNCP NoPlaneControlPlane "error + NoPlaneControlPlane"
  | EvGetOwnerCluster ObjectMeta "error + Cluster option"
  | EvGetSecret NamespacedName "error + Secret"
  | EvCreateSecret Secret "error option"
  | EvUpdateSecret Secret "error option"
  | EvDeleteSecret Secret "error option"
  | EvGenerateKey
  | EvCreatePlane CreateRequest "(error + Plane) outcome"
  | EvGetPlane string "(error + Plane) outcome"
  | EvGetPlaneByName string "(error + Plane) outcome"
  | EvUpdatePlane string UpdateRequest "error option outcome"
  | EvDeletePlane string "error option outcome"
  | EvGetKubeconfig string "(error + bytes) outcome"

record ('k, 'c) world =
  kube :: 'k
  cloud :: 'c
  history :: "event list"

definition kube_call :: "('a \<Rightarrow> event) \<Rightarrow> ('k \<Rightarrow> 'a \<times> 'k) \<Rightarrow> (('k, 'c) world, 'a) go" where
  [go_defs]: "kube_call ev f w =
     (case f (kube w) of (r, k') \<Rightarrow> (Returns r, w\<lparr>kube := k', history := history w @ [ev r]\<rparr>))"

definition cloud_call :: "('a outcome \<Rightarrow> event) \<Rightarrow> ('c, 'a) go \<Rightarrow> (('k, 'c) world, 'a) go" where
  [go_defs]: "cloud_call ev m w =
     (case m (cloud w) of (r, s') \<Rightarrow> (r, w\<lparr>cloud := s', history := history w @ [ev r]\<rparr>))"

lemma wp_kube_call [wp_simps]:
  "wp (kube_call ev f) Q E w =
     (case f (kube w) of (r, k') \<Rightarrow> Q r (w\<lparr>kube := k', history := history w @ [ev r]\<rparr>))"
  by (simp add: wp_def kube_call_def split: prod.split)

lemma wp_cloud_call [wp_simps]:
  "wp (cloud_call ev m) Q E w =
     (case m (cloud w) of
        (Returns r, s') \<Rightarrow> Q r (w\<lparr>cloud := s', history := history w @ [ev (Returns r)]\<rparr>)
      | (Panics e, s') \<Rightarrow> E (w\<lparr>cloud := s', history := history w @ [ev (Panics e)]\<rparr>))"
  by (simp add: wp_def cloud_call_def split: prod.split outcome.split)

section \<open>Which calls a computation makes\<close>

text \<open>
  \<open>emits P m\<close>: whatever the world, \<open>m\<close> only appends events satisfying \<open>P\<close> to the history.
  The rules make it a syntactic check of the code; the one for \<open>go_bind\<close> lets the rest of the
  computation use what is known of the values its first part returns.
\<close>

definition emits :: "(event \<Rightarrow> bool) \<Rightarrow> (('k, 'c) world, 'a) go \<Rightarrow> bool" where
  "emits P m \<longleftrightarrow> (\<forall>w. \<exists>es. history (snd (m w)) = history w @ es \<and> list_all P es)"

named_theorems emits_intros \<open>rules that derive which calls a computation makes\<close>

lemma emitsD: "emits P m \<Longrightarrow> \<exists>es. history (snd (m w)) = history w @ es \<and> list_all P es"
  by (simp add: emits_def)

lemma emits_return [emits_intros]: "emits P (go_return a)"
  by (simp add: emits_def go_return_def)

lemma emits_panic [emits_intros]: "emits P (go_panic e)"
  by (simp add: emits_def go_panic_def)

lemma emits_bind [emits_intros]:
  assumes "emits P m" and "\<And>a w w'. m w = (Returns a, w') \<Longrightarrow> emits P (f a)"
  shows "emits P (go_bind m f)"
  unfolding emits_def
proof
  fix w
  obtain r w1 where m: "m w = (r, w1)" by (cases "m w")
  obtain es where es: "history w1 = history w @ es" "list_all P es"
    using emitsD [OF assms(1), of w] m by auto
  show "\<exists>es. history (snd (go_bind m f w)) = history w @ es \<and> list_all P es"
  proof (cases r)
    case (Returns a)
    obtain fs where "history (snd (f a w1)) = history w1 @ fs" "list_all P fs"
      using emitsD [OF assms(2), of w a w1 w1] m Returns by auto
    then show ?thesis using m Returns es by (simp add: go_bind_def)
  next
    case (Panics e)
    then show ?thesis using m es by (simp add: go_bind_def)
  qed
qed

lemma emits_kube_call [emits_intros]: "(\<And>r. P (ev r)) \<Longrightarrow> emits P (kube_call ev f)"
  by (auto simp: emits_def kube_call_def split: prod.split)

lemma emits_cloud_call [emits_intros]: "(\<And>r. P (ev r)) \<Longrightarrow> emits P (cloud_call ev m)"
  by (auto simp: emits_def cloud_call_def split: prod.split)

lemma emits_if [emits_intros]: "(b \<Longrightarrow> emits P m) \<Longrightarrow> (\<not> b \<Longrightarrow> emits P n) \<Longrightarrow> emits P (if b then m else n)"
  by simp

lemma emits_case_sum [emits_intros]:
  "(\<And>x. r = Inl x \<Longrightarrow> emits P (f x)) \<Longrightarrow> (\<And>y. r = Inr y \<Longrightarrow> emits P (g y)) \<Longrightarrow> emits P (case_sum f g r)"
  by (cases r) simp_all

lemma emits_case_option [emits_intros]:
  "(r = None \<Longrightarrow> emits P m) \<Longrightarrow> (\<And>y. r = Some y \<Longrightarrow> emits P (g y)) \<Longrightarrow> emits P (case_option m g r)"
  by (cases r) simp_all

lemma emits_case_list [emits_intros]:
  "(r = [] \<Longrightarrow> emits P m) \<Longrightarrow> (\<And>y ys. r = y # ys \<Longrightarrow> emits P (g y ys)) \<Longrightarrow> emits P (case_list m g r)"
  by (cases r) simp_all

lemma emits_case_prod [emits_intros]: "(\<And>x y. emits P (g x y)) \<Longrightarrow> emits P (case_prod g r)"
  by (cases r) simp_all

lemma emits_Let [emits_intros]: "(\<And>x. x = a \<Longrightarrow> emits P (f x)) \<Longrightarrow> emits P (let x = a in f x)"
  by simp

lemma emits_mono: "emits P m \<Longrightarrow> (\<And>e. P e \<Longrightarrow> Q e) \<Longrightarrow> emits Q m"
  unfolding emits_def by (metis list.pred_mono_strong)

text \<open>Calls to the hosted service that change it, and calls that change the cluster.\<close>

fun is_cloud_write :: "event \<Rightarrow> bool" where
  "is_cloud_write (EvCreatePlane _ _) = True"
| "is_cloud_write (EvUpdatePlane _ _ _) = True"
| "is_cloud_write (EvDeletePlane _ _) = True"
| "is_cloud_write _ = False"

fun is_cloud_call :: "event \<Rightarrow> bool" where
  "is_cloud_call (EvGetPlane _ _) = True"
| "is_cloud_call (EvGetPlaneByName _ _) = True"
| "is_cloud_call (EvGetKubeconfig _ _) = True"
| "is_cloud_call e = is_cloud_write e"

fun is_kube_write :: "event \<Rightarrow> bool" where
  "is_kube_write (EvUpdateNCP _ _) = True"
| "is_kube_write (EvStatusUpdateNCP _ _) = True"
| "is_kube_write (EvCreateSecret _ _) = True"
| "is_kube_write (EvUpdateSecret _ _) = True"
| "is_kube_write (EvDeleteSecret _ _) = True"
| "is_kube_write _ = False"

fun is_create_plane :: "event \<Rightarrow> bool" where
  "is_create_plane (EvCreatePlane _ _) = True"
| "is_create_plane _ = False"

section \<open>The calls of a run, in order\<close>

text \<open>
  \<open>calls m w\<close> is what \<open>m\<close>, run from \<open>w\<close>, appends to the history. \<open>yields Q m\<close> says that every
  run of \<open>m\<close> appends a list of calls that stands in the relation \<open>Q\<close> to its outcome; \<open>emits\<close> is
  the special case that looks at the calls one at a time.
\<close>

definition calls :: "(('k, 'c) world, 'a) go \<Rightarrow> ('k, 'c) world \<Rightarrow> event list" where
  "calls m w = drop (length (history w)) (history (snd (m w)))"

definition yields :: "(event list \<Rightarrow> 'a outcome \<Rightarrow> bool) \<Rightarrow> (('k, 'c) world, 'a) go \<Rightarrow> bool" where
  "yields Q m \<longleftrightarrow> (\<forall>w. \<exists>es. history (snd (m w)) = history w @ es \<and> Q es (fst (m w)))"

lemma calls_eqI: "history (snd (m w)) = history w @ es \<Longrightarrow> calls m w = es"
  by (simp add: calls_def)

lemma emits_calls: "emits P m \<Longrightarrow> e \<in> set (calls m w) \<Longrightarrow> P e"
  using emitsD [of P m w] by (auto simp: calls_def list_all_iff)

lemma yields_calls: "yields Q m \<Longrightarrow> Q (calls m w) (fst (m w))"
  by (auto simp: yields_def calls_def dest!: spec [of _ w])

lemma yields_history: "yields Q m \<Longrightarrow> history (snd (m w)) = history w @ calls m w"
  by (auto simp: yields_def calls_def dest!: spec [of _ w])

lemma emits_yields: "emits P m \<longleftrightarrow> yields (\<lambda>es _. list_all P es) m"
  by (simp add: emits_def yields_def)

lemma yields_mono: "yields Q m \<Longrightarrow> (\<And>es r. Q es r \<Longrightarrow> Q' es r) \<Longrightarrow> yields Q' m"
  unfolding yields_def by metis

lemma yields_conj: "yields Q m \<Longrightarrow> yields Q' m \<Longrightarrow> yields (\<lambda>es r. Q es r \<and> Q' es r) m"
  unfolding yields_def by (metis same_append_eq)

lemma yields_if: "yields Q m \<Longrightarrow> yields Q n \<Longrightarrow> yields Q (if b then m else n)"
  by simp

lemma yields_bind:
  assumes "yields Q m" and "\<And>a. yields (R a) (f a)"
    and "\<And>es e. Q es (Panics e) \<Longrightarrow> S es (Panics e)"
    and "\<And>es fs a r. Q es (Returns a) \<Longrightarrow> R a fs r \<Longrightarrow> S (es @ fs) r"
  shows "yields S (go_bind m f)"
  unfolding yields_def
proof
  fix w
  obtain r w1 where m: "m w = (r, w1)" by (cases "m w")
  obtain es where es: "history w1 = history w @ es" "Q es r"
    using assms(1) m by (auto simp: yields_def dest!: spec [of _ w])
  show "\<exists>es. history (snd (go_bind m f w)) = history w @ es \<and> S es (fst (go_bind m f w))"
  proof (cases r)
    case (Returns a)
    obtain fs where "history (snd (f a w1)) = history w1 @ fs" "R a fs (fst (f a w1))"
      using assms(2) [of a] by (auto simp: yields_def)
    then show ?thesis using m Returns es assms(4) by (simp add: go_bind_def)
  next
    case (Panics e)
    then show ?thesis using m es assms(3) by (simp add: go_bind_def)
  qed
qed

text \<open>Splitting a run that returned into the runs of its parts.\<close>

lemma go_bind_ReturnsE:
  assumes "go_bind m f w = (Returns b, w')"
  obtains a w1 where "m w = (Returns a, w1)" and "f a w1 = (Returns b, w')"
  using assms by (auto simp: go_bind_def split: prod.splits outcome.splits)

lemma go_return_Returns [simp]: "go_return a w = (Returns b, w') \<longleftrightarrow> a = b \<and> w = w'"
  by (auto simp: go_return_def)

lemma go_panic_Returns [simp]: "go_panic e w \<noteq> (Returns b, w')"
  by (simp add: go_panic_def)

lemma emits_run:
  "emits P m \<Longrightarrow> m w = (r, w') \<Longrightarrow> \<exists>es. history w' = history w @ es \<and> list_all P es"
  using emitsD [of P m w] by simp

text \<open>Running a sequence of calls on a given world.\<close>

lemma go_bind_kube:
  "go_bind (kube_call ev f) g w =
     (case f (kube w) of (r, k') \<Rightarrow> g r (w\<lparr>kube := k', history := history w @ [ev r]\<rparr>))"
  by (simp add: go_bind_def kube_call_def split: prod.split)

lemma go_bind_cloud:
  "go_bind (cloud_call ev m) g w =
     (case m (cloud w) of
        (Returns r, s') \<Rightarrow> g r (w\<lparr>cloud := s', history := history w @ [ev (Returns r)]\<rparr>)
      | (Panics e, s') \<Rightarrow> (Panics e, w\<lparr>cloud := s', history := history w @ [ev (Panics e)]\<rparr>))"
  by (simp add: go_bind_def cloud_call_def split: prod.split outcome.split)

section \<open>Invariants of a run\<close>

text \<open>
  \<open>keeps I m Q\<close>: from every world satisfying \<open>I\<close>, \<open>m\<close> ends in one that satisfies it too, panic or
  not, and a value it returns satisfies \<open>Q\<close>.
\<close>

definition keeps :: "('w \<Rightarrow> bool) \<Rightarrow> ('w, 'a) go \<Rightarrow> ('a \<Rightarrow> bool) \<Rightarrow> bool" where
  "keeps I m Q \<longleftrightarrow> (\<forall>w. I w \<longrightarrow> wp m (\<lambda>a w'. I w' \<and> Q a) I w)"

named_theorems keeps_intros \<open>rules that derive what a computation keeps\<close>

lemma keepsD: "keeps I m Q \<Longrightarrow> I w \<Longrightarrow> I (snd (m w))"
  by (cases "m w"; cases "fst (m w)") (auto simp: keeps_def wp_def dest!: spec [of _ w])

lemma keeps_return [keeps_intros]: "Q a \<Longrightarrow> keeps I (go_return a) Q"
  by (simp add: keeps_def wp_simps)

lemma keeps_panic [keeps_intros]: "keeps I (go_panic e) Q"
  by (simp add: keeps_def wp_simps)

lemma keeps_bind:
  "keeps I m R \<Longrightarrow> (\<And>a. R a \<Longrightarrow> keeps I (f a) Q) \<Longrightarrow> keeps I (go_bind m f) Q"
  unfolding keeps_def wp_bind
  by (intro allI impI, rule wp_mono [where Q = "\<lambda>a w'. I w' \<and> R a" and E = I]) simp_all

lemma keeps_mono: "keeps I m Q \<Longrightarrow> (\<And>a. Q a \<Longrightarrow> Q' a) \<Longrightarrow> keeps I m Q'"
  unfolding keeps_def
  by (intro allI impI, rule wp_mono [where Q = "\<lambda>a w'. I w' \<and> Q a" and E = I]) simp_all

lemma keeps_cases [keeps_intros]:
  "(b \<Longrightarrow> keeps I m Q) \<Longrightarrow> (\<not> b \<Longrightarrow> keeps I n Q) \<Longrightarrow> keeps I (if b then m else n) Q"
  "(\<And>x. r = Inl x \<Longrightarrow> keeps I (f x) Q) \<Longrightarrow> (\<And>y. r = Inr y \<Longrightarrow> keeps I (g y) Q) \<Longrightarrow> keeps I (case_sum f g r) Q"
  "(opt = None \<Longrightarrow> keeps I h Q) \<Longrightarrow> (\<And>z. opt = Some z \<Longrightarrow> keeps I (k z) Q) \<Longrightarrow> keeps I (case_option h k opt) Q"
  by (auto split: sum.split option.split)

lemma keeps_case_list [keeps_intros]:
  "(xs = [] \<Longrightarrow> keeps I m Q) \<Longrightarrow> (\<And>y ys. xs = y # ys \<Longrightarrow> keeps I (g y ys) Q) \<Longrightarrow> keeps I (case_list m g xs) Q"
  by (auto split: list.split)

lemma keeps_case_prod [keeps_intros]: "(\<And>x y. p = (x, y) \<Longrightarrow> keeps I (g x y) Q) \<Longrightarrow> keeps I (case_prod g p) Q"
  by (cases p) simp

lemma keeps_Let [keeps_intros]: "(\<And>x. x = a \<Longrightarrow> keeps I (f x) Q) \<Longrightarrow> keeps I (let x = a in f x) Q"
  by simp

lemma keeps_cloud_call:
  assumes "\<And>w s h. I w \<Longrightarrow> I (w\<lparr>cloud := s, history := h\<rparr>)" and "\<And>a. Q a"
  shows "keeps I (cloud_call ev m) Q"
  unfolding keeps_def wp_cloud_call
  by (intro allI impI) (simp split: prod.split outcome.split, use assms in blast)

lemma keeps_kube_call:
  assumes "\<And>w. I w \<Longrightarrow> I (w\<lparr>kube := snd (f (kube w)), history := history w @ [ev (fst (f (kube w)))]\<rparr>)
      \<and> Q (fst (f (kube w)))"
  shows "keeps I (kube_call ev f) Q"
  unfolding keeps_def wp_kube_call
proof (intro allI impI)
  fix w assume "I w"
  from assms [OF this] show "case f (kube w) of (r, k') \<Rightarrow>
      I (w\<lparr>kube := k', history := history w @ [ev r]\<rparr>) \<and> Q r"
    by (simp add: case_prod_beta)
qed

end
