(* ===== verification/Controller.thy ===== *)
theory Controller
  imports Kube_World
begin

text \<open>
  \<^verbatim>\<open>internal/controller/noplanecontrolplane_controller.go\<close>, function by function. A method with a
  pointer to the \<^verbatim>\<open>NoPlaneControlPlane\<close> that writes through it returns the object as it leaves
  it. \<^verbatim>\<open>Reconcile\<close> returns both halves of Go's \<^verbatim>\<open>(ctrl.Result, error)\<close>, as the code returns a
  result together with a possible error on its last lines. The context and the logger have no
  effect on the state and are left out.
\<close>

record Result =
  RequeueAfter :: Duration

definition noplaneFinalizer :: string where
  "noplaneFinalizer = ''controlplane.cluster.x-k8s.io/finalizer''"

record ('k, 'c, 'key) NoPlaneControlPlaneReconciler =
  r_Client :: "'k KubeClient"
  r_Lib :: "('k, 'key) KubeLib"
  r_ClientFactory :: "'c ClientFactory"

definition no_requeue :: Result where
  "no_requeue = \<lparr> RequeueAfter = 0 \<rparr>"

definition requeue_after :: "int \<Rightarrow> Result" where
  "requeue_after n = \<lparr> RequeueAfter = n * Second \<rparr>"

abbreviation set_status ::
  "(NoPlaneControlPlaneStatus \<Rightarrow> NoPlaneControlPlaneStatus) \<Rightarrow> NoPlaneControlPlane \<Rightarrow> NoPlaneControlPlane"
where
  "set_status f n \<equiv> n\<lparr>ncp_Status := f (ncp_Status n)\<rparr>"

section \<open>Calls\<close>

text \<open>The reconciler's embedded client, and the client it gets from its factory, as calls on the world.\<close>

definition Get_NCP where
  "Get_NCP r nn = kube_call (EvGetNCP nn) (kc_GetNCP (r_Client r) nn)"

definition Update_NCP where
  "Update_NCP r n = kube_call (EvUpdateNCP n) (kc_UpdateNCP (r_Client r) n)"

definition StatusUpdate_NCP where
  "StatusUpdate_NCP r n = kube_call (EvStatusUpdateNCP n) (kc_StatusUpdateNCP (r_Client r) n)"

definition Get_Secret where
  "Get_Secret r nn = kube_call (EvGetSecret nn) (kc_GetSecret (r_Client r) nn)"

definition Create_Secret where
  "Create_Secret r s = kube_call (EvCreateSecret s) (kc_CreateSecret (r_Client r) s)"

definition Update_Secret where
  "Update_Secret r s = kube_call (EvUpdateSecret s) (kc_UpdateSecret (r_Client r) s)"

definition Delete_Secret where
  "Delete_Secret r s = kube_call (EvDeleteSecret s) (kc_DeleteSecret (r_Client r) s)"

definition GetOwnerCluster where
  "GetOwnerCluster r om = kube_call (EvGetOwnerCluster om) (lib_GetOwnerCluster (r_Lib r) om)"

definition GenerateKey where
  "GenerateKey r bits = kube_call (\<lambda>_. EvGenerateKey) (lib_GenerateKey (r_Lib r) bits)"

lemmas kube_op_defs =
  Get_NCP_def Update_NCP_def StatusUpdate_NCP_def Get_Secret_def Create_Secret_def
  Update_Secret_def Delete_Secret_def GetOwnerCluster_def GenerateKey_def

definition api_CreatePlane where
  "api_CreatePlane api req = cloud_call (EvCreatePlane req) (CreatePlane api req)"

definition api_GetPlane where
  "api_GetPlane api ident = cloud_call (EvGetPlane ident) (GetPlane api ident)"

definition api_GetPlaneByName where
  "api_GetPlaneByName api name = cloud_call (EvGetPlaneByName name) (GetPlaneByName api name)"

definition api_UpdatePlane where
  "api_UpdatePlane api ident u = cloud_call (EvUpdatePlane ident u) (UpdatePlane api ident u)"

definition api_DeletePlane where
  "api_DeletePlane api ident = cloud_call (EvDeletePlane ident) (DeletePlane api ident)"

definition api_GetKubeconfig where
  "api_GetKubeconfig api ident = cloud_call (EvGetKubeconfig ident) (GetKubeconfig api ident)"

lemmas api_op_defs =
  api_CreatePlane_def api_GetPlane_def api_GetPlaneByName_def api_UpdatePlane_def
  api_DeletePlane_def api_GetKubeconfig_def

section \<open>Credentials and plane identity\<close>

definition getAPIKey ::
  "('k, 'c, 'key) NoPlaneControlPlaneReconciler \<Rightarrow> SecretReference \<Rightarrow> (('k, 'c) world, error + string) go"
where
  "getAPIKey r ref =
     go_bind (Get_Secret r \<lparr> nn_Namespace = sr_Namespace ref, nn_Name = sr_Name ref \<rparr>) (\<lambda>res.
     case res of
       Inl err \<Rightarrow> go_return (Inl (Wrapf ''getting credentials secret %s/%s: %w''
                    [FmtS (sr_Namespace ref), FmtS (sr_Name ref)] err))
     | Inr secret \<Rightarrow>
         (case sec_Data secret ''apiKey'' of
            None \<Rightarrow> go_return (Inl (Errorf ''credentials secret %s/%s missing 'apiKey' key''
                      [FmtS (sr_Namespace ref), FmtS (sr_Name ref)]))
          | Some apiKey \<Rightarrow> go_return (Inr apiKey)))"

definition resolvePlaneID ::
  "('k, 'c, 'key) NoPlaneControlPlaneReconciler \<Rightarrow> NoPlaneControlPlane \<Rightarrow> 'c ClientInterface \<Rightarrow>
     (('k, 'c) world, (error + string) \<times> NoPlaneControlPlane) go"
where
  "resolvePlaneID r ncp api =
     (if spec_PlaneID (ncp_Spec ncp) \<noteq> '''' then
        go_return (Inr (spec_PlaneID (ncp_Spec ncp)), ncp)
      else if st_PlaneID (ncp_Status ncp) \<noteq> '''' then
        go_return (Inr (st_PlaneID (ncp_Status ncp)), ncp)
      else
        go_bind (api_CreatePlane api
          \<lparr> cr_Name = om_Name (ncp_ObjectMeta ncp),
            cr_KubernetesVersion = spec_Version (ncp_Spec ncp) \<rparr>) (\<lambda>created.
        go_bind
          (case created of
             Inr plane \<Rightarrow> go_return (Inr plane)
           | Inl err \<Rightarrow>
               if \<not> IsConflict (Some err) then go_return (Inl (Wrapf ''creating plane: %w'' [] err))
               else
                 go_bind (api_GetPlaneByName api (om_Name (ncp_ObjectMeta ncp))) (\<lambda>found.
                 case found of
                   Inl err \<Rightarrow> go_return (Inl (Wrapf ''looking up plane by name after 409: %w'' [] err))
                 | Inr plane \<Rightarrow> go_return (Inr plane))) (\<lambda>resolved.
        case resolved of
          Inl err \<Rightarrow> go_return (Inl err, ncp)
        | Inr plane \<Rightarrow>
            let ncp1 = set_status (\<lambda>st. st\<lparr>st_PlaneID := plane_ID plane\<rparr>) ncp in
            go_bind (StatusUpdate_NCP r ncp1) (\<lambda>res.
            case res of
              Inl err \<Rightarrow> go_return (Inl (Wrapf ''persisting planeID to status: %w'' [] err), ncp1)
            | Inr ncp2 \<Rightarrow> go_return (Inr (plane_ID plane), ncp2)))))"

section \<open>Secrets\<close>

definition reconcileKubeconfig ::
  "('k, 'c, 'key) NoPlaneControlPlaneReconciler \<Rightarrow> Cluster \<Rightarrow> NoPlaneControlPlane \<Rightarrow> 'c ClientInterface \<Rightarrow>
     (('k, 'c) world, error option) go"
where
  "reconcileKubeconfig r cluster ncp api =
     go_bind (api_GetKubeconfig api (st_PlaneID (ncp_Status ncp))) (\<lambda>res.
     case res of
       Inl err \<Rightarrow> go_return (Some (Wrapf ''fetching kubeconfig from noplane.io: %w'' [] err))
     | Inr kubeconfigBytes \<Rightarrow>
         let clusterName = om_Name (cl_ObjectMeta cluster);
             secret = \<lparr>
               sec_ObjectMeta = empty_ObjectMeta\<lparr>
                 om_Name := clusterName @ ''-kubeconfig'',
                 om_Namespace := om_Namespace (cl_ObjectMeta cluster),
                 om_Labels := [lib_ClusterNameLabel (r_Lib r) \<mapsto> clusterName],
                 om_OwnerReferences :=
                   [lib_NewControllerRef (r_Lib r) cluster (lib_ClusterGroupVersion (r_Lib r)) ''Cluster'']\<rparr>,
               sec_Type = '''',
               sec_Data = [''value'' \<mapsto> kubeconfigBytes] \<rparr>
         in
         go_bind (Get_Secret r \<lparr> nn_Namespace = om_Namespace (sec_ObjectMeta secret),
                                 nn_Name = om_Name (sec_ObjectMeta secret) \<rparr>) (\<lambda>got.
         case got of
           Inl err \<Rightarrow>
             if lib_IsNotFound (r_Lib r) err then Create_Secret r secret
             else go_return (Some (Wrapf ''checking kubeconfig secret: %w'' [] err))
         | Inr existing \<Rightarrow>
             Update_Secret r
               (existing\<lparr>sec_Data := sec_Data secret,
                  sec_ObjectMeta := (sec_ObjectMeta existing)\<lparr>om_Labels := om_Labels (sec_ObjectMeta secret)\<rparr>\<rparr>)))"

text \<open>\<^verbatim>\<open>len(existing.Data[key])\<close>: a missing key reads as the nil slice, of length 0.\<close>

definition data_len :: "Secret \<Rightarrow> string \<Rightarrow> nat" where
  "data_len s key = (case sec_Data s key of None \<Rightarrow> 0 | Some bs \<Rightarrow> length bs)"

text \<open>
  The part of \<^verbatim>\<open>reconcileCASecret\<close> that turns the kubeconfig into CA data: the first entry the
  loop visits, or an error. A nil entry would be dereferenced.
\<close>

definition extract_ca_data :: "Kubeconfig \<Rightarrow> ('s, error + bytes) go" where
  "extract_ca_data cfg =
     (case cfg_Clusters cfg of
        [] \<Rightarrow> go_return (Inl (Errorf ''kubeconfig contains no clusters'' []))
      | (_, c) # _ \<Rightarrow>
          (case c of
             None \<Rightarrow> go_panic ''nil pointer dereference''
           | Some cl \<Rightarrow>
               let caData = kcc_CertificateAuthorityData cl in
               if length caData = 0
               then go_return (Inl (Errorf ''kubeconfig cluster entry has no certificate-authority-data'' []))
               else go_return (Inr caData)))"

definition ca_secret ::
  "('k, 'c, 'key) NoPlaneControlPlaneReconciler \<Rightarrow> Cluster \<Rightarrow> bytes \<Rightarrow> bytes \<Rightarrow> Secret"
where
  "ca_secret r cluster caData dummyKeyPEM = \<lparr>
     sec_ObjectMeta = empty_ObjectMeta\<lparr>
       om_Name := om_Name (cl_ObjectMeta cluster) @ ''-ca'',
       om_Namespace := om_Namespace (cl_ObjectMeta cluster),
       om_Labels := [lib_ClusterNameLabel (r_Lib r) \<mapsto> om_Name (cl_ObjectMeta cluster)],
       om_OwnerReferences :=
         [lib_NewControllerRef (r_Lib r) cluster (lib_ClusterGroupVersion (r_Lib r)) ''Cluster'']\<rparr>,
     sec_Type = lib_ClusterSecretType (r_Lib r),
     sec_Data = [''tls.crt'' \<mapsto> caData, ''tls.key'' \<mapsto> dummyKeyPEM] \<rparr>"

text \<open>
  The tail of \<^verbatim>\<open>reconcileCASecret\<close>: read the secret again, then create it, replace one of the
  wrong type, or update it. \<open>existing0\<close> is what the first read left in the variable; the
  second read overwrites it unless it fails, and a failure other than not-found is not looked at.
\<close>

definition store_ca_secret ::
  "('k, 'c, 'key) NoPlaneControlPlaneReconciler \<Rightarrow> NamespacedName \<Rightarrow> Secret \<Rightarrow> Secret \<Rightarrow>
     (('k, 'c) world, error option) go"
where
  "store_ca_secret r nn existing0 secret =
     go_bind (Get_Secret r nn) (\<lambda>again.
     if (case again of Inl err \<Rightarrow> lib_IsNotFound (r_Lib r) err | Inr _ \<Rightarrow> False)
     then Create_Secret r secret
     else
       let existing = (case again of Inl _ \<Rightarrow> existing0 | Inr s \<Rightarrow> s) in
       if sec_Type existing \<noteq> sec_Type secret then
         go_bind (Delete_Secret r existing) (\<lambda>del.
         case del of
           Some err \<Rightarrow> go_return (Some (Wrapf ''deleting CA secret with wrong type: %w'' [] err))
         | None \<Rightarrow> Create_Secret r secret)
       else
         Update_Secret r
           (existing\<lparr>sec_Data := sec_Data secret,
              sec_ObjectMeta := (sec_ObjectMeta existing)\<lparr>om_Labels := om_Labels (sec_ObjectMeta secret)\<rparr>\<rparr>))"

text \<open>
  The middle of \<^verbatim>\<open>reconcileCASecret\<close>: from the kubeconfig to the secret that ought to exist, with
  a freshly drawn key.
\<close>

definition fetch_ca_secret ::
  "('k, 'c, 'key) NoPlaneControlPlaneReconciler \<Rightarrow> Cluster \<Rightarrow> NoPlaneControlPlane \<Rightarrow> 'c ClientInterface \<Rightarrow>
     (('k, 'c) world, error + Secret) go"
where
  "fetch_ca_secret r cluster ncp api =
     go_bind (api_GetKubeconfig api (st_PlaneID (ncp_Status ncp))) (\<lambda>res.
     case res of
       Inl err \<Rightarrow> go_return (Inl (Wrapf ''fetching kubeconfig for CA extraction: %w'' [] err))
     | Inr kubeconfigBytes \<Rightarrow>
         (case lib_Load (r_Lib r) kubeconfigBytes of
            Inl err \<Rightarrow> go_return (Inl (Wrapf ''parsing kubeconfig: %w'' [] err))
          | Inr cfg \<Rightarrow>
              go_bind (extract_ca_data cfg) (\<lambda>ca.
              case ca of
                Inl err \<Rightarrow> go_return (Inl err)
              | Inr caData \<Rightarrow>
                  go_bind (GenerateKey r 2048) (\<lambda>gen.
                  case gen of
                    Inl err \<Rightarrow> go_return (Inl (Wrapf ''generating dummy CA key: %w'' [] err))
                  | Inr dummyKey \<Rightarrow>
                      let dummyKeyPEM = pem_EncodeToMemory ''RSA PRIVATE KEY''
                            (lib_MarshalPKCS1PrivateKey (r_Lib r) dummyKey)
                      in go_return (Inr (ca_secret r cluster caData dummyKeyPEM))))))"

definition reconcileCASecret ::
  "('k, 'c, 'key) NoPlaneControlPlaneReconciler \<Rightarrow> Cluster \<Rightarrow> NoPlaneControlPlane \<Rightarrow> 'c ClientInterface \<Rightarrow>
     (('k, 'c) world, error option) go"
where
  "reconcileCASecret r cluster ncp api =
     (let secretName = om_Name (cl_ObjectMeta cluster) @ ''-ca'';
          nn = \<lparr> nn_Namespace = om_Namespace (cl_ObjectMeta cluster), nn_Name = secretName \<rparr> in
      go_bind (Get_Secret r nn) (\<lambda>got.
      if (case got of Inr existing \<Rightarrow> 0 < data_len existing ''tls.key'' | Inl _ \<Rightarrow> False)
      then go_return None
      else
        case (case got of
                Inl err \<Rightarrow> if lib_IsNotFound (r_Lib r) err then Inr empty_Secret
                           else Inl (Wrapf ''checking CA secret: %w'' [] err)
              | Inr existing \<Rightarrow> Inr existing) of
          Inl err \<Rightarrow> go_return (Some err)
        | Inr existing \<Rightarrow>
            go_bind (fetch_ca_secret r cluster ncp api) (\<lambda>fetched.
            case fetched of
              Inl err \<Rightarrow> go_return (Some err)
            | Inr secret \<Rightarrow> store_ca_secret r nn existing secret)))"

section \<open>Reconciling a live object\<close>

definition desired_endpoint :: "Plane \<Rightarrow> APIEndpoint" where
  "desired_endpoint plane = \<lparr>
     ae_Host = ep_Host (plane_Endpoint plane),
     ae_Port = int32_of_int (ep_Port (plane_Endpoint plane)) \<rparr>"

text \<open>Surface the endpoint: an update of the object unless it already carries it.\<close>

definition syncEndpoint ::
  "('k, 'c, 'key) NoPlaneControlPlaneReconciler \<Rightarrow> NoPlaneControlPlane \<Rightarrow> Plane \<Rightarrow>
     (('k, 'c) world, error + NoPlaneControlPlane) go"
where
  "syncEndpoint r ncp plane =
     (if spec_ControlPlaneEndpoint (ncp_Spec ncp) \<noteq> desired_endpoint plane then
        go_bind (Update_NCP r
          (ncp\<lparr>ncp_Spec := (ncp_Spec ncp)\<lparr>spec_ControlPlaneEndpoint := desired_endpoint plane\<rparr>\<rparr>)) (\<lambda>res.
        case res of
          Inl err \<Rightarrow> go_return (Inl (Wrapf ''updating control plane endpoint: %w'' [] err))
        | Inr ncp' \<Rightarrow> go_return (Inr ncp'))
      else go_return (Inr ncp))"

definition final_status :: "string \<Rightarrow> Plane \<Rightarrow> NoPlaneControlPlaneStatus \<Rightarrow> NoPlaneControlPlaneStatus" where
  "final_status planeID plane st =
     st\<lparr>st_PlaneID := planeID, st_Ready := True, st_Initialized := True,
        st_Version := plane_KubernetesVersion plane\<rparr>"

text \<open>The tail of \<^verbatim>\<open>reconcileNormal\<close>, for a plane that is ready at the wanted version.\<close>

definition publishPlane ::
  "('k, 'c, 'key) NoPlaneControlPlaneReconciler \<Rightarrow> Cluster \<Rightarrow> NoPlaneControlPlane \<Rightarrow> 'c ClientInterface \<Rightarrow>
     string \<Rightarrow> Plane \<Rightarrow> (('k, 'c) world, Result \<times> error option) go"
where
  "publishPlane r cluster ncp1 api planeID plane =
     go_bind (syncEndpoint r ncp1 plane) (\<lambda>synced.
     case synced of
       Inl err \<Rightarrow> go_return (no_requeue, Some err)
     | Inr ncp2 \<Rightarrow>
         go_bind (reconcileKubeconfig r cluster ncp2 api) (\<lambda>kc.
         case kc of
           Some err \<Rightarrow> go_return (no_requeue, Some err)
         | None \<Rightarrow>
             go_bind (reconcileCASecret r cluster ncp2 api) (\<lambda>ca.
             case ca of
               Some err \<Rightarrow> go_return (no_requeue, Some err)
             | None \<Rightarrow>
                 go_bind (StatusUpdate_NCP r (set_status (final_status planeID plane) ncp2)) (\<lambda>res.
                 go_return (requeue_after 60,
                   case res of Inl err \<Rightarrow> Some err | Inr _ \<Rightarrow> None)))))"

definition reconcileNormal ::
  "('k, 'c, 'key) NoPlaneControlPlaneReconciler \<Rightarrow> Cluster \<Rightarrow> NoPlaneControlPlane \<Rightarrow> 'c ClientInterface \<Rightarrow>
     (('k, 'c) world, Result \<times> error option) go"
where
  "reconcileNormal r cluster ncp0 api =
     go_bind (resolvePlaneID r ncp0 api) (\<lambda>(resolved, ncp1).
     case resolved of
       Inl err \<Rightarrow> go_return (no_requeue, Some err)
     | Inr planeID \<Rightarrow>
         go_bind (api_GetPlane api planeID) (\<lambda>got.
         case got of
           Inl err \<Rightarrow> go_return (no_requeue, Some (Wrapf ''getting plane: %w'' [] err))
         | Inr plane \<Rightarrow>
             if plane_Status plane \<noteq> ''ready'' then go_return (requeue_after 15, None)
             else if plane_KubernetesVersion plane \<noteq> spec_Version (ncp_Spec ncp1) then
               go_bind (api_UpdatePlane api planeID
                 \<lparr> ur_KubernetesVersion = spec_Version (ncp_Spec ncp1) \<rparr>) (\<lambda>upd.
               case upd of
                 Some err \<Rightarrow> go_return (no_requeue, Some (Wrapf ''upgrading plane: %w'' [] err))
               | None \<Rightarrow> go_return (requeue_after 30, None))
             else publishPlane r cluster ncp1 api planeID plane))"

section \<open>Deletion\<close>

definition removeFinalizer ::
  "('k, 'c, 'key) NoPlaneControlPlaneReconciler \<Rightarrow> NoPlaneControlPlane \<Rightarrow>
     (('k, 'c) world, Result \<times> error option) go"
where
  "removeFinalizer r ncp =
     go_bind (Update_NCP r (lib_RemoveFinalizer (r_Lib r) ncp noplaneFinalizer)) (\<lambda>res.
     go_return (no_requeue, case res of Inl err \<Rightarrow> Some err | Inr _ \<Rightarrow> None))"

definition reconcileDelete ::
  "('k, 'c, 'key) NoPlaneControlPlaneReconciler \<Rightarrow> NoPlaneControlPlane \<Rightarrow> 'c ClientInterface \<Rightarrow>
     (('k, 'c) world, Result \<times> error option) go"
where
  "reconcileDelete r ncp api =
     (if st_PlaneID (ncp_Status ncp) = '''' then removeFinalizer r ncp
      else
        go_bind (api_DeletePlane api (st_PlaneID (ncp_Status ncp))) (\<lambda>del.
        case del of
          Some err \<Rightarrow>
            if \<not> IsNotFound (Some err)
            then go_return (no_requeue, Some (Wrapf ''deleting plane: %w'' [] err))
            else removeFinalizer r ncp
        | None \<Rightarrow> removeFinalizer r ncp))"

section \<open>Entry point\<close>

text \<open>From the credentials on: resolve the key, build the client, branch on deletion.\<close>

definition reconcileWithClient ::
  "('k, 'c, 'key) NoPlaneControlPlaneReconciler \<Rightarrow> Cluster \<Rightarrow> NoPlaneControlPlane \<Rightarrow>
     (('k, 'c) world, Result \<times> error option) go"
where
  "reconcileWithClient r cluster ncp =
     go_bind (getAPIKey r (spec_CredentialsSecretRef (ncp_Spec ncp))) (\<lambda>key.
     case key of
       Inl err \<Rightarrow> go_return (no_requeue, Some (Wrapf ''fetching API key: %w'' [] err))
     | Inr apiKey \<Rightarrow>
         (case r_ClientFactory r apiKey of
            Inl err \<Rightarrow> go_return (no_requeue, Some (Wrapf ''creating API client: %w'' [] err))
          | Inr api \<Rightarrow>
              if \<not> Time_IsZero (om_DeletionTimestamp (ncp_ObjectMeta ncp))
              then reconcileDelete r ncp api
              else reconcileNormal r cluster ncp api))"

definition Reconcile ::
  "('k, 'c, 'key) NoPlaneControlPlaneReconciler \<Rightarrow> NamespacedName \<Rightarrow>
     (('k, 'c) world, Result \<times> error option) go"
where
  "Reconcile r nn =
     go_bind (Get_NCP r nn) (\<lambda>got.
     case got of
       Inl err \<Rightarrow> go_return (no_requeue, lib_IgnoreNotFound (r_Lib r) err)
     | Inr ncp \<Rightarrow>
         go_bind (GetOwnerCluster r (ncp_ObjectMeta ncp)) (\<lambda>owner.
         case owner of
           Inl err \<Rightarrow> go_return (no_requeue, Some err)
         | Inr None \<Rightarrow> go_return (no_requeue, None)
         | Inr (Some cluster) \<Rightarrow>
             if lib_IsPaused (r_Lib r) cluster ncp then go_return (no_requeue, None)
             else if \<not> lib_ContainsFinalizer (r_Lib r) ncp noplaneFinalizer then
               go_bind (Update_NCP r (lib_AddFinalizer (r_Lib r) ncp noplaneFinalizer)) (\<lambda>res.
               go_return (no_requeue, case res of Inl err \<Rightarrow> Some err | Inr _ \<Rightarrow> None))
             else reconcileWithClient r cluster ncp))"

end
