(* ===== verification/Fake_Client.thy ===== *)
theory Fake_Client
  imports Noplane_Api
begin

text \<open>
  Package \<^verbatim>\<open>internal/api/noplane/fake\<close>: the in-memory implementation of the client interface.
  Its two Go maps hold pointers to the same \<^verbatim>\<open>Plane\<close> objects and \<^verbatim>\<open>UpdatePlane\<close> writes through
  them, so the objects live in an explicit store \<open>fc_heap\<close> and the maps hold addresses. A
  method runs under the mutex, so each is one atomic step on the state. The locale
  \<open>plane_store\<close> says what a client that stores planes promises on top of \<open>plane_client\<close>;
  both are interpreted on the fake.
\<close>

section \<open>State and constructor\<close>

type_synonym addr = nat

record FakeClient =
  fc_heap :: "addr \<rightharpoonup> Plane"
  fc_next :: addr
  fc_Planes :: "string \<rightharpoonup> addr"
  fc_PlanesByName :: "string \<rightharpoonup> addr"
  fc_Kubeconfig :: bytes
  fc_CreateErr :: "error option"
  fc_GetErr :: "error option"
  fc_UpdateErr :: "error option"
  fc_DeleteErr :: "error option"
  fc_KubeconfigErr :: "error option"
  fc_CreateCallCount :: goint
  fc_GetCallCount :: goint
  fc_GetByNameCallCount :: goint
  fc_UpdateCallCount :: goint
  fc_DeleteCallCount :: goint
  fc_KubeconfigCallCount :: goint

definition Fake_NewClient :: FakeClient where
  "Fake_NewClient = \<lparr>
     fc_heap = Map.empty, fc_next = 0,
     fc_Planes = Map.empty, fc_PlanesByName = Map.empty,
     fc_Kubeconfig = ''fake-kubeconfig'',
     fc_CreateErr = None, fc_GetErr = None, fc_UpdateErr = None, fc_DeleteErr = None,
     fc_KubeconfigErr = None,
     fc_CreateCallCount = 0, fc_GetCallCount = 0, fc_GetByNameCallCount = 0,
     fc_UpdateCallCount = 0, fc_DeleteCallCount = 0, fc_KubeconfigCallCount = 0 \<rparr>"

text \<open>Reading through a pointer; an address outside the store is a nil pointer.\<close>

definition fc_deref :: "addr \<Rightarrow> (FakeClient, Plane) go" where
  [go_defs]: "fc_deref a f =
     (case fc_heap f a of
        None \<Rightarrow> (Panics ''nil pointer dereference'', f)
      | Some p \<Rightarrow> (Returns p, f))"

section \<open>Operations\<close>

definition Fake_CreatePlane :: "CreateRequest \<Rightarrow> (FakeClient, error + Plane) go" where
  "Fake_CreatePlane req f0 =
     (let f = f0\<lparr>fc_CreateCallCount := fc_CreateCallCount f0 + 1\<rparr> in
      case fc_CreateErr f of
        Some e \<Rightarrow> (Returns (Inl e), f)
      | None \<Rightarrow>
          (case fc_PlanesByName f (cr_Name req) of
             Some _ \<Rightarrow> (Returns (Inl (NewConflictError (cr_Name req))), f)
           | None \<Rightarrow>
               let p = \<lparr> plane_ID = ''fake-np-id'', plane_Name = cr_Name req,
                         plane_Status = ''ready'',
                         plane_Endpoint = \<lparr> ep_Host = ''fake.noplane.io'', ep_Port = 6443 \<rparr>,
                         plane_KubernetesVersion = cr_KubernetesVersion req \<rparr>;
                   a = fc_next f
               in (Returns (Inr p),
                   f\<lparr>fc_heap := (fc_heap f)(a \<mapsto> p), fc_next := Suc a,
                     fc_Planes := (fc_Planes f)(plane_ID p \<mapsto> a),
                     fc_PlanesByName := (fc_PlanesByName f)(plane_Name p \<mapsto> a)\<rparr>)))"

definition Fake_GetPlane :: "string \<Rightarrow> (FakeClient, error + Plane) go" where
  "Fake_GetPlane ident f0 =
     (let f = f0\<lparr>fc_GetCallCount := fc_GetCallCount f0 + 1\<rparr> in
      case fc_GetErr f of
        Some e \<Rightarrow> (Returns (Inl e), f)
      | None \<Rightarrow>
          (case fc_Planes f ident of
             None \<Rightarrow> (Returns (Inl (NewNotFoundError ident)), f)
           | Some a \<Rightarrow> go_bind (fc_deref a) (\<lambda>p. go_return (Inr p)) f))"

definition Fake_GetPlaneByName :: "string \<Rightarrow> (FakeClient, error + Plane) go" where
  "Fake_GetPlaneByName name f0 =
     (let f = f0\<lparr>fc_GetByNameCallCount := fc_GetByNameCallCount f0 + 1\<rparr> in
      case fc_GetErr f of
        Some e \<Rightarrow> (Returns (Inl e), f)
      | None \<Rightarrow>
          (case fc_PlanesByName f name of
             None \<Rightarrow> (Returns (Inl (NewNotFoundError name)), f)
           | Some a \<Rightarrow> go_bind (fc_deref a) (\<lambda>p. go_return (Inr p)) f))"

definition Fake_UpdatePlane :: "string \<Rightarrow> UpdateRequest \<Rightarrow> (FakeClient, error option) go" where
  "Fake_UpdatePlane ident req f0 =
     (let f = f0\<lparr>fc_UpdateCallCount := fc_UpdateCallCount f0 + 1\<rparr> in
      case fc_UpdateErr f of
        Some e \<Rightarrow> (Returns (Some e), f)
      | None \<Rightarrow>
          (case fc_Planes f ident of
             None \<Rightarrow> (Returns (Some (NewNotFoundError ident)), f)
           | Some a \<Rightarrow>
               if ur_KubernetesVersion req \<noteq> '''' then
                 go_bind (fc_deref a)
                   (\<lambda>p g. (Returns None,
                      g\<lparr>fc_heap := (fc_heap g)(a \<mapsto>
                          p\<lparr>plane_KubernetesVersion := ur_KubernetesVersion req\<rparr>)\<rparr>)) f
               else (Returns None, f)))"

definition Fake_DeletePlane :: "string \<Rightarrow> (FakeClient, error option) go" where
  "Fake_DeletePlane ident f0 =
     (let f = f0\<lparr>fc_DeleteCallCount := fc_DeleteCallCount f0 + 1\<rparr> in
      case fc_DeleteErr f of
        Some e \<Rightarrow> (Returns (Some e), f)
      | None \<Rightarrow>
          (case fc_Planes f ident of
             None \<Rightarrow> (Returns (Some (NewNotFoundError ident)), f)
           | Some a \<Rightarrow>
               go_bind (fc_deref a)
                 (\<lambda>p g. (Returns None,
                    g\<lparr>fc_PlanesByName := (fc_PlanesByName g)(plane_Name p := None),
                      fc_Planes := (fc_Planes g)(ident := None)\<rparr>)) f))"

definition Fake_GetKubeconfig :: "string \<Rightarrow> (FakeClient, error + bytes) go" where
  "Fake_GetKubeconfig ident f0 =
     (let f = f0\<lparr>fc_KubeconfigCallCount := fc_KubeconfigCallCount f0 + 1\<rparr> in
      case fc_KubeconfigErr f of
        Some e \<Rightarrow> (Returns (Inl e), f)
      | None \<Rightarrow> (Returns (Inr (fc_Kubeconfig f)), f))"

definition fake_client :: "FakeClient ClientInterface" where
  "fake_client = \<lparr>
     CreatePlane = Fake_CreatePlane, GetPlane = Fake_GetPlane,
     GetPlaneByName = Fake_GetPlaneByName, UpdatePlane = Fake_UpdatePlane,
     DeletePlane = Fake_DeletePlane, GetKubeconfig = Fake_GetKubeconfig \<rparr>"

lemma fake_client_simps [simp]:
  "CreatePlane fake_client = Fake_CreatePlane" "GetPlane fake_client = Fake_GetPlane"
  "GetPlaneByName fake_client = Fake_GetPlaneByName" "UpdatePlane fake_client = Fake_UpdatePlane"
  "DeletePlane fake_client = Fake_DeletePlane" "GetKubeconfig fake_client = Fake_GetKubeconfig"
  by (simp_all add: fake_client_def)

lemmas fake_op_defs =
  Fake_CreatePlane_def Fake_GetPlane_def Fake_GetPlaneByName_def Fake_UpdatePlane_def
  Fake_DeletePlane_def Fake_GetKubeconfig_def

lemmas fake_splits = option.splits if_splits

section \<open>Invariants\<close>

text \<open>
  No dangling pointer, each map's key is the field it indexes by, and addresses from
  \<open>fc_next\<close> on are free. Every operation keeps it, whatever errors a test injects.
\<close>

definition fake_inv :: "FakeClient \<Rightarrow> bool" where
  "fake_inv f \<longleftrightarrow>
     (\<forall>ident a. fc_Planes f ident = Some a \<longrightarrow> (\<exists>p. fc_heap f a = Some p \<and> plane_ID p = ident)) \<and>
     (\<forall>name a. fc_PlanesByName f name = Some a \<longrightarrow> (\<exists>p. fc_heap f a = Some p \<and> plane_Name p = name)) \<and>
     (\<forall>a. fc_next f \<le> a \<longrightarrow> fc_heap f a = None)"

lemma fake_invI:
  assumes "\<And>ident a. fc_Planes f ident = Some a \<Longrightarrow> \<exists>p. fc_heap f a = Some p \<and> plane_ID p = ident"
    and "\<And>name a. fc_PlanesByName f name = Some a \<Longrightarrow> \<exists>p. fc_heap f a = Some p \<and> plane_Name p = name"
    and "\<And>a. fc_next f \<le> a \<Longrightarrow> fc_heap f a = None"
  shows "fake_inv f"
  using assms by (simp add: fake_inv_def)

lemma fake_inv_Planes:
  "fake_inv f \<Longrightarrow> fc_Planes f ident = Some a \<Longrightarrow> \<exists>p. fc_heap f a = Some p \<and> plane_ID p = ident"
  by (simp add: fake_inv_def)

lemma fake_inv_PlanesByName:
  "fake_inv f \<Longrightarrow> fc_PlanesByName f name = Some a \<Longrightarrow> \<exists>p. fc_heap f a = Some p \<and> plane_Name p = name"
  by (simp add: fake_inv_def)

lemma fake_inv_next: "fake_inv f \<Longrightarrow> fc_next f \<le> a \<Longrightarrow> fc_heap f a = None"
  by (simp add: fake_inv_def)

lemma fake_inv_alloc_ne:
  "fake_inv f \<Longrightarrow> fc_heap f a = Some p \<Longrightarrow> a \<noteq> fc_next f"
  using fake_inv_next [of f a] by auto

lemma fake_inv_NewClient: "fake_inv Fake_NewClient"
  by (simp add: fake_inv_def Fake_NewClient_def)

lemma Fake_CreatePlane_inv: "fake_inv f \<Longrightarrow> fake_inv (snd (Fake_CreatePlane req f))"
  by (rule fake_invI)
    (auto simp: Fake_CreatePlane_def Let_def fake_inv_next dest: fake_inv_Planes
      fake_inv_PlanesByName fake_inv_alloc_ne split: option.splits if_splits)

lemma Fake_GetPlane_inv: "fake_inv f \<Longrightarrow> fake_inv (snd (Fake_GetPlane ident f))"
  by (auto simp: Fake_GetPlane_def fake_inv_def Let_def go_defs split: option.split)

lemma Fake_GetPlaneByName_inv: "fake_inv f \<Longrightarrow> fake_inv (snd (Fake_GetPlaneByName name f))"
  by (auto simp: Fake_GetPlaneByName_def fake_inv_def Let_def go_defs split: option.split)

lemma Fake_UpdatePlane_inv: "fake_inv f \<Longrightarrow> fake_inv (snd (Fake_UpdatePlane ident u f))"
  by (rule fake_invI)
    (auto simp: Fake_UpdatePlane_def Let_def go_defs dest: fake_inv_Planes fake_inv_PlanesByName
      fake_inv_next split: option.splits if_splits)

lemma Fake_DeletePlane_inv: "fake_inv f \<Longrightarrow> fake_inv (snd (Fake_DeletePlane ident f))"
  by (auto simp: Fake_DeletePlane_def fake_inv_def Let_def go_defs split: option.split if_splits)

lemma Fake_GetKubeconfig_inv: "fake_inv f \<Longrightarrow> fake_inv (snd (Fake_GetKubeconfig ident f))"
  by (auto simp: Fake_GetKubeconfig_def fake_inv_def Let_def split: option.split)

lemmas fake_inv_ops =
  Fake_CreatePlane_inv Fake_GetPlane_inv Fake_GetPlaneByName_inv Fake_UpdatePlane_inv
  Fake_DeletePlane_inv Fake_GetKubeconfig_inv

lemma fake_no_panic:
  assumes "fake_inv f"
  shows "\<exists>r f'. Fake_GetPlane ident f = (Returns r, f')"
    and "\<exists>r f'. Fake_GetPlaneByName name f = (Returns r, f')"
    and "\<exists>r f'. Fake_UpdatePlane ident u f = (Returns r, f')"
    and "\<exists>r f'. Fake_DeletePlane ident f = (Returns r, f')"
    and "\<exists>r f'. Fake_GetKubeconfig ident f = (Returns r, f')"
  using assms
  by (auto simp: fake_op_defs Let_def go_defs dest: fake_inv_Planes fake_inv_PlanesByName
      split: option.split)

interpretation fake: plane_client fake_client fake_inv
proof unfold_locales
  fix s ident p s'
  assume "fake_inv s" and "GetPlane fake_client ident s = (Returns (Inr p), s')"
  then show "plane_ID p = ident"
    by (auto simp: Fake_GetPlane_def Let_def go_defs dest: fake_inv_Planes split: option.splits)
next
  fix s name p s'
  assume "fake_inv s" and "GetPlaneByName fake_client name s = (Returns (Inr p), s')"
  then show "plane_Name p = name"
    by (auto simp: Fake_GetPlaneByName_def Let_def go_defs dest: fake_inv_PlanesByName
        split: option.splits)
qed (simp_all add: fake_inv_ops fake_no_panic)

section \<open>The store contract\<close>

text \<open>
  A client that keeps planes: \<open>planes\<close> and \<open>named\<close> are what lookups by ID and by name will
  find, \<open>healthy\<close> says that no call is made to fail. The laws give each operation's result and
  its effect on both views; the lemmas below are the call sequences the controller makes.
\<close>

locale plane_store = plane_client api inv
  for api :: "'c ClientInterface" and inv :: "'c \<Rightarrow> bool" +
  fixes planes :: "'c \<Rightarrow> string \<rightharpoonup> Plane"
    and named :: "'c \<Rightarrow> string \<rightharpoonup> Plane"
    and healthy :: "'c \<Rightarrow> bool"
  assumes create_fresh: "inv s \<Longrightarrow> healthy s \<Longrightarrow> named s (cr_Name req) = None \<Longrightarrow>
      \<exists>p s'. CreatePlane api req s = (Returns (Inr p), s') \<and> plane_Name p = cr_Name req
        \<and> plane_KubernetesVersion p = cr_KubernetesVersion req \<and> healthy s'
        \<and> planes s' = (planes s)(plane_ID p \<mapsto> p) \<and> named s' = (named s)(cr_Name req \<mapsto> p)"
    and create_taken: "inv s \<Longrightarrow> healthy s \<Longrightarrow> named s (cr_Name req) = Some q \<Longrightarrow>
      \<exists>s'. CreatePlane api req s = (Returns (Inl (NewConflictError (cr_Name req))), s')
        \<and> healthy s' \<and> planes s' = planes s \<and> named s' = named s"
    and get_result: "inv s \<Longrightarrow> healthy s \<Longrightarrow>
      \<exists>s'. GetPlane api ident s =
          (Returns (case planes s ident of None \<Rightarrow> Inl (NewNotFoundError ident) | Some p \<Rightarrow> Inr p), s')
        \<and> healthy s' \<and> planes s' = planes s \<and> named s' = named s"
    and get_by_name_result: "inv s \<Longrightarrow> healthy s \<Longrightarrow>
      \<exists>s'. GetPlaneByName api name s =
          (Returns (case named s name of None \<Rightarrow> Inl (NewNotFoundError name) | Some p \<Rightarrow> Inr p), s')
        \<and> healthy s' \<and> planes s' = planes s \<and> named s' = named s"
    and update_present: "inv s \<Longrightarrow> healthy s \<Longrightarrow> planes s ident = Some p \<Longrightarrow>
      ur_KubernetesVersion u \<noteq> '''' \<Longrightarrow> p' = p\<lparr>plane_KubernetesVersion := ur_KubernetesVersion u\<rparr> \<Longrightarrow>
      \<exists>s'. UpdatePlane api ident u s = (Returns None, s') \<and> healthy s'
        \<and> planes s' = (planes s)(ident \<mapsto> p') \<and> named s' = (named s)(plane_Name p \<mapsto> p')"
    and delete_present: "inv s \<Longrightarrow> healthy s \<Longrightarrow> planes s ident = Some p \<Longrightarrow>
      \<exists>s'. DeletePlane api ident s = (Returns None, s') \<and> healthy s'
        \<and> planes s' = (planes s)(ident := None) \<and> named s' = (named s)(plane_Name p := None)"
    and delete_missing: "inv s \<Longrightarrow> healthy s \<Longrightarrow> planes s ident = None \<Longrightarrow>
      \<exists>s'. DeletePlane api ident s = (Returns (Some (NewNotFoundError ident)), s') \<and> healthy s'
        \<and> planes s' = planes s \<and> named s' = named s"
begin

lemma inv_after:
  "inv s \<Longrightarrow> CreatePlane api req s = (r, s') \<Longrightarrow> inv s'"
  "inv s \<Longrightarrow> UpdatePlane api ident u s = (r2, s') \<Longrightarrow> inv s'"
  "inv s \<Longrightarrow> DeletePlane api ident s = (r3, s') \<Longrightarrow> inv s'"
  using CreatePlane_inv [of s req] UpdatePlane_inv [of s ident u] DeletePlane_inv [of s ident]
  by auto

text \<open>A plane that was just created is the one a lookup by its ID returns.\<close>

lemma create_then_get:
  assumes "inv s" "healthy s" "named s (cr_Name req) = None"
  shows "\<exists>p s1 s2. CreatePlane api req s = (Returns (Inr p), s1) \<and> plane_Name p = cr_Name req
           \<and> GetPlane api (plane_ID p) s1 = (Returns (Inr p), s2)"
proof -
  obtain p s1 where c: "CreatePlane api req s = (Returns (Inr p), s1)" "plane_Name p = cr_Name req"
    "healthy s1" "planes s1 = (planes s)(plane_ID p \<mapsto> p)"
    using create_fresh [OF assms] by blast
  have "inv s1" using inv_after(1) [OF assms(1) c(1)] .
  then show ?thesis using get_result [of s1 "plane_ID p"] c by auto
qed

text \<open>
  A second creation under the same name conflicts, and the lookup by name then finds the plane
  the first one made: the adoption sequence.
\<close>

lemma create_again_adopts:
  assumes "inv s" "healthy s" "named s (cr_Name req) = None" and "cr_Name req' = cr_Name req"
  shows "\<exists>p s1 s2 s3. CreatePlane api req s = (Returns (Inr p), s1)
           \<and> CreatePlane api req' s1 = (Returns (Inl (NewConflictError (cr_Name req))), s2)
           \<and> GetPlaneByName api (cr_Name req) s2 = (Returns (Inr p), s3)"
proof -
  obtain p s1 where c: "CreatePlane api req s = (Returns (Inr p), s1)"
    "healthy s1" "named s1 = (named s)(cr_Name req \<mapsto> p)"
    using create_fresh [OF assms(1-3)] by blast
  have i1: "inv s1" using inv_after(1) [OF assms(1) c(1)] .
  obtain s2 where d: "CreatePlane api req' s1 = (Returns (Inl (NewConflictError (cr_Name req))), s2)"
    "healthy s2" "named s2 = named s1"
    using create_taken [OF i1 c(2), of req' p] c(3) assms(4) by auto
  have "inv s2" using inv_after(1) [OF i1 d(1)] .
  then show ?thesis using get_by_name_result [of s2 "cr_Name req"] c d by auto
qed

text \<open>Deleting twice: the second call reports that the plane is gone and changes nothing.\<close>

lemma delete_twice:
  assumes "inv s" "healthy s" "planes s ident = Some p"
  shows "\<exists>s1 s2. DeletePlane api ident s = (Returns None, s1)
           \<and> DeletePlane api ident s1 = (Returns (Some (NewNotFoundError ident)), s2)
           \<and> planes s2 = (planes s)(ident := None) \<and> named s2 = (named s)(plane_Name p := None)"
proof -
  obtain s1 where d: "DeletePlane api ident s = (Returns None, s1)" "healthy s1"
    "planes s1 = (planes s)(ident := None)" "named s1 = (named s)(plane_Name p := None)"
    using delete_present [OF assms] by blast
  have "inv s1" using inv_after(3) [OF assms(1) d(1)] .
  then show ?thesis using delete_missing [of s1 ident] d by auto
qed

text \<open>An upgrade is seen by both lookups, the one by ID and the one by name.\<close>

lemma update_then_lookups:
  assumes "inv s" "healthy s" "planes s ident = Some p" "ur_KubernetesVersion u \<noteq> ''''"
  shows "\<exists>s1 s2 s3. UpdatePlane api ident u s = (Returns None, s1)
     \<and> GetPlane api ident s1 = (Returns (Inr (p\<lparr>plane_KubernetesVersion := ur_KubernetesVersion u\<rparr>)), s2)
     \<and> GetPlaneByName api (plane_Name p) s1 =
         (Returns (Inr (p\<lparr>plane_KubernetesVersion := ur_KubernetesVersion u\<rparr>)), s3)"
proof -
  obtain s1 where d: "UpdatePlane api ident u s = (Returns None, s1)" "healthy s1"
    "planes s1 = (planes s)(ident \<mapsto> p\<lparr>plane_KubernetesVersion := ur_KubernetesVersion u\<rparr>)"
    "named s1 = (named s)(plane_Name p \<mapsto> p\<lparr>plane_KubernetesVersion := ur_KubernetesVersion u\<rparr>)"
    using update_present [OF assms refl] by blast
  have "inv s1" using inv_after(2) [OF assms(1) d(1)] .
  then show ?thesis
    using get_result [of s1 ident] get_by_name_result [of s1 "plane_Name p"] d by auto
qed

end

section \<open>The fake client meets the store contract\<close>

definition fake_planes :: "FakeClient \<Rightarrow> string \<rightharpoonup> Plane" where
  "fake_planes f ident = Option.bind (fc_Planes f ident) (fc_heap f)"

definition fake_named :: "FakeClient \<Rightarrow> string \<rightharpoonup> Plane" where
  "fake_named f name = Option.bind (fc_PlanesByName f name) (fc_heap f)"

definition fake_healthy :: "FakeClient \<Rightarrow> bool" where
  "fake_healthy f \<longleftrightarrow> fc_CreateErr f = None \<and> fc_GetErr f = None \<and> fc_UpdateErr f = None
     \<and> fc_DeleteErr f = None \<and> fc_KubeconfigErr f = None"

text \<open>
  On top of \<^const>\<open>fake_inv\<close>: a plane found by its ID is the very object found by its name, so a
  write through one map is seen through the other.
\<close>

definition fake_coherent :: "FakeClient \<Rightarrow> bool" where
  "fake_coherent f \<longleftrightarrow> fake_inv f \<and>
     (\<forall>ident a p. fc_Planes f ident = Some a \<longrightarrow> fc_heap f a = Some p \<longrightarrow>
        fc_PlanesByName f (plane_Name p) = Some a)"

lemma fake_coherent_NewClient: "fake_coherent Fake_NewClient"
  using fake_inv_NewClient by (simp add: fake_coherent_def Fake_NewClient_def)

lemma fake_coherent_inv: "fake_coherent f \<Longrightarrow> fake_inv f"
  by (simp add: fake_coherent_def)

lemma fake_coherent_same:
  "fake_coherent f \<Longrightarrow> fc_Planes f ident = Some a \<Longrightarrow> fc_heap f a = Some p \<Longrightarrow>
     fc_PlanesByName f (plane_Name p) = Some a"
  by (simp add: fake_coherent_def)

lemma fake_coherentI:
  assumes "fake_inv f"
    and "\<And>ident a p. fc_Planes f ident = Some a \<Longrightarrow> fc_heap f a = Some p \<Longrightarrow>
        fc_PlanesByName f (plane_Name p) = Some a"
  shows "fake_coherent f"
  using assms by (simp add: fake_coherent_def)

lemma fake_addr_inj:
  assumes "fake_coherent f"
  shows "fc_Planes f ident = Some a \<Longrightarrow> fc_Planes f ident' = Some a \<Longrightarrow> ident = ident'"
    and "fc_PlanesByName f name = Some a \<Longrightarrow> fc_PlanesByName f name' = Some a \<Longrightarrow> name = name'"
  using fake_inv_Planes [OF fake_coherent_inv [OF assms]]
    fake_inv_PlanesByName [OF fake_coherent_inv [OF assms]]
  by (metis option.inject)+

lemma fake_coherent_CreatePlane:
  "fake_coherent f \<Longrightarrow> fake_coherent (snd (Fake_CreatePlane req f))"
  by (rule fake_coherentI, erule fake_inv_ops(1) [OF fake_coherent_inv])
    (auto simp: Fake_CreatePlane_def Let_def
      dest: fake_coherent_same fake_coherent_inv fake_inv_Planes fake_inv_alloc_ne
      split: option.splits if_splits)

lemma fake_coherent_UpdatePlane:
  "fake_coherent f \<Longrightarrow> fake_coherent (snd (Fake_UpdatePlane ident u f))"
  by (rule fake_coherentI, erule fake_inv_ops(4) [OF fake_coherent_inv])
    (auto simp: Fake_UpdatePlane_def Let_def go_defs dest: fake_coherent_same
      split: option.splits if_splits)

lemma fake_coherent_name_inj:
  assumes "fake_coherent f" and "fc_Planes f ident = Some a" and "fc_heap f a = Some p"
    and "fc_Planes f ident' = Some a'" and "fc_heap f a' = Some p'" and "plane_Name p = plane_Name p'"
  shows "ident = ident'"
  using fake_coherent_same [OF assms(1-3)] fake_coherent_same [OF assms(1,4,5)] assms
    fake_addr_inj(1) [OF assms(1,2)] by auto

lemma fake_coherent_DeletePlane:
  assumes "fake_coherent f"
  shows "fake_coherent (snd (Fake_DeletePlane ident f))"
proof (rule fake_coherentI)
  show "fake_inv (snd (Fake_DeletePlane ident f))"
    using assms by (simp add: fake_inv_ops fake_coherent_inv)
  fix i b q
  assume "fc_Planes (snd (Fake_DeletePlane ident f)) i = Some b"
    and "fc_heap (snd (Fake_DeletePlane ident f)) b = Some q"
  moreover note same = fake_coherent_same [OF assms, of i b q]
  moreover have "plane_Name p \<noteq> plane_Name q"
    if "fc_Planes f ident = Some a" "fc_heap f a = Some p" "fc_Planes f i = Some b" "fc_heap f b = Some q"
      "i \<noteq> ident" for a p
    using fake_coherent_name_inj [OF assms that(3,4,1,2)] that(5) by auto
  ultimately show "fc_PlanesByName (snd (Fake_DeletePlane ident f)) (plane_Name q) = Some b"
    by (auto simp: Fake_DeletePlane_def Let_def go_defs split: option.splits if_splits) blast
qed

lemma fake_coherent_reads:
  assumes "fake_coherent f"
  shows "fake_coherent (snd (Fake_GetPlane ident f))"
    and "fake_coherent (snd (Fake_GetPlaneByName name f))"
    and "fake_coherent (snd (Fake_GetKubeconfig ident f))"
  using assms
  by (auto simp: fake_coherent_def fake_inv_def Fake_GetPlane_def Fake_GetPlaneByName_def
      Fake_GetKubeconfig_def Let_def go_defs split: option.splits)

lemmas fake_coherent_ops =
  fake_coherent_CreatePlane fake_coherent_UpdatePlane fake_coherent_DeletePlane
  fake_coherent_reads

text \<open>
  Each operation on the two views, the facts the interpretation needs. Under coherence an
  address is reached from one ID and one name only.
\<close>

lemma fake_planes_Some:
  "fake_coherent f \<Longrightarrow> fake_planes f ident = Some p \<longleftrightarrow>
     (\<exists>a. fc_Planes f ident = Some a \<and> fc_heap f a = Some p)"
  by (auto simp: fake_planes_def bind_eq_Some_conv)

lemma fake_planes_None:
  "fake_coherent f \<Longrightarrow> fake_planes f ident = None \<longleftrightarrow> fc_Planes f ident = None"
  by (cases "fc_Planes f ident")
    (auto simp: fake_planes_def dest!: fake_coherent_inv dest: fake_inv_Planes)

lemma fake_named_None:
  "fake_coherent f \<Longrightarrow> fake_named f name = None \<longleftrightarrow> fc_PlanesByName f name = None"
  by (cases "fc_PlanesByName f name")
    (auto simp: fake_named_def dest!: fake_coherent_inv dest: fake_inv_PlanesByName)

lemma fake_views_update_other:
  assumes "fake_coherent f" and "fc_Planes f ident = Some a" and "fc_heap f a = Some p"
    and "g = f\<lparr>fc_UpdateCallCount := c, fc_heap := (fc_heap f)(a \<mapsto> q)\<rparr>"
  shows "fake_planes g = (fake_planes f)(ident \<mapsto> q)"
    and "fake_named g = (fake_named f)(plane_Name p \<mapsto> q)"
proof -
  have n: "fc_PlanesByName f (plane_Name p) = Some a"
    using fake_coherent_same [OF assms(1-3)] .
  have "fc_Planes f i \<noteq> Some a" if "i \<noteq> ident" for i
    using fake_addr_inj(1) [OF assms(1,2), of i] that by blast
  then show "fake_planes g = (fake_planes f)(ident \<mapsto> q)"
    using assms(2) by (auto simp: fake_planes_def fun_eq_iff assms(4) split: bind_split)
  have "fc_PlanesByName f i \<noteq> Some a" if "i \<noteq> plane_Name p" for i
    using fake_addr_inj(2) [OF assms(1) n, of i] that by blast
  then show "fake_named g = (fake_named f)(plane_Name p \<mapsto> q)"
    using n by (auto simp: fake_named_def fun_eq_iff assms(4) split: bind_split)
qed

lemma fake_views_create:
  assumes "fake_inv f"
    and "g = f\<lparr>fc_CreateCallCount := c, fc_heap := (fc_heap f)(fc_next f \<mapsto> q), fc_next := n,
           fc_Planes := (fc_Planes f)(ident \<mapsto> fc_next f),
           fc_PlanesByName := (fc_PlanesByName f)(name \<mapsto> fc_next f)\<rparr>"
  shows "fake_planes g = (fake_planes f)(ident \<mapsto> q)"
    and "fake_named g = (fake_named f)(name \<mapsto> q)"
proof -
  have "fc_Planes f i \<noteq> Some (fc_next f)" for i
    using assms(1) fake_inv_Planes fake_inv_alloc_ne by metis
  then show "fake_planes g = (fake_planes f)(ident \<mapsto> q)"
    by (auto simp: fake_planes_def fun_eq_iff assms(2) split: bind_split)
  have "fc_PlanesByName f i \<noteq> Some (fc_next f)" for i
    using assms(1) fake_inv_PlanesByName fake_inv_alloc_ne by metis
  then show "fake_named g = (fake_named f)(name \<mapsto> q)"
    by (auto simp: fake_named_def fun_eq_iff assms(2) split: bind_split)
qed

lemma fake_views_counts [simp]:
  "fake_planes (f\<lparr>fc_CreateCallCount := c\<rparr>) = fake_planes f"
  "fake_planes (f\<lparr>fc_GetCallCount := c\<rparr>) = fake_planes f"
  "fake_planes (f\<lparr>fc_GetByNameCallCount := c\<rparr>) = fake_planes f"
  "fake_planes (f\<lparr>fc_DeleteCallCount := c\<rparr>) = fake_planes f"
  "fake_named (f\<lparr>fc_CreateCallCount := c\<rparr>) = fake_named f"
  "fake_named (f\<lparr>fc_GetCallCount := c\<rparr>) = fake_named f"
  "fake_named (f\<lparr>fc_GetByNameCallCount := c\<rparr>) = fake_named f"
  "fake_named (f\<lparr>fc_DeleteCallCount := c\<rparr>) = fake_named f"
  by (simp_all add: fake_planes_def fake_named_def fun_eq_iff)

lemma fake_create_fresh:
  assumes "fake_coherent f" "fake_healthy f" "fake_named f (cr_Name req) = None"
  shows "\<exists>p f'. Fake_CreatePlane req f = (Returns (Inr p), f') \<and> plane_Name p = cr_Name req
           \<and> plane_KubernetesVersion p = cr_KubernetesVersion req \<and> fake_healthy f'
           \<and> fake_planes f' = (fake_planes f)(plane_ID p \<mapsto> p)
           \<and> fake_named f' = (fake_named f)(cr_Name req \<mapsto> p)"
proof -
  have "fc_PlanesByName f (cr_Name req) = None"
    using assms by (simp add: fake_named_None)
  then show ?thesis
    using assms(2) fake_views_create [OF fake_coherent_inv [OF assms(1)] refl]
    by (simp add: Fake_CreatePlane_def Let_def fake_healthy_def)
qed

lemma fake_create_taken:
  assumes "fake_healthy f" "fake_named f (cr_Name req) = Some q"
  shows "\<exists>f'. Fake_CreatePlane req f = (Returns (Inl (NewConflictError (cr_Name req))), f')
           \<and> fake_healthy f' \<and> fake_planes f' = fake_planes f \<and> fake_named f' = fake_named f"
  using assms
  by (auto simp: Fake_CreatePlane_def Let_def fake_healthy_def fake_named_def bind_eq_Some_conv)

lemma fake_get_result:
  assumes "fake_coherent f" "fake_healthy f"
  shows "\<exists>f'. Fake_GetPlane ident f =
             (Returns (case fake_planes f ident of None \<Rightarrow> Inl (NewNotFoundError ident) | Some p \<Rightarrow> Inr p), f')
           \<and> fake_healthy f' \<and> fake_planes f' = fake_planes f \<and> fake_named f' = fake_named f"
proof (cases "fc_Planes f ident")
  case None
  then show ?thesis
    using assms(2) by (simp add: Fake_GetPlane_def Let_def fake_healthy_def fake_planes_def)
next
  case (Some a)
  then obtain p where "fc_heap f a = Some p"
    using fake_inv_Planes [OF fake_coherent_inv [OF assms(1)]] by blast
  with Some show ?thesis
    using assms(2) by (simp add: Fake_GetPlane_def Let_def go_defs fake_healthy_def fake_planes_def)
qed

lemma fake_get_by_name_result:
  assumes "fake_coherent f" "fake_healthy f"
  shows "\<exists>f'. Fake_GetPlaneByName name f =
             (Returns (case fake_named f name of None \<Rightarrow> Inl (NewNotFoundError name) | Some p \<Rightarrow> Inr p), f')
           \<and> fake_healthy f' \<and> fake_planes f' = fake_planes f \<and> fake_named f' = fake_named f"
proof (cases "fc_PlanesByName f name")
  case None
  then show ?thesis
    using assms(2) by (simp add: Fake_GetPlaneByName_def Let_def fake_healthy_def fake_named_def)
next
  case (Some a)
  then obtain p where "fc_heap f a = Some p"
    using fake_inv_PlanesByName [OF fake_coherent_inv [OF assms(1)]] by blast
  with Some show ?thesis
    using assms(2) by (simp add: Fake_GetPlaneByName_def Let_def go_defs fake_healthy_def fake_named_def)
qed

lemma fake_update_present:
  assumes "fake_coherent f" "fake_healthy f" "fake_planes f ident = Some p"
    and "ur_KubernetesVersion u \<noteq> ''''" "q = p\<lparr>plane_KubernetesVersion := ur_KubernetesVersion u\<rparr>"
  shows "\<exists>f'. Fake_UpdatePlane ident u f = (Returns None, f') \<and> fake_healthy f'
           \<and> fake_planes f' = (fake_planes f)(ident \<mapsto> q) \<and> fake_named f' = (fake_named f)(plane_Name p \<mapsto> q)"
proof -
  obtain a where a: "fc_Planes f ident = Some a" "fc_heap f a = Some p"
    using assms(1,3) by (auto simp: fake_planes_Some)
  let ?g = "f\<lparr>fc_UpdateCallCount := fc_UpdateCallCount f + 1, fc_heap := (fc_heap f)(a \<mapsto> q)\<rparr>"
  have "Fake_UpdatePlane ident u f = (Returns None, ?g)"
    using a assms(2,4,5) by (simp add: Fake_UpdatePlane_def Let_def go_defs fake_healthy_def)
  then show ?thesis
    using fake_views_update_other [OF assms(1) a refl] assms(2) by (simp add: fake_healthy_def)
qed

lemma fake_delete_present:
  assumes "fake_coherent f" "fake_healthy f" "fake_planes f ident = Some p"
  shows "\<exists>f'. Fake_DeletePlane ident f = (Returns None, f') \<and> fake_healthy f'
           \<and> fake_planes f' = (fake_planes f)(ident := None) \<and> fake_named f' = (fake_named f)(plane_Name p := None)"
proof -
  obtain a where "fc_Planes f ident = Some a" "fc_heap f a = Some p"
    using assms(1,3) by (auto simp: fake_planes_Some)
  then show ?thesis
    using assms(2)
    by (simp add: Fake_DeletePlane_def Let_def go_defs fake_healthy_def fake_planes_def
        fake_named_def fun_eq_iff)
qed

lemma fake_delete_missing:
  assumes "fake_coherent f" "fake_healthy f" "fake_planes f ident = None"
  shows "\<exists>f'. Fake_DeletePlane ident f = (Returns (Some (NewNotFoundError ident)), f') \<and> fake_healthy f'
           \<and> fake_planes f' = fake_planes f \<and> fake_named f' = fake_named f"
  using assms by (simp add: fake_planes_None Fake_DeletePlane_def Let_def fake_healthy_def)

interpretation fake_store:
  plane_store fake_client fake_coherent fake_planes fake_named fake_healthy
proof unfold_locales
  show "fake_coherent s \<Longrightarrow> GetPlane fake_client ident s = (Returns (Inr p), s') \<Longrightarrow> plane_ID p = ident"
    for s ident p s' by (rule fake.GetPlane_ID [OF fake_coherent_inv])
  show "fake_coherent s \<Longrightarrow> GetPlaneByName fake_client name s = (Returns (Inr p), s') \<Longrightarrow>
      plane_Name p = name" for s name p s'
    by (rule fake.GetPlaneByName_Name [OF fake_coherent_inv])
qed (simp_all add: fake_coherent_ops fake_no_panic fake_coherent_inv fake_create_fresh
    fake_create_taken fake_get_result fake_get_by_name_result fake_update_present
    fake_delete_present fake_delete_missing)

section \<open>Reachable states\<close>

text \<open>
  A test may also write to the exported maps: put a new plane into \<^verbatim>\<open>Planes\<close> under its identifier,
  and enter a plane that is there into \<^verbatim>\<open>PlanesByName\<close> under its name.
\<close>

definition put_plane :: "Plane \<Rightarrow> FakeClient \<Rightarrow> FakeClient" where
  "put_plane p f = f\<lparr>fc_heap := (fc_heap f)(fc_next f \<mapsto> p), fc_next := Suc (fc_next f),
     fc_Planes := (fc_Planes f)(plane_ID p \<mapsto> fc_next f)\<rparr>"

definition put_name :: "addr \<Rightarrow> Plane \<Rightarrow> FakeClient \<Rightarrow> FakeClient" where
  "put_name a p f = f\<lparr>fc_PlanesByName := (fc_PlanesByName f)(plane_Name p \<mapsto> a)\<rparr>"

text \<open>
  The use of a fake client that keeps its two maps together: methods are called one at a time, and
  between two calls the test may inject errors, replace the kubeconfig, whose fields are exported,
  and register a plane in both maps where neither its identifier nor its name is in use.
\<close>

inductive fake_step :: "FakeClient \<Rightarrow> FakeClient \<Rightarrow> bool" where
  create: "Fake_CreatePlane req f = (r, f') \<Longrightarrow> fake_step f f'"
| get: "Fake_GetPlane ident f = (r, f') \<Longrightarrow> fake_step f f'"
| get_by_name: "Fake_GetPlaneByName name f = (r, f') \<Longrightarrow> fake_step f f'"
| update: "Fake_UpdatePlane ident u f = (s, f') \<Longrightarrow> fake_step f f'"
| delete: "Fake_DeletePlane ident f = (s, f') \<Longrightarrow> fake_step f f'"
| kubeconfig: "Fake_GetKubeconfig ident f = (b, f') \<Longrightarrow> fake_step f f'"
| inject: "fake_step f (f\<lparr>fc_CreateErr := e1, fc_GetErr := e2, fc_UpdateErr := e3, fc_DeleteErr := e4,
             fc_KubeconfigErr := e5, fc_Kubeconfig := kc\<rparr>)"
| register: "fc_Planes f (plane_ID p) = None \<Longrightarrow> fc_PlanesByName f (plane_Name p) = None \<Longrightarrow>
             fake_step f (put_name (fc_next f) p (put_plane p f))"

inductive fake_reachable :: "FakeClient \<Rightarrow> bool" where
  start: "fake_reachable Fake_NewClient"
| step: "fake_reachable f \<Longrightarrow> fake_step f f' \<Longrightarrow> fake_reachable f'"

text \<open>
  The states of a fake client into which a test also writes one map alone, in any order and over
  what is there, as several of the repository's tests do: then a plane may be found by its
  identifier and not by its name, or by its name and another one by its identifier. A plane is
  filed under its own identifier or name, as in all of those tests; nil pointers and other keys
  are left out.
\<close>

inductive fake_seeded :: "FakeClient \<Rightarrow> bool" where
  start: "fake_seeded Fake_NewClient"
| step: "fake_seeded f \<Longrightarrow> fake_step f f' \<Longrightarrow> fake_seeded f'"
| put_plane: "fake_seeded f \<Longrightarrow> fake_seeded (put_plane p f)"
| put_name: "fake_seeded f \<Longrightarrow> fc_heap f a = Some p \<Longrightarrow> fake_seeded (put_name a p f)"

lemma put_plane_inv: "fake_inv f \<Longrightarrow> fake_inv (put_plane p f)"
  by (rule fake_invI)
    (auto simp: put_plane_def fake_inv_next dest: fake_inv_Planes fake_inv_PlanesByName fake_inv_alloc_ne split: if_splits)

lemma put_name_inv: "fake_inv f \<Longrightarrow> fc_heap f a = Some p \<Longrightarrow> fake_inv (put_name a p f)"
  by (rule fake_invI)
    (auto simp: put_name_def fake_inv_next dest: fake_inv_Planes fake_inv_PlanesByName split: if_splits)

lemma put_plane_heap [simp]: "fc_heap (put_plane p f) (fc_next f) = Some p"
  by (simp add: put_plane_def)

lemma fake_step_inv: "fake_step f f' \<Longrightarrow> fake_inv f \<Longrightarrow> fake_inv f'"
proof (induction rule: fake_step.induct)
  case (inject f e1 e2 e3 e4 e5 kc)
  then show ?case by (simp add: fake_inv_def)
next
  case (register f p)
  then show ?case by (intro put_name_inv put_plane_inv) simp_all
qed (metis fake_inv_ops snd_conv)+

lemma fake_seeded_inv: "fake_seeded f \<Longrightarrow> fake_inv f"
  by (induction rule: fake_seeded.induct) (simp_all add: fake_inv_NewClient fake_step_inv put_plane_inv put_name_inv)

lemma register_coherent:
  assumes "fake_coherent f" and "fc_Planes f (plane_ID p) = None" and "fc_PlanesByName f (plane_Name p) = None"
  shows "fake_coherent (put_name (fc_next f) p (put_plane p f))"
proof (rule fake_coherentI)
  show "fake_inv (put_name (fc_next f) p (put_plane p f))"
    using assms(1) by (intro put_name_inv put_plane_inv fake_coherent_inv) simp_all
  fix ident a q
  assume "fc_Planes (put_name (fc_next f) p (put_plane p f)) ident = Some a"
    and "fc_heap (put_name (fc_next f) p (put_plane p f)) a = Some q"
  then show "fc_PlanesByName (put_name (fc_next f) p (put_plane p f)) (plane_Name q) = Some a"
    using fake_coherent_same [OF assms(1), of ident a q] fake_inv_Planes [OF fake_coherent_inv [OF assms(1)], of ident a]
      fake_inv_alloc_ne [OF fake_coherent_inv [OF assms(1)], of a] assms(3)
    by (auto simp: put_name_def put_plane_def split: if_splits)
qed

lemma fake_step_coherent: "fake_step f f' \<Longrightarrow> fake_coherent f \<Longrightarrow> fake_coherent f'"
proof (induction rule: fake_step.induct)
  case (inject f e1 e2 e3 e4 e5 kc)
  then show ?case by (simp add: fake_coherent_def fake_inv_def)
next
  case (register f p)
  then show ?case by (simp add: register_coherent)
qed (metis fake_coherent_ops snd_conv)+

lemma fake_reachable_coherent: "fake_reachable f \<Longrightarrow> fake_coherent f"
  by (induction rule: fake_reachable.induct) (simp_all add: fake_coherent_NewClient fake_step_coherent)

lemma fake_one_plane_reachable:
  "fake_reachable (snd (Fake_CreatePlane \<lparr> cr_Name = ''a'', cr_KubernetesVersion = ''v1'' \<rparr> Fake_NewClient))"
  by (rule fake_reachable.step [OF fake_reachable.start], rule fake_step.create) (rule prod.collapse [symmetric])

section \<open>Call sequences\<close>

text \<open>
  C34: Deleting a plane, in any state reached by calls, injected errors and planes that a test files
  under their own identifier or name, in one map alone or in both, unless the test made deletions
  fail: a plane that is found by its identifier is removed from both maps, under its identifier and under its name, nothing else in them changes, and deleting it again
  says that it does not exist, the error the reconciler takes for success; a plane that is not
  found by its identifier gives that error at once and changes neither map.
\<close>
theorem Fake_DeletePlane_forgets:
  assumes "fake_seeded f" and "fc_DeleteErr f = None"
  shows "case fake_planes f ident of
      None \<Rightarrow> (\<exists>f1. Fake_DeletePlane ident f = (Returns (Some (NewNotFoundError ident)), f1)
        \<and> fake_planes f1 = fake_planes f \<and> fake_named f1 = fake_named f)
    | Some p \<Rightarrow> (\<exists>f1 f2. Fake_DeletePlane ident f = (Returns None, f1)
        \<and> fake_planes f1 = (fake_planes f)(ident := None) \<and> fake_named f1 = (fake_named f)(plane_Name p := None)
        \<and> Fake_DeletePlane ident f1 = (Returns (Some (NewNotFoundError ident)), f2))"
proof (cases "fc_Planes f ident")
  case None
  then show ?thesis using assms(2) by (simp add: fake_planes_def [of f] Fake_DeletePlane_def Let_def)
next
  case (Some a)
  then obtain p where "fc_heap f a = Some p" using fake_inv_Planes [OF fake_seeded_inv [OF assms(1)]] by blast
  with Some show ?thesis
    using assms(2) by (simp add: Fake_DeletePlane_def Let_def go_defs fake_planes_def fake_named_def fun_eq_iff)
qed

text \<open>A fake into which a test put one plane, by its identifier alone.\<close>

definition seeded_plane :: Plane where
  "seeded_plane = \<lparr> plane_ID = ''del-id'', plane_Name = ''cp'', plane_Status = ''ready'',
     plane_Endpoint = \<lparr> ep_Host = ''fake.noplane.io'', ep_Port = 6443 \<rparr>, plane_KubernetesVersion = ''v1.29.2'' \<rparr>"

theorem Fake_DeletePlane_forgets_witness:
  "\<exists>f1 f2. Fake_DeletePlane ''del-id'' (put_plane seeded_plane Fake_NewClient) = (Returns None, f1)
     \<and> fake_planes f1 ''del-id'' = None \<and> fake_named f1 ''cp'' = None
     \<and> Fake_DeletePlane ''del-id'' f1 = (Returns (Some (NewNotFoundError ''del-id'')), f2)"
proof -
  let ?f = "put_plane seeded_plane Fake_NewClient"
  have s: "fake_seeded ?f" by (intro fake_seeded.put_plane fake_seeded.start)
  have e: "fc_DeleteErr ?f = None" by (simp add: put_plane_def Fake_NewClient_def)
  have "fake_planes ?f ''del-id'' = Some seeded_plane"
    by (simp add: fake_planes_def put_plane_def Fake_NewClient_def seeded_plane_def)
  then show ?thesis
    using Fake_DeletePlane_forgets [OF s e, of "''del-id''"] by (auto simp: seeded_plane_def)
qed

text \<open>
  C35: Creating a plane, in any state reached by calls, injected errors and planes that a test files
  under their own identifier or name, in one map alone or in both, unless the test made creations
  or lookups fail. Under a name that is taken it is a conflict that
  changes neither map, and the lookup by name that follows, the reconciler's adoption, returns
  the plane that has the name. Under a free name it returns a plane of that name and version,
  which both maps then hold, and the lookup by name returns it.
\<close>
theorem Fake_CreatePlane_by_name:
  assumes "fake_seeded f" and "fc_CreateErr f = None" and "fc_GetErr f = None"
  shows "case fake_named f (cr_Name req) of
      Some p \<Rightarrow> (\<exists>f1 f2. Fake_CreatePlane req f = (Returns (Inl (NewConflictError (cr_Name req))), f1)
        \<and> fake_planes f1 = fake_planes f \<and> fake_named f1 = fake_named f
        \<and> Fake_GetPlaneByName (cr_Name req) f1 = (Returns (Inr p), f2))
    | None \<Rightarrow> (\<exists>p f1 f2. Fake_CreatePlane req f = (Returns (Inr p), f1)
        \<and> plane_Name p = cr_Name req \<and> plane_KubernetesVersion p = cr_KubernetesVersion req
        \<and> fake_planes f1 = (fake_planes f)(plane_ID p \<mapsto> p) \<and> fake_named f1 = (fake_named f)(cr_Name req \<mapsto> p)
        \<and> Fake_GetPlaneByName (cr_Name req) f1 = (Returns (Inr p), f2))"
proof (cases "fc_PlanesByName f (cr_Name req)")
  case None
  then have "fake_named f (cr_Name req) = None" by (simp add: fake_named_def)
  with None show ?thesis
    using assms(2,3) fake_views_create [OF fake_seeded_inv [OF assms(1)] refl]
    by (simp add: Fake_CreatePlane_def Fake_GetPlaneByName_def Let_def go_defs)
next
  case (Some a)
  then obtain p where p: "fc_heap f a = Some p" using fake_inv_PlanesByName [OF fake_seeded_inv [OF assms(1)]] by blast
  with Some have "fake_named f (cr_Name req) = Some p" by (simp add: fake_named_def)
  with Some p show ?thesis
    using assms(2,3) by (simp add: Fake_CreatePlane_def Fake_GetPlaneByName_def Let_def go_defs)
qed

text \<open>Two creations and the deletion of the second plane leave the first one under its name only.\<close>

definition one_name_left :: FakeClient where
  "one_name_left = snd (Fake_DeletePlane ''fake-np-id'' (snd (Fake_CreatePlane \<lparr> cr_Name = ''b'', cr_KubernetesVersion = ''v1'' \<rparr>
     (snd (Fake_CreatePlane \<lparr> cr_Name = ''a'', cr_KubernetesVersion = ''v1'' \<rparr> Fake_NewClient)))))"

lemma one_name_left_seeded: "fake_seeded one_name_left"
proof -
  have call: "fake_step f (snd (Fake_CreatePlane req f))" "fake_step f (snd (Fake_DeletePlane ident f))" for f req ident
    by (rule fake_step.create, rule prod.collapse [symmetric], rule fake_step.delete, rule prod.collapse [symmetric])
  show ?thesis unfolding one_name_left_def by (intro fake_seeded.step [OF _ call(2)] fake_seeded.step [OF _ call(1)] fake_seeded.start)
qed

theorem Fake_CreatePlane_by_name_witness:
  "\<exists>p f1 f2. Fake_CreatePlane \<lparr> cr_Name = ''a'', cr_KubernetesVersion = ''v2'' \<rparr> one_name_left
       = (Returns (Inl (NewConflictError ''a'')), f1)
     \<and> Fake_GetPlaneByName ''a'' f1 = (Returns (Inr p), f2) \<and> plane_KubernetesVersion p = ''v1''"
proof -
  have s: "fc_CreateErr one_name_left = None" "fc_GetErr one_name_left = None"
    "\<exists>p. fake_named one_name_left ''a'' = Some p \<and> plane_KubernetesVersion p = ''v1''"
    by (simp_all add: one_name_left_def Fake_DeletePlane_def Fake_CreatePlane_def Fake_NewClient_def Let_def go_defs fake_named_def)
  then show ?thesis
    using Fake_CreatePlane_by_name [OF one_name_left_seeded, of "\<lparr> cr_Name = ''a'', cr_KubernetesVersion = ''v2'' \<rparr>"] by auto
qed

text \<open>
  C36: Upgrades are seen through both lookups: after \<open>UpdatePlane\<close> with a version, the plane found
  by its identifier and the plane found by its name both run it, because the two maps share the
  object the method writes to.
\<close>
theorem Fake_update_seen_by_both_lookups:
  assumes "fake_reachable f" and "fake_healthy f" and "fake_planes f ident = Some p"
    and "ur_KubernetesVersion u \<noteq> ''''"
  shows "\<exists>f1 f2 f3. Fake_UpdatePlane ident u f = (Returns None, f1)
     \<and> Fake_GetPlane ident f1 = (Returns (Inr (p\<lparr>plane_KubernetesVersion := ur_KubernetesVersion u\<rparr>)), f2)
     \<and> Fake_GetPlaneByName (plane_Name p) f1 =
         (Returns (Inr (p\<lparr>plane_KubernetesVersion := ur_KubernetesVersion u\<rparr>)), f3)"
  using fake_store.update_then_lookups [of f ident p u, OF fake_reachable_coherent] assms by simp

theorem Fake_update_seen_by_both_lookups_witness:
  "\<exists>p f1 f2. Fake_UpdatePlane ''fake-np-id'' \<lparr> ur_KubernetesVersion = ''v2'' \<rparr>
       (snd (Fake_CreatePlane \<lparr> cr_Name = ''a'', cr_KubernetesVersion = ''v1'' \<rparr> Fake_NewClient)) = (Returns None, f1)
     \<and> Fake_GetPlaneByName (plane_Name p) f1 = (Returns (Inr (p\<lparr>plane_KubernetesVersion := ''v2''\<rparr>)), f2)"
proof -
  let ?f = "snd (Fake_CreatePlane \<lparr> cr_Name = ''a'', cr_KubernetesVersion = ''v1'' \<rparr> Fake_NewClient)"
  obtain p where p: "fake_planes ?f ''fake-np-id'' = Some p"
    by (simp add: fake_planes_def Fake_CreatePlane_def Fake_NewClient_def Let_def)
  have "fake_healthy ?f" by (simp add: fake_healthy_def Fake_CreatePlane_def Fake_NewClient_def Let_def)
  then show ?thesis
    using Fake_update_seen_by_both_lookups [OF fake_one_plane_reachable _ p, of "\<lparr> ur_KubernetesVersion = ''v2'' \<rparr>"]
    by auto
qed

end
