(* ===== verification/Mem_Kube.thy ===== *)
theory Mem_Kube
  imports Controller Fake_Client
begin

text \<open>
  A small in-memory API server and helper library, as the Kubernetes documentation describes
  them: they show that the hypotheses the theorems put on their parameters can be met, and give
  the concrete worlds in which the theorems are applied. An update of an object leaves its
  status alone and a status update only changes the status (the status subresource); an object
  marked for deletion disappears when its last finalizer is removed.
\<close>

record MemKube =
  mk_ncps :: "NamespacedName \<rightharpoonup> NoPlaneControlPlane"
  mk_secrets :: "NamespacedName \<rightharpoonup> Secret"
  mk_cluster :: "Cluster option"

definition mk_notfound :: error where
  "mk_notfound = ForeignError ''NotFound''"

definition meta_key :: "ObjectMeta \<Rightarrow> NamespacedName" where
  "meta_key om = \<lparr> nn_Namespace = om_Namespace om, nn_Name = om_Name om \<rparr>"

text \<open>The object stored under a name; one filed under a name that is not its own does not exist.\<close>

definition mem_view :: "MemKube \<Rightarrow> NamespacedName \<rightharpoonup> NoPlaneControlPlane" where
  "mem_view k nn = (case mk_ncps k nn of
     None \<Rightarrow> None | Some n \<Rightarrow> if meta_key (ncp_ObjectMeta n) = nn then Some n else None)"

definition mem_GetNCP :: "NamespacedName \<Rightarrow> MemKube \<Rightarrow> (error + NoPlaneControlPlane) \<times> MemKube" where
  "mem_GetNCP nn k = (case mem_view k nn of None \<Rightarrow> Inl mk_notfound | Some n \<Rightarrow> Inr n, k)"

definition mem_UpdateNCP :: "NoPlaneControlPlane \<Rightarrow> MemKube \<Rightarrow> (error + NoPlaneControlPlane) \<times> MemKube" where
  "mem_UpdateNCP n k =
     (let key = meta_key (ncp_ObjectMeta n) in
      case mem_view k key of
        None \<Rightarrow> (Inl mk_notfound, k)
      | Some old \<Rightarrow>
          let new = n\<lparr>ncp_Status := ncp_Status old\<rparr> in
          (Inr new, k\<lparr>mk_ncps := (mk_ncps k)(key :=
             (if \<not> Time_IsZero (om_DeletionTimestamp (ncp_ObjectMeta new)) \<and> om_Finalizers (ncp_ObjectMeta new) = []
              then None else Some new))\<rparr>))"

definition mem_StatusUpdateNCP :: "NoPlaneControlPlane \<Rightarrow> MemKube \<Rightarrow> (error + NoPlaneControlPlane) \<times> MemKube" where
  "mem_StatusUpdateNCP n k =
     (let key = meta_key (ncp_ObjectMeta n) in
      case mem_view k key of
        None \<Rightarrow> (Inl mk_notfound, k)
      | Some old \<Rightarrow>
          let new = old\<lparr>ncp_Status := ncp_Status n\<rparr> in
          (Inr new, k\<lparr>mk_ncps := (mk_ncps k)(key \<mapsto> new)\<rparr>))"

text \<open>Secrets, in the same way.\<close>

definition mem_secs :: "MemKube \<Rightarrow> NamespacedName \<rightharpoonup> Secret" where
  "mem_secs k nn = (case mk_secrets k nn of
     None \<Rightarrow> None | Some s \<Rightarrow> if meta_key (sec_ObjectMeta s) = nn then Some s else None)"

definition mem_GetSecret :: "NamespacedName \<Rightarrow> MemKube \<Rightarrow> (error + Secret) \<times> MemKube" where
  "mem_GetSecret nn k = (case mem_secs k nn of None \<Rightarrow> Inl mk_notfound | Some s \<Rightarrow> Inr s, k)"

definition mem_CreateSecret :: "Secret \<Rightarrow> MemKube \<Rightarrow> error option \<times> MemKube" where
  "mem_CreateSecret s k =
     (let key = meta_key (sec_ObjectMeta s) in
      case mem_secs k key of
        Some _ \<Rightarrow> (Some (ForeignError ''AlreadyExists''), k)
      | None \<Rightarrow> (None, k\<lparr>mk_secrets := (mk_secrets k)(key \<mapsto> s)\<rparr>))"

definition mem_UpdateSecret :: "Secret \<Rightarrow> MemKube \<Rightarrow> error option \<times> MemKube" where
  "mem_UpdateSecret s k =
     (let key = meta_key (sec_ObjectMeta s) in
      case mem_secs k key of
        None \<Rightarrow> (Some mk_notfound, k)
      | Some _ \<Rightarrow> (None, k\<lparr>mk_secrets := (mk_secrets k)(key \<mapsto> s)\<rparr>))"

definition mem_DeleteSecret :: "Secret \<Rightarrow> MemKube \<Rightarrow> error option \<times> MemKube" where
  "mem_DeleteSecret s k =
     (let key = meta_key (sec_ObjectMeta s) in
      case mem_secs k key of
        None \<Rightarrow> (Some mk_notfound, k)
      | Some _ \<Rightarrow> (None, k\<lparr>mk_secrets := (mk_secrets k)(key := None)\<rparr>))"

definition mem_client :: "MemKube KubeClient" where
  "mem_client = \<lparr> kc_GetNCP = mem_GetNCP, kc_UpdateNCP = mem_UpdateNCP,
     kc_StatusUpdateNCP = mem_StatusUpdateNCP, kc_GetSecret = mem_GetSecret,
     kc_CreateSecret = mem_CreateSecret, kc_UpdateSecret = mem_UpdateSecret,
     kc_DeleteSecret = mem_DeleteSecret \<rparr>"

lemma mem_client_simps [simp]:
  "kc_GetNCP mem_client = mem_GetNCP" "kc_UpdateNCP mem_client = mem_UpdateNCP"
  "kc_StatusUpdateNCP mem_client = mem_StatusUpdateNCP" "kc_GetSecret mem_client = mem_GetSecret"
  "kc_CreateSecret mem_client = mem_CreateSecret" "kc_UpdateSecret mem_client = mem_UpdateSecret"
  "kc_DeleteSecret mem_client = mem_DeleteSecret"
  by (simp_all add: mem_client_def)

definition has_owner :: "ObjectMeta \<Rightarrow> bool" where
  "has_owner om = list_ex (\<lambda>ref. or_Kind ref = ''Cluster'') (om_OwnerReferences om)"

text \<open>
  The helper library. Its key generator always draws the same key, whose encoding is one byte,
  and its kubeconfig loader takes the whole text as the CA data of a single cluster.
\<close>

definition mem_lib :: "(MemKube, bytes) KubeLib" where
  "mem_lib = \<lparr>
     lib_GetOwnerCluster = (\<lambda>om k. (Inr (if has_owner om then mk_cluster k else None), k)),
     lib_IsPaused = (\<lambda>c n. cl_Paused c = Some True \<or> om_Annotations (ncp_ObjectMeta n) ''cluster.x-k8s.io/paused'' \<noteq> None),
     lib_ContainsFinalizer = (\<lambda>n f. List.member (om_Finalizers (ncp_ObjectMeta n)) f),
     lib_AddFinalizer = (\<lambda>n f. n\<lparr>ncp_ObjectMeta := (ncp_ObjectMeta n)\<lparr>om_Finalizers := om_Finalizers (ncp_ObjectMeta n) @ [f]\<rparr>\<rparr>),
     lib_RemoveFinalizer = (\<lambda>n f. n\<lparr>ncp_ObjectMeta := (ncp_ObjectMeta n)\<lparr>om_Finalizers := filter (\<lambda>x. x \<noteq> f) (om_Finalizers (ncp_ObjectMeta n))\<rparr>\<rparr>),
     lib_IsNotFound = (\<lambda>e. e = mk_notfound),
     lib_IgnoreNotFound = (\<lambda>e. if e = mk_notfound then None else Some e),
     lib_NewControllerRef = (\<lambda>c gv kind. \<lparr> or_APIVersion = gv, or_Kind = kind, or_Name = om_Name (cl_ObjectMeta c),
        or_UID = om_UID (cl_ObjectMeta c), or_Controller = Some True, or_BlockOwnerDeletion = Some True \<rparr>),
     lib_Load = (\<lambda>bs. Inr \<lparr> cfg_Clusters = [(''c'', Some \<lparr> kcc_Server = '''', kcc_CertificateAuthorityData = bs \<rparr>)] \<rparr>),
     lib_GenerateKey = (\<lambda>bits k. (Inr ''K'', k)),
     lib_MarshalPKCS1PrivateKey = (\<lambda>key. key),
     lib_ClusterGroupVersion = ''cluster.x-k8s.io/v1beta2'',
     lib_ClusterNameLabel = ''cluster.x-k8s.io/cluster-name'',
     lib_ClusterSecretType = ''cluster.x-k8s.io/secret'' \<rparr>"

lemma mem_lib_simps [simp]:
  "lib_GetOwnerCluster mem_lib om k = (Inr (if has_owner om then mk_cluster k else None), k)"
  "lib_IsPaused mem_lib c n \<longleftrightarrow>
     cl_Paused c = Some True \<or> om_Annotations (ncp_ObjectMeta n) ''cluster.x-k8s.io/paused'' \<noteq> None"
  "lib_ContainsFinalizer mem_lib n f \<longleftrightarrow> f \<in> set (om_Finalizers (ncp_ObjectMeta n))"
  "lib_AddFinalizer mem_lib n f =
     n\<lparr>ncp_ObjectMeta := (ncp_ObjectMeta n)\<lparr>om_Finalizers := om_Finalizers (ncp_ObjectMeta n) @ [f]\<rparr>\<rparr>"
  "lib_RemoveFinalizer mem_lib n f =
     n\<lparr>ncp_ObjectMeta := (ncp_ObjectMeta n)\<lparr>om_Finalizers := filter (\<lambda>x. x \<noteq> f) (om_Finalizers (ncp_ObjectMeta n))\<rparr>\<rparr>"
  "lib_IsNotFound mem_lib e \<longleftrightarrow> e = mk_notfound"
  "lib_IgnoreNotFound mem_lib e = (if e = mk_notfound then None else Some e)"
  "lib_Load mem_lib bs =
     Inr \<lparr> cfg_Clusters = [(''c'', Some \<lparr> kcc_Server = '''', kcc_CertificateAuthorityData = bs \<rparr>)] \<rparr>"
  "lib_GenerateKey mem_lib bits k = (Inr ''K'', k)"
  "lib_MarshalPKCS1PrivateKey mem_lib key = key"
  "lib_ClusterGroupVersion mem_lib = ''cluster.x-k8s.io/v1beta2''"
  "lib_ClusterNameLabel mem_lib = ''cluster.x-k8s.io/cluster-name''"
  "lib_ClusterSecretType mem_lib = ''cluster.x-k8s.io/secret''"
  by (simp_all add: mem_lib_def)

section \<open>Example worlds\<close>

definition ex_cluster :: Cluster where
  "ex_cluster = \<lparr> cl_ObjectMeta = empty_ObjectMeta\<lparr>om_Name := ''c1'', om_Namespace := ''ns''\<rparr>, cl_Paused = Some False \<rparr>"

definition ex_owner :: OwnerReference where
  "ex_owner = \<lparr> or_APIVersion = ''cluster.x-k8s.io/v1beta2'', or_Kind = ''Cluster'', or_Name = ''c1'',
     or_UID = '''', or_Controller = None, or_BlockOwnerDeletion = None \<rparr>"

definition ex_key :: NamespacedName where
  "ex_key = \<lparr> nn_Namespace = ''ns'', nn_Name = ''cp'' \<rparr>"

text \<open>An object as a user creates it: owned by the cluster, no finalizer, empty status.\<close>

definition ex_ncp :: NoPlaneControlPlane where
  "ex_ncp = \<lparr> ncp_TypeMeta = \<lparr> tm_Kind = '''', tm_APIVersion = '''' \<rparr>,
     ncp_ObjectMeta = empty_ObjectMeta\<lparr>om_Name := ''cp'', om_Namespace := ''ns'', om_OwnerReferences := [ex_owner]\<rparr>,
     ncp_Spec = \<lparr> spec_Version = ''v1.29.2'', spec_Replicas = None,
       spec_ControlPlaneEndpoint = \<lparr> ae_Host = '''', ae_Port = 0 \<rparr>,
       spec_CredentialsSecretRef = \<lparr> sr_Name = ''creds'', sr_Namespace = ''ns'' \<rparr>, spec_PlaneID = '''' \<rparr>,
     ncp_Status = \<lparr> st_Ready = False, st_Initialized = False, st_PlaneID = '''', st_Version = '''',
       st_Replicas = None, st_ReadyReplicas = None, st_Selector = '''', st_Conditions = None \<rparr> \<rparr>"

definition with_finalizer :: "NoPlaneControlPlane \<Rightarrow> NoPlaneControlPlane" where
  "with_finalizer n = n\<lparr>ncp_ObjectMeta := (ncp_ObjectMeta n)\<lparr>om_Finalizers := [noplaneFinalizer]\<rparr>\<rparr>"

definition with_plane :: "string \<Rightarrow> NoPlaneControlPlane \<Rightarrow> NoPlaneControlPlane" where
  "with_plane i n = n\<lparr>ncp_Status := (ncp_Status n)\<lparr>st_PlaneID := i\<rparr>\<rparr>"

definition ex_creds :: Secret where
  "ex_creds = empty_Secret\<lparr>sec_ObjectMeta := empty_ObjectMeta\<lparr>om_Name := ''creds'', om_Namespace := ''ns''\<rparr>,
     sec_Data := [''apiKey'' \<mapsto> ''test-key'']\<rparr>"

definition ex_kube :: "NoPlaneControlPlane \<Rightarrow> MemKube" where
  "ex_kube n = \<lparr> mk_ncps = [ex_key \<mapsto> n],
     mk_secrets = [\<lparr> nn_Namespace = ''ns'', nn_Name = ''creds'' \<rparr> \<mapsto> ex_creds],
     mk_cluster = Some ex_cluster \<rparr>"

definition ex_world :: "NoPlaneControlPlane \<Rightarrow> FakeClient \<Rightarrow> (MemKube, FakeClient) world" where
  "ex_world n f = \<lparr> kube = ex_kube n, cloud = f, history = [] \<rparr>"

definition ex_reconciler :: "(MemKube, FakeClient, bytes) NoPlaneControlPlaneReconciler" where
  "ex_reconciler = \<lparr> r_Client = mem_client, r_Lib = mem_lib, r_ClientFactory = (\<lambda>_. Inr fake_client) \<rparr>"

lemma ex_reconciler_simps [simp]:
  "r_Client ex_reconciler = mem_client" "r_Lib ex_reconciler = mem_lib"
  "r_ClientFactory ex_reconciler key = Inr fake_client"
  by (simp_all add: ex_reconciler_def)

lemmas mem_op_defs =
  mem_view_def mem_GetNCP_def mem_UpdateNCP_def mem_StatusUpdateNCP_def mem_GetSecret_def mem_CreateSecret_def
  mem_UpdateSecret_def mem_DeleteSecret_def mem_secs_def

lemmas ex_defs =
  ex_cluster_def ex_owner_def ex_key_def ex_ncp_def with_finalizer_def with_plane_def ex_creds_def
  ex_kube_def ex_world_def empty_ObjectMeta_def empty_Secret_def meta_key_def has_owner_def

lemma ex_keys [simp]:
  "meta_key (ncp_ObjectMeta ex_ncp) = ex_key"
  "meta_key (ncp_ObjectMeta (with_finalizer n)) = meta_key (ncp_ObjectMeta n)"
  "meta_key (ncp_ObjectMeta (with_plane i n)) = meta_key (ncp_ObjectMeta n)"
  by (simp_all add: ex_defs)

lemma ex_get [simp]:
  "meta_key (ncp_ObjectMeta n) = ex_key \<Longrightarrow> mem_GetNCP ex_key (kube (ex_world n f)) = (Inr n, ex_kube n)"
  by (simp add: mem_GetNCP_def mem_view_def ex_world_def ex_kube_def)

text \<open>Everything needed to run the reconciler on an example world by rewriting.\<close>

lemmas run_simps =
  calls_def ex_defs mem_op_defs kube_op_defs api_op_defs go_bind_kube go_bind_cloud go_bind_assoc Let_def
  Reconcile_def reconcileWithClient_def getAPIKey_def reconcileNormal_def publishPlane_def resolvePlaneID_def
  reconcileKubeconfig_def reconcileCASecret_def fetch_ca_secret_def store_ca_secret_def ca_secret_def extract_ca_data_def
  syncEndpoint_def desired_endpoint_def final_status_def reconcileDelete_def removeFinalizer_def
  go_return_def Time_IsZero_def data_len_def fake_op_defs Fake_NewClient_def noplaneFinalizer_def

end
