(* ===== verification/Controller_Safety.thy ===== *)
theory Controller_Safety
  imports Mem_Kube
begin

text \<open>
  What one invocation of the reconciler does and does not do, for every Kubernetes client, every
  helper library and every noplane.io client: which calls it makes, in which order, and what its
  result says. Nothing here assumes that the API server or the hosted service behaves, so the
  theorems also cover failures and other actors changing the cluster between two calls.
\<close>

section \<open>Calls of each function\<close>

lemma emits_kube_ops [emits_intros]:
  "(\<And>x. P (EvGetNCP nn x)) \<Longrightarrow> emits P (Get_NCP r nn)"
  "(\<And>x. P (EvUpdateNCP n x)) \<Longrightarrow> emits P (Update_NCP r n)"
  "(\<And>x. P (EvStatusUpdateNCP n x)) \<Longrightarrow> emits P (StatusUpdate_NCP r n)"
  "(\<And>x. P (EvGetSecret nn x)) \<Longrightarrow> emits P (Get_Secret r nn)"
  "(\<And>x. P (EvCreateSecret s x)) \<Longrightarrow> emits P (Create_Secret r s)"
  "(\<And>x. P (EvUpdateSecret s x)) \<Longrightarrow> emits P (Update_Secret r s)"
  "(\<And>x. P (EvDeleteSecret s x)) \<Longrightarrow> emits P (Delete_Secret r s)"
  "(\<And>x. P (EvGetOwnerCluster om x)) \<Longrightarrow> emits P (GetOwnerCluster r om)"
  "P EvGenerateKey \<Longrightarrow> emits P (GenerateKey r bits)"
  by (simp_all add: kube_op_defs emits_kube_call)

lemma emits_api_ops [emits_intros]:
  "(\<And>x. P (EvCreatePlane req x)) \<Longrightarrow> emits P (api_CreatePlane api req)"
  "(\<And>x. P (EvGetPlane ident x)) \<Longrightarrow> emits P (api_GetPlane api ident)"
  "(\<And>x. P (EvGetPlaneByName name x)) \<Longrightarrow> emits P (api_GetPlaneByName api name)"
  "(\<And>x. P (EvUpdatePlane ident u x)) \<Longrightarrow> emits P (api_UpdatePlane api ident u)"
  "(\<And>x. P (EvDeletePlane ident x)) \<Longrightarrow> emits P (api_DeletePlane api ident)"
  "(\<And>x. P (EvGetKubeconfig ident x)) \<Longrightarrow> emits P (api_GetKubeconfig api ident)"
  by (simp_all add: api_op_defs emits_cloud_call)

lemma emits_getAPIKey [emits_intros]:
  assumes "\<And>nn x. P (EvGetSecret nn x)"
  shows "emits P (getAPIKey r ref)"
  unfolding getAPIKey_def by (intro emits_intros assms)

lemma emits_resolvePlaneID [emits_intros]:
  assumes "spec_PlaneID (ncp_Spec ncp) = '''' \<Longrightarrow> st_PlaneID (ncp_Status ncp) = '''' \<Longrightarrow>
             (\<forall>req x. P (EvCreatePlane req x)) \<and> (\<forall>name x. P (EvGetPlaneByName name x))
             \<and> (\<forall>i x. P (EvStatusUpdateNCP (set_status (\<lambda>st. st\<lparr>st_PlaneID := i\<rparr>) ncp) x))"
  shows "emits P (resolvePlaneID r ncp api)"
  unfolding resolvePlaneID_def using assms by (intro emits_intros) auto

lemma emits_reconcileKubeconfig [emits_intros]:
  assumes "\<And>x. P (EvGetKubeconfig (st_PlaneID (ncp_Status ncp)) x)" and "\<And>nn x. P (EvGetSecret nn x)"
    and "\<And>s x. P (EvCreateSecret s x)" and "\<And>s x. P (EvUpdateSecret s x)"
  shows "emits P (reconcileKubeconfig r cluster ncp api)"
  unfolding reconcileKubeconfig_def by (intro emits_intros assms)

lemma emits_extract_ca_data [emits_intros]: "emits P (extract_ca_data cfg)"
  unfolding extract_ca_data_def by (intro emits_intros)

lemma extract_ca_data_nonempty: "extract_ca_data cfg w = (Returns (Inr ca), w') \<Longrightarrow> ca \<noteq> []"
  by (auto simp: extract_ca_data_def go_defs Let_def split: list.splits option.splits if_splits)

lemma emits_store_ca_secret [emits_intros]:
  assumes "\<And>nn x. P (EvGetSecret nn x)" and "\<And>x. P (EvCreateSecret secret x)"
    and "\<And>s x. sec_Type s = sec_Type secret \<Longrightarrow> sec_Data s = sec_Data secret \<Longrightarrow> P (EvUpdateSecret s x)"
    and "\<And>s x. sec_Type s \<noteq> sec_Type secret \<Longrightarrow> P (EvDeleteSecret s x)"
  shows "emits P (store_ca_secret r nn existing secret)"
  unfolding store_ca_secret_def by (intro emits_intros assms) simp_all

text \<open>
  What the bootstrap provider needs of the CA secret: Cluster API's secret type, certificate data
  and a private key, both not empty.
\<close>

definition usable_ca_secret :: "string \<Rightarrow> Secret \<Rightarrow> bool" where
  "usable_ca_secret ty s \<longleftrightarrow> sec_Type s = ty \<and> 0 < data_len s ''tls.crt'' \<and> 0 < data_len s ''tls.key''"

lemma usable_ca_secretI:
  "sec_Type s = ty \<Longrightarrow> sec_Data s = [''tls.crt'' \<mapsto> ca, ''tls.key'' \<mapsto> key] \<Longrightarrow> ca \<noteq> [] \<Longrightarrow> key \<noteq> [] \<Longrightarrow>
     usable_ca_secret ty s"
  by (simp add: usable_ca_secret_def data_len_def)

lemma emits_fetch_ca_secret [emits_intros]:
  assumes "\<And>x. P (EvGetKubeconfig (st_PlaneID (ncp_Status ncp)) x)" and "P EvGenerateKey"
  shows "emits P (fetch_ca_secret r cluster ncp api)"
  unfolding fetch_ca_secret_def by (intro emits_intros assms)

lemma fetch_ca_secret_usable:
  assumes "fetch_ca_secret r cluster ncp api w = (Returns (Inr s), w')"
  shows "usable_ca_secret (lib_ClusterSecretType (r_Lib r)) s"
  using assms unfolding fetch_ca_secret_def extract_ca_data_def Let_def
  by (auto simp: go_bind_def go_return_def go_panic_def ca_secret_def
      split: prod.splits outcome.splits sum.splits list.splits option.splits if_splits intro!: usable_ca_secretI)

lemma emits_reconcileCASecret [emits_intros]:
  assumes "\<And>x. P (EvGetKubeconfig (st_PlaneID (ncp_Status ncp)) x)" and "\<And>nn x. P (EvGetSecret nn x)"
    and "P EvGenerateKey"
    and "\<And>s x. usable_ca_secret (lib_ClusterSecretType (r_Lib r)) s \<Longrightarrow> P (EvCreateSecret s x)"
    and "\<And>s x. usable_ca_secret (lib_ClusterSecretType (r_Lib r)) s \<Longrightarrow> P (EvUpdateSecret s x)"
    and "\<And>s x. sec_Type s \<noteq> lib_ClusterSecretType (r_Lib r) \<Longrightarrow> P (EvDeleteSecret s x)"
  shows "emits P (reconcileCASecret r cluster ncp api)"
  unfolding reconcileCASecret_def Let_def
  by (intro emits_intros)
    (auto simp: assms(1-3) dest!: fetch_ca_secret_usable intro!: assms(4-6)
      simp: usable_ca_secret_def data_len_def)

lemma emits_syncEndpoint [emits_intros]:
  assumes "\<And>x. P (EvUpdateNCP (ncp\<lparr>ncp_Spec := (ncp_Spec ncp)\<lparr>spec_ControlPlaneEndpoint := desired_endpoint plane\<rparr>\<rparr>) x)"
  shows "emits P (syncEndpoint r ncp plane)"
  unfolding syncEndpoint_def by (intro emits_intros assms)

lemma emits_removeFinalizer [emits_intros]:
  assumes "\<And>x. P (EvUpdateNCP (lib_RemoveFinalizer (r_Lib r) ncp noplaneFinalizer) x)"
  shows "emits P (removeFinalizer r ncp)"
  unfolding removeFinalizer_def by (intro emits_intros assms)

lemma emits_reconcileDelete [emits_intros]:
  assumes "st_PlaneID (ncp_Status ncp) \<noteq> '''' \<Longrightarrow> \<forall>x. P (EvDeletePlane (st_PlaneID (ncp_Status ncp)) x)"
    and "\<And>x. P (EvUpdateNCP (lib_RemoveFinalizer (r_Lib r) ncp noplaneFinalizer) x)"
  shows "emits P (reconcileDelete r ncp api)"
  unfolding reconcileDelete_def using assms(1) by (intro emits_intros assms(2)) auto

text \<open>
  Every status the reconciler writes is either the one it was given with the plane ID filled in,
  or one with \<open>Initialized\<close> set.
\<close>

lemma emits_reconcileNormal [emits_intros]:
  assumes "spec_PlaneID (ncp_Spec ncp) = '''' \<Longrightarrow> st_PlaneID (ncp_Status ncp) = '''' \<Longrightarrow>
             (\<forall>req x. P (EvCreatePlane req x)) \<and> (\<forall>name x. P (EvGetPlaneByName name x))
             \<and> (\<forall>i x. P (EvStatusUpdateNCP (set_status (\<lambda>st. st\<lparr>st_PlaneID := i\<rparr>) ncp) x))"
    and "\<And>i x. P (EvGetPlane i x)" and "\<And>i u x. P (EvUpdatePlane i u x)"
    and "\<And>i x. P (EvGetKubeconfig i x)" and "\<And>nn x. P (EvGetSecret nn x)"
    and "\<And>n x. P (EvUpdateNCP n x)" and "P EvGenerateKey"
    and "\<And>s x. P (EvCreateSecret s x)" and "\<And>s x. P (EvUpdateSecret s x)" and "\<And>s x. P (EvDeleteSecret s x)"
    and "\<And>n x. st_Initialized (ncp_Status n) \<Longrightarrow> st_Ready (ncp_Status n) \<Longrightarrow> P (EvStatusUpdateNCP n x)"
  shows "emits P (reconcileNormal r cluster ncp api)"
  unfolding reconcileNormal_def publishPlane_def
  by (intro emits_intros assms(1-10)) (simp_all add: assms(11) final_status_def)

section \<open>Entry paths\<close>

text \<open>The function from the credentials on, in terms of its two branches.\<close>

lemma emits_reconcileWithClient [emits_intros]:
  assumes "\<And>nn x. P (EvGetSecret nn x)"
    and "\<And>api. \<not> Time_IsZero (om_DeletionTimestamp (ncp_ObjectMeta ncp)) \<Longrightarrow> emits P (reconcileDelete r ncp api)"
    and "\<And>api. Time_IsZero (om_DeletionTimestamp (ncp_ObjectMeta ncp)) \<Longrightarrow> emits P (reconcileNormal r cluster ncp api)"
  shows "emits P (reconcileWithClient r cluster ncp)"
  unfolding reconcileWithClient_def by (intro emits_intros assms) simp_all

lemma emits_Reconcile:
  assumes "\<And>nn x. P (EvGetNCP nn x)" and "\<And>om x. P (EvGetOwnerCluster om x)"
    and "\<And>ncp x. \<not> lib_ContainsFinalizer (r_Lib r) ncp noplaneFinalizer \<Longrightarrow>
           P (EvUpdateNCP (lib_AddFinalizer (r_Lib r) ncp noplaneFinalizer) x)"
    and "\<And>cluster ncp. lib_ContainsFinalizer (r_Lib r) ncp noplaneFinalizer \<Longrightarrow>
           emits P (reconcileWithClient r cluster ncp)"
  shows "emits P (Reconcile r nn)"
  unfolding Reconcile_def by (intro emits_intros assms) simp_all

section \<open>The paths through the entry point\<close>

lemma Reconcile_cases:
  obtains
    (not_read) err w1 where
      "kc_GetNCP (r_Client r) nn (kube w) = (Inl err, kube w1)"
      "Reconcile r nn w = (Returns (no_requeue, lib_IgnoreNotFound (r_Lib r) err), w1)"
      "cloud w1 = cloud w" "history w1 = history w @ [EvGetNCP nn (Inl err)]"
  | (no_owner) ncp w1 owner err where
      "fst (kc_GetNCP (r_Client r) nn (kube w)) = Inr ncp"
      "Reconcile r nn w = (Returns (no_requeue, err), w1)"
      "cloud w1 = cloud w"
      "history w1 = history w @ [EvGetNCP nn (Inr ncp), EvGetOwnerCluster (ncp_ObjectMeta ncp) owner]"
      "owner = Inr None \<and> err = None \<or> (\<exists>e. owner = Inl e \<and> err = Some e)
       \<or> (\<exists>c. owner = Inr (Some c) \<and> lib_IsPaused (r_Lib r) c ncp \<and> err = None)"
  | (add_finalizer) ncp cluster w1 res where
      "fst (kc_GetNCP (r_Client r) nn (kube w)) = Inr ncp"
      "\<not> lib_IsPaused (r_Lib r) cluster ncp" "\<not> lib_ContainsFinalizer (r_Lib r) ncp noplaneFinalizer"
      "Reconcile r nn w = (Returns (no_requeue, case res of Inl err \<Rightarrow> Some err | Inr _ \<Rightarrow> None), w1)"
      "cloud w1 = cloud w"
      "history w1 = history w @ [EvGetNCP nn (Inr ncp), EvGetOwnerCluster (ncp_ObjectMeta ncp) (Inr (Some cluster)),
         EvUpdateNCP (lib_AddFinalizer (r_Lib r) ncp noplaneFinalizer) res]"
  | (with_client) ncp cluster w1 where
      "fst (kc_GetNCP (r_Client r) nn (kube w)) = Inr ncp"
      "\<not> lib_IsPaused (r_Lib r) cluster ncp" "lib_ContainsFinalizer (r_Lib r) ncp noplaneFinalizer"
      "Reconcile r nn w = reconcileWithClient r cluster ncp w1"
      "cloud w1 = cloud w"
      "history w1 = history w @ [EvGetNCP nn (Inr ncp), EvGetOwnerCluster (ncp_ObjectMeta ncp) (Inr (Some cluster))]"
proof -
  obtain got k1 where got: "kc_GetNCP (r_Client r) nn (kube w) = (got, k1)" by fastforce
  show thesis
  proof (cases got)
    case (Inl err)
    show thesis
      by (rule not_read [of err "w\<lparr>kube := k1, history := history w @ [EvGetNCP nn (Inl err)]\<rparr>"])
        (use got Inl in \<open>simp_all add: Reconcile_def Get_NCP_def go_bind_kube go_return_def\<close>)
  next
    case (Inr ncp)
    obtain owner k2 where owner: "lib_GetOwnerCluster (r_Lib r) (ncp_ObjectMeta ncp) k1 = (owner, k2)" by fastforce
    let ?w2 = "w\<lparr>kube := k2,
      history := history w @ [EvGetNCP nn (Inr ncp), EvGetOwnerCluster (ncp_ObjectMeta ncp) owner]\<rparr>"
    note unf = Reconcile_def Get_NCP_def GetOwnerCluster_def go_bind_kube go_return_def
    consider (none) "owner = Inr None" | (err) e where "owner = Inl e"
      | (paused) c where "owner = Inr (Some c)" "lib_IsPaused (r_Lib r) c ncp"
      | (fin) c where "owner = Inr (Some c)" "\<not> lib_IsPaused (r_Lib r) c ncp"
          "\<not> lib_ContainsFinalizer (r_Lib r) ncp noplaneFinalizer"
      | (go) c where "owner = Inr (Some c)" "\<not> lib_IsPaused (r_Lib r) c ncp"
          "lib_ContainsFinalizer (r_Lib r) ncp noplaneFinalizer"
      by (metis obj_sumE option.exhaust)
    then show thesis
    proof cases
      case none
      show thesis by (rule no_owner [of ncp None ?w2 owner]) (use got Inr owner none in \<open>simp_all add: unf\<close>)
    next
      case (err e)
      show thesis by (rule no_owner [of ncp "Some e" ?w2 owner]) (use got Inr owner err in \<open>simp_all add: unf\<close>)
    next
      case (paused c)
      show thesis by (rule no_owner [of ncp None ?w2 owner]) (use got Inr owner paused in \<open>simp_all add: unf\<close>)
    next
      case (fin c)
      obtain res k3 where res:
        "kc_UpdateNCP (r_Client r) (lib_AddFinalizer (r_Lib r) ncp noplaneFinalizer) k2 = (res, k3)" by fastforce
      show thesis
        by (rule add_finalizer [of ncp c res "w\<lparr>kube := k3, history := history w @ [EvGetNCP nn (Inr ncp),
              EvGetOwnerCluster (ncp_ObjectMeta ncp) (Inr (Some c)),
              EvUpdateNCP (lib_AddFinalizer (r_Lib r) ncp noplaneFinalizer) res]\<rparr>"])
          (use got Inr owner fin res in \<open>simp_all add: unf Update_NCP_def\<close>)
    next
      case (go c)
      show thesis
        by (rule with_client [of ncp c ?w2]) (use got Inr owner go in \<open>simp_all add: unf\<close>)
    qed
  qed
qed

definition creds_key :: "NoPlaneControlPlane \<Rightarrow> NamespacedName" where
  "creds_key ncp = \<lparr> nn_Namespace = sr_Namespace (spec_CredentialsSecretRef (ncp_Spec ncp)),
                     nn_Name = sr_Name (spec_CredentialsSecretRef (ncp_Spec ncp)) \<rparr>"

lemma reconcileWithClient_cases:
  obtains
    (no_client) w1 res e where
      "reconcileWithClient r cluster ncp w = (Returns (no_requeue, Some e), w1)"
      "cloud w1 = cloud w" "history w1 = history w @ [EvGetSecret (creds_key ncp) res]"
  | (client) w1 s key api where
      "sec_Data s ''apiKey'' = Some key" "r_ClientFactory r key = Inr api"
      "cloud w1 = cloud w" "history w1 = history w @ [EvGetSecret (creds_key ncp) (Inr s)]"
      "reconcileWithClient r cluster ncp w =
         (if Time_IsZero (om_DeletionTimestamp (ncp_ObjectMeta ncp))
          then reconcileNormal r cluster ncp api w1 else reconcileDelete r ncp api w1)"
proof -
  let ?ref = "spec_CredentialsSecretRef (ncp_Spec ncp)"
  obtain res k1 where res: "kc_GetSecret (r_Client r) (creds_key ncp) (kube w) = (res, k1)" by fastforce
  let ?w1 = "w\<lparr>kube := k1, history := history w @ [EvGetSecret (creds_key ncp) res]\<rparr>"
  note unf = reconcileWithClient_def getAPIKey_def Get_Secret_def go_bind_assoc go_bind_kube
  have fin: ?thesis if "fst (getAPIKey r ?ref w) = Returns (Inl e)" for e
    by (rule no_client [of "Wrapf ''fetching API key: %w'' [] e" ?w1 res])
      (use that res in \<open>auto simp: unf creds_key_def go_return_def split: sum.splits option.splits\<close>)
  show thesis
  proof (cases "\<exists>s key. res = Inr s \<and> sec_Data s ''apiKey'' = Some key")
    case False
    then have "\<exists>e. fst (getAPIKey r ?ref w) = Returns (Inl e)"
      using res by (auto simp: unf creds_key_def go_return_def split: sum.splits option.splits)
    then show thesis using fin by blast
  next
    case True
    then obtain s key where s: "res = Inr s" "sec_Data s ''apiKey'' = Some key" by blast
    have run: "reconcileWithClient r cluster ncp w =
        (case r_ClientFactory r key of
           Inl err \<Rightarrow> go_return (no_requeue, Some (Wrapf ''creating API client: %w'' [] err))
         | Inr api \<Rightarrow>
             if \<not> Time_IsZero (om_DeletionTimestamp (ncp_ObjectMeta ncp))
             then reconcileDelete r ncp api else reconcileNormal r cluster ncp api) ?w1"
      using res s by (simp add: unf creds_key_def)
    show thesis
    proof (cases "r_ClientFactory r key")
      case (Inl err)
      show thesis
        by (rule no_client [of "Wrapf ''creating API client: %w'' [] err" ?w1 res])
          (use run Inl in \<open>simp_all add: go_return_def\<close>)
    next
      case (Inr api)
      show thesis
        by (rule client [of s key api ?w1]) (use run Inr s in simp_all)
    qed
  qed
qed

lemma emits_anything:
  "emits (\<lambda>_. True) (reconcileNormal r cluster ncp api)" "emits (\<lambda>_. True) (reconcileDelete r ncp api)"
  "emits (\<lambda>_. True) (reconcileWithClient r cluster ncp)" "emits (\<lambda>_. True) (Reconcile r nn)"
  by (intro emits_intros emits_Reconcile TrueI impI conjI allI)+

text \<open>
  The calls of a run, path by path: three fixed openings, and behind them the calls of
  \<^const>\<open>reconcileNormal\<close> or \<^const>\<open>reconcileDelete\<close>.
\<close>

lemma Reconcile_calls_cases:
  obtains
    (quiet) "Ball (set (calls (Reconcile r nn) w)) (\<lambda>e. \<not> is_cloud_call e \<and> \<not> is_kube_write e)"
      "cloud (snd (Reconcile r nn w)) = cloud w"
  | (add_finalizer) ncp cluster res where
      "fst (kc_GetNCP (r_Client r) nn (kube w)) = Inr ncp"
      "\<not> lib_IsPaused (r_Lib r) cluster ncp" "\<not> lib_ContainsFinalizer (r_Lib r) ncp noplaneFinalizer"
      "calls (Reconcile r nn) w = [EvGetNCP nn (Inr ncp), EvGetOwnerCluster (ncp_ObjectMeta ncp) (Inr (Some cluster)),
         EvUpdateNCP (lib_AddFinalizer (r_Lib r) ncp noplaneFinalizer) res]"
      "cloud (snd (Reconcile r nn w)) = cloud w"
  | (client) ncp cluster s key api w1 where
      "fst (kc_GetNCP (r_Client r) nn (kube w)) = Inr ncp"
      "\<not> lib_IsPaused (r_Lib r) cluster ncp" "lib_ContainsFinalizer (r_Lib r) ncp noplaneFinalizer"
      "sec_Data s ''apiKey'' = Some key" "r_ClientFactory r key = Inr api" "cloud w1 = cloud w"
      "Reconcile r nn w =
         (if Time_IsZero (om_DeletionTimestamp (ncp_ObjectMeta ncp))
          then reconcileNormal r cluster ncp api w1 else reconcileDelete r ncp api w1)"
      "calls (Reconcile r nn) w = [EvGetNCP nn (Inr ncp),
           EvGetOwnerCluster (ncp_ObjectMeta ncp) (Inr (Some cluster)), EvGetSecret (creds_key ncp) (Inr s)]
         @ calls (if Time_IsZero (om_DeletionTimestamp (ncp_ObjectMeta ncp))
                  then reconcileNormal r cluster ncp api else reconcileDelete r ncp api) w1"
proof (cases rule: Reconcile_cases [of r nn w])
  case (not_read err w1)
  then show thesis using quiet by (auto simp: calls_def)
next
  case (no_owner ncp w1 owner err)
  then show thesis using quiet by (auto simp: calls_def)
next
  case (add_finalizer ncp cluster w1 res)
  then show thesis using that(2) [of ncp cluster res] by (simp add: calls_def)
next
  case (with_client ncp cluster w1)
  show thesis
  proof (cases rule: reconcileWithClient_cases [of r cluster ncp w1])
    case (no_client w2 res e)
    then show thesis using quiet with_client by (auto simp: calls_def)
  next
    case (client w2 s key api)
    let ?m = "if Time_IsZero (om_DeletionTimestamp (ncp_ObjectMeta ncp))
              then reconcileNormal r cluster ncp api else reconcileDelete r ncp api"
    have "emits (\<lambda>_. True) ?m" by (simp add: emits_anything)
    from yields_history [OF this [unfolded emits_yields], of w2]
    have "calls (Reconcile r nn) w = [EvGetNCP nn (Inr ncp),
        EvGetOwnerCluster (ncp_ObjectMeta ncp) (Inr (Some cluster)), EvGetSecret (creds_key ncp) (Inr s)] @ calls ?m w2"
      using with_client client by (intro calls_eqI) (simp split: if_splits)
    then show thesis using that(3) [of ncp cluster s key api w2] with_client client by simp
  qed
qed

section \<open>Guards\<close>

text \<open>
  C7: The hosted service is only contacted once every guard has been passed. If a run makes any
  call to the noplane.io client, then it first read the object, found its owner cluster, saw
  neither of them paused and the finalizer in place, read the credentials secret and built a
  client from its apiKey, in that order and with no other call in between.
\<close>
theorem Reconcile_cloud_calls_guarded:
  assumes "e \<in> set (calls (Reconcile r nn) w)" and "is_cloud_call e"
  shows "\<exists>ncp cluster s key api rest.
    calls (Reconcile r nn) w = [EvGetNCP nn (Inr ncp),
      EvGetOwnerCluster (ncp_ObjectMeta ncp) (Inr (Some cluster)), EvGetSecret (creds_key ncp) (Inr s)] @ rest
    \<and> e \<in> set rest
    \<and> \<not> lib_IsPaused (r_Lib r) cluster ncp \<and> lib_ContainsFinalizer (r_Lib r) ncp noplaneFinalizer
    \<and> sec_Data s ''apiKey'' = Some key \<and> r_ClientFactory r key = Inr api"
proof (cases rule: Reconcile_calls_cases [of r nn w])
  case quiet
  then show ?thesis using assms by blast
next
  case (add_finalizer ncp cluster res)
  then show ?thesis using assms by auto
next
  case (client ncp cluster s key api w1)
  then show ?thesis using assms by fastforce
qed

theorem Reconcile_cloud_calls_guarded_witness:
  "\<exists>ncp cluster s key api rest.
    calls (Reconcile ex_reconciler ex_key) (ex_world (with_plane ''p1'' (with_finalizer ex_ncp)) Fake_NewClient)
      = [EvGetNCP ex_key (Inr ncp),
         EvGetOwnerCluster (ncp_ObjectMeta ncp) (Inr (Some cluster)), EvGetSecret (creds_key ncp) (Inr s)] @ rest
    \<and> EvGetPlane ''p1'' (Returns (Inl (NewNotFoundError ''p1''))) \<in> set rest
    \<and> \<not> lib_IsPaused (r_Lib ex_reconciler) cluster ncp
    \<and> lib_ContainsFinalizer (r_Lib ex_reconciler) ncp noplaneFinalizer
    \<and> sec_Data s ''apiKey'' = Some key \<and> r_ClientFactory ex_reconciler key = Inr api"
  by (rule Reconcile_cloud_calls_guarded)
    (simp_all add: run_simps)

section \<open>Creation\<close>

lemma Reconcile_known_no_create:
  assumes "kc_GetNCP (r_Client r) nn (kube w) = (Inr ncp, k')"
    and "spec_PlaneID (ncp_Spec ncp) \<noteq> '''' \<or> st_PlaneID (ncp_Status ncp) \<noteq> ''''"
  shows "\<not> list_ex is_create_plane (calls (Reconcile r nn) w)"
proof (cases rule: Reconcile_calls_cases [of r nn w])
  case quiet
  then show ?thesis by (auto simp: list_ex_iff elim!: is_create_plane.elims)
next
  case (add_finalizer ncp' cluster res)
  then show ?thesis by simp
next
  case (client ncp' cluster s key api w1)
  with assms have "ncp' = ncp" by simp
  let ?P = "\<lambda>e. \<not> is_create_plane e"
  have "emits ?P (if Time_IsZero (om_DeletionTimestamp (ncp_ObjectMeta ncp))
          then reconcileNormal r cluster ncp api else reconcileDelete r ncp api)"
    using assms(2) by (intro emits_intros) auto
  then show ?thesis using client \<open>ncp' = ncp\<close> by (auto simp: list_ex_iff dest: emits_calls)
qed

text \<open>
  C5: A plane that is already known is never created again. When the object that was read carries
  a plane ID, in its spec (adoption) or in its status (resumption), the run makes no
  \<open>CreatePlane\<close> call, whatever the API server and the hosted service answer.
\<close>
theorem Reconcile_known_plane_not_recreated:
  assumes "kc_GetNCP (r_Client r) nn (kube w) = (Inr ncp, k')"
    and "spec_PlaneID (ncp_Spec ncp) \<noteq> '''' \<or> st_PlaneID (ncp_Status ncp) \<noteq> ''''"
  shows "\<not> list_ex is_create_plane (calls (Reconcile r nn) w)"
  using assms by (rule Reconcile_known_no_create)

theorem Reconcile_known_plane_not_recreated_witness:
  "\<not> list_ex is_create_plane (calls (Reconcile ex_reconciler ex_key)
       (ex_world (with_plane ''p1'' (with_finalizer ex_ncp)) Fake_NewClient))"
  by (rule Reconcile_known_plane_not_recreated
      [where ncp = "with_plane ''p1'' (with_finalizer ex_ncp)"
         and k' = "ex_kube (with_plane ''p1'' (with_finalizer ex_ncp))"])
    (simp_all add: with_plane_def)

text \<open>
  How the calls of \<^const>\<open>resolvePlaneID\<close> relate to its outcome: one creation at most, and the
  identifier of a plane it created is the very next thing written.
\<close>

definition persists_created :: "event list \<Rightarrow> (error \<Rightarrow> bool) \<Rightarrow> bool" where
  "persists_created es failed \<longleftrightarrow>
     (\<forall>pre req a post. es = pre @ EvCreatePlane req a # post \<longrightarrow>
        \<not> list_ex is_create_plane pre \<and> \<not> list_ex is_create_plane post
        \<and> (\<forall>plane. a = Returns (Inr plane) \<longrightarrow>
             (\<exists>n x rest. post = EvStatusUpdateNCP n x # rest
               \<and> st_PlaneID (ncp_Status n) = plane_ID plane
               \<and> (\<forall>e. x = Inl e \<longrightarrow> rest = [] \<and> failed e))))"

lemma persists_created_no_create:
  "list_all (\<lambda>e. \<not> is_create_plane e) es \<Longrightarrow> persists_created es F"
  by (auto simp: persists_created_def)

lemma yields_resolvePlaneID:
  "yields (\<lambda>es r. (list_all (\<lambda>e. \<not> is_create_plane e) es \<or>
      (\<exists>req a post. es = EvCreatePlane req a # post \<and> \<not> list_ex is_create_plane post
       \<and> (\<forall>plane. a = Returns (Inr plane) \<longrightarrow>
            (\<exists>n x. post = [EvStatusUpdateNCP n x] \<and> st_PlaneID (ncp_Status n) = plane_ID plane
             \<and> (\<forall>e. x = Inl e \<longrightarrow> (\<exists>n'. r = Returns (Inl (Wrapf ''persisting planeID to status: %w'' [] e), n'))))))))
    (resolvePlaneID r ncp api)"
  unfolding yields_def resolvePlaneID_def kube_op_defs api_op_defs Let_def
  by (auto simp: go_bind_assoc go_bind_cloud go_bind_kube go_return_def
      split: prod.splits outcome.splits sum.splits)

lemma yields_reconcileNormal_persists:
  "yields (\<lambda>es r. persists_created es (\<lambda>e. r =
       Returns (no_requeue, Some (Wrapf ''persisting planeID to status: %w'' [] e))))
     (reconcileNormal r cluster ncp api)"
  unfolding reconcileNormal_def
proof (rule yields_bind [OF yields_resolvePlaneID, where
        R = "\<lambda>a es r. list_all (\<lambda>e. \<not> is_create_plane e) es
          \<and> (\<forall>e. fst a = Inl e \<longrightarrow> es = [] \<and> r = Returns (no_requeue, Some e))"], goal_cases)
  case (1 a)
  obtain resolved ncp1 where a: "a = (resolved, ncp1)" by fastforce
  show ?case
  proof (cases resolved)
    case (Inl err)
    then show ?thesis by (simp add: a yields_def go_return_def)
  next
    case (Inr planeID)
    show ?thesis
      unfolding a Inr publishPlane_def by (simp flip: emits_yields) (intro emits_intros; simp)
  qed
next
  case (2 es e)
  then show ?case
    by (elim disjE exE conjE) (auto simp: persists_created_def Cons_eq_append_conv list_ex_iff)
next
  case (3 es fs a r)
  then show ?case
    by (elim disjE exE conjE)
      (auto simp: persists_created_def Cons_eq_append_conv append_eq_append_conv2 append_eq_Cons_conv list_ex_iff list_all_iff)
qed

text \<open>
  C1: A run creates at most one plane, and the identifier of a plane it created is persisted at
  once: the call right after a successful \<open>CreatePlane\<close> is the status update that writes the new
  identifier. When that write fails, it is the run's last call and the run ends with the error
  \<open>persisting planeID to status\<close>.
\<close>
theorem Reconcile_persists_created_plane:
  "persists_created (calls (Reconcile r nn) w) (\<lambda>e. fst (Reconcile r nn w) =
     Returns (no_requeue, Some (Wrapf ''persisting planeID to status: %w'' [] e)))"
proof (cases rule: Reconcile_calls_cases [of r nn w])
  case quiet
  then have "list_all (\<lambda>e. \<not> is_create_plane e) (calls (Reconcile r nn) w)"
    by (auto simp: list_all_iff elim!: is_create_plane.elims)
  then show ?thesis by (rule persists_created_no_create)
next
  case (add_finalizer ncp cluster res)
  then show ?thesis by (simp add: persists_created_no_create)
next
  case (client ncp cluster s key api w1)
  let ?m = "if Time_IsZero (om_DeletionTimestamp (ncp_ObjectMeta ncp))
    then reconcileNormal r cluster ncp api else reconcileDelete r ncp api"
  let ?F = "\<lambda>e r. r = Returns (no_requeue, Some (Wrapf ''persisting planeID to status: %w'' [] e))"
  have "emits (\<lambda>e. \<not> is_create_plane e) (reconcileDelete r ncp api)"
    by (intro emits_intros) auto
  then have "yields (\<lambda>es r. persists_created es (\<lambda>e. ?F e r)) (reconcileDelete r ncp api)"
    unfolding emits_yields by (rule yields_mono) (rule persists_created_no_create)
  then have "yields (\<lambda>es r. persists_created es (\<lambda>e. ?F e r)) ?m"
    by (intro yields_if yields_reconcileNormal_persists)
  from yields_calls [OF this, of w1] show ?thesis
    using client by (auto simp: persists_created_def Cons_eq_append_conv split: if_splits)
qed

section \<open>Status\<close>

text \<open>
  C8: \<open>Initialized\<close> is never set back, and neither is \<open>Ready\<close>. Every status a run writes keeps
  both flags if the object it read had them; and a status that differs from the one read in
  either flag sets both.
\<close>
theorem Reconcile_status_flags_monotone:
  assumes "kc_GetNCP (r_Client r) nn (kube w) = (Inr ncp, k')"
    and "EvStatusUpdateNCP n x \<in> set (calls (Reconcile r nn) w)"
  shows "(st_Initialized (ncp_Status ncp) \<longrightarrow> st_Initialized (ncp_Status n))
    \<and> (st_Ready (ncp_Status ncp) \<longrightarrow> st_Ready (ncp_Status n))
    \<and> (st_Initialized (ncp_Status n) \<noteq> st_Initialized (ncp_Status ncp)
         \<or> st_Ready (ncp_Status n) \<noteq> st_Ready (ncp_Status ncp) \<longrightarrow>
       st_Initialized (ncp_Status n) \<and> st_Ready (ncp_Status n))"
proof (cases rule: Reconcile_calls_cases [of r nn w])
  case quiet
  then show ?thesis using assms(2) by fastforce
next
  case (add_finalizer ncp' cluster res)
  then show ?thesis using assms(2) by simp
next
  case (client ncp' cluster s key api w1)
  with assms have "ncp' = ncp" by simp
  let ?P = "\<lambda>e. \<forall>n x. e = EvStatusUpdateNCP n x \<longrightarrow>
    st_Initialized (ncp_Status n) = st_Initialized (ncp_Status ncp)
      \<and> st_Ready (ncp_Status n) = st_Ready (ncp_Status ncp)
    \<or> st_Initialized (ncp_Status n) \<and> st_Ready (ncp_Status n)"
  have "emits ?P (if Time_IsZero (om_DeletionTimestamp (ncp_ObjectMeta ncp))
          then reconcileNormal r cluster ncp api else reconcileDelete r ncp api)"
    by (intro emits_intros) auto
  from emits_calls [OF this, of "EvStatusUpdateNCP n x" w1] show ?thesis
    using assms(2) client \<open>ncp' = ncp\<close> by auto
qed

theorem Reconcile_status_flags_monotone_witness:
  "let w = ex_world (with_finalizer ex_ncp) Fake_NewClient;
       n = with_plane ''fake-np-id'' (with_finalizer ex_ncp)
   in EvStatusUpdateNCP n (Inr n) \<in> set (calls (Reconcile ex_reconciler ex_key) w)
      \<and> (st_Initialized (ncp_Status (with_finalizer ex_ncp)) \<longrightarrow> st_Initialized (ncp_Status n))"
  using Reconcile_status_flags_monotone [of ex_reconciler ex_key
      "ex_world (with_finalizer ex_ncp) Fake_NewClient" "with_finalizer ex_ncp" "ex_kube (with_finalizer ex_ncp)"
      "with_plane ''fake-np-id'' (with_finalizer ex_ncp)" "Inr (with_plane ''fake-np-id'' (with_finalizer ex_ncp))"]
  by (simp add: run_simps go_defs)

section \<open>Deletion\<close>

lemma reconcileDelete_yields:
  "yields (\<lambda>es r.
      let planeID = st_PlaneID (ncp_Status ncp); n = lib_RemoveFinalizer (r_Lib r0) ncp noplaneFinalizer in
      (\<exists>pre x. es = pre @ [EvUpdateNCP n x]
         \<and> (if planeID = '''' then pre = [] else \<exists>a. pre = [EvDeletePlane planeID (Returns a)] \<and> (a = None \<or> IsNotFound a))
         \<and> r = Returns (no_requeue, case x of Inl e \<Rightarrow> Some e | Inr _ \<Rightarrow> None))
      \<or> planeID \<noteq> '''' \<and>
        ((\<exists>e. es = [EvDeletePlane planeID (Returns (Some e))] \<and> \<not> IsNotFound (Some e)
              \<and> r = Returns (no_requeue, Some (Wrapf ''deleting plane: %w'' [] e)))
         \<or> (\<exists>m. es = [EvDeletePlane planeID (Panics m)] \<and> r = Panics m)))
    (reconcileDelete r0 ncp api)"
  unfolding yields_def reconcileDelete_def removeFinalizer_def kube_op_defs api_op_defs Let_def
  by (auto simp: go_bind_cloud go_bind_kube go_return_def split: prod.splits outcome.splits option.splits)

text \<open>
  C6: The finalizer is released only after the plane is gone. On an object marked for deletion a
  run writes the object at most with the finalizer removed, and does so only when no plane was
  ever recorded, or right after a \<open>DeletePlane\<close> of the recorded plane that succeeded or answered
  that it does not exist. A \<open>DeletePlane\<close> that fails in any other way ends the run with the error
  \<open>deleting plane\<close>, and nothing at all is written to the cluster.
\<close>
theorem Reconcile_delete_releases_finalizer_last:
  assumes "kc_GetNCP (r_Client r) nn (kube w) = (Inr ncp, k')"
    and "\<not> Time_IsZero (om_DeletionTimestamp (ncp_ObjectMeta ncp))"
    and "lib_ContainsFinalizer (r_Lib r) ncp noplaneFinalizer"
  shows "(\<forall>e \<in> set (calls (Reconcile r nn) w). is_kube_write e \<longrightarrow>
      (\<exists>x. e = EvUpdateNCP (lib_RemoveFinalizer (r_Lib r) ncp noplaneFinalizer) x)
      \<and> last (calls (Reconcile r nn) w) = e
      \<and> (st_PlaneID (ncp_Status ncp) = '''' \<or>
         (\<exists>pre a. calls (Reconcile r nn) w = pre @ [EvDeletePlane (st_PlaneID (ncp_Status ncp)) (Returns a), e]
            \<and> (a = None \<or> IsNotFound a))))
    \<and> (\<forall>e. EvDeletePlane (st_PlaneID (ncp_Status ncp)) (Returns (Some e)) \<in> set (calls (Reconcile r nn) w)
         \<and> \<not> IsNotFound (Some e) \<longrightarrow>
         fst (Reconcile r nn w) = Returns (no_requeue, Some (Wrapf ''deleting plane: %w'' [] e))
         \<and> (\<forall>c \<in> set (calls (Reconcile r nn) w). \<not> is_kube_write c))"
proof (cases rule: Reconcile_calls_cases [of r nn w])
  case quiet
  then show ?thesis by force
next
  case (add_finalizer ncp' cluster res)
  then show ?thesis using assms by simp
next
  case (client ncp' cluster s key api w1)
  then have "ncp' = ncp" using assms(1) by simp
  then show ?thesis
    using client assms(2) yields_calls [OF reconcileDelete_yields [of ncp r api], of w1]
    by (auto simp: Let_def append_eq_Cons_conv split: if_splits)
qed

text \<open>An object marked for deletion, with its plane recorded.\<close>

definition being_deleted :: "NoPlaneControlPlane \<Rightarrow> NoPlaneControlPlane" where
  "being_deleted n = n\<lparr>ncp_ObjectMeta := (ncp_ObjectMeta n)\<lparr>om_DeletionTimestamp := Some 1\<rparr>\<rparr>"

lemma being_deleted_key [simp]: "meta_key (ncp_ObjectMeta (being_deleted n)) = meta_key (ncp_ObjectMeta n)"
  by (simp add: being_deleted_def meta_key_def)

theorem Reconcile_delete_releases_finalizer_last_witness:
  "let ncp = being_deleted (with_plane ''p1'' (with_finalizer ex_ncp));
       w = ex_world ncp (Fake_NewClient\<lparr>fc_DeleteErr := Some (ForeignError ''boom'')\<rparr>)
   in fst (Reconcile ex_reconciler ex_key w)
        = Returns (no_requeue, Some (Wrapf ''deleting plane: %w'' [] (ForeignError ''boom'')))
      \<and> (\<forall>c \<in> set (calls (Reconcile ex_reconciler ex_key) w). \<not> is_kube_write c)"
  using Reconcile_delete_releases_finalizer_last [of ex_reconciler ex_key
      "ex_world (being_deleted (with_plane ''p1'' (with_finalizer ex_ncp)))
         (Fake_NewClient\<lparr>fc_DeleteErr := Some (ForeignError ''boom'')\<rparr>)"
      "being_deleted (with_plane ''p1'' (with_finalizer ex_ncp))"
      "ex_kube (being_deleted (with_plane ''p1'' (with_finalizer ex_ncp)))"]
  by (simp add: run_simps being_deleted_def)

end
