(* ===== verification/Controller_Secrets.thy ===== *)
theory Controller_Secrets
  imports Controller_Safety
begin

text \<open>
  The secrets the reconciler leaves behind, and what a run that reports success has done: the
  kubeconfig secret carries what the hosted service answered, the CA secret is usable by the
  bootstrap provider, and the status says ready only after both. As in \<^verbatim>\<open>Controller_Safety\<close>
  nothing is assumed of the Kubernetes client or the hosted service.
\<close>

section \<open>Running single calls\<close>

lemma kube_call_Returns:
  "kube_call ev f w = (Returns a, w') \<longleftrightarrow>
     fst (f (kube w)) = a \<and> w' = w\<lparr>kube := snd (f (kube w)), history := history w @ [ev a]\<rparr>"
  by (auto simp: kube_call_def split: prod.split)

lemma cloud_call_Returns:
  "cloud_call ev m w = (Returns a, w') \<longleftrightarrow>
     fst (m (cloud w)) = Returns a \<and> w' = w\<lparr>cloud := snd (m (cloud w)), history := history w @ [ev (Returns a)]\<rparr>"
  by (auto simp: cloud_call_def split: prod.split)

lemma go_bind_Returns_iff:
  "go_bind m f w = (Returns b, w') \<longleftrightarrow> (\<exists>a w1. m w = (Returns a, w1) \<and> f a w1 = (Returns b, w'))"
  by (auto simp: go_bind_def split: prod.splits outcome.splits)

text \<open>A run that got past an error check went through its success branch; likewise for a call whose
  answer is an error or nothing.\<close>

lemma go_bind_Inr_success:
  assumes "go_bind m (case_sum f g) w = (Returns b, w')" and "\<And>x w1. f x w1 \<noteq> (Returns b, w')"
  shows "\<exists>y w1. m w = (Returns (Inr y), w1) \<and> g y w1 = (Returns b, w')"
proof -
  from assms(1) obtain a w1 where "m w = (Returns a, w1)" "case_sum f g a w1 = (Returns b, w')"
    by (rule go_bind_ReturnsE)
  then show ?thesis using assms(2) by (cases a) auto
qed

lemma go_bind_None_success:
  assumes "go_bind m (case_option h g) w = (Returns b, w')" and "\<And>x w1. g x w1 \<noteq> (Returns b, w')"
  shows "\<exists>w1. m w = (Returns None, w1) \<and> h w1 = (Returns b, w')"
proof -
  from assms(1) obtain a w1 where "m w = (Returns a, w1)" "case_option h g a w1 = (Returns b, w')"
    by (rule go_bind_ReturnsE)
  then show ?thesis using assms(2) by (cases a) auto
qed

lemmas returns_simps = go_bind_Returns_iff kube_call_Returns cloud_call_Returns

section \<open>The kubeconfig secret\<close>

definition kubeconfig_key :: "Cluster \<Rightarrow> NamespacedName" where
  "kubeconfig_key cluster = \<lparr> nn_Namespace = om_Namespace (cl_ObjectMeta cluster),
                              nn_Name = om_Name (cl_ObjectMeta cluster) @ ''-kubeconfig'' \<rparr>"

definition cluster_labels :: "('k, 'c, 'key) NoPlaneControlPlaneReconciler \<Rightarrow> Cluster \<Rightarrow> string \<rightharpoonup> string" where
  "cluster_labels r cluster = [lib_ClusterNameLabel (r_Lib r) \<mapsto> om_Name (cl_ObjectMeta cluster)]"

lemma reconcileKubeconfig_None:
  assumes "reconcileKubeconfig r cluster ncp api w = (Returns None, w')"
  shows "\<exists>bs got s.
    sec_Data s = [''value'' \<mapsto> bs] \<and> om_Labels (sec_ObjectMeta s) = cluster_labels r cluster \<and>
    history w' = history w @
      [EvGetKubeconfig (st_PlaneID (ncp_Status ncp)) (Returns (Inr bs)), EvGetSecret (kubeconfig_key cluster) got,
       case got of Inl _ \<Rightarrow> EvCreateSecret s None | Inr _ \<Rightarrow> EvUpdateSecret s None] \<and>
    (case got of
       Inl err \<Rightarrow> lib_IsNotFound (r_Lib r) err \<and> om_Name (sec_ObjectMeta s) = nn_Name (kubeconfig_key cluster)
         \<and> om_Namespace (sec_ObjectMeta s) = nn_Namespace (kubeconfig_key cluster)
     | Inr existing \<Rightarrow> s = existing\<lparr>sec_Data := sec_Data s,
         sec_ObjectMeta := (sec_ObjectMeta existing)\<lparr>om_Labels := cluster_labels r cluster\<rparr>\<rparr>)"
proof -
  obtain bs w1 where kc: "api_GetKubeconfig api (st_PlaneID (ncp_Status ncp)) w = (Returns (Inr bs), w1)"
    using go_bind_Inr_success [OF assms [unfolded reconcileKubeconfig_def]] by auto
  then have h1: "history w1 = history w @ [EvGetKubeconfig (st_PlaneID (ncp_Status ncp)) (Returns (Inr bs))]"
    by (auto simp: api_op_defs cloud_call_Returns)
  obtain got w2 where gs: "Get_Secret r (kubeconfig_key cluster) w1 = (Returns got, w2)"
    by (metis Get_Secret_def kube_call_Returns)
  then have h2: "history w2 = history w1 @ [EvGetSecret (kubeconfig_key cluster) got]"
    by (auto simp: kube_op_defs kube_call_Returns)
  show ?thesis
  proof (cases got)
    case (Inl err)
    then show ?thesis
      using assms kc gs h1 h2
      by (auto simp: reconcileKubeconfig_def go_bind_Returns_iff Let_def kubeconfig_key_def cluster_labels_def
          Create_Secret_def kube_call_Returns split: if_splits)
  next
    case (Inr existing)
    then show ?thesis
      using assms kc gs h1 h2
      by (auto simp: reconcileKubeconfig_def go_bind_Returns_iff Let_def kubeconfig_key_def cluster_labels_def
          Update_Secret_def kube_call_Returns)
  qed
qed

text \<open>
  C11: When \<open>reconcileKubeconfig\<close> returns no error, its last call stored a secret whose only data
  is \<open>value\<close>, the kubeconfig the hosted service answered for the plane in the status, labelled
  with the cluster's name: a new secret called \<open><cluster>-kubeconfig\<close> in the cluster's namespace if
  there was none, otherwise the existing one with nothing but data and labels replaced.
\<close>
theorem reconcileKubeconfig_stores:
  assumes "reconcileKubeconfig r cluster ncp api w = (Returns None, w')"
  shows "\<exists>bs got s.
    sec_Data s = [''value'' \<mapsto> bs] \<and> om_Labels (sec_ObjectMeta s) = cluster_labels r cluster \<and>
    history w' = history w @
      [EvGetKubeconfig (st_PlaneID (ncp_Status ncp)) (Returns (Inr bs)), EvGetSecret (kubeconfig_key cluster) got,
       case got of Inl _ \<Rightarrow> EvCreateSecret s None | Inr _ \<Rightarrow> EvUpdateSecret s None] \<and>
    (case got of
       Inl err \<Rightarrow> lib_IsNotFound (r_Lib r) err \<and> om_Name (sec_ObjectMeta s) = nn_Name (kubeconfig_key cluster)
         \<and> om_Namespace (sec_ObjectMeta s) = nn_Namespace (kubeconfig_key cluster)
     | Inr existing \<Rightarrow> s = existing\<lparr>sec_Data := sec_Data s,
         sec_ObjectMeta := (sec_ObjectMeta existing)\<lparr>om_Labels := cluster_labels r cluster\<rparr>\<rparr>)"
  using assms by (rule reconcileKubeconfig_None)

theorem reconcileKubeconfig_stores_witness:
  "\<exists>w' bs got s.
    reconcileKubeconfig ex_reconciler ex_cluster (with_plane ''p1'' ex_ncp) fake_client (ex_world ex_ncp Fake_NewClient)
      = (Returns None, w')
    \<and> sec_Data s = [''value'' \<mapsto> bs]
    \<and> history w' = [EvGetKubeconfig ''p1'' (Returns (Inr bs)), EvGetSecret (kubeconfig_key ex_cluster) got,
        case got of Inl _ \<Rightarrow> EvCreateSecret s None | Inr _ \<Rightarrow> EvUpdateSecret s None]"
proof -
  let ?w = "ex_world ex_ncp Fake_NewClient"
  let ?w' = "snd (reconcileKubeconfig ex_reconciler ex_cluster (with_plane ''p1'' ex_ncp) fake_client ?w)"
  have run: "reconcileKubeconfig ex_reconciler ex_cluster (with_plane ''p1'' ex_ncp) fake_client ?w = (Returns None, ?w')"
    by (simp add: run_simps kube_call_def)
  show ?thesis
    using run reconcileKubeconfig_stores [OF run] by (auto simp: with_plane_def ex_world_def)
qed

section \<open>The CA secret\<close>

definition ca_key :: "Cluster \<Rightarrow> NamespacedName" where
  "ca_key cluster = \<lparr> nn_Namespace = om_Namespace (cl_ObjectMeta cluster),
                      nn_Name = om_Name (cl_ObjectMeta cluster) @ ''-ca'' \<rparr>"

text \<open>
  C10: Every CA secret the reconciler writes is one the bootstrap provider accepts: of Cluster
  API's secret type, with a certificate and a private key that are not empty. A secret is only
  deleted when its type is a different one, and the object itself is never written here.
\<close>
theorem reconcileCASecret_writes_usable:
  assumes "e \<in> set (calls (reconcileCASecret r cluster ncp api) w)" and "is_kube_write e"
  shows "(\<exists>s x. (e = EvCreateSecret s x \<or> e = EvUpdateSecret s x) \<and> usable_ca_secret (lib_ClusterSecretType (r_Lib r)) s)
    \<or> (\<exists>s x. e = EvDeleteSecret s x \<and> sec_Type s \<noteq> lib_ClusterSecretType (r_Lib r))"
proof -
  let ?P = "\<lambda>e. is_kube_write e \<longrightarrow>
    (\<exists>s x. (e = EvCreateSecret s x \<or> e = EvUpdateSecret s x) \<and> usable_ca_secret (lib_ClusterSecretType (r_Lib r)) s)
    \<or> (\<exists>s x. e = EvDeleteSecret s x \<and> sec_Type s \<noteq> lib_ClusterSecretType (r_Lib r))"
  have "emits ?P (reconcileCASecret r cluster ncp api)"
    by (intro emits_intros) auto
  then show ?thesis using emits_calls assms by blast
qed

text \<open>A CA secret left behind by another tool: the wrong type and no key.\<close>

definition stale_ca :: Secret where
  "stale_ca = empty_Secret\<lparr>sec_ObjectMeta := empty_ObjectMeta\<lparr>om_Name := ''c1-ca'', om_Namespace := ''ns''\<rparr>,
     sec_Type := ''Opaque''\<rparr>"

definition stale_ca_world :: "(MemKube, FakeClient) world" where
  "stale_ca_world = \<lparr> kube = (ex_kube ex_ncp)\<lparr>mk_secrets := [ca_key ex_cluster \<mapsto> stale_ca]\<rparr>,
     cloud = Fake_NewClient, history = [] \<rparr>"

theorem reconcileCASecret_writes_usable_witness:
  "(\<exists>s x. EvDeleteSecret stale_ca None = EvDeleteSecret s x \<and> sec_Type s \<noteq> lib_ClusterSecretType mem_lib)"
proof -
  have mem: "EvDeleteSecret stale_ca None \<in> set (calls (reconcileCASecret ex_reconciler ex_cluster ex_ncp fake_client) stale_ca_world)"
    by (simp add: run_simps go_defs stale_ca_world_def stale_ca_def ca_key_def)
  show ?thesis using reconcileCASecret_writes_usable [OF mem] by simp
qed

lemma store_ca_secret_success:
  assumes "store_ca_secret r nn existing secret w = (Returns None, w')"
  shows "\<exists>s es. (last es = EvCreateSecret s None \<or> last es = EvUpdateSecret s None) \<and> es \<noteq> []
    \<and> sec_Type s = sec_Type secret \<and> sec_Data s = sec_Data secret \<and> history w' = history w @ es"
proof -
  obtain again w1 where get: "Get_Secret r nn w = (Returns again, w1)"
    and rest: "(if (case again of Inl err \<Rightarrow> lib_IsNotFound (r_Lib r) err | Inr _ \<Rightarrow> False)
     then Create_Secret r secret
     else
       let existing = (case again of Inl _ \<Rightarrow> existing | Inr s \<Rightarrow> s) in
       if sec_Type existing \<noteq> sec_Type secret then
         go_bind (Delete_Secret r existing) (\<lambda>del.
         case del of
           Some err \<Rightarrow> go_return (Some (Wrapf ''deleting CA secret with wrong type: %w'' [] err))
         | None \<Rightarrow> Create_Secret r secret)
       else
         Update_Secret r
           (existing\<lparr>sec_Data := sec_Data secret,
              sec_ObjectMeta := (sec_ObjectMeta existing)\<lparr>om_Labels := om_Labels (sec_ObjectMeta secret)\<rparr>\<rparr>)) w1
       = (Returns None, w')"
    using assms unfolding store_ca_secret_def by (rule go_bind_ReturnsE)
  have h1: "history w1 = history w @ [EvGetSecret nn again]"
    using get by (auto simp: kube_op_defs kube_call_Returns)
  define ex where "ex = (case again of Inl _ \<Rightarrow> existing | Inr s \<Rightarrow> s)"
  show ?thesis
    using rest h1
    by (auto simp: Let_def kube_op_defs kube_call_Returns simp flip: ex_def split: if_splits dest!: go_bind_None_success)
qed

lemma reconcileCASecret_None:
  assumes "reconcileCASecret r cluster ncp api w = (Returns None, w')"
  shows "(\<exists>s. history w' = history w @ [EvGetSecret (ca_key cluster) (Inr s)] \<and> 0 < data_len s ''tls.key'')
    \<or> (\<exists>s es. (last es = EvCreateSecret s None \<or> last es = EvUpdateSecret s None) \<and> es \<noteq> []
          \<and> history w' = history w @ es \<and> usable_ca_secret (lib_ClusterSecretType (r_Lib r)) s)"
proof -
  obtain got w1 where get: "Get_Secret r (ca_key cluster) w = (Returns got, w1)"
    using assms by (auto simp: reconcileCASecret_def Let_def ca_key_def elim!: go_bind_ReturnsE)
  then have h1: "history w1 = history w @ [EvGetSecret (ca_key cluster) got]"
    by (auto simp: kube_op_defs kube_call_Returns)
  show ?thesis
  proof (cases "case got of Inr s \<Rightarrow> 0 < data_len s ''tls.key'' | Inl _ \<Rightarrow> False")
    case True
    then show ?thesis
      using assms get h1 by (auto simp: reconcileCASecret_def Let_def ca_key_def go_bind_def split: sum.splits)
  next
    case False
    then have "\<exists>existing. go_bind (fetch_ca_secret r cluster ncp api)
        (case_sum (\<lambda>err. go_return (Some err)) (store_ca_secret r (ca_key cluster) existing)) w1 = (Returns None, w')"
      using assms get
      by (auto simp: reconcileCASecret_def Let_def ca_key_def go_bind_def [of "Get_Secret r nn" for nn]
          split: sum.splits if_splits)
    then obtain existing where "go_bind (fetch_ca_secret r cluster ncp api)
        (case_sum (\<lambda>err. go_return (Some err)) (store_ca_secret r (ca_key cluster) existing)) w1 = (Returns None, w')" ..
    from go_bind_Inr_success [OF this] obtain s w2 where
      fetch: "fetch_ca_secret r cluster ncp api w1 = (Returns (Inr s), w2)" and
      store: "store_ca_secret r (ca_key cluster) existing s w2 = (Returns None, w')"
      by auto
    have "emits (\<lambda>_. True) (fetch_ca_secret r cluster ncp api)" by (intro emits_intros TrueI)
    from emits_run [OF this fetch] obtain es where h2: "history w2 = history w1 @ es" by auto
    show ?thesis
      using store_ca_secret_success [OF store] fetch_ca_secret_usable [OF fetch] h1 h2
      by (fastforce simp: usable_ca_secret_def data_len_def)
  qed
qed

text \<open>
  C9: When \<open>reconcileCASecret\<close> returns no error, the cluster has a CA secret with a key: either
  the first read answered one whose \<open>tls.key\<close> is not empty, and then this read is the only call,
  or the last call stored a usable secret.
\<close>
theorem reconcileCASecret_success:
  assumes "reconcileCASecret r cluster ncp api w = (Returns None, w')"
  shows "(\<exists>s. history w' = history w @ [EvGetSecret (ca_key cluster) (Inr s)] \<and> 0 < data_len s ''tls.key'')
    \<or> (\<exists>s es. (last es = EvCreateSecret s None \<or> last es = EvUpdateSecret s None) \<and> es \<noteq> []
          \<and> history w' = history w @ es \<and> usable_ca_secret (lib_ClusterSecretType (r_Lib r)) s)"
  using assms by (rule reconcileCASecret_None)

theorem reconcileCASecret_success_witness:
  "\<exists>w' s. reconcileCASecret ex_reconciler ex_cluster ex_ncp fake_client stale_ca_world = (Returns None, w')
     \<and> last (history w') = EvCreateSecret s None \<and> usable_ca_secret ''cluster.x-k8s.io/secret'' s"
proof -
  let ?run = "reconcileCASecret ex_reconciler ex_cluster ex_ncp fake_client stale_ca_world"
  have run: "?run = (Returns None, snd ?run)" and len: "length (history (snd ?run)) = 6"
    and lst: "\<exists>s. last (history (snd ?run)) = EvCreateSecret s None"
    by (simp_all add: run_simps go_defs stale_ca_world_def stale_ca_def ca_key_def)
  have "history stale_ca_world = []" by (simp add: stale_ca_world_def)
  then have "\<exists>s. last (history (snd ?run)) = EvCreateSecret s None \<and> usable_ca_secret ''cluster.x-k8s.io/secret'' s"
    using len lst reconcileCASecret_success [OF run] by auto
  then show ?thesis using run by blast
qed

section \<open>A run that reports success\<close>

lemma requeue_simps [simp]:
  "requeue_after a = requeue_after b \<longleftrightarrow> a = b" "no_requeue = requeue_after a \<longleftrightarrow> a = 0"
  by (auto simp: requeue_after_def no_requeue_def Second_def)

text \<open>The steps of a \<^const>\<open>publishPlane\<close> and of a \<^const>\<open>reconcileNormal\<close> that got to the end.\<close>

lemma publishPlane_success:
  assumes "publishPlane r cluster ncp1 api planeID plane w2 = (Returns (requeue_after 60, None), w')"
  obtains ncp2 w3 w4 w5 n' where
    "syncEndpoint r ncp1 plane w2 = (Returns (Inr ncp2), w3)"
    "reconcileKubeconfig r cluster ncp2 api w3 = (Returns None, w4)"
    "reconcileCASecret r cluster ncp2 api w4 = (Returns None, w5)"
    "StatusUpdate_NCP r (set_status (final_status planeID plane) ncp2) w5 = (Returns (Inr n'), w')"
proof -
  obtain ncp2 w3 where sync: "syncEndpoint r ncp1 plane w2 = (Returns (Inr ncp2), w3)"
    and run3: "go_bind (reconcileKubeconfig r cluster ncp2 api) (\<lambda>kc. case kc of
          Some err \<Rightarrow> go_return (no_requeue, Some err)
        | None \<Rightarrow> go_bind (reconcileCASecret r cluster ncp2 api) (\<lambda>ca. case ca of
            Some err \<Rightarrow> go_return (no_requeue, Some err)
          | None \<Rightarrow> go_bind (StatusUpdate_NCP r (set_status (final_status planeID plane) ncp2)) (\<lambda>res.
              go_return (requeue_after 60, case res of Inl err \<Rightarrow> Some err | Inr _ \<Rightarrow> None)))) w3
        = (Returns (requeue_after 60, None), w')"
    using go_bind_Inr_success [OF assms [unfolded publishPlane_def]] by auto
  obtain w4 where kc: "reconcileKubeconfig r cluster ncp2 api w3 = (Returns None, w4)"
    and run4: "go_bind (reconcileCASecret r cluster ncp2 api) (\<lambda>ca. case ca of
            Some err \<Rightarrow> go_return (no_requeue, Some err)
          | None \<Rightarrow> go_bind (StatusUpdate_NCP r (set_status (final_status planeID plane) ncp2)) (\<lambda>res.
              go_return (requeue_after 60, case res of Inl err \<Rightarrow> Some err | Inr _ \<Rightarrow> None))) w4
        = (Returns (requeue_after 60, None), w')"
    using go_bind_None_success [OF run3] by auto
  obtain w5 where ca: "reconcileCASecret r cluster ncp2 api w4 = (Returns None, w5)"
    and run5: "go_bind (StatusUpdate_NCP r (set_status (final_status planeID plane) ncp2)) (\<lambda>res.
              go_return (requeue_after 60, case res of Inl err \<Rightarrow> Some err | Inr _ \<Rightarrow> None)) w5
        = (Returns (requeue_after 60, None), w')"
    using go_bind_None_success [OF run4] by auto
  obtain n' where "StatusUpdate_NCP r (set_status (final_status planeID plane) ncp2) w5 = (Returns (Inr n'), w')"
    using run5 by (auto simp: StatusUpdate_NCP_def go_bind_kube kube_call_Returns split: prod.splits sum.splits)
  then show thesis using that sync kc ca by blast
qed

lemma reconcileNormal_success:
  assumes "reconcileNormal r cluster ncp api w = (Returns (requeue_after 60, None), w')"
  obtains planeID ncp1 w1 plane w2 where
    "resolvePlaneID r ncp api w = (Returns (Inr planeID, ncp1), w1)"
    "api_GetPlane api planeID w1 = (Returns (Inr plane), w2)"
    "plane_Status plane = ''ready''" "plane_KubernetesVersion plane = spec_Version (ncp_Spec ncp1)"
    "publishPlane r cluster ncp1 api planeID plane w2 = (Returns (requeue_after 60, None), w')"
proof -
  from assms obtain a w1 where "resolvePlaneID r ncp api w = (Returns a, w1)"
    unfolding reconcileNormal_def by (rule go_bind_ReturnsE)
  then obtain resolved ncp1 where res: "resolvePlaneID r ncp api w = (Returns (resolved, ncp1), w1)"
    by (cases a) simp
  then obtain planeID where id: "resolved = Inr planeID"
    using assms by (cases resolved) (simp_all add: reconcileNormal_def go_bind_def)
  obtain plane w2 where get: "api_GetPlane api planeID w1 = (Returns (Inr plane), w2)"
    using assms res id
    by (auto simp: reconcileNormal_def go_bind_def [of "resolvePlaneID r ncp api"] dest!: go_bind_Inr_success)
  have "plane_Status plane = ''ready'' \<and> plane_KubernetesVersion plane = spec_Version (ncp_Spec ncp1)
      \<and> publishPlane r cluster ncp1 api planeID plane w2 = (Returns (requeue_after 60, None), w')"
    using assms res id get
    by (auto simp: reconcileNormal_def go_bind_def go_return_def split: if_splits prod.splits outcome.splits option.splits)
  then show thesis using that res id get by blast
qed

lemma reconcileDelete_no_requeue:
  "fst (reconcileDelete r ncp api w) = Returns (res, err) \<Longrightarrow> res = no_requeue"
  using yields_calls [OF reconcileDelete_yields [of ncp r api], of w] by (auto simp: Let_def)

lemma resolvePlaneID_known:
  assumes "resolvePlaneID r ncp api w = (Returns (Inr planeID, ncp1), w1)"
  shows "(spec_PlaneID (ncp_Spec ncp) \<noteq> '''' \<longrightarrow> planeID = spec_PlaneID (ncp_Spec ncp))
    \<and> (spec_PlaneID (ncp_Spec ncp) = '''' \<and> st_PlaneID (ncp_Status ncp) \<noteq> '''' \<longrightarrow> planeID = st_PlaneID (ncp_Status ncp))"
  using assms by (auto simp: resolvePlaneID_def)

text \<open>What the calls made so far show once everything is in place.\<close>

definition published :: "event list \<Rightarrow> Plane \<Rightarrow> string \<Rightarrow> bool" where
  "published es plane ty \<longleftrightarrow>
     (\<exists>ident bs s. EvGetKubeconfig ident (Returns (Inr bs)) \<in> set es \<and> sec_Data s = [''value'' \<mapsto> bs]
        \<and> (EvCreateSecret s None \<in> set es \<or> EvUpdateSecret s None \<in> set es))
   \<and> (\<exists>s. (\<exists>nn. EvGetSecret nn (Inr s) \<in> set es) \<and> 0 < data_len s ''tls.key''
        \<or> (EvCreateSecret s None \<in> set es \<or> EvUpdateSecret s None \<in> set es) \<and> usable_ca_secret ty s)"

lemma publishPlane_calls:
  assumes "publishPlane r cluster ncp1 api planeID plane w = (Returns (requeue_after 60, None), w')"
  shows "\<exists>es n n'. history w' = history w @ es @ [EvStatusUpdateNCP n (Inr n')]
    \<and> published es plane (lib_ClusterSecretType (r_Lib r))
    \<and> st_Ready (ncp_Status n) \<and> st_Initialized (ncp_Status n)
    \<and> st_PlaneID (ncp_Status n) = planeID \<and> st_Version (ncp_Status n) = plane_KubernetesVersion plane"
proof -
  from assms obtain ncp2 w3 w4 w5 n' where
    sync: "syncEndpoint r ncp1 plane w = (Returns (Inr ncp2), w3)" and
    kc: "reconcileKubeconfig r cluster ncp2 api w3 = (Returns None, w4)" and
    ca: "reconcileCASecret r cluster ncp2 api w4 = (Returns None, w5)" and
    st: "StatusUpdate_NCP r (set_status (final_status planeID plane) ncp2) w5 = (Returns (Inr n'), w')"
    by (rule publishPlane_success)
  have "emits (\<lambda>_. True) (syncEndpoint r ncp1 plane)" by (intro emits_intros TrueI)
  from emits_run [OF this sync] obtain e1 where h3: "history w3 = history w @ e1" by auto
  from reconcileKubeconfig_None [OF kc] obtain bs got s where data: "sec_Data s = [''value'' \<mapsto> bs]"
    and "history w4 = history w3 @
      [EvGetKubeconfig (st_PlaneID (ncp_Status ncp2)) (Returns (Inr bs)), EvGetSecret (kubeconfig_key cluster) got,
       case got of Inl _ \<Rightarrow> EvCreateSecret s None | Inr _ \<Rightarrow> EvUpdateSecret s None]"
    by blast
  then obtain e2 ident where h4: "history w4 = history w3 @ e2"
    and kc': "EvGetKubeconfig ident (Returns (Inr bs)) \<in> set e2"
      "EvCreateSecret s None \<in> set e2 \<or> EvUpdateSecret s None \<in> set e2"
    by (cases got) auto
  from reconcileCASecret_None [OF ca] obtain e3 s' where h5: "history w5 = history w4 @ e3"
    and ca': "(\<exists>nn. EvGetSecret nn (Inr s') \<in> set e3) \<and> 0 < data_len s' ''tls.key''
        \<or> (EvCreateSecret s' None \<in> set e3 \<or> EvUpdateSecret s' None \<in> set e3)
           \<and> usable_ca_secret (lib_ClusterSecretType (r_Lib r)) s'"
    by (metis last_in_set list.set_intros(1))
  have "history w' = history w5 @ [EvStatusUpdateNCP (set_status (final_status planeID plane) ncp2) (Inr n')]"
    using st by (auto simp: StatusUpdate_NCP_def kube_call_Returns)
  moreover have "published (e1 @ e2 @ e3) plane (lib_ClusterSecretType (r_Lib r))"
    unfolding published_def using data kc' ca' by (simp add: Un_def) blast
  ultimately show ?thesis
    using h3 h4 h5
    by (intro exI [of _ "e1 @ e2 @ e3"] exI [of _ "set_status (final_status planeID plane) ncp2"] exI [of _ n'])
      (simp add: final_status_def)
qed

text \<open>
  C2: A run that returns without error and asks to be called again in 60 seconds has done
  everything a ready control plane needs. It read a plane that is ready, for the identifier in
  the object's spec or else its status if there is one; it stored a kubeconfig secret with what
  the service answered; there is a CA secret with a key; and its last call, which succeeded,
  wrote a status that is ready and initialized, with that plane's identifier and version.
\<close>
theorem Reconcile_success:
  assumes "Reconcile r nn w = (Returns (requeue_after 60, None), w')"
  shows "\<exists>ncp planeID plane es n n'.
    fst (kc_GetNCP (r_Client r) nn (kube w)) = Inr ncp
    \<and> (spec_PlaneID (ncp_Spec ncp) \<noteq> '''' \<longrightarrow> planeID = spec_PlaneID (ncp_Spec ncp))
    \<and> (spec_PlaneID (ncp_Spec ncp) = '''' \<and> st_PlaneID (ncp_Status ncp) \<noteq> '''' \<longrightarrow> planeID = st_PlaneID (ncp_Status ncp))
    \<and> history w' = history w @ es @ [EvStatusUpdateNCP n (Inr n')]
    \<and> EvGetPlane planeID (Returns (Inr plane)) \<in> set es \<and> plane_Status plane = ''ready''
    \<and> published es plane (lib_ClusterSecretType (r_Lib r))
    \<and> st_Ready (ncp_Status n) \<and> st_Initialized (ncp_Status n)
    \<and> st_PlaneID (ncp_Status n) = planeID \<and> st_Version (ncp_Status n) = plane_KubernetesVersion plane"
proof -
  have req: "requeue_after 60 \<noteq> no_requeue" by (metis requeue_simps(2) zero_neq_numeral)
  show ?thesis
  proof (cases rule: Reconcile_cases [of r nn w])
    case (with_client ncp cluster w1)
    show ?thesis
    proof (cases rule: reconcileWithClient_cases [of r cluster ncp w1])
      case (no_client w2 res e)
      then show ?thesis using assms with_client by simp
    next
      case (client w2 s key api)
      have "(if Time_IsZero (om_DeletionTimestamp (ncp_ObjectMeta ncp))
          then reconcileNormal r cluster ncp api w2 else reconcileDelete r ncp api w2)
          = (Returns (requeue_after 60, None), w')"
        by (simp only: assms flip: client(5) with_client(4))
      then have "reconcileNormal r cluster ncp api w2 = (Returns (requeue_after 60, None), w')"
        using reconcileDelete_no_requeue [of r ncp api w2 "requeue_after 60" None] req by (auto split: if_splits)
      then obtain planeID ncp1 w3 plane w4 where
        res: "resolvePlaneID r ncp api w2 = (Returns (Inr planeID, ncp1), w3)" and
        get: "api_GetPlane api planeID w3 = (Returns (Inr plane), w4)" and
        ready: "plane_Status plane = ''ready''" and
        pub: "publishPlane r cluster ncp1 api planeID plane w4 = (Returns (requeue_after 60, None), w')"
        by (rule reconcileNormal_success)
      have "emits (\<lambda>_. True) (resolvePlaneID r ncp api)" by (intro emits_intros) auto
      from emits_run [OF this res] obtain e1 where "history w3 = history w2 @ e1" by auto
      moreover have "history w4 = history w3 @ [EvGetPlane planeID (Returns (Inr plane))]"
        using get by (auto simp: api_op_defs cloud_call_Returns)
      moreover obtain es n n' where "history w' = history w4 @ es @ [EvStatusUpdateNCP n (Inr n')]"
        and p: "published es plane (lib_ClusterSecretType (r_Lib r))"
          "st_Ready (ncp_Status n)" "st_Initialized (ncp_Status n)"
          "st_PlaneID (ncp_Status n) = planeID" "st_Version (ncp_Status n) = plane_KubernetesVersion plane"
        using publishPlane_calls [OF pub] by blast
      ultimately obtain fs where h: "history w' = history w @ (fs @ EvGetPlane planeID (Returns (Inr plane)) # es) @ [EvStatusUpdateNCP n (Inr n')]"
        using client with_client by simp
      have "published (fs @ EvGetPlane planeID (Returns (Inr plane)) # es) plane (lib_ClusterSecretType (r_Lib r))"
        using p(1) unfolding published_def by auto
      then show ?thesis
        using h p ready resolvePlaneID_known [OF res] with_client(1) by fastforce
    qed
  qed (use assms req in auto)
qed

theorem Reconcile_success_witness:
  "\<exists>w' plane es n n'.
    Reconcile ex_reconciler ex_key (ex_world (with_finalizer ex_ncp) Fake_NewClient) = (Returns (requeue_after 60, None), w')
    \<and> history w' = es @ [EvStatusUpdateNCP n (Inr n')]
    \<and> EvGetPlane (st_PlaneID (ncp_Status n)) (Returns (Inr plane)) \<in> set es \<and> plane_Status plane = ''ready''
    \<and> published es plane ''cluster.x-k8s.io/secret'' \<and> st_Ready (ncp_Status n) \<and> st_Initialized (ncp_Status n)"
proof -
  let ?w = "ex_world (with_finalizer ex_ncp) Fake_NewClient"
  obtain w' where run: "Reconcile ex_reconciler ex_key ?w = (Returns (requeue_after 60, None), w')"
    by (simp add: run_simps go_defs)
  have "history ?w = []" by (simp add: ex_world_def)
  with Reconcile_success [OF run] have "\<exists>plane es n n'. history w' = es @ [EvStatusUpdateNCP n (Inr n')]
    \<and> EvGetPlane (st_PlaneID (ncp_Status n)) (Returns (Inr plane)) \<in> set es \<and> plane_Status plane = ''ready''
    \<and> published es plane ''cluster.x-k8s.io/secret'' \<and> st_Ready (ncp_Status n) \<and> st_Initialized (ncp_Status n)"
    by (elim exE conjE, intro exI conjI) simp_all
  then show ?thesis using run by blast
qed

end
