(* ===== verification/Go_Http.thy ===== *)
theory Go_Http
  imports Go_Prelude
begin

text \<open>
  What the generated API client uses of Go's standard library: the string tests of package
  \<^verbatim>\<open>strings\<close>, HTTP headers with canonical keys, and requests and responses as records. A
  response's body is the outcome of reading it to the end. Package \<^verbatim>\<open>net/url\<close>, the request
  constructor and the default transport are the record \<open>GoHttp\<close>; its laws, where a theorem needs
  them, are stated as hypotheses.
\<close>

section \<open>Package strings\<close>

definition strings_HasPrefix :: "string \<Rightarrow> string \<Rightarrow> bool" where
  "strings_HasPrefix s p \<longleftrightarrow> take (length p) s = p"

definition strings_HasSuffix :: "string \<Rightarrow> string \<Rightarrow> bool" where
  "strings_HasSuffix s p \<longleftrightarrow> length p \<le> length s \<and> drop (length s - length p) s = p"

fun strings_Contains :: "string \<Rightarrow> string \<Rightarrow> bool" where
  "strings_Contains [] p = (p = [])"
| "strings_Contains (c # s) p = (strings_HasPrefix (c # s) p \<or> strings_Contains s p)"

lemma strings_HasSuffix_append [simp]: "strings_HasSuffix (s @ p) p"
  by (simp add: strings_HasSuffix_def)

lemma strings_Contains_iff: "strings_Contains s p \<longleftrightarrow> (\<exists>a b. s = a @ p @ b)"
proof (induction s)
  case Nil
  then show ?case by auto
next
  case (Cons c s)
  have "strings_HasPrefix (c # s) p \<longleftrightarrow> (\<exists>b. c # s = p @ b)"
    by (metis append_eq_conv_conj append_take_drop_id strings_HasPrefix_def)
  with Cons show ?case by (auto simp: Cons_eq_append_conv)
qed

section \<open>Headers\<close>

type_synonym Header = "string \<Rightarrow> string list"

text \<open>
  \<^verbatim>\<open>textproto.CanonicalMIMEHeaderKey\<close>: a key made of token characters is rewritten with an upper
  case letter at the start and after each hyphen and lower case letters elsewhere; any other
  key is left alone.
\<close>

definition is_lower :: "char \<Rightarrow> bool" where
  "is_lower c \<longleftrightarrow> 97 \<le> (of_char c :: nat) \<and> (of_char c :: nat) \<le> 122"

definition is_upper :: "char \<Rightarrow> bool" where
  "is_upper c \<longleftrightarrow> 65 \<le> (of_char c :: nat) \<and> (of_char c :: nat) \<le> 90"

definition is_digit :: "char \<Rightarrow> bool" where
  "is_digit c \<longleftrightarrow> 48 \<le> (of_char c :: nat) \<and> (of_char c :: nat) \<le> 57"

definition is_token_char :: "char \<Rightarrow> bool" where
  "is_token_char c \<longleftrightarrow> is_lower c \<or> is_upper c \<or> is_digit c \<or> c \<in> set ''!#$%&'*+-.^_`|~''"

definition char_upper :: "char \<Rightarrow> char" where
  "char_upper c = (if is_lower c then char_of ((of_char c :: nat) - 32) else c)"

definition char_lower :: "char \<Rightarrow> char" where
  "char_lower c = (if is_upper c then char_of ((of_char c :: nat) + 32) else c)"

fun canonical_from :: "bool \<Rightarrow> string \<Rightarrow> string" where
  "canonical_from up [] = []"
| "canonical_from up (c # s) = (if up then char_upper c else char_lower c) # canonical_from (c = CHR ''-'') s"

definition CanonicalHeaderKey :: "string \<Rightarrow> string" where
  "CanonicalHeaderKey k = (if list_all is_token_char k then canonical_from True k else k)"

definition Header_Get :: "Header \<Rightarrow> string \<Rightarrow> string" where
  "Header_Get h k = (case h (CanonicalHeaderKey k) of [] \<Rightarrow> '''' | v # _ \<Rightarrow> v)"

definition Header_Set :: "Header \<Rightarrow> string \<Rightarrow> string \<Rightarrow> Header" where
  "Header_Set h k v = h(CanonicalHeaderKey k := [v])"

definition Header_Add :: "Header \<Rightarrow> string \<Rightarrow> string \<Rightarrow> Header" where
  "Header_Add h k v = h(CanonicalHeaderKey k := h (CanonicalHeaderKey k) @ [v])"

definition empty_Header :: Header where
  "empty_Header = (\<lambda>_. [])"

lemma canonical_keys [simp]:
  "CanonicalHeaderKey ''Content-Type'' = ''Content-Type''"
  "CanonicalHeaderKey ''Authorization'' = ''Authorization''"
  "CanonicalHeaderKey ''content-type'' = ''Content-Type''"
  by code_simp+

lemma Header_Get_Set: "Header_Get (Header_Set h k v) k = v"
  by (simp add: Header_Get_def Header_Set_def)

lemma Header_Get_Set_other:
  "CanonicalHeaderKey k \<noteq> CanonicalHeaderKey l \<Longrightarrow> Header_Get (Header_Set h k v) l = Header_Get h l"
  by (simp add: Header_Get_def Header_Set_def)

lemma Header_Set_Set: "Header_Set (Header_Set h k v) k v' = Header_Set h k v'"
  by (simp add: Header_Set_def)

section \<open>Requests and responses\<close>

record Request =
  rq_Method :: string
  rq_URL :: string
  rq_Header :: Header
  rq_Body :: "bytes option"

record Response =
  rs_StatusCode :: int   \<comment> \<open>only compared and printed\<close>
  rs_Status :: string
  rs_Header :: Header
  rs_Body :: "error + bytes"

text \<open>
  Parameters. \<open>'u\<close> is a parsed URL: \<open>url_Parse\<close> is \<^verbatim>\<open>url.Parse\<close>, \<open>url_ParseRef\<close> the method
  \<^verbatim>\<open>(*URL).Parse\<close> that resolves a reference, \<open>url_String\<close> is \<^verbatim>\<open>(*URL).String\<close>. \<open>http_NewRequest\<close>
  takes the body's contents, if there is one. \<open>http_DefaultDo\<close> is the \<^verbatim>\<open>Do\<close> of a zero
  \<^verbatim>\<open>http.Client\<close>, on the state \<open>'n\<close> of the network. \<open>styleParam\<close> is the runtime library's
  \<^verbatim>\<open>StyleParamWithLocation\<close> for a simple path parameter, given its name and value.
\<close>

record ('u, 'n) GoHttp =
  url_Parse :: "string \<Rightarrow> error + 'u"
  url_ParseRef :: "'u \<Rightarrow> string \<Rightarrow> error + 'u"
  url_String :: "'u \<Rightarrow> string"
  http_NewRequest :: "string \<Rightarrow> string \<Rightarrow> bytes option \<Rightarrow> error + Request"
  http_DefaultDo :: "Request \<Rightarrow> 'n \<Rightarrow> (error + Response) \<times> 'n"
  styleParam :: "string \<Rightarrow> string \<Rightarrow> error + string"

section \<open>A concrete library\<close>

text \<open>
  An instance of the parameters for applying the theorems: addresses are strings, resolving
  drops the leading \<open>./\<close> of a reference and appends the rest, the transport answers every request
  with the status and the JSON body that are its state.
\<close>

definition json_response :: "int \<Rightarrow> bytes \<Rightarrow> Response" where
  "json_response code body = \<lparr> rs_StatusCode = code, rs_Status = '''',
     rs_Header = Header_Set empty_Header ''Content-Type'' ''application/json'', rs_Body = Inr body \<rparr>"

definition ex_http :: "(string, int \<times> bytes) GoHttp" where
  "ex_http = \<lparr> url_Parse = (\<lambda>u. Inr u), url_ParseRef = (\<lambda>u r. Inr (u @ drop 2 r)), url_String = (\<lambda>u. u),
     http_NewRequest = (\<lambda>m u b. Inr \<lparr> rq_Method = m, rq_URL = u, rq_Header = empty_Header, rq_Body = b \<rparr>),
     http_DefaultDo = (\<lambda>req s. (Inr (json_response (fst s) (snd s)), s)), styleParam = (\<lambda>p v. Inr v) \<rparr>"

end
