(* ===== verification/Gen_Client.thy ===== *)
theory Gen_Client
  imports Go_Http
begin

text \<open>
  The requesting half of the generated client, \<^verbatim>\<open>internal/api/noplane/hack/v1/api.gen.go\<close>: the
  data types of the noplane.io API, the client with its options, the request builders, the
  editors applied to every request and the nine methods that send one. The JSON codec of the
  types is the record \<open>Json\<close>, one field per type that is encoded or decoded; its instance for Go's
  codec is in \<open>Gen_Json\<close>. A pointer to a map or slice is nil or points to one that is not nil; a map
  is the list of its entries, sorted by key.
\<close>

section \<open>Data types\<close>

definition BearerAuthScopes :: string where
  "BearerAuthScopes = ''BearerAuth.Scopes''"

record BootstrapTokenListItem =
  btl_CreatedAt :: Time
  btl_ExpiresAt :: Time
  btl_Id :: string
  btl_Name :: string
  btl_Secret :: string

record CreateTenantRequest =
  ctr_Description :: "string option"
  ctr_KubernetesVersion :: "string option"
  ctr_Labels :: "(string \<times> string) list option"
  ctr_Name :: string
  ctr_Replicas :: "goint option"
  ctr_Subdomain :: "string option"
  ctr_UniqueId :: string

record CreateTokenRequest =
  ctk_Ttl :: string

record ErrorItem =
  ei_Code :: "string option"
  ei_Field :: string
  ei_Message :: string

record Error =
  er_Detail :: "string option"
  er_Errors :: "ErrorItem list option"
  er_Instance :: "string option"
  er_Status :: int
  er_Title :: string
  er_Type :: string

record Tenant =
  tn_CreatedAt :: Time
  tn_Description :: "string option"
  tn_Hash :: string
  tn_Hostname :: "string option"
  tn_Id :: string
  tn_KubernetesVersion :: "string option"
  tn_Labels :: "(string \<times> string) list option"
  tn_Name :: string
  tn_Owner :: string
  tn_Replicas :: "goint option"
  tn_Subdomain :: "string option"
  tn_UpdatedAt :: "Time option"

type_synonym CreateTenantJSONRequestBody = CreateTenantRequest
type_synonym CreateTenantTokenJSONRequestBody = CreateTokenRequest

record Availability =
  av_Available :: bool

record KubeconfigBody =
  kb_Kubeconfig :: string

record Json =
  marshal_CreateTenantRequest :: "CreateTenantRequest \<Rightarrow> error + bytes"
  marshal_CreateTokenRequest :: "CreateTokenRequest \<Rightarrow> error + bytes"
  unmarshal_Tenants :: "bytes \<Rightarrow> error + Tenant list"
  unmarshal_Tenant :: "bytes \<Rightarrow> error + Tenant"
  unmarshal_Error :: "bytes \<Rightarrow> error + Error"
  unmarshal_Availability :: "bytes \<Rightarrow> error + Availability"
  unmarshal_KubeconfigBody :: "bytes \<Rightarrow> error + KubeconfigBody"
  unmarshal_Tokens :: "bytes \<Rightarrow> error + BootstrapTokenListItem list"
  unmarshal_Token :: "bytes \<Rightarrow> error + BootstrapTokenListItem"

section \<open>Client and options\<close>

text \<open>
  An editor may change the request it is given and act on the outside; it returns the request as
  it leaves it. A nil \<^verbatim>\<open>Client\<close> field is \<open>None\<close>.
\<close>

type_synonym 'n RequestEditorFn = "Request \<Rightarrow> ('n, error option \<times> Request) go"
type_synonym 'n HttpRequestDoer = "Request \<Rightarrow> 'n \<Rightarrow> (error + Response) \<times> 'n"

record 'n V1_Client =
  v1_Server :: string
  v1_Client :: "'n HttpRequestDoer option"
  v1_RequestEditors :: "'n RequestEditorFn list"

type_synonym 'n ClientOption = "'n V1_Client \<Rightarrow> error + 'n V1_Client"

fun apply_options :: "'n ClientOption list \<Rightarrow> 'n V1_Client \<Rightarrow> error + 'n V1_Client" where
  "apply_options [] client = Inr client"
| "apply_options (opt # opts) client =
     (case opt client of Inl err \<Rightarrow> Inl err | Inr client' \<Rightarrow> apply_options opts client')"

definition V1_NewClient :: "('u, 'n) GoHttp \<Rightarrow> string \<Rightarrow> 'n ClientOption list \<Rightarrow> error + 'n V1_Client" where
  "V1_NewClient h server opts =
     (case apply_options opts \<lparr> v1_Server = server, v1_Client = None, v1_RequestEditors = [] \<rparr> of
        Inl err \<Rightarrow> Inl err
      | Inr client \<Rightarrow>
          let client1 = (if \<not> strings_HasSuffix (v1_Server client) ''/''
                         then client\<lparr>v1_Server := v1_Server client @ ''/''\<rparr> else client);
              client2 = (if v1_Client client1 = None
                         then client1\<lparr>v1_Client := Some (http_DefaultDo h)\<rparr> else client1)
          in Inr client2)"

definition WithHTTPClient :: "'n HttpRequestDoer \<Rightarrow> 'n ClientOption" where
  "WithHTTPClient doer c = Inr (c\<lparr>v1_Client := Some doer\<rparr>)"

definition WithRequestEditorFn :: "'n RequestEditorFn \<Rightarrow> 'n ClientOption" where
  "WithRequestEditorFn fn c = Inr (c\<lparr>v1_RequestEditors := v1_RequestEditors c @ [fn]\<rparr>)"

definition WithBaseURL :: "('u, 'n) GoHttp \<Rightarrow> string \<Rightarrow> 'n ClientOption" where
  "WithBaseURL h baseURL c =
     (case url_Parse h baseURL of
        Inl err \<Rightarrow> Inl err
      | Inr newBaseURL \<Rightarrow> Inr (c\<lparr>v1_Server := url_String h newBaseURL\<rparr>))"

section \<open>Request builders\<close>

text \<open>
  The lines every builder repeats: parse the server, make the operation's path relative, resolve
  it against the server and build the request.
\<close>

definition operation_ref :: "string \<Rightarrow> string" where
  "operation_ref operationPath =
     (case operationPath of c # _ \<Rightarrow> if c = CHR ''/'' then ''.'' @ operationPath else operationPath | [] \<Rightarrow> [])"

definition build_request ::
  "('u, 'n) GoHttp \<Rightarrow> string \<Rightarrow> string \<Rightarrow> string \<Rightarrow> bytes option \<Rightarrow> error + Request"
where
  "build_request h server operationPath httpMethod body =
     (case url_Parse h server of
        Inl err \<Rightarrow> Inl err
      | Inr serverURL \<Rightarrow>
          (case url_ParseRef h serverURL (operation_ref operationPath) of
             Inl err \<Rightarrow> Inl err
           | Inr queryURL \<Rightarrow> http_NewRequest h httpMethod (url_String h queryURL) body))"

text \<open>A builder whose path has a parameter styles it first.\<close>

definition build_param_request ::
  "('u, 'n) GoHttp \<Rightarrow> string \<Rightarrow> string \<Rightarrow> string \<Rightarrow> (string \<Rightarrow> string) \<Rightarrow> string \<Rightarrow> bytes option \<Rightarrow> error + Request"
where
  "build_param_request h server param val path httpMethod body =
     (case styleParam h param val of
        Inl err \<Rightarrow> Inl err
      | Inr pathParam0 \<Rightarrow> build_request h server (path pathParam0) httpMethod body)"

definition with_content_type :: "string \<Rightarrow> error + Request \<Rightarrow> error + Request" where
  "with_content_type contentType res =
     (case res of
        Inl err \<Rightarrow> Inl err
      | Inr req \<Rightarrow> Inr (req\<lparr>rq_Header := Header_Add (rq_Header req) ''Content-Type'' contentType\<rparr>))"

definition NewGetTenantsRequest :: "('u, 'n) GoHttp \<Rightarrow> string \<Rightarrow> error + Request" where
  "NewGetTenantsRequest h server = build_request h server ''/tenants'' ''GET'' None"

definition NewCreateTenantRequestWithBody ::
  "('u, 'n) GoHttp \<Rightarrow> string \<Rightarrow> string \<Rightarrow> bytes \<Rightarrow> error + Request"
where
  "NewCreateTenantRequestWithBody h server contentType body =
     with_content_type contentType (build_request h server ''/tenants'' ''POST'' (Some body))"

definition NewCreateTenantRequest ::
  "('u, 'n) GoHttp \<Rightarrow> Json \<Rightarrow> string \<Rightarrow> CreateTenantJSONRequestBody \<Rightarrow> error + Request"
where
  "NewCreateTenantRequest h j server body =
     (case marshal_CreateTenantRequest j body of
        Inl err \<Rightarrow> Inl err
      | Inr buf \<Rightarrow> NewCreateTenantRequestWithBody h server ''application/json'' buf)"

definition NewValidateTenantUniqueIdRequest :: "('u, 'n) GoHttp \<Rightarrow> string \<Rightarrow> string \<Rightarrow> error + Request" where
  "NewValidateTenantUniqueIdRequest h server uniqueID =
     build_param_request h server ''uniqueID'' uniqueID (\<lambda>p. ''/tenants/validate/unique-id/'' @ p) ''GET'' None"

definition NewDeleteTenantRequest :: "('u, 'n) GoHttp \<Rightarrow> string \<Rightarrow> string \<Rightarrow> error + Request" where
  "NewDeleteTenantRequest h server tenantId =
     build_param_request h server ''tenantId'' tenantId (\<lambda>p. ''/tenants/'' @ p) ''DELETE'' None"

definition NewGetTenantKubeconfigRequest :: "('u, 'n) GoHttp \<Rightarrow> string \<Rightarrow> string \<Rightarrow> error + Request" where
  "NewGetTenantKubeconfigRequest h server tenantId =
     build_param_request h server ''tenantId'' tenantId (\<lambda>p. ''/tenants/'' @ p @ ''/kubeconfig'') ''GET'' None"

definition NewListTenantTokensRequest :: "('u, 'n) GoHttp \<Rightarrow> string \<Rightarrow> string \<Rightarrow> error + Request" where
  "NewListTenantTokensRequest h server tenantId =
     build_param_request h server ''tenantId'' tenantId (\<lambda>p. ''/tenants/'' @ p @ ''/token'') ''GET'' None"

definition NewCreateTenantTokenRequestWithBody ::
  "('u, 'n) GoHttp \<Rightarrow> string \<Rightarrow> string \<Rightarrow> string \<Rightarrow> bytes \<Rightarrow> error + Request"
where
  "NewCreateTenantTokenRequestWithBody h server tenantId contentType body =
     with_content_type contentType
       (build_param_request h server ''tenantId'' tenantId (\<lambda>p. ''/tenants/'' @ p @ ''/token'') ''POST'' (Some body))"

definition NewCreateTenantTokenRequest ::
  "('u, 'n) GoHttp \<Rightarrow> Json \<Rightarrow> string \<Rightarrow> string \<Rightarrow> CreateTenantTokenJSONRequestBody \<Rightarrow> error + Request"
where
  "NewCreateTenantTokenRequest h j server tenantId body =
     (case marshal_CreateTokenRequest j body of
        Inl err \<Rightarrow> Inl err
      | Inr buf \<Rightarrow> NewCreateTenantTokenRequestWithBody h server tenantId ''application/json'' buf)"

section \<open>Editors and sending\<close>

fun run_editors :: "'n RequestEditorFn list \<Rightarrow> Request \<Rightarrow> ('n, error option \<times> Request) go" where
  "run_editors [] req = go_return (None, req)"
| "run_editors (r # rs) req =
     go_bind (r req) (\<lambda>(err, req'). case err of
       Some e \<Rightarrow> go_return (Some e, req')
     | None \<Rightarrow> run_editors rs req')"

definition applyEditors ::
  "'n V1_Client \<Rightarrow> Request \<Rightarrow> 'n RequestEditorFn list \<Rightarrow> ('n, error option \<times> Request) go"
where
  "applyEditors c req additionalEditors =
     go_bind (run_editors (v1_RequestEditors c) req) (\<lambda>(err, req1). case err of
       Some e \<Rightarrow> go_return (Some e, req1)
     | None \<Rightarrow> run_editors additionalEditors req1)"

definition client_Do :: "'n V1_Client \<Rightarrow> Request \<Rightarrow> ('n, error + Response) go" where
  "client_Do c req = (case v1_Client c of
     None \<Rightarrow> go_panic ''nil pointer dereference''
   | Some doer \<Rightarrow> go_call (doer req))"

text \<open>The lines every method repeats: check the built request, edit it, send it.\<close>

definition send_request ::
  "'n V1_Client \<Rightarrow> error + Request \<Rightarrow> 'n RequestEditorFn list \<Rightarrow> ('n, error + Response) go"
where
  "send_request c built reqEditors =
     (case built of
        Inl err \<Rightarrow> go_return (Inl err)
      | Inr req \<Rightarrow>
          go_bind (applyEditors c req reqEditors) (\<lambda>(err, req'). case err of
            Some e \<Rightarrow> go_return (Inl e)
          | None \<Rightarrow> client_Do c req'))"

definition V1_GetTenants where
  "V1_GetTenants h c reqEditors = send_request c (NewGetTenantsRequest h (v1_Server c)) reqEditors"

definition V1_CreateTenantWithBody where
  "V1_CreateTenantWithBody h c contentType body reqEditors =
     send_request c (NewCreateTenantRequestWithBody h (v1_Server c) contentType body) reqEditors"

definition V1_CreateTenant where
  "V1_CreateTenant h j c body reqEditors =
     send_request c (NewCreateTenantRequest h j (v1_Server c) body) reqEditors"

definition V1_ValidateTenantUniqueId where
  "V1_ValidateTenantUniqueId h c uniqueID reqEditors =
     send_request c (NewValidateTenantUniqueIdRequest h (v1_Server c) uniqueID) reqEditors"

definition V1_DeleteTenant where
  "V1_DeleteTenant h c tenantId reqEditors =
     send_request c (NewDeleteTenantRequest h (v1_Server c) tenantId) reqEditors"

definition V1_GetTenantKubeconfig where
  "V1_GetTenantKubeconfig h c tenantId reqEditors =
     send_request c (NewGetTenantKubeconfigRequest h (v1_Server c) tenantId) reqEditors"

definition V1_ListTenantTokens where
  "V1_ListTenantTokens h c tenantId reqEditors =
     send_request c (NewListTenantTokensRequest h (v1_Server c) tenantId) reqEditors"

definition V1_CreateTenantTokenWithBody where
  "V1_CreateTenantTokenWithBody h c tenantId contentType body reqEditors =
     send_request c (NewCreateTenantTokenRequestWithBody h (v1_Server c) tenantId contentType body) reqEditors"

definition V1_CreateTenantToken where
  "V1_CreateTenantToken h j c tenantId body reqEditors =
     send_request c (NewCreateTenantTokenRequest h j (v1_Server c) tenantId body) reqEditors"

text \<open>The interface the client with responses embeds, and the client as an implementation of it.\<close>

record 'n V1_ClientInterface =
  ci_GetTenants :: "'n RequestEditorFn list \<Rightarrow> ('n, error + Response) go"
  ci_CreateTenantWithBody :: "string \<Rightarrow> bytes \<Rightarrow> 'n RequestEditorFn list \<Rightarrow> ('n, error + Response) go"
  ci_CreateTenant :: "CreateTenantJSONRequestBody \<Rightarrow> 'n RequestEditorFn list \<Rightarrow> ('n, error + Response) go"
  ci_ValidateTenantUniqueId :: "string \<Rightarrow> 'n RequestEditorFn list \<Rightarrow> ('n, error + Response) go"
  ci_DeleteTenant :: "string \<Rightarrow> 'n RequestEditorFn list \<Rightarrow> ('n, error + Response) go"
  ci_GetTenantKubeconfig :: "string \<Rightarrow> 'n RequestEditorFn list \<Rightarrow> ('n, error + Response) go"
  ci_ListTenantTokens :: "string \<Rightarrow> 'n RequestEditorFn list \<Rightarrow> ('n, error + Response) go"
  ci_CreateTenantTokenWithBody :: "string \<Rightarrow> string \<Rightarrow> bytes \<Rightarrow> 'n RequestEditorFn list \<Rightarrow> ('n, error + Response) go"
  ci_CreateTenantToken :: "string \<Rightarrow> CreateTenantTokenJSONRequestBody \<Rightarrow> 'n RequestEditorFn list \<Rightarrow> ('n, error + Response) go"

definition client_interface :: "('u, 'n) GoHttp \<Rightarrow> Json \<Rightarrow> 'n V1_Client \<Rightarrow> 'n V1_ClientInterface" where
  "client_interface h j c = \<lparr>
     ci_GetTenants = V1_GetTenants h c,
     ci_CreateTenantWithBody = V1_CreateTenantWithBody h c,
     ci_CreateTenant = V1_CreateTenant h j c,
     ci_ValidateTenantUniqueId = V1_ValidateTenantUniqueId h c,
     ci_DeleteTenant = V1_DeleteTenant h c,
     ci_GetTenantKubeconfig = V1_GetTenantKubeconfig h c,
     ci_ListTenantTokens = V1_ListTenantTokens h c,
     ci_CreateTenantTokenWithBody = V1_CreateTenantTokenWithBody h c,
     ci_CreateTenantToken = V1_CreateTenantToken h j c \<rparr>"

lemma client_interface_simps [simp]:
  "ci_GetTenants (client_interface h j c) = V1_GetTenants h c"
  "ci_CreateTenant (client_interface h j c) = V1_CreateTenant h j c"
  "ci_DeleteTenant (client_interface h j c) = V1_DeleteTenant h c"
  "ci_GetTenantKubeconfig (client_interface h j c) = V1_GetTenantKubeconfig h c"
  by (simp_all add: client_interface_def)

record 'n ClientWithResponses =
  cwr_ClientInterface :: "'n V1_ClientInterface"

definition NewClientWithResponses ::
  "('u, 'n) GoHttp \<Rightarrow> Json \<Rightarrow> string \<Rightarrow> 'n ClientOption list \<Rightarrow> error + 'n ClientWithResponses"
where
  "NewClientWithResponses h j server opts =
     (case V1_NewClient h server opts of
        Inl err \<Rightarrow> Inl err
      | Inr client \<Rightarrow> Inr \<lparr> cwr_ClientInterface = client_interface h j client \<rparr>)"

section \<open>Clients and editors\<close>

text \<open>
  C32: A client that was constructed is ready to send: its server address ends in a slash, so that
  every operation's path is resolved below it, and its transport is not nil, whatever options it
  was built with.
\<close>
theorem V1_NewClient_ready:
  assumes "V1_NewClient h server opts = Inr c"
  shows "strings_HasSuffix (v1_Server c) ''/'' \<and> v1_Client c \<noteq> None"
  using assms by (auto simp: V1_NewClient_def Let_def split: sum.splits if_splits)

theorem V1_NewClient_ready_witness:
  "\<exists>c. V1_NewClient ex_http ''https://api.example.com'' [] = Inr c
     \<and> strings_HasSuffix (v1_Server c) ''/'' \<and> v1_Client c \<noteq> None"
proof -
  obtain c where c: "V1_NewClient ex_http ''https://api.example.com'' [] = Inr c"
    by (simp add: V1_NewClient_def Let_def strings_HasSuffix_def)
  then show ?thesis using V1_NewClient_ready [OF c] by blast
qed

lemma run_editors_append:
  "run_editors (rs @ qs) req =
     go_bind (run_editors rs req) (\<lambda>(err, req1). case err of
       Some e \<Rightarrow> go_return (Some e, req1)
     | None \<Rightarrow> run_editors qs req1)"
proof (induction rs arbitrary: req)
  case Nil
  then show ?case by simp
next
  case (Cons r rs)
  have "(case_prod (\<lambda>err req'. case err of None \<Rightarrow> run_editors (rs @ qs) req' | Some e \<Rightarrow> go_return (Some e, req')))
      = (\<lambda>x. go_bind (case_prod (\<lambda>err req'. case err of None \<Rightarrow> run_editors rs req' | Some e \<Rightarrow> go_return (Some e, req')) x)
          (\<lambda>(err, req1). case err of Some e \<Rightarrow> go_return (Some e, req1) | None \<Rightarrow> run_editors qs req1))"
    by (rule ext) (auto simp: Cons.IH split: prod.split option.split)
  then show ?case by (simp add: go_bind_assoc)
qed

text \<open>
  What it means that editors accept a request, without the code's loop: each is called once, on
  the request and in the state its predecessor left, and none reports an error.
\<close>

inductive edits :: "'n RequestEditorFn list \<Rightarrow> Request \<Rightarrow> 'n \<Rightarrow> Request \<Rightarrow> 'n \<Rightarrow> bool" where
  no_editor: "edits [] req s req s"
| next_editor: "r req s = (Returns (None, req1), s1) \<Longrightarrow> edits rs req1 s1 req' s' \<Longrightarrow> edits (r # rs) req s req' s'"

inductive_simps edits_Nil [simp]: "edits [] req s req' s'"
inductive_simps edits_Cons: "edits (r # rs) req s req' s'"

lemma run_editors_cases:
  "run_editors (r # rs) req s =
     (case r req s of
        (Returns (None, req1), s1) \<Rightarrow> run_editors rs req1 s1
      | (Returns (Some e, req1), s1) \<Rightarrow> (Returns (Some e, req1), s1)
      | (Panics m, s1) \<Rightarrow> (Panics m, s1))"
  by (simp add: go_bind_def go_return_def split: prod.split outcome.split option.split)

lemma run_editors_accept: "run_editors rs req s = (Returns (None, req'), s') \<longleftrightarrow> edits rs req s req' s'"
proof (induction rs arbitrary: req s)
  case Nil
  then show ?case by (auto simp: go_return_def)
next
  case (Cons r rs)
  then show ?case
    by (auto simp: run_editors_cases edits_Cons simp del: run_editors.simps
        split: prod.splits outcome.splits option.splits)
qed

text \<open>The editors up to one accept, and that one ends the loop.\<close>

definition stops_at ::
  "(error option \<times> Request) outcome \<Rightarrow> 'n RequestEditorFn list \<Rightarrow> Request \<Rightarrow> 'n \<Rightarrow> 'n \<Rightarrow> bool"
where
  "stops_at out rs req s s' \<longleftrightarrow>
     (\<exists>before r after req1 s1. rs = before @ r # after \<and> edits before req s req1 s1 \<and> r req1 s1 = (out, s'))"

lemma stops_at_Nil [simp]: "\<not> stops_at out [] req s s'"
  by (simp add: stops_at_def)

lemma stops_at_Cons:
  "stops_at out (r # rs) req s s' \<longleftrightarrow>
     r req s = (out, s') \<or> (\<exists>req1 s1. r req s = (Returns (None, req1), s1) \<and> stops_at out rs req1 s1 s')"
  (is "?lhs \<longleftrightarrow> ?rhs")
proof
  assume ?lhs
  then obtain before q after req1 s1 where
    q: "r # rs = before @ q # after" "edits before req s req1 s1" "q req1 s1 = (out, s')"
    by (auto simp: stops_at_def)
  show ?rhs
  proof (cases before)
    case Nil
    then show ?thesis using q by simp
  next
    case (Cons r' before')
    then obtain req2 s2 where "r req s = (Returns (None, req2), s2)" "edits before' req2 s2 req1 s1"
      using q by (auto simp: edits_Cons)
    moreover have "rs = before' @ q # after" using q Cons by simp
    ultimately show ?thesis using q(3) unfolding stops_at_def by blast
  qed
next
  assume ?rhs
  then show ?lhs
  proof
    assume "r req s = (out, s')"
    then have "r # rs = [] @ r # rs \<and> edits [] req s req s \<and> r req s = (out, s')" by simp
    then show ?lhs unfolding stops_at_def by blast
  next
    assume "\<exists>req1 s1. r req s = (Returns (None, req1), s1) \<and> stops_at out rs req1 s1 s'"
    then obtain req1 s1 before q after req2 s2 where
      "r req s = (Returns (None, req1), s1)" "rs = before @ q # after" "edits before req1 s1 req2 s2" "q req2 s2 = (out, s')"
      by (auto simp: stops_at_def)
    then have "r # rs = (r # before) @ q # after \<and> edits (r # before) req s req2 s2 \<and> q req2 s2 = (out, s')"
      by (auto simp: edits_Cons)
    then show ?lhs unfolding stops_at_def by blast
  qed
qed

lemma run_editors_stop:
  assumes "\<And>req'. out \<noteq> Returns (None, req')"
  shows "run_editors rs req s = (out, s') \<longleftrightarrow> stops_at out rs req s s'"
proof (induction rs arbitrary: req s)
  case Nil
  then show ?case using assms by (auto simp: go_return_def)
next
  case (Cons r rs)
  then show ?case
    using assms
    by (auto simp: run_editors_cases stops_at_Cons simp del: run_editors.simps
        split: prod.splits outcome.splits option.splits)
qed

lemma applyEditors_run: "applyEditors c req extra = run_editors (v1_RequestEditors c @ extra) req"
  by (simp add: applyEditors_def run_editors_append)

text \<open>
  C33: The editors of a request run in order, the client's own before those of the call. The
  request is accepted exactly when every one of them, given what its predecessor left, reports no
  error. Otherwise the outcome, an error or a panic, and the state are those of the first editor
  that does not accept: the ones before it accepted and the ones after it are not called.
\<close>
theorem applyEditors_order:
  "(applyEditors c req extra s = (Returns (None, req'), s') \<longleftrightarrow> edits (v1_RequestEditors c @ extra) req s req' s')
    \<and> (applyEditors c req extra s = (Returns (Some err, req'), s') \<longleftrightarrow>
         stops_at (Returns (Some err, req')) (v1_RequestEditors c @ extra) req s s')
    \<and> (applyEditors c req extra s = (Panics msg, s') \<longleftrightarrow> stops_at (Panics msg) (v1_RequestEditors c @ extra) req s s')"
  unfolding applyEditors_run by (simp add: run_editors_accept run_editors_stop)

text \<open>The steps of sending, for a client whose transport is set.\<close>

lemma send_request_Inl [simp]: "send_request c (Inl err) es = go_return (Inl err)"
  by (simp add: send_request_def)

lemma send_request_edited:
  assumes "applyEditors c req es s = (Returns (None, req'), s')" and "v1_Client c = Some doer"
  shows "send_request c (Inr req) es s = go_call (doer req') s'"
  using assms by (simp add: send_request_def client_Do_def go_bind_def)

text \<open>
  An editor that rejects a request keeps it from being sent: the error is returned and the
  network is left as the editors left it.
\<close>
theorem send_request_editor_error:
  assumes "applyEditors c req es s = (Returns (Some err, req'), s')"
  shows "send_request c (Inr req) es s = (Returns (Inl err), s')"
  using assms by (simp add: send_request_def go_bind_def go_return_def)

definition rejecting_client :: "unit V1_Client" where
  "rejecting_client = \<lparr> v1_Server = ''/'', v1_Client = None,
     v1_RequestEditors = [\<lambda>req. go_return (Some (ForeignError ''no''), req)] \<rparr>"

theorem send_request_editor_error_witness:
  "send_request rejecting_client (Inr \<lparr> rq_Method = ''GET'', rq_URL = ''/'', rq_Header = empty_Header, rq_Body = None \<rparr>) [] ()
     = (Returns (Inl (ForeignError ''no'')), ())"
  by (rule send_request_editor_error)
    (simp add: applyEditors_def rejecting_client_def, simp add: go_return_def)

end
