(* ===== verification/Gen_Responses.thy ===== *)
theory Gen_Responses
  imports Gen_Client
begin

text \<open>
  The answering half of the generated client: one response type per operation with its status
  accessors, the parser of each, and the methods of \<^verbatim>\<open>ClientWithResponses\<close> that send a request and
  parse the answer. What all seven parsers have in common is the locale \<open>response_parser\<close>,
  interpreted on each of them.
\<close>

section \<open>Response types\<close>

text \<open>\<^verbatim>\<open>Status\<close> and \<^verbatim>\<open>StatusCode\<close>, the same two methods on every response type.\<close>

definition response_Status :: "Response option \<Rightarrow> string" where
  "response_Status r = (case r of Some rsp \<Rightarrow> rs_Status rsp | None \<Rightarrow> '''')"

definition response_StatusCode :: "Response option \<Rightarrow> int" where
  "response_StatusCode r = (case r of Some rsp \<Rightarrow> rs_StatusCode rsp | None \<Rightarrow> 0)"

lemma response_StatusCode_simps [simp]:
  "response_StatusCode (Some rsp) = rs_StatusCode rsp" "response_StatusCode None = 0"
  by (simp_all add: response_StatusCode_def)

record GetTenantsResponse =
  gtr_Body :: bytes
  gtr_HTTPResponse :: "Response option"
  gtr_JSON200 :: "Tenant list option"
  gtr_JSON500 :: "Error option"

definition GetTenantsResponse_Status :: "GetTenantsResponse \<Rightarrow> string" where
  "GetTenantsResponse_Status r = response_Status (gtr_HTTPResponse r)"

definition GetTenantsResponse_StatusCode :: "GetTenantsResponse \<Rightarrow> int" where
  "GetTenantsResponse_StatusCode r = response_StatusCode (gtr_HTTPResponse r)"

record CreateTenantResponse =
  ctp_Body :: bytes
  ctp_HTTPResponse :: "Response option"
  ctp_JSON201 :: "Tenant option"
  ctp_JSON400 :: "Error option"
  ctp_JSON403 :: "Error option"
  ctp_JSON500 :: "Error option"

definition CreateTenantResponse_Status :: "CreateTenantResponse \<Rightarrow> string" where
  "CreateTenantResponse_Status r = response_Status (ctp_HTTPResponse r)"

definition CreateTenantResponse_StatusCode :: "CreateTenantResponse \<Rightarrow> int" where
  "CreateTenantResponse_StatusCode r = response_StatusCode (ctp_HTTPResponse r)"

record ValidateTenantUniqueIdResponse =
  vtr_Body :: bytes
  vtr_HTTPResponse :: "Response option"
  vtr_JSON200 :: "Availability option"
  vtr_JSON400 :: "Error option"
  vtr_JSON500 :: "Error option"

definition ValidateTenantUniqueIdResponse_Status :: "ValidateTenantUniqueIdResponse \<Rightarrow> string" where
  "ValidateTenantUniqueIdResponse_Status r = response_Status (vtr_HTTPResponse r)"

definition ValidateTenantUniqueIdResponse_StatusCode :: "ValidateTenantUniqueIdResponse \<Rightarrow> int" where
  "ValidateTenantUniqueIdResponse_StatusCode r = response_StatusCode (vtr_HTTPResponse r)"

record DeleteTenantResponse =
  dtr_Body :: bytes
  dtr_HTTPResponse :: "Response option"
  dtr_JSON400 :: "Error option"
  dtr_JSON403 :: "Error option"
  dtr_JSON404 :: "Error option"
  dtr_JSON500 :: "Error option"

definition DeleteTenantResponse_Status :: "DeleteTenantResponse \<Rightarrow> string" where
  "DeleteTenantResponse_Status r = response_Status (dtr_HTTPResponse r)"

definition DeleteTenantResponse_StatusCode :: "DeleteTenantResponse \<Rightarrow> int" where
  "DeleteTenantResponse_StatusCode r = response_StatusCode (dtr_HTTPResponse r)"

record GetTenantKubeconfigResponse =
  gkr_Body :: bytes
  gkr_HTTPResponse :: "Response option"
  gkr_JSON200 :: "KubeconfigBody option"
  gkr_JSON400 :: "Error option"
  gkr_JSON403 :: "Error option"
  gkr_JSON404 :: "Error option"
  gkr_JSON500 :: "Error option"

definition GetTenantKubeconfigResponse_Status :: "GetTenantKubeconfigResponse \<Rightarrow> string" where
  "GetTenantKubeconfigResponse_Status r = response_Status (gkr_HTTPResponse r)"

definition GetTenantKubeconfigResponse_StatusCode :: "GetTenantKubeconfigResponse \<Rightarrow> int" where
  "GetTenantKubeconfigResponse_StatusCode r = response_StatusCode (gkr_HTTPResponse r)"

record ListTenantTokensResponse =
  ltr_Body :: bytes
  ltr_HTTPResponse :: "Response option"
  ltr_JSON200 :: "BootstrapTokenListItem list option"
  ltr_JSON403 :: "Error option"
  ltr_JSON404 :: "Error option"
  ltr_JSON500 :: "Error option"

definition ListTenantTokensResponse_Status :: "ListTenantTokensResponse \<Rightarrow> string" where
  "ListTenantTokensResponse_Status r = response_Status (ltr_HTTPResponse r)"

definition ListTenantTokensResponse_StatusCode :: "ListTenantTokensResponse \<Rightarrow> int" where
  "ListTenantTokensResponse_StatusCode r = response_StatusCode (ltr_HTTPResponse r)"

record CreateTenantTokenResponse =
  tkr_Body :: bytes
  tkr_HTTPResponse :: "Response option"
  tkr_JSON201 :: "BootstrapTokenListItem option"
  tkr_JSON400 :: "Error option"
  tkr_JSON403 :: "Error option"
  tkr_JSON404 :: "Error option"
  tkr_JSON500 :: "Error option"

definition CreateTenantTokenResponse_Status :: "CreateTenantTokenResponse \<Rightarrow> string" where
  "CreateTenantTokenResponse_Status r = response_Status (tkr_HTTPResponse r)"

definition CreateTenantTokenResponse_StatusCode :: "CreateTenantTokenResponse \<Rightarrow> int" where
  "CreateTenantTokenResponse_StatusCode r = response_StatusCode (tkr_HTTPResponse r)"

section \<open>Parsing\<close>

text \<open>
  The condition of every case of a parser's switch, and its body: a decoding error is returned,
  a decoded value is stored. The deferred close of the body has no effect on the result.
\<close>

definition json_with_status :: "Response \<Rightarrow> int \<Rightarrow> bool" where
  "json_with_status rsp code \<longleftrightarrow>
     strings_Contains (Header_Get (rs_Header rsp) ''Content-Type'') ''json'' \<and> rs_StatusCode rsp = code"

definition decode_into :: "error + 'd \<Rightarrow> ('d \<Rightarrow> 'r) \<Rightarrow> error + 'r" where
  "decode_into decoded store = (case decoded of Inl err \<Rightarrow> Inl err | Inr dest \<Rightarrow> Inr (store dest))"

definition ParseGetTenantsResponse :: "Json \<Rightarrow> Response \<Rightarrow> error + GetTenantsResponse" where
  "ParseGetTenantsResponse j rsp =
     (case rs_Body rsp of
        Inl err \<Rightarrow> Inl err
      | Inr bodyBytes \<Rightarrow>
          let response = \<lparr> gtr_Body = bodyBytes, gtr_HTTPResponse = Some rsp,
                            gtr_JSON200 = None, gtr_JSON500 = None \<rparr> in
          if json_with_status rsp 200 then
            decode_into (unmarshal_Tenants j bodyBytes) (\<lambda>dest. response\<lparr>gtr_JSON200 := Some dest\<rparr>)
          else if json_with_status rsp 500 then
            decode_into (unmarshal_Error j bodyBytes) (\<lambda>dest. response\<lparr>gtr_JSON500 := Some dest\<rparr>)
          else Inr response)"

definition ParseCreateTenantResponse :: "Json \<Rightarrow> Response \<Rightarrow> error + CreateTenantResponse" where
  "ParseCreateTenantResponse j rsp =
     (case rs_Body rsp of
        Inl err \<Rightarrow> Inl err
      | Inr bodyBytes \<Rightarrow>
          let response = \<lparr> ctp_Body = bodyBytes, ctp_HTTPResponse = Some rsp,
                            ctp_JSON201 = None, ctp_JSON400 = None, ctp_JSON403 = None, ctp_JSON500 = None \<rparr> in
          if json_with_status rsp 201 then
            decode_into (unmarshal_Tenant j bodyBytes) (\<lambda>dest. response\<lparr>ctp_JSON201 := Some dest\<rparr>)
          else if json_with_status rsp 400 then
            decode_into (unmarshal_Error j bodyBytes) (\<lambda>dest. response\<lparr>ctp_JSON400 := Some dest\<rparr>)
          else if json_with_status rsp 403 then
            decode_into (unmarshal_Error j bodyBytes) (\<lambda>dest. response\<lparr>ctp_JSON403 := Some dest\<rparr>)
          else if json_with_status rsp 500 then
            decode_into (unmarshal_Error j bodyBytes) (\<lambda>dest. response\<lparr>ctp_JSON500 := Some dest\<rparr>)
          else Inr response)"

definition ParseValidateTenantUniqueIdResponse :: "Json \<Rightarrow> Response \<Rightarrow> error + ValidateTenantUniqueIdResponse" where
  "ParseValidateTenantUniqueIdResponse j rsp =
     (case rs_Body rsp of
        Inl err \<Rightarrow> Inl err
      | Inr bodyBytes \<Rightarrow>
          let response = \<lparr> vtr_Body = bodyBytes, vtr_HTTPResponse = Some rsp,
                            vtr_JSON200 = None, vtr_JSON400 = None, vtr_JSON500 = None \<rparr> in
          if json_with_status rsp 200 then
            decode_into (unmarshal_Availability j bodyBytes) (\<lambda>dest. response\<lparr>vtr_JSON200 := Some dest\<rparr>)
          else if json_with_status rsp 400 then
            decode_into (unmarshal_Error j bodyBytes) (\<lambda>dest. response\<lparr>vtr_JSON400 := Some dest\<rparr>)
          else if json_with_status rsp 500 then
            decode_into (unmarshal_Error j bodyBytes) (\<lambda>dest. response\<lparr>vtr_JSON500 := Some dest\<rparr>)
          else Inr response)"

definition ParseDeleteTenantResponse :: "Json \<Rightarrow> Response \<Rightarrow> error + DeleteTenantResponse" where
  "ParseDeleteTenantResponse j rsp =
     (case rs_Body rsp of
        Inl err \<Rightarrow> Inl err
      | Inr bodyBytes \<Rightarrow>
          let response = \<lparr> dtr_Body = bodyBytes, dtr_HTTPResponse = Some rsp,
                            dtr_JSON400 = None, dtr_JSON403 = None, dtr_JSON404 = None, dtr_JSON500 = None \<rparr> in
          if json_with_status rsp 400 then
            decode_into (unmarshal_Error j bodyBytes) (\<lambda>dest. response\<lparr>dtr_JSON400 := Some dest\<rparr>)
          else if json_with_status rsp 403 then
            decode_into (unmarshal_Error j bodyBytes) (\<lambda>dest. response\<lparr>dtr_JSON403 := Some dest\<rparr>)
          else if json_with_status rsp 404 then
            decode_into (unmarshal_Error j bodyBytes) (\<lambda>dest. response\<lparr>dtr_JSON404 := Some dest\<rparr>)
          else if json_with_status rsp 500 then
            decode_into (unmarshal_Error j bodyBytes) (\<lambda>dest. response\<lparr>dtr_JSON500 := Some dest\<rparr>)
          else Inr response)"

definition ParseGetTenantKubeconfigResponse :: "Json \<Rightarrow> Response \<Rightarrow> error + GetTenantKubeconfigResponse" where
  "ParseGetTenantKubeconfigResponse j rsp =
     (case rs_Body rsp of
        Inl err \<Rightarrow> Inl err
      | Inr bodyBytes \<Rightarrow>
          let response = \<lparr> gkr_Body = bodyBytes, gkr_HTTPResponse = Some rsp,
                            gkr_JSON200 = None, gkr_JSON400 = None, gkr_JSON403 = None, gkr_JSON404 = None, gkr_JSON500 = None \<rparr> in
          if json_with_status rsp 200 then
            decode_into (unmarshal_KubeconfigBody j bodyBytes) (\<lambda>dest. response\<lparr>gkr_JSON200 := Some dest\<rparr>)
          else if json_with_status rsp 400 then
            decode_into (unmarshal_Error j bodyBytes) (\<lambda>dest. response\<lparr>gkr_JSON400 := Some dest\<rparr>)
          else if json_with_status rsp 403 then
            decode_into (unmarshal_Error j bodyBytes) (\<lambda>dest. response\<lparr>gkr_JSON403 := Some dest\<rparr>)
          else if json_with_status rsp 404 then
            decode_into (unmarshal_Error j bodyBytes) (\<lambda>dest. response\<lparr>gkr_JSON404 := Some dest\<rparr>)
          else if json_with_status rsp 500 then
            decode_into (unmarshal_Error j bodyBytes) (\<lambda>dest. response\<lparr>gkr_JSON500 := Some dest\<rparr>)
          else Inr response)"

definition ParseListTenantTokensResponse :: "Json \<Rightarrow> Response \<Rightarrow> error + ListTenantTokensResponse" where
  "ParseListTenantTokensResponse j rsp =
     (case rs_Body rsp of
        Inl err \<Rightarrow> Inl err
      | Inr bodyBytes \<Rightarrow>
          let response = \<lparr> ltr_Body = bodyBytes, ltr_HTTPResponse = Some rsp,
                            ltr_JSON200 = None, ltr_JSON403 = None, ltr_JSON404 = None, ltr_JSON500 = None \<rparr> in
          if json_with_status rsp 200 then
            decode_into (unmarshal_Tokens j bodyBytes) (\<lambda>dest. response\<lparr>ltr_JSON200 := Some dest\<rparr>)
          else if json_with_status rsp 403 then
            decode_into (unmarshal_Error j bodyBytes) (\<lambda>dest. response\<lparr>ltr_JSON403 := Some dest\<rparr>)
          else if json_with_status rsp 404 then
            decode_into (unmarshal_Error j bodyBytes) (\<lambda>dest. response\<lparr>ltr_JSON404 := Some dest\<rparr>)
          else if json_with_status rsp 500 then
            decode_into (unmarshal_Error j bodyBytes) (\<lambda>dest. response\<lparr>ltr_JSON500 := Some dest\<rparr>)
          else Inr response)"

definition ParseCreateTenantTokenResponse :: "Json \<Rightarrow> Response \<Rightarrow> error + CreateTenantTokenResponse" where
  "ParseCreateTenantTokenResponse j rsp =
     (case rs_Body rsp of
        Inl err \<Rightarrow> Inl err
      | Inr bodyBytes \<Rightarrow>
          let response = \<lparr> tkr_Body = bodyBytes, tkr_HTTPResponse = Some rsp,
                            tkr_JSON201 = None, tkr_JSON400 = None, tkr_JSON403 = None, tkr_JSON404 = None, tkr_JSON500 = None \<rparr> in
          if json_with_status rsp 201 then
            decode_into (unmarshal_Token j bodyBytes) (\<lambda>dest. response\<lparr>tkr_JSON201 := Some dest\<rparr>)
          else if json_with_status rsp 400 then
            decode_into (unmarshal_Error j bodyBytes) (\<lambda>dest. response\<lparr>tkr_JSON400 := Some dest\<rparr>)
          else if json_with_status rsp 403 then
            decode_into (unmarshal_Error j bodyBytes) (\<lambda>dest. response\<lparr>tkr_JSON403 := Some dest\<rparr>)
          else if json_with_status rsp 404 then
            decode_into (unmarshal_Error j bodyBytes) (\<lambda>dest. response\<lparr>tkr_JSON404 := Some dest\<rparr>)
          else if json_with_status rsp 500 then
            decode_into (unmarshal_Error j bodyBytes) (\<lambda>dest. response\<lparr>tkr_JSON500 := Some dest\<rparr>)
          else Inr response)"

lemmas parse_defs =
  ParseGetTenantsResponse_def ParseCreateTenantResponse_def ParseValidateTenantUniqueIdResponse_def
  ParseDeleteTenantResponse_def ParseGetTenantKubeconfigResponse_def ParseListTenantTokensResponse_def
  ParseCreateTenantTokenResponse_def

section \<open>What the parsers have in common\<close>

text \<open>
  A parser keeps the response it was given and the bytes it read; it fails exactly when the body
  cannot be read or is JSON of an expected status that does not decode, and a response that does
  not call itself JSON parses whatever its body.
\<close>

locale response_parser =
  fixes parse :: "Response \<Rightarrow> error + 'r"
    and http :: "'r \<Rightarrow> Response option"
    and body :: "'r \<Rightarrow> bytes"
    and codes :: "int list"
  assumes parse_unreadable: "rs_Body rsp = Inl err \<Longrightarrow> parse rsp = Inl err"
    and parse_keeps: "parse rsp = Inr r \<Longrightarrow> http r = Some rsp \<and> rs_Body rsp = Inr (body r)"
    and parse_undecoded:
      "rs_Body rsp = Inr bs \<Longrightarrow> \<forall>c \<in> set codes. \<not> json_with_status rsp c \<Longrightarrow> \<exists>r. parse rsp = Inr r"
begin

lemma parse_status: "parse rsp = Inr r \<Longrightarrow> response_StatusCode (http r) = rs_StatusCode rsp"
  using parse_keeps by fastforce

lemma parse_not_json:
  assumes "rs_Body rsp = Inr bs" and "\<not> strings_Contains (Header_Get (rs_Header rsp) ''Content-Type'') ''json''"
  shows "\<exists>r. parse rsp = Inr r \<and> body r = bs"
  using parse_undecoded [OF assms(1)] parse_keeps assms unfolding json_with_status_def by fastforce

lemma parse_error_cause:
  assumes "parse rsp = Inl err"
  shows "rs_Body rsp = Inl err \<or> (\<exists>c \<in> set codes. json_with_status rsp c)"
  using assms parse_undecoded [of rsp] parse_unreadable [of rsp] by (cases "rs_Body rsp") fastforce+

end

lemma decode_into_Inr: "decode_into d store = Inr r \<longleftrightarrow> (\<exists>dest. d = Inr dest \<and> r = store dest)"
  by (auto simp: decode_into_def split: sum.splits)

interpretation get_tenants: response_parser "ParseGetTenantsResponse j" gtr_HTTPResponse gtr_Body "[200, 500]"
  by unfold_locales
    (auto simp: ParseGetTenantsResponse_def Let_def decode_into_Inr split: sum.splits if_splits)

interpretation create_tenant: response_parser "ParseCreateTenantResponse j" ctp_HTTPResponse ctp_Body "[201, 400, 403, 500]"
  by unfold_locales
    (auto simp: ParseCreateTenantResponse_def Let_def decode_into_Inr split: sum.splits if_splits)

interpretation validate_unique_id: response_parser "ParseValidateTenantUniqueIdResponse j" vtr_HTTPResponse vtr_Body "[200, 400, 500]"
  by unfold_locales
    (auto simp: ParseValidateTenantUniqueIdResponse_def Let_def decode_into_Inr split: sum.splits if_splits)

interpretation delete_tenant: response_parser "ParseDeleteTenantResponse j" dtr_HTTPResponse dtr_Body "[400, 403, 404, 500]"
  by unfold_locales
    (auto simp: ParseDeleteTenantResponse_def Let_def decode_into_Inr split: sum.splits if_splits)

interpretation get_kubeconfig: response_parser "ParseGetTenantKubeconfigResponse j" gkr_HTTPResponse gkr_Body "[200, 400, 403, 404, 500]"
  by unfold_locales
    (auto simp: ParseGetTenantKubeconfigResponse_def Let_def decode_into_Inr split: sum.splits if_splits)

interpretation list_tokens: response_parser "ParseListTenantTokensResponse j" ltr_HTTPResponse ltr_Body "[200, 403, 404, 500]"
  by unfold_locales
    (auto simp: ParseListTenantTokensResponse_def Let_def decode_into_Inr split: sum.splits if_splits)

interpretation create_token: response_parser "ParseCreateTenantTokenResponse j" tkr_HTTPResponse tkr_Body "[201, 400, 403, 404, 500]"
  by unfold_locales
    (auto simp: ParseCreateTenantTokenResponse_def Let_def decode_into_Inr split: sum.splits if_splits)

section \<open>The methods of ClientWithResponses\<close>

text \<open>The lines every method repeats.\<close>

definition with_response :: "('n, error + Response) go \<Rightarrow> (Response \<Rightarrow> error + 'r) \<Rightarrow> ('n, error + 'r) go" where
  "with_response send parse =
     go_bind send (\<lambda>res. case res of
       Inl err \<Rightarrow> go_return (Inl err)
     | Inr rsp \<Rightarrow> go_return (parse rsp))"

definition GetTenantsWithResponse where
  "GetTenantsWithResponse j c reqEditors =
     with_response (ci_GetTenants (cwr_ClientInterface c) reqEditors) (ParseGetTenantsResponse j)"

definition CreateTenantWithBodyWithResponse where
  "CreateTenantWithBodyWithResponse j c contentType body reqEditors =
     with_response (ci_CreateTenantWithBody (cwr_ClientInterface c) contentType body reqEditors) (ParseCreateTenantResponse j)"

definition CreateTenantWithResponse where
  "CreateTenantWithResponse j c body reqEditors =
     with_response (ci_CreateTenant (cwr_ClientInterface c) body reqEditors) (ParseCreateTenantResponse j)"

definition ValidateTenantUniqueIdWithResponse where
  "ValidateTenantUniqueIdWithResponse j c uniqueID reqEditors =
     with_response (ci_ValidateTenantUniqueId (cwr_ClientInterface c) uniqueID reqEditors) (ParseValidateTenantUniqueIdResponse j)"

definition DeleteTenantWithResponse where
  "DeleteTenantWithResponse j c tenantId reqEditors =
     with_response (ci_DeleteTenant (cwr_ClientInterface c) tenantId reqEditors) (ParseDeleteTenantResponse j)"

definition GetTenantKubeconfigWithResponse where
  "GetTenantKubeconfigWithResponse j c tenantId reqEditors =
     with_response (ci_GetTenantKubeconfig (cwr_ClientInterface c) tenantId reqEditors) (ParseGetTenantKubeconfigResponse j)"

definition ListTenantTokensWithResponse where
  "ListTenantTokensWithResponse j c tenantId reqEditors =
     with_response (ci_ListTenantTokens (cwr_ClientInterface c) tenantId reqEditors) (ParseListTenantTokensResponse j)"

definition CreateTenantTokenWithBodyWithResponse where
  "CreateTenantTokenWithBodyWithResponse j c tenantId contentType body reqEditors =
     with_response (ci_CreateTenantTokenWithBody (cwr_ClientInterface c) tenantId contentType body reqEditors) (ParseCreateTenantTokenResponse j)"

definition CreateTenantTokenWithResponse where
  "CreateTenantTokenWithResponse j c tenantId body reqEditors =
     with_response (ci_CreateTenantToken (cwr_ClientInterface c) tenantId body reqEditors) (ParseCreateTenantTokenResponse j)"

text \<open>The interface they make up, with the client that has them.\<close>

record 'n ClientWithResponsesInterface =
  cwi_GetTenants :: "'n RequestEditorFn list \<Rightarrow> ('n, error + GetTenantsResponse) go"
  cwi_CreateTenantWithBody ::
    "string \<Rightarrow> bytes \<Rightarrow> 'n RequestEditorFn list \<Rightarrow> ('n, error + CreateTenantResponse) go"
  cwi_CreateTenant ::
    "CreateTenantJSONRequestBody \<Rightarrow> 'n RequestEditorFn list \<Rightarrow> ('n, error + CreateTenantResponse) go"
  cwi_ValidateTenantUniqueId ::
    "string \<Rightarrow> 'n RequestEditorFn list \<Rightarrow> ('n, error + ValidateTenantUniqueIdResponse) go"
  cwi_DeleteTenant :: "string \<Rightarrow> 'n RequestEditorFn list \<Rightarrow> ('n, error + DeleteTenantResponse) go"
  cwi_GetTenantKubeconfig ::
    "string \<Rightarrow> 'n RequestEditorFn list \<Rightarrow> ('n, error + GetTenantKubeconfigResponse) go"
  cwi_ListTenantTokens :: "string \<Rightarrow> 'n RequestEditorFn list \<Rightarrow> ('n, error + ListTenantTokensResponse) go"
  cwi_CreateTenantTokenWithBody ::
    "string \<Rightarrow> string \<Rightarrow> bytes \<Rightarrow> 'n RequestEditorFn list \<Rightarrow> ('n, error + CreateTenantTokenResponse) go"
  cwi_CreateTenantToken ::
    "string \<Rightarrow> CreateTenantTokenJSONRequestBody \<Rightarrow> 'n RequestEditorFn list \<Rightarrow>
       ('n, error + CreateTenantTokenResponse) go"

definition with_responses :: "Json \<Rightarrow> 'n ClientWithResponses \<Rightarrow> 'n ClientWithResponsesInterface" where
  "with_responses j c = \<lparr>
     cwi_GetTenants = GetTenantsWithResponse j c,
     cwi_CreateTenantWithBody = CreateTenantWithBodyWithResponse j c,
     cwi_CreateTenant = CreateTenantWithResponse j c,
     cwi_ValidateTenantUniqueId = ValidateTenantUniqueIdWithResponse j c,
     cwi_DeleteTenant = DeleteTenantWithResponse j c,
     cwi_GetTenantKubeconfig = GetTenantKubeconfigWithResponse j c,
     cwi_ListTenantTokens = ListTenantTokensWithResponse j c,
     cwi_CreateTenantTokenWithBody = CreateTenantTokenWithBodyWithResponse j c,
     cwi_CreateTenantToken = CreateTenantTokenWithResponse j c \<rparr>"

end
