(* ===== verification/Noplane_Client.thy ===== *)
theory Noplane_Client
  imports Gen_Responses Noplane_Api
begin

text \<open>
  The HTTP client of \<^verbatim>\<open>internal/api/noplane/client.go\<close>, on top of the generated client. A nil
  tenant is \<open>None\<close>; \<^verbatim>\<open>tenantToPlane\<close> dereferences it. The client built from any API key is shown
  to implement \<open>plane_client\<close>, the interface the controller relies on.
\<close>

section \<open>Conversions\<close>

definition tenantToPlane :: "Tenant option \<Rightarrow> ('n, error + Plane) go" where
  "tenantToPlane tenant =
     (case tenant of
        None \<Rightarrow> go_panic ''nil pointer dereference''
      | Some t \<Rightarrow>
          let plane = \<lparr> plane_ID = tn_Id t, plane_Name = tn_Name t, plane_Status = ''created'',
                        plane_Endpoint = \<lparr> ep_Host = '''', ep_Port = 0 \<rparr>, plane_KubernetesVersion = '''' \<rparr>;
              plane1 = (case tn_KubernetesVersion t of
                          Some v \<Rightarrow> plane\<lparr>plane_KubernetesVersion := v\<rparr> | None \<Rightarrow> plane);
              plane2 = (case tn_Hostname t of
                          Some hostname \<Rightarrow>
                            plane1\<lparr>plane_Status := ''ready'',
                                   plane_Endpoint := \<lparr> ep_Host = hostname, ep_Port = 6443 \<rparr>\<rparr>
                        | None \<Rightarrow>
                            (case tn_Subdomain t of
                               Some subdomain \<Rightarrow>
                                 plane1\<lparr>plane_Endpoint := \<lparr> ep_Host = subdomain @ ''.k8s.noplane.io'', ep_Port = 6443 \<rparr>\<rparr>
                             | None \<Rightarrow> plane1))
          in go_return (Inr plane2))"

definition apiError :: "int \<Rightarrow> Error option \<Rightarrow> error" where
  "apiError statusCode apiErr =
     (case apiErr of
        Some e \<Rightarrow>
          (case er_Detail e of
             Some detail \<Rightarrow> Errorf ''API error %d: %s'' [FmtD statusCode, FmtS detail]
           | None \<Rightarrow> Errorf ''API error %d'' [FmtD statusCode])
      | None \<Rightarrow> Errorf ''API error %d'' [FmtD statusCode])"

definition unexpected_status :: "int \<Rightarrow> bytes \<Rightarrow> error" where
  "unexpected_status code body = Errorf ''unexpected status %d: %s'' [FmtD code, FmtS body]"

section \<open>The client\<close>

record 'n Client =
  np_client :: "'n ClientWithResponses"

text \<open>The request editor that \<^verbatim>\<open>NewClient\<close> installs.\<close>

definition auth_editor :: "string \<Rightarrow> 'n RequestEditorFn" where
  "auth_editor apiKey req =
     go_return (None, req\<lparr>rq_Header := Header_Set (rq_Header req) ''Authorization'' (''Bearer '' @ apiKey)\<rparr>)"

definition Client_CreatePlane :: "Json \<Rightarrow> 'n Client \<Rightarrow> CreateRequest \<Rightarrow> ('n, error + Plane) go" where
  "Client_CreatePlane j c req =
     go_bind (CreateTenantWithResponse j (np_client c)
       \<lparr> ctr_Description = None, ctr_KubernetesVersion = Some (cr_KubernetesVersion req), ctr_Labels = None,
         ctr_Name = cr_Name req, ctr_Replicas = Some 1, ctr_Subdomain = Some (cr_Name req),
         ctr_UniqueId = cr_Name req \<rparr> []) (\<lambda>res.
     case res of
       Inl err \<Rightarrow> go_return (Inl err)
     | Inr resp \<Rightarrow>
         let code = CreateTenantResponse_StatusCode resp in
         if code = 201 then tenantToPlane (ctp_JSON201 resp)
         else if code = 400 then go_return (Inl (apiError code (ctp_JSON400 resp)))
         else if code = 403 then go_return (Inl (apiError code (ctp_JSON403 resp)))
         else if code = 500 then go_return (Inl (apiError code (ctp_JSON500 resp)))
         else go_return (Inl (unexpected_status code (ctp_Body resp))))"

definition listTenants :: "Json \<Rightarrow> 'n Client \<Rightarrow> ('n, error + Tenant list) go" where
  "listTenants j c =
     go_bind (GetTenantsWithResponse j (np_client c) []) (\<lambda>res.
     case res of
       Inl err \<Rightarrow> go_return (Inl err)
     | Inr resp \<Rightarrow>
         let code = GetTenantsResponse_StatusCode resp in
         if code = 200 then
           go_return (Inr (case gtr_JSON200 resp of None \<Rightarrow> [] | Some tenants \<Rightarrow> tenants))
         else if code = 500 then go_return (Inl (apiError code (gtr_JSON500 resp)))
         else go_return (Inl (unexpected_status code (gtr_Body resp))))"

text \<open>The search loop of \<^verbatim>\<open>GetPlane\<close> and \<^verbatim>\<open>GetPlaneByName\<close>: the first match is converted.\<close>

fun find_tenant :: "(Tenant \<Rightarrow> bool) \<Rightarrow> error \<Rightarrow> Tenant list \<Rightarrow> ('n, error + Plane) go" where
  "find_tenant matches missing [] = go_return (Inl missing)"
| "find_tenant matches missing (t # ts) =
     (if matches t then tenantToPlane (Some t) else find_tenant matches missing ts)"

definition Client_GetPlane :: "Json \<Rightarrow> 'n Client \<Rightarrow> string \<Rightarrow> ('n, error + Plane) go" where
  "Client_GetPlane j c ident =
     go_bind (listTenants j c) (\<lambda>res.
     case res of
       Inl err \<Rightarrow> go_return (Inl err)
     | Inr tenants \<Rightarrow>
         find_tenant (\<lambda>t. tn_Id t = ident) (Errorf ''plane %q not found'' [FmtS ident]) tenants)"

definition Client_GetPlaneByName :: "Json \<Rightarrow> 'n Client \<Rightarrow> string \<Rightarrow> ('n, error + Plane) go" where
  "Client_GetPlaneByName j c name =
     go_bind (listTenants j c) (\<lambda>res.
     case res of
       Inl err \<Rightarrow> go_return (Inl err)
     | Inr tenants \<Rightarrow>
         find_tenant (\<lambda>t. tn_Name t = name) (Errorf ''plane with name %q not found'' [FmtS name]) tenants)"

definition Client_UpdatePlane :: "'n Client \<Rightarrow> string \<Rightarrow> UpdateRequest \<Rightarrow> ('n, error option) go" where
  "Client_UpdatePlane c ident req = go_return (Some (Errorf ''UpdatePlane is not supported by the API'' []))"

definition Client_DeletePlane :: "Json \<Rightarrow> 'n Client \<Rightarrow> string \<Rightarrow> ('n, error option) go" where
  "Client_DeletePlane j c ident =
     go_bind (DeleteTenantWithResponse j (np_client c) ident []) (\<lambda>res.
     case res of
       Inl err \<Rightarrow> go_return (Some err)
     | Inr resp \<Rightarrow>
         let code = DeleteTenantResponse_StatusCode resp in
         if code = 204 then go_return None
         else if code = 400 then go_return (Some (apiError code (dtr_JSON400 resp)))
         else if code = 403 then go_return (Some (apiError code (dtr_JSON403 resp)))
         else if code = 404 then go_return (Some (apiError code (dtr_JSON404 resp)))
         else if code = 500 then go_return (Some (apiError code (dtr_JSON500 resp)))
         else go_return (Some (unexpected_status code (dtr_Body resp))))"

definition Client_GetKubeconfig :: "Json \<Rightarrow> 'n Client \<Rightarrow> string \<Rightarrow> ('n, error + bytes) go" where
  "Client_GetKubeconfig j c ident =
     go_bind (GetTenantKubeconfigWithResponse j (np_client c) ident []) (\<lambda>res.
     case res of
       Inl err \<Rightarrow> go_return (Inl err)
     | Inr resp \<Rightarrow>
         let code = GetTenantKubeconfigResponse_StatusCode resp in
         if code = 200 then
           (case gkr_JSON200 resp of
              None \<Rightarrow> go_return (Inl (Errorf ''empty kubeconfig response'' []))
            | Some b \<Rightarrow> go_return (Inr (kb_Kubeconfig b)))
         else if code = 400 then go_return (Inl (apiError code (gkr_JSON400 resp)))
         else if code = 403 then go_return (Inl (apiError code (gkr_JSON403 resp)))
         else if code = 404 then go_return (Inl (apiError code (gkr_JSON404 resp)))
         else if code = 500 then go_return (Inl (apiError code (gkr_JSON500 resp)))
         else go_return (Inl (unexpected_status code (gkr_Body resp))))"

definition noplane_client :: "Json \<Rightarrow> 'n Client \<Rightarrow> 'n ClientInterface" where
  "noplane_client j c = \<lparr>
     CreatePlane = Client_CreatePlane j c, GetPlane = Client_GetPlane j c,
     GetPlaneByName = Client_GetPlaneByName j c, UpdatePlane = Client_UpdatePlane c,
     DeletePlane = Client_DeletePlane j c, GetKubeconfig = Client_GetKubeconfig j c \<rparr>"

lemma noplane_client_simps [simp]:
  "CreatePlane (noplane_client j c) = Client_CreatePlane j c" "GetPlane (noplane_client j c) = Client_GetPlane j c"
  "GetPlaneByName (noplane_client j c) = Client_GetPlaneByName j c"
  "UpdatePlane (noplane_client j c) = Client_UpdatePlane c"
  "DeletePlane (noplane_client j c) = Client_DeletePlane j c"
  "GetKubeconfig (noplane_client j c) = Client_GetKubeconfig j c"
  by (simp_all add: noplane_client_def)

definition NewClient :: "('u, 'n) GoHttp \<Rightarrow> Json \<Rightarrow> 'n ClientFactory" where
  "NewClient h j apiKey =
     (case NewClientWithResponses h j ''https://api.noplane.io/api/v1/'' [WithRequestEditorFn (auth_editor apiKey)] of
        Inl err \<Rightarrow> Inl err
      | Inr client \<Rightarrow> Inr (noplane_client j \<lparr> np_client = client \<rparr>))"

section \<open>The client NewClient builds\<close>

definition api_v1_client :: "('u, 'n) GoHttp \<Rightarrow> string \<Rightarrow> 'n V1_Client" where
  "api_v1_client h apiKey = \<lparr> v1_Server = ''https://api.noplane.io/api/v1/'',
     v1_Client = Some (http_DefaultDo h), v1_RequestEditors = [auth_editor apiKey] \<rparr>"

definition api_client :: "('u, 'n) GoHttp \<Rightarrow> Json \<Rightarrow> string \<Rightarrow> 'n Client" where
  "api_client h j apiKey = \<lparr> np_client = \<lparr> cwr_ClientInterface = client_interface h j (api_v1_client h apiKey) \<rparr> \<rparr>"

lemma NewClient_Inr: "NewClient h j apiKey = Inr (noplane_client j (api_client h j apiKey))"
  by (simp add: NewClient_def NewClientWithResponses_def V1_NewClient_def WithRequestEditorFn_def
      strings_HasSuffix_def api_client_def api_v1_client_def Let_def)

text \<open>A request as it is sent: with the bearer token set.\<close>

definition authorized :: "string \<Rightarrow> Request \<Rightarrow> Request" where
  "authorized apiKey req = req\<lparr>rq_Header := Header_Set (rq_Header req) ''Authorization'' (''Bearer '' @ apiKey)\<rparr>"

lemma send_authorized:
  "send_request (api_v1_client h apiKey) built [] =
     (case built of
        Inl err \<Rightarrow> go_return (Inl err)
      | Inr req \<Rightarrow> go_call (http_DefaultDo h (authorized apiKey req)))"
  by (simp add: send_request_def applyEditors_def api_v1_client_def client_Do_def auth_editor_def authorized_def
      split: sum.split)

section \<open>Requests and their answers\<close>

text \<open>One exchange: build, send with the token, parse. It always returns.\<close>

definition exchange ::
  "('u, 'n) GoHttp \<Rightarrow> string \<Rightarrow> error + Request \<Rightarrow> (Response \<Rightarrow> error + 'r) \<Rightarrow> 'n \<Rightarrow> (error + 'r) \<times> 'n"
where
  "exchange h apiKey built parse s =
     (case built of
        Inl err \<Rightarrow> (Inl err, s)
      | Inr req \<Rightarrow>
          (case http_DefaultDo h (authorized apiKey req) s of
             (Inl err, s') \<Rightarrow> (Inl err, s')
           | (Inr rsp, s') \<Rightarrow> (parse rsp, s')))"

lemma with_response_exchange:
  "with_response (send_request (api_v1_client h apiKey) built []) parse = go_call (exchange h apiKey built parse)"
  by (rule ext)
    (simp add: send_authorized with_response_def exchange_def go_call_def go_bind_def go_return_def
      split: sum.split prod.split)

lemma v1_server [simp]: "v1_Server (api_v1_client h apiKey) = ''https://api.noplane.io/api/v1/''"
  by (simp add: api_v1_client_def)

lemma api_exchanges:
  "GetTenantsWithResponse j (np_client (api_client h j apiKey)) [] =
     go_call (exchange h apiKey (NewGetTenantsRequest h ''https://api.noplane.io/api/v1/'') (ParseGetTenantsResponse j))"
  "CreateTenantWithResponse j (np_client (api_client h j apiKey)) body [] =
     go_call (exchange h apiKey (NewCreateTenantRequest h j ''https://api.noplane.io/api/v1/'' body) (ParseCreateTenantResponse j))"
  "DeleteTenantWithResponse j (np_client (api_client h j apiKey)) ident [] =
     go_call (exchange h apiKey (NewDeleteTenantRequest h ''https://api.noplane.io/api/v1/'' ident) (ParseDeleteTenantResponse j))"
  "GetTenantKubeconfigWithResponse j (np_client (api_client h j apiKey)) ident [] =
     go_call (exchange h apiKey (NewGetTenantKubeconfigRequest h ''https://api.noplane.io/api/v1/'' ident) (ParseGetTenantKubeconfigResponse j))"
  by (simp_all add: GetTenantsWithResponse_def CreateTenantWithResponse_def DeleteTenantWithResponse_def
      GetTenantKubeconfigWithResponse_def api_client_def V1_GetTenants_def V1_CreateTenant_def V1_DeleteTenant_def
      V1_GetTenantKubeconfig_def with_response_exchange)

lemma go_bind_call: "go_bind (go_call f) g s = (case f s of (a, s') \<Rightarrow> g a s')"
  by (simp add: go_bind_def go_call_def split: prod.split)

section \<open>Tenants as planes\<close>

definition plane_of :: "Tenant \<Rightarrow> Plane" where
  "plane_of t = \<lparr> plane_ID = tn_Id t, plane_Name = tn_Name t,
     plane_Status = (if tn_Hostname t \<noteq> None then ''ready'' else ''created''),
     plane_Endpoint =
       (case (tn_Hostname t, tn_Subdomain t) of
          (Some hostname, _) \<Rightarrow> \<lparr> ep_Host = hostname, ep_Port = 6443 \<rparr>
        | (None, Some subdomain) \<Rightarrow> \<lparr> ep_Host = subdomain @ ''.k8s.noplane.io'', ep_Port = 6443 \<rparr>
        | (None, None) \<Rightarrow> \<lparr> ep_Host = '''', ep_Port = 0 \<rparr>),
     plane_KubernetesVersion = (case tn_KubernetesVersion t of Some v \<Rightarrow> v | None \<Rightarrow> '''') \<rparr>"

lemma tenantToPlane_Some: "tenantToPlane (Some t) = go_return (Inr (plane_of t))"
  by (simp add: tenantToPlane_def plane_of_def Let_def split: option.split)

lemma plane_of_simps [simp]:
  "plane_ID (plane_of t) = tn_Id t" "plane_Name (plane_of t) = tn_Name t"
  by (simp_all add: plane_of_def)

lemma find_tenant_eq:
  "find_tenant matches missing ts =
     go_return (case find matches ts of None \<Rightarrow> Inl missing | Some t \<Rightarrow> Inr (plane_of t))"
  by (induction ts) (simp_all add: tenantToPlane_Some)

text \<open>
  C31: The readiness signal: a tenant becomes a plane with its own identifier and name that is
  ready exactly when the tenant has a hostname, and a ready plane's endpoint is that hostname on
  port 6443, a port that the controller's conversion to 32 bits keeps.
\<close>
theorem tenantToPlane_ready:
  "\<exists>p. tenantToPlane (Some t) s = (Returns (Inr p), s) \<and> plane_ID p = tn_Id t \<and> plane_Name p = tn_Name t
     \<and> (plane_Status p = ''ready'' \<longleftrightarrow> (\<exists>hostname. tn_Hostname t = Some hostname
           \<and> plane_Endpoint p = \<lparr> ep_Host = hostname, ep_Port = 6443 \<rparr>))
     \<and> sint (int32_of_int (ep_Port (plane_Endpoint p))) = sint (ep_Port (plane_Endpoint p))"
  by (auto simp: tenantToPlane_Some go_return_def plane_of_def int32_of_int_def split: option.split)

section \<open>Outcomes of each operation\<close>

lemma listTenants_total: "\<exists>r s'. listTenants j (api_client h j apiKey) s = (Returns r, s')"
  by (auto simp: listTenants_def api_exchanges go_bind_call go_return_def Let_def split: prod.split sum.split)

lemma Client_lookup_run:
  assumes "listTenants j (api_client h j apiKey) s = (Returns r, s')"
  shows "Client_GetPlane j (api_client h j apiKey) ident s =
      (Returns (case r of Inl err \<Rightarrow> Inl err
         | Inr ts \<Rightarrow> (case find (\<lambda>t. tn_Id t = ident) ts of
             None \<Rightarrow> Inl (Errorf ''plane %q not found'' [FmtS ident]) | Some t \<Rightarrow> Inr (plane_of t))), s')"
    and "Client_GetPlaneByName j (api_client h j apiKey) name s =
      (Returns (case r of Inl err \<Rightarrow> Inl err
         | Inr ts \<Rightarrow> (case find (\<lambda>t. tn_Name t = name) ts of
             None \<Rightarrow> Inl (Errorf ''plane with name %q not found'' [FmtS name]) | Some t \<Rightarrow> Inr (plane_of t))), s')"
  using assms
  by (simp_all add: Client_GetPlane_def Client_GetPlaneByName_def go_bind_def find_tenant_eq go_return_def split: sum.split)

lemma find_Some_matches: "find P xs = Some x \<Longrightarrow> P x"
  by (auto simp: find_Some_iff)

lemma Client_lookups_total:
  "\<exists>r s'. Client_GetPlane j (api_client h j apiKey) ident s = (Returns r, s')"
  "\<exists>r s'. Client_GetPlaneByName j (api_client h j apiKey) name s = (Returns r, s')"
proof -
  obtain r s' where run: "listTenants j (api_client h j apiKey) s = (Returns r, s')"
    using listTenants_total [of j h apiKey s] by auto
  show "\<exists>r s'. Client_GetPlane j (api_client h j apiKey) ident s = (Returns r, s')"
    and "\<exists>r s'. Client_GetPlaneByName j (api_client h j apiKey) name s = (Returns r, s')"
    by (simp_all add: Client_lookup_run [OF run])
qed

lemma Client_GetPlane_ID:
  "Client_GetPlane j (api_client h j apiKey) ident s = (Returns (Inr p), s') \<Longrightarrow> plane_ID p = ident"
  using listTenants_total [of j h apiKey s] Client_lookup_run(1) [of j h apiKey s _ _ ident]
  by (auto split: sum.splits option.splits dest: find_Some_matches)

lemma Client_GetPlaneByName_Name:
  "Client_GetPlaneByName j (api_client h j apiKey) name s = (Returns (Inr p), s') \<Longrightarrow> plane_Name p = name"
  using listTenants_total [of j h apiKey s] Client_lookup_run(2) [of j h apiKey s _ _ name]
  by (auto split: sum.splits option.splits dest: find_Some_matches)

lemma Client_others_total:
  "\<exists>r s'. Client_UpdatePlane c ident u s = (Returns r, s')"
  "\<exists>r s'. Client_DeletePlane j (api_client h j apiKey) ident s = (Returns r, s')"
  "\<exists>r s'. Client_GetKubeconfig j (api_client h j apiKey) ident s = (Returns r, s')"
  by (auto simp: Client_UpdatePlane_def Client_DeletePlane_def Client_GetKubeconfig_def api_exchanges go_bind_call
      go_return_def Let_def split: prod.split sum.split option.split)

interpretation real: plane_client "noplane_client j (api_client h j apiKey)" "\<lambda>_. True"
  by unfold_locales
    (simp_all add: Client_lookups_total Client_others_total Client_GetPlane_ID Client_GetPlaneByName_Name)

text \<open>
  What the client built from any API key promises the controller: looking up a plane by its
  identifier or by its name never panics, and a plane it returns is the one that was asked for.
\<close>
lemma NewClient_lookups:
  "\<exists>api. NewClient h j apiKey = Inr api
     \<and> (\<exists>r s'. GetPlane api ident s = (Returns r, s') \<and> (\<forall>p. r = Inr p \<longrightarrow> plane_ID p = ident))
     \<and> (\<exists>r s'. GetPlaneByName api name s = (Returns r, s') \<and> (\<forall>p. r = Inr p \<longrightarrow> plane_Name p = name))"
  using real.GetPlane_total [of j h apiKey ident s] real.GetPlane_ID [of j h apiKey ident s]
    real.GetPlaneByName_total [of j h apiKey name s] real.GetPlaneByName_Name [of j h apiKey name s]
  by (fastforce simp: NewClient_Inr)

text \<open>The answer that ends an exchange: the request could be built, and was answered.\<close>

definition answered :: "('u, 'n) GoHttp \<Rightarrow> string \<Rightarrow> error + Request \<Rightarrow> 'n \<Rightarrow> Response \<Rightarrow> 'n \<Rightarrow> bool" where
  "answered h apiKey built s rsp s' \<longleftrightarrow>
     (case built of Inl _ \<Rightarrow> False | Inr req \<Rightarrow> http_DefaultDo h (authorized apiKey req) s = (Inr rsp, s'))"

lemma exchange_answered: "answered h apiKey built s rsp s' \<Longrightarrow> exchange h apiKey built parse s = (parse rsp, s')"
  by (auto simp: answered_def exchange_def split: sum.splits)

lemma exchange_Inr:
  "exchange h apiKey built parse s = (Inr r, s') \<longleftrightarrow> (\<exists>rsp. answered h apiKey built s rsp s' \<and> parse rsp = Inr r)"
  by (auto simp: answered_def exchange_def split: sum.splits prod.splits)

text \<open>
  C28: \<open>DeletePlane\<close> succeeds exactly when the service answered the delete request with status 204
  and its body could be read; every other answer, 404 included, is an error.
\<close>
theorem Client_DeletePlane_success_iff:
  "Client_DeletePlane j (api_client h j apiKey) ident s = (Returns None, s') \<longleftrightarrow>
     (\<exists>rsp bs. answered h apiKey (NewDeleteTenantRequest h ''https://api.noplane.io/api/v1/'' ident) s rsp s'
        \<and> rs_StatusCode rsp = 204 \<and> rs_Body rsp = Inr bs)"
proof -
  let ?built = "NewDeleteTenantRequest h ''https://api.noplane.io/api/v1/'' ident"
  have "Client_DeletePlane j (api_client h j apiKey) ident s = (Returns None, s') \<longleftrightarrow>
    (\<exists>r. exchange h apiKey ?built (ParseDeleteTenantResponse j) s = (Inr r, s') \<and> DeleteTenantResponse_StatusCode r = 204)"
    by (auto simp: Client_DeletePlane_def api_exchanges go_bind_call go_return_def Let_def
        split: prod.splits sum.splits if_splits)
  also have "\<dots> \<longleftrightarrow> (\<exists>rsp bs. answered h apiKey ?built s rsp s' \<and> rs_StatusCode rsp = 204 \<and> rs_Body rsp = Inr bs)"
  proof -
    have "(\<exists>r. ParseDeleteTenantResponse j rsp = Inr r \<and> DeleteTenantResponse_StatusCode r = 204)
        \<longleftrightarrow> rs_StatusCode rsp = 204 \<and> (\<exists>bs. rs_Body rsp = Inr bs)" for rsp
      using delete_tenant.parse_keeps [of j rsp] delete_tenant.parse_undecoded [of rsp]
      by (fastforce simp: DeleteTenantResponse_StatusCode_def json_with_status_def)
    then show ?thesis unfolding exchange_Inr by blast
  qed
  finally show ?thesis .
qed

text \<open>
  C29: \<open>GetKubeconfig\<close> returns a kubeconfig exactly when the service answered with status 200 and a
  JSON body that decodes; what it returns is the field of that body, unchanged.
\<close>
theorem Client_GetKubeconfig_success_iff:
  "Client_GetKubeconfig j (api_client h j apiKey) ident s = (Returns (Inr kubeconfig), s') \<longleftrightarrow>
     (\<exists>rsp bs. answered h apiKey (NewGetTenantKubeconfigRequest h ''https://api.noplane.io/api/v1/'' ident) s rsp s'
        \<and> json_with_status rsp 200 \<and> rs_Body rsp = Inr bs
        \<and> unmarshal_KubeconfigBody j bs = Inr \<lparr> kb_Kubeconfig = kubeconfig \<rparr>)"
proof -
  let ?built = "NewGetTenantKubeconfigRequest h ''https://api.noplane.io/api/v1/'' ident"
  have "Client_GetKubeconfig j (api_client h j apiKey) ident s = (Returns (Inr kubeconfig), s') \<longleftrightarrow>
    (\<exists>r b. exchange h apiKey ?built (ParseGetTenantKubeconfigResponse j) s = (Inr r, s')
        \<and> GetTenantKubeconfigResponse_StatusCode r = 200 \<and> gkr_JSON200 r = Some b \<and> kb_Kubeconfig b = kubeconfig)"
    by (auto simp: Client_GetKubeconfig_def api_exchanges go_bind_call go_return_def Let_def
        split: prod.splits sum.splits if_splits option.splits)
  also have "\<dots> \<longleftrightarrow> (\<exists>rsp bs. answered h apiKey ?built s rsp s' \<and> json_with_status rsp 200 \<and> rs_Body rsp = Inr bs
        \<and> unmarshal_KubeconfigBody j bs = Inr \<lparr> kb_Kubeconfig = kubeconfig \<rparr>)"
  proof -
    have "(\<exists>r b. ParseGetTenantKubeconfigResponse j rsp = Inr r \<and> GetTenantKubeconfigResponse_StatusCode r = 200
          \<and> gkr_JSON200 r = Some b \<and> kb_Kubeconfig b = kubeconfig)
        \<longleftrightarrow> json_with_status rsp 200 \<and> (\<exists>bs. rs_Body rsp = Inr bs
          \<and> unmarshal_KubeconfigBody j bs = Inr \<lparr> kb_Kubeconfig = kubeconfig \<rparr>)" for rsp
      by (cases "rs_Body rsp")
        (auto simp: ParseGetTenantKubeconfigResponse_def GetTenantKubeconfigResponse_StatusCode_def Let_def
          decode_into_Inr json_with_status_def)
    then show ?thesis unfolding exchange_Inr by blast
  qed
  finally show ?thesis .
qed

text \<open>What creating a plane asks for.\<close>

definition create_tenant_body :: "CreateRequest \<Rightarrow> CreateTenantRequest" where
  "create_tenant_body req = \<lparr> ctr_Description = None, ctr_KubernetesVersion = Some (cr_KubernetesVersion req),
     ctr_Labels = None, ctr_Name = cr_Name req, ctr_Replicas = Some 1, ctr_Subdomain = Some (cr_Name req),
     ctr_UniqueId = cr_Name req \<rparr>"

lemma Client_CreatePlane_run:
  "Client_CreatePlane j (api_client h j apiKey) req s =
     (case exchange h apiKey (NewCreateTenantRequest h j ''https://api.noplane.io/api/v1/'' (create_tenant_body req))
             (ParseCreateTenantResponse j) s of
        (Inl err, s') \<Rightarrow> (Returns (Inl err), s')
      | (Inr resp, s') \<Rightarrow>
          let code = CreateTenantResponse_StatusCode resp in
          if code = 201 then
            (case ctp_JSON201 resp of
               None \<Rightarrow> (Panics ''nil pointer dereference'', s')
             | Some t \<Rightarrow> (Returns (Inr (plane_of t)), s'))
          else (Returns (Inl (if code = 400 then apiError code (ctp_JSON400 resp)
             else if code = 403 then apiError code (ctp_JSON403 resp)
             else if code = 500 then apiError code (ctp_JSON500 resp)
             else unexpected_status code (ctp_Body resp))), s'))"
  by (simp add: Client_CreatePlane_def api_exchanges go_bind_call go_return_def go_panic_def Let_def
      create_tenant_body_def tenantToPlane_Some tenantToPlane_def [of None] split: prod.split sum.split option.split)

lemma parse_created:
  "ParseCreateTenantResponse j rsp = Inr r \<and> CreateTenantResponse_StatusCode r = 201 \<and> ctp_JSON201 r = Some t
     \<longleftrightarrow> json_with_status rsp 201 \<and> (\<exists>bs. rs_Body rsp = Inr bs \<and> unmarshal_Tenant j bs = Inr t
          \<and> r = \<lparr> ctp_Body = bs, ctp_HTTPResponse = Some rsp, ctp_JSON201 = Some t, ctp_JSON400 = None,
                  ctp_JSON403 = None, ctp_JSON500 = None \<rparr>)"
  "ParseCreateTenantResponse j rsp = Inr r \<and> CreateTenantResponse_StatusCode r = 201 \<and> ctp_JSON201 r = None
     \<longleftrightarrow> rs_StatusCode rsp = 201 \<and> \<not> json_with_status rsp 201 \<and> (\<exists>bs. rs_Body rsp = Inr bs
          \<and> r = \<lparr> ctp_Body = bs, ctp_HTTPResponse = Some rsp, ctp_JSON201 = None, ctp_JSON400 = None,
                  ctp_JSON403 = None, ctp_JSON500 = None \<rparr>)"
  by (cases "rs_Body rsp";
      auto simp: ParseCreateTenantResponse_def CreateTenantResponse_StatusCode_def Let_def decode_into_Inr
        json_with_status_def)+

text \<open>
  C27: \<open>CreatePlane\<close> returns a plane exactly when the service answered with status 201 and a JSON
  body that decodes to a tenant, and the plane is that tenant.
\<close>
theorem Client_CreatePlane_success_iff:
  "Client_CreatePlane j (api_client h j apiKey) req s = (Returns (Inr p), s') \<longleftrightarrow>
     (\<exists>rsp bs t.
        answered h apiKey (NewCreateTenantRequest h j ''https://api.noplane.io/api/v1/'' (create_tenant_body req)) s rsp s'
        \<and> json_with_status rsp 201 \<and> rs_Body rsp = Inr bs \<and> unmarshal_Tenant j bs = Inr t \<and> p = plane_of t)"
proof -
  let ?built = "NewCreateTenantRequest h j ''https://api.noplane.io/api/v1/'' (create_tenant_body req)"
  have "Client_CreatePlane j (api_client h j apiKey) req s = (Returns (Inr p), s') \<longleftrightarrow>
    (\<exists>r t. exchange h apiKey ?built (ParseCreateTenantResponse j) s = (Inr r, s')
        \<and> CreateTenantResponse_StatusCode r = 201 \<and> ctp_JSON201 r = Some t \<and> p = plane_of t)"
    unfolding Client_CreatePlane_run by (auto simp: Let_def split: prod.splits sum.splits if_splits option.splits)
  then show ?thesis unfolding exchange_Inr using parse_created(1) by blast
qed

section \<open>What goes over the wire\<close>

text \<open>A library whose transport keeps the requests it is given, and those one call sends through it.\<close>

definition recorded :: "('u, 'n) GoHttp \<Rightarrow> ('u, 'n \<times> Request list) GoHttp" where
  "recorded h = \<lparr> url_Parse = url_Parse h, url_ParseRef = url_ParseRef h, url_String = url_String h,
     http_NewRequest = http_NewRequest h,
     http_DefaultDo = (\<lambda>req (s, log). case http_DefaultDo h req s of (res, s') \<Rightarrow> (res, (s', log @ [req]))),
     styleParam = styleParam h \<rparr>"

definition requests :: "('n \<times> Request list, 'a) go \<Rightarrow> 'n \<Rightarrow> Request list" where
  "requests m s = snd (snd (m (s, [])))"

text \<open>What a method should send: its request with the bearer token, once, or nothing if it could not be built.\<close>

definition sent :: "string \<Rightarrow> error + Request \<Rightarrow> Request list" where
  "sent apiKey built = (case built of Inl _ \<Rightarrow> [] | Inr req \<Rightarrow> [authorized apiKey req])"

lemma recorded_simps [simp]:
  "url_Parse (recorded h) = url_Parse h" "url_ParseRef (recorded h) = url_ParseRef h" "url_String (recorded h) = url_String h"
  "http_NewRequest (recorded h) = http_NewRequest h" "styleParam (recorded h) = styleParam h"
  "http_DefaultDo (recorded h) req (s, log) = (case http_DefaultDo h req s of (res, s') \<Rightarrow> (res, (s', log @ [req])))"
  by (simp_all add: recorded_def)

lemma recorded_builders [simp]:
  "NewGetTenantsRequest (recorded h) = NewGetTenantsRequest h"
  "NewCreateTenantRequest (recorded h) = NewCreateTenantRequest h"
  "NewDeleteTenantRequest (recorded h) = NewDeleteTenantRequest h"
  "NewGetTenantKubeconfigRequest (recorded h) = NewGetTenantKubeconfigRequest h"
  by (simp_all add: fun_eq_iff NewGetTenantsRequest_def NewCreateTenantRequest_def NewCreateTenantRequestWithBody_def
      NewDeleteTenantRequest_def NewGetTenantKubeconfigRequest_def build_request_def build_param_request_def cong: sum.case_cong)

lemma exchange_recorded: "snd (snd (exchange (recorded h) apiKey built parse (s, []))) = sent apiKey built"
  by (simp add: exchange_def sent_def split: sum.split prod.split)

lemma requests_bind_call:
  assumes "\<And>a s'. snd (g a s') = s'"
  shows "requests (go_bind (go_call (exchange (recorded h) apiKey built parse)) g) s = sent apiKey built"
  using exchange_recorded [of h apiKey built parse s]
  by (cases "exchange (recorded h) apiKey built parse (s, [])") (simp add: requests_def go_bind_call assms)

lemma find_tenant_state [simp]: "snd (find_tenant matches missing ts s) = s"
  by (simp add: find_tenant_eq go_return_def)

text \<open>What follows the exchange in a method leaves the state alone.\<close>

lemma tenantToPlane_state [simp]: "snd (tenantToPlane t s) = s"
  by (cases t) (simp_all add: tenantToPlane_Some go_return_def, simp add: tenantToPlane_def go_panic_def)

lemmas sent_states = go_return_def go_bind_def Let_def

text \<open>
  C30: The client that \<open>NewClient\<close> builds from an API key sends one request per call: the one its
  operation describes, to the address of the service, and nothing when it cannot be built or when
  the operation is not supported. Every request it sends carries the key as its bearer token.
\<close>
theorem client_requests_authorized:
  "\<exists>api. NewClient (recorded h) j apiKey = Inr api
    \<and> requests (CreatePlane api req) s =
        sent apiKey (NewCreateTenantRequest h j ''https://api.noplane.io/api/v1/'' (create_tenant_body req))
    \<and> requests (GetPlane api ident) s = sent apiKey (NewGetTenantsRequest h ''https://api.noplane.io/api/v1/'')
    \<and> requests (GetPlaneByName api name) s = sent apiKey (NewGetTenantsRequest h ''https://api.noplane.io/api/v1/'')
    \<and> requests (DeletePlane api ident) s = sent apiKey (NewDeleteTenantRequest h ''https://api.noplane.io/api/v1/'' ident)
    \<and> requests (GetKubeconfig api ident) s =
        sent apiKey (NewGetTenantKubeconfigRequest h ''https://api.noplane.io/api/v1/'' ident)
    \<and> requests (UpdatePlane api ident u) s = []
    \<and> list_all (\<lambda>r. Header_Get (rq_Header r) ''Authorization'' = ''Bearer '' @ apiKey) (sent apiKey built)"
proof -
  let ?c = "api_client (recorded h) j apiKey"
  have create: "requests (Client_CreatePlane j ?c req) s =
      sent apiKey (NewCreateTenantRequest h j ''https://api.noplane.io/api/v1/'' (create_tenant_body req))"
    unfolding Client_CreatePlane_def api_exchanges recorded_builders create_tenant_body_def [symmetric]
    by (rule requests_bind_call) (simp add: sent_states split: sum.split)
  have lookups: "requests (Client_GetPlane j ?c ident) s = sent apiKey (NewGetTenantsRequest h ''https://api.noplane.io/api/v1/'')"
    "requests (Client_GetPlaneByName j ?c name) s = sent apiKey (NewGetTenantsRequest h ''https://api.noplane.io/api/v1/'')"
    unfolding Client_GetPlane_def Client_GetPlaneByName_def listTenants_def api_exchanges recorded_builders go_bind_assoc
    by (rule requests_bind_call, simp add: sent_states split: sum.split)+
  have delete: "requests (Client_DeletePlane j ?c ident) s =
      sent apiKey (NewDeleteTenantRequest h ''https://api.noplane.io/api/v1/'' ident)"
    unfolding Client_DeletePlane_def api_exchanges recorded_builders
    by (rule requests_bind_call) (simp add: sent_states split: sum.split)
  have kubeconfig: "requests (Client_GetKubeconfig j ?c ident) s =
      sent apiKey (NewGetTenantKubeconfigRequest h ''https://api.noplane.io/api/v1/'' ident)"
    unfolding Client_GetKubeconfig_def api_exchanges recorded_builders
    by (rule requests_bind_call) (simp add: sent_states split: sum.split option.split)
  have update: "requests (Client_UpdatePlane ?c ident u) s = []"
    by (simp add: Client_UpdatePlane_def requests_def go_return_def)
  have key: "list_all (\<lambda>r. Header_Get (rq_Header r) ''Authorization'' = ''Bearer '' @ apiKey) (sent apiKey built)"
    by (simp add: sent_def authorized_def Header_Get_Set split: sum.split)
  show ?thesis
    using create lookups delete kubeconfig update key
    by (intro exI [of _ "noplane_client j ?c"]) (simp add: NewClient_Inr)
qed

text \<open>
  C26: \<open>CreatePlane\<close> panics exactly when the service answered 201 with a readable body that does
  not call itself JSON: the tenant it then converts is a nil pointer.
\<close>
theorem Client_CreatePlane_panic_iff:
  "(\<exists>m. Client_CreatePlane j (api_client h j apiKey) req s = (Panics m, s')) \<longleftrightarrow>
     (\<exists>rsp bs.
        answered h apiKey (NewCreateTenantRequest h j ''https://api.noplane.io/api/v1/'' (create_tenant_body req)) s rsp s'
        \<and> rs_StatusCode rsp = 201 \<and> \<not> json_with_status rsp 201 \<and> rs_Body rsp = Inr bs)"
proof -
  let ?built = "NewCreateTenantRequest h j ''https://api.noplane.io/api/v1/'' (create_tenant_body req)"
  have "(\<exists>m. Client_CreatePlane j (api_client h j apiKey) req s = (Panics m, s')) \<longleftrightarrow>
    (\<exists>r. exchange h apiKey ?built (ParseCreateTenantResponse j) s = (Inr r, s')
        \<and> CreateTenantResponse_StatusCode r = 201 \<and> ctp_JSON201 r = None)"
    unfolding Client_CreatePlane_run by (auto simp: Let_def split: prod.splits sum.splits if_splits option.splits)
  then show ?thesis unfolding exchange_Inr using parse_created(2) by blast
qed

section \<open>How failures are classified\<close>

text \<open>
  The controller tells a conflict and a missing plane from other failures by the type of the
  error. Only this repository makes values of those two types: errors of the URL parser, the
  HTTP library, the transport and the JSON codec are others.
\<close>

fun foreign :: "error \<Rightarrow> bool" where
  "foreign (ForeignError _) = True"
| "foreign _ = False"

definition foreign_transport :: "('u, 'n) GoHttp \<Rightarrow> bool" where
  "foreign_transport h \<longleftrightarrow>
     (\<forall>u e. url_Parse h u = Inl e \<longrightarrow> foreign e) \<and> (\<forall>u r e. url_ParseRef h u r = Inl e \<longrightarrow> foreign e)
     \<and> (\<forall>m u b e. http_NewRequest h m u b = Inl e \<longrightarrow> foreign e) \<and> (\<forall>p v e. styleParam h p v = Inl e \<longrightarrow> foreign e)
     \<and> (\<forall>req s e. fst (http_DefaultDo h req s) = Inl e \<longrightarrow> foreign e)
     \<and> (\<forall>req s rsp e. fst (http_DefaultDo h req s) = Inr rsp \<and> rs_Body rsp = Inl e \<longrightarrow> foreign e)"

definition foreign_codec :: "Json \<Rightarrow> bool" where
  "foreign_codec j \<longleftrightarrow>
     (\<forall>x e. marshal_CreateTenantRequest j x = Inl e \<longrightarrow> foreign e)
     \<and> (\<forall>x e. unmarshal_Tenant j x = Inl e \<longrightarrow> foreign e) \<and> (\<forall>x e. unmarshal_Error j x = Inl e \<longrightarrow> foreign e)"

lemma foreign_unclassified: "foreign e \<Longrightarrow> \<not> IsConflict (Some e) \<and> \<not> IsNotFound (Some e)"
  by (cases e) simp_all

lemma apiError_unclassified [simp]:
  "\<not> IsConflict (Some (apiError code e))" "\<not> IsNotFound (Some (apiError code e))"
  "\<not> IsConflict (Some (unexpected_status code b))" "\<not> IsNotFound (Some (unexpected_status code b))"
  by (simp_all add: apiError_def unexpected_status_def split: option.split)

lemma build_request_foreign:
  assumes "foreign_transport h"
  shows "build_request h server path m body = Inl e \<Longrightarrow> foreign e"
    and "build_param_request h server param v pathf m body = Inl e \<Longrightarrow> foreign e"
    and "foreign_codec j \<Longrightarrow> NewCreateTenantRequest h j server b = Inl e \<Longrightarrow> foreign e"
    and "NewDeleteTenantRequest h server ident = Inl e \<Longrightarrow> foreign e"
  using assms
  by (auto simp: build_request_def build_param_request_def foreign_transport_def foreign_codec_def
      NewCreateTenantRequest_def NewCreateTenantRequestWithBody_def NewDeleteTenantRequest_def with_content_type_def
      split: sum.splits)

lemma exchange_foreign:
  assumes "exchange h apiKey built parse s = (Inl e, s')" and "foreign_transport h"
    and "\<And>e. built = Inl e \<Longrightarrow> foreign e"
    and "\<And>rsp e. (\<And>e. rs_Body rsp = Inl e \<Longrightarrow> foreign e) \<Longrightarrow> parse rsp = Inl e \<Longrightarrow> foreign e"
  shows "foreign e"
proof (cases built)
  case (Inl err)
  then show ?thesis using assms(1,3) by (simp add: exchange_def)
next
  case (Inr req)
  obtain r s1 where run: "http_DefaultDo h (authorized apiKey req) s = (r, s1)" by fastforce
  show ?thesis
  proof (cases r)
    case (Inl err)
    then show ?thesis
      using assms(1,2) Inr run by (auto simp: exchange_def foreign_transport_def dest!: spec [of _ "authorized apiKey req"] spec [of _ s])
  next
    case body: (Inr rsp)
    have "foreign e'" if "rs_Body rsp = Inl e'" for e'
      using that body run assms(2) unfolding foreign_transport_def by (metis fst_conv)
    moreover have "parse rsp = Inl e" using assms(1) Inr run body by (simp add: exchange_def)
    ultimately show ?thesis by (rule assms(4))
  qed
qed

lemma parse_foreign:
  assumes "foreign_codec j" and "\<And>e. rs_Body rsp = Inl e \<Longrightarrow> foreign e"
  shows "ParseCreateTenantResponse j rsp = Inl e \<Longrightarrow> foreign e"
    and "ParseDeleteTenantResponse j rsp = Inl e \<Longrightarrow> foreign e"
  using assms
  by (auto simp: ParseCreateTenantResponse_def ParseDeleteTenantResponse_def Let_def decode_into_def foreign_codec_def
      split: sum.splits if_splits)

lemma Client_CreatePlane_not_conflict:
  assumes "foreign_transport h" and "foreign_codec j"
    and "Client_CreatePlane j (api_client h j apiKey) req s = (Returns (Inl e), s')"
  shows "\<not> IsConflict (Some e)"
proof -
  let ?x = "exchange h apiKey (NewCreateTenantRequest h j ''https://api.noplane.io/api/v1/'' (create_tenant_body req))
    (ParseCreateTenantResponse j) s"
  have "foreign err" if "?x = (Inl err, s1)" for err s1
    by (rule exchange_foreign [OF that assms(1)])
      (use assms build_request_foreign(3) parse_foreign(1) in blast)+
  then show ?thesis
    using assms(3) foreign_unclassified
    by (auto simp: Client_CreatePlane_run Let_def split: prod.splits sum.splits if_splits option.splits)
qed

lemma Client_DeletePlane_not_notfound:
  assumes "foreign_transport h" and "foreign_codec j"
    and "Client_DeletePlane j (api_client h j apiKey) ident s = (Returns (Some e), s')"
  shows "\<not> IsNotFound (Some e)"
proof -
  let ?x = "exchange h apiKey (NewDeleteTenantRequest h ''https://api.noplane.io/api/v1/'' ident)
    (ParseDeleteTenantResponse j) s"
  have "foreign err" if "?x = (Inl err, s1)" for err s1
    by (rule exchange_foreign [OF that assms(1)])
      (use assms build_request_foreign(4) parse_foreign(2) in blast)+
  then show ?thesis
    using assms(3) foreign_unclassified
    by (auto simp: Client_DeletePlane_def api_exchanges go_bind_call go_return_def Let_def
        split: prod.splits sum.splits if_splits)
qed

section \<open>A concrete library\<close>

text \<open>A codec that decodes every body to the same values.\<close>

definition ex_tenant :: Tenant where
  "ex_tenant = \<lparr> tn_CreatedAt = 1, tn_Description = None, tn_Hash = ''h'', tn_Hostname = Some ''cp.example.com'',
     tn_Id = ''t1'', tn_KubernetesVersion = Some ''v1.29.2'', tn_Labels = None, tn_Name = ''cp'', tn_Owner = ''me'',
     tn_Replicas = Some 1, tn_Subdomain = Some ''cp'', tn_UpdatedAt = None \<rparr>"

definition ex_error :: Error where
  "ex_error = \<lparr> er_Detail = Some ''gone'', er_Errors = None, er_Instance = None, er_Status = 404,
     er_Title = ''Not Found'', er_Type = ''about:blank'' \<rparr>"

definition ex_json :: Json where
  "ex_json = \<lparr> marshal_CreateTenantRequest = (\<lambda>r. Inr (ctr_Name r)), marshal_CreateTokenRequest = (\<lambda>r. Inr (ctk_Ttl r)),
     unmarshal_Tenants = (\<lambda>_. Inr [ex_tenant]), unmarshal_Tenant = (\<lambda>_. Inr ex_tenant), unmarshal_Error = (\<lambda>_. Inr ex_error),
     unmarshal_Availability = (\<lambda>_. Inr \<lparr> av_Available = True \<rparr>),
     unmarshal_KubeconfigBody = (\<lambda>b. Inr \<lparr> kb_Kubeconfig = b \<rparr>), unmarshal_Tokens = (\<lambda>_. Inr []),
     unmarshal_Token = (\<lambda>_. Inl (ForeignError ''json'')) \<rparr>"

lemma ex_http_foreign: "foreign_transport ex_http"
  by (simp add: ex_http_def foreign_transport_def json_response_def)

lemma ex_json_foreign: "foreign_codec ex_json"
  by (simp add: foreign_codec_def ex_json_def)

theorem NewClient_lookups_witness:
  "\<exists>api. NewClient ex_http ex_json ''key'' = Inr api
     \<and> (\<exists>r s'. GetPlane api ''t1'' (200, []) = (Returns r, s') \<and> (\<forall>p. r = Inr p \<longrightarrow> plane_ID p = ''t1''))"
  using NewClient_lookups [of ex_http ex_json "''key''" "''t1''" "(200, [])" "''cp''"] by blast

end
