(* ===== verification/Controller_Client.thy ===== *)
theory Controller_Client
  imports Controller_Secrets Noplane_Client
begin

text \<open>
  The reconciler together with the HTTP client it is deployed with: what follows for a run from
  how the client of \<^verbatim>\<open>client.go\<close> classifies its failures. The client returns neither of the two
  error types the reconciler looks for and supports no upgrade, so three of the reconciler's
  branches are never taken in production.
\<close>

section \<open>Calls with their real answers\<close>


section \<open>Deleting\<close>



section \<open>Creating\<close>

lemma api_CreatePlane_Returns:
  "api_CreatePlane api req w = (Returns a, w') \<Longrightarrow> \<exists>s'. CreatePlane api req (cloud w) = (Returns a, s')"
  by (auto simp: api_op_defs cloud_call_def split: prod.splits)

lemma emits_resolvePlaneID_real:
  assumes "foreign_transport h" and "foreign_codec j"
  shows "emits (\<lambda>e. \<forall>name x. e \<noteq> EvGetPlaneByName name x)
    (resolvePlaneID r ncp (noplane_client j (api_client h j apiKey)))"
  unfolding resolvePlaneID_def
  by (intro emits_intros)
    (auto dest!: api_CreatePlane_Returns Client_CreatePlane_not_conflict [OF assms, rotated])

text \<open>
  C15: With the deployed client no run ever adopts an existing plane by its name: the lookup the
  reconciler makes after a conflict is never made, because the client reports no conflict.
\<close>
theorem Reconcile_deployed_never_adopts_by_name:
  assumes "r_ClientFactory r = NewClient h j" and "foreign_transport h" and "foreign_codec j"
  shows "EvGetPlaneByName name x \<notin> set (calls (Reconcile r nn) w)"
proof -
  let ?P = "\<lambda>e. \<forall>name x. e \<noteq> EvGetPlaneByName name x"
  have "emits ?P (reconcileNormal r cluster ncp (noplane_client j (api_client h j key)))" for cluster ncp key
    unfolding reconcileNormal_def publishPlane_def
    by (intro emits_resolvePlaneID_real [OF assms(2,3)] emits_intros) simp_all
  moreover have "emits ?P (reconcileDelete r ncp api)" for ncp api
    by (intro emits_intros) simp_all
  ultimately have "emits ?P (reconcileWithClient r cluster ncp)" for cluster ncp
    unfolding reconcileWithClient_def assms(1) NewClient_Inr sum.case
    by (intro emits_bind emits_case_sum emits_if emits_return emits_getAPIKey) simp_all
  then have "emits ?P (Reconcile r nn)" by (intro emits_Reconcile) simp_all
  then show ?thesis using emits_calls by blast
qed

section \<open>Upgrading\<close>

definition is_update_plane :: "event \<Rightarrow> bool" where
  "is_update_plane e = (case e of EvUpdatePlane _ _ _ \<Rightarrow> True | _ \<Rightarrow> False)"

lemma is_update_plane_iff: "is_update_plane e \<longleftrightarrow> (\<exists>i u x. e = EvUpdatePlane i u x)"
  by (auto simp: is_update_plane_def split: event.splits)

text \<open>A run that asked for an upgrade ended with the client's refusal.\<close>

definition upgrade_refused :: "event list \<Rightarrow> (Result \<times> error option) outcome \<Rightarrow> bool" where
  "upgrade_refused es r \<longleftrightarrow> (list_ex is_update_plane es \<longrightarrow>
     r = Returns (no_requeue, Some (Wrapf ''upgrading plane: %w'' []
           (Errorf ''UpdatePlane is not supported by the API'' []))))"

lemma yields_no_update:
  "emits (\<lambda>e. \<not> is_update_plane e) m \<Longrightarrow> yields upgrade_refused m"
  unfolding emits_yields by (erule yields_mono) (auto simp: upgrade_refused_def list_all_iff list_ex_iff)

lemma yields_bind_no_update:
  assumes "emits (\<lambda>e. \<not> is_update_plane e) m" and "\<And>a. yields upgrade_refused (f a)"
  shows "yields upgrade_refused (go_bind m f)"
  by (rule yields_bind [OF assms(1) [unfolded emits_yields] assms(2)])
    (auto simp: upgrade_refused_def list_all_iff list_ex_iff)

lemma yields_api_UpdatePlane_real:
  "yields upgrade_refused (go_bind (api_UpdatePlane (noplane_client j c) planeID u) (\<lambda>upd. case upd of
        Some err \<Rightarrow> go_return (no_requeue, Some (Wrapf ''upgrading plane: %w'' [] err))
      | None \<Rightarrow> go_return (requeue_after 30, None)))"
  by (auto simp: yields_def api_op_defs go_bind_cloud Client_UpdatePlane_def go_return_def upgrade_refused_def)

lemma yields_reconcileNormal_upgrade:
  "yields upgrade_refused (reconcileNormal r cluster ncp (noplane_client j c))"
proof -
  have "emits (\<lambda>e. \<not> is_update_plane e) (resolvePlaneID r ncp (noplane_client j c))"
    by (intro emits_intros) (auto simp: is_update_plane_def)
  moreover have "emits (\<lambda>e. \<not> is_update_plane e) (api_GetPlane (noplane_client j c) planeID)" for planeID
    by (intro emits_intros) (simp add: is_update_plane_def)
  moreover have "yields upgrade_refused (publishPlane r cluster ncp1 (noplane_client j c) planeID plane)" for ncp1 planeID plane
    unfolding publishPlane_def by (intro yields_no_update emits_intros) (simp_all add: is_update_plane_def)
  moreover have "yields upgrade_refused (go_return a)" for a
    by (simp add: yields_no_update emits_return)
  ultimately show ?thesis
    unfolding reconcileNormal_def
    by (intro yields_bind_no_update) (auto simp: yields_api_UpdatePlane_real split: prod.split sum.split intro!: yields_bind_no_update)
qed

text \<open>
  C16: With the deployed client a version drift is never repaired: a run that asks for an upgrade
  ends with the error that the API does not support it.
\<close>
theorem Reconcile_deployed_upgrade_refused:
  assumes "r_ClientFactory r = NewClient h j" and "list_ex is_update_plane (calls (Reconcile r nn) w)"
  shows "fst (Reconcile r nn w) = Returns (no_requeue, Some (Wrapf ''upgrading plane: %w'' []
           (Errorf ''UpdatePlane is not supported by the API'' [])))"
proof (cases rule: Reconcile_calls_cases [of r nn w])
  case quiet
  then show ?thesis using assms(2) by (auto simp: list_ex_iff is_update_plane_iff)
next
  case (add_finalizer ncp cluster res)
  then show ?thesis using assms(2) by (simp add: is_update_plane_def)
next
  case (client ncp cluster s key api w1)
  then have api: "api = noplane_client j (api_client h j key)"
    using assms(1) by (simp add: NewClient_Inr)
  have "emits (\<lambda>e. \<not> is_update_plane e) (reconcileDelete r ncp api)"
    by (intro emits_intros) (simp_all add: is_update_plane_def)
  then have "yields upgrade_refused (if Time_IsZero (om_DeletionTimestamp (ncp_ObjectMeta ncp))
      then reconcileNormal r cluster ncp api else reconcileDelete r ncp api)"
    unfolding api by (intro yields_if yields_reconcileNormal_upgrade yields_no_update) simp_all
  from yields_calls [OF this, of w1] show ?thesis
    using client assms(2) by (auto simp: upgrade_refused_def is_update_plane_def split: if_splits)
qed

section \<open>A deployed reconciler\<close>

definition deployed :: "(MemKube, int \<times> bytes, bytes) NoPlaneControlPlaneReconciler" where
  "deployed = \<lparr> r_Client = mem_client, r_Lib = mem_lib, r_ClientFactory = NewClient ex_http ex_json \<rparr>"

lemma deployed_simps [simp]:
  "r_Client deployed = mem_client" "r_Lib deployed = mem_lib" "r_ClientFactory deployed = NewClient ex_http ex_json"
  by (simp_all add: deployed_def)

definition deployed_world :: "NoPlaneControlPlane \<Rightarrow> int \<Rightarrow> (MemKube, int \<times> bytes) world" where
  "deployed_world n code = \<lparr> kube = ex_kube n, cloud = (code, []), history = [] \<rparr>"

lemma deployed_get [simp]:
  "meta_key (ncp_ObjectMeta n) = ex_key \<Longrightarrow> mem_GetNCP ex_key (kube (deployed_world n code)) = (Inr n, ex_kube n)"
  by (simp add: mem_GetNCP_def mem_view_def ex_kube_def deployed_world_def)

lemmas deployed_run_simps =
  run_simps deployed_world_def NewClient_Inr api_exchanges exchange_def go_bind_call go_call_def
  Client_DeletePlane_def ex_http_def ex_json_def json_response_def build_request_def build_param_request_def
  operation_ref_def NewDeleteTenantRequest_def NewGetTenantsRequest_def parse_defs json_with_status_def
  DeleteTenantResponse_StatusCode_def GetTenantsResponse_StatusCode_def Client_GetPlane_def listTenants_def
  find_tenant_eq ex_tenant_def plane_of_def Client_UpdatePlane_def decode_into_def Header_Get_def Header_Set_def
  strings_HasPrefix_def


theorem Reconcile_deployed_never_adopts_by_name_witness:
  "EvGetPlaneByName ''cp'' (Returns (Inr (plane_of ex_tenant))) \<notin> set (calls (Reconcile deployed ex_key) (deployed_world (with_finalizer ex_ncp) 409))"
  by (rule Reconcile_deployed_never_adopts_by_name [of deployed ex_http ex_json])
    (simp_all add: ex_http_foreign ex_json_foreign)

text \<open>An object that asks for another version than its plane runs.\<close>

definition drifted :: NoPlaneControlPlane where
  "drifted = with_plane ''t1'' (with_finalizer (ex_ncp\<lparr>ncp_Spec := (ncp_Spec ex_ncp)\<lparr>spec_Version := ''v1.30.0''\<rparr>\<rparr>))"

theorem Reconcile_deployed_upgrade_refused_witness:
  "fst (Reconcile deployed ex_key (deployed_world drifted 200)) = Returns (no_requeue, Some (Wrapf ''upgrading plane: %w'' []
      (Errorf ''UpdatePlane is not supported by the API'' [])))"
  by (rule Reconcile_deployed_upgrade_refused [of deployed ex_http ex_json])
    (simp_all add: deployed_run_simps drifted_def is_update_plane_def)

end
