(* ===== verification/Controller_Runs.thy ===== *)
theory Controller_Runs
  imports Controller_Client
begin

text \<open>
  Many runs of the reconciler on one API server. The server is still a parameter; what the
  theorems need of it is the hypothesis \<open>server_contract\<close>, the documented behaviour of the
  Kubernetes API for an object with a status subresource. Between two runs the rest of the world
  may do anything, except that nobody else writes the status of the object a theorem follows or
  creates an object of its name again.

  The contract includes that a read answers the current object. The client of \<^verbatim>\<open>cmd/main.go\<close> is the
  manager's, which reads from a cache: the theorems hold of the runs that start after the cache has
  caught up with the object's last status write. A run that reads an older version sees no recorded
  plane and may create one.
\<close>

section \<open>What the API server promises\<close>

abbreviation ncp_key :: "NoPlaneControlPlane \<Rightarrow> NamespacedName" where
  "ncp_key n \<equiv> meta_key (ncp_ObjectMeta n)"

text \<open>
  \<open>view k nn\<close> is the object stored under \<open>nn\<close>. A read that succeeds answers what is stored, never an
  older version; an update that
  succeeds leaves the stored status alone, answers the object as stored, and may make an object
  under deletion disappear; a status update that succeeds replaces the status and nothing else; a
  call that fails, and every other call, leaves the objects alone. The finalizer helpers change
  neither an object's name nor its status.
\<close>

definition reads_stored :: "'k KubeClient \<Rightarrow> ('k \<Rightarrow> NamespacedName \<rightharpoonup> NoPlaneControlPlane) \<Rightarrow> bool" where
  "reads_stored c view \<longleftrightarrow> (\<forall>nn k. view (snd (kc_GetNCP c nn k)) = view k
     \<and> (\<forall>n. fst (kc_GetNCP c nn k) = Inr n \<longrightarrow> view k nn = Some n \<and> ncp_key n = nn))"

definition updates_spec :: "'k KubeClient \<Rightarrow> ('k \<Rightarrow> NamespacedName \<rightharpoonup> NoPlaneControlPlane) \<Rightarrow> bool" where
  "updates_spec c view \<longleftrightarrow> (\<forall>n k.
     case kc_UpdateNCP c n k of
       (Inl _, k') \<Rightarrow> view k' = view k
     | (Inr n', k') \<Rightarrow> (\<exists>old. view k (ncp_key n) = Some old \<and> ncp_key n' = ncp_key n \<and> ncp_Status n' = ncp_Status old)
         \<and> (view k' = (view k)(ncp_key n \<mapsto> n') \<or> view k' = (view k)(ncp_key n := None)))"

definition updates_status :: "'k KubeClient \<Rightarrow> ('k \<Rightarrow> NamespacedName \<rightharpoonup> NoPlaneControlPlane) \<Rightarrow> bool" where
  "updates_status c view \<longleftrightarrow> (\<forall>n k.
     case kc_StatusUpdateNCP c n k of
       (Inl _, k') \<Rightarrow> view k' = view k
     | (Inr n', k') \<Rightarrow> ncp_key n' = ncp_key n \<and> ncp_Status n' = ncp_Status n
         \<and> (\<exists>old. view k (ncp_key n) = Some old \<and> ncp_Spec n' = ncp_Spec old)
         \<and> view k' = (view k)(ncp_key n \<mapsto> n'))"

definition others_keep :: "'k KubeClient \<Rightarrow> ('k, 'key) KubeLib \<Rightarrow> ('k \<Rightarrow> NamespacedName \<rightharpoonup> NoPlaneControlPlane) \<Rightarrow> bool" where
  "others_keep c lib view \<longleftrightarrow>
     (\<forall>nn k. view (snd (kc_GetSecret c nn k)) = view k) \<and> (\<forall>s k. view (snd (kc_CreateSecret c s k)) = view k)
     \<and> (\<forall>s k. view (snd (kc_UpdateSecret c s k)) = view k) \<and> (\<forall>s k. view (snd (kc_DeleteSecret c s k)) = view k)
     \<and> (\<forall>om k. view (snd (lib_GetOwnerCluster lib om k)) = view k)
     \<and> (\<forall>bits k. view (snd (lib_GenerateKey lib bits k)) = view k)
     \<and> (\<forall>n f. ncp_key (lib_AddFinalizer lib n f) = ncp_key n) \<and> (\<forall>n f. ncp_key (lib_RemoveFinalizer lib n f) = ncp_key n)"

definition server_contract ::
  "('k, 'c, 'key) NoPlaneControlPlaneReconciler \<Rightarrow> ('k \<Rightarrow> NamespacedName \<rightharpoonup> NoPlaneControlPlane) \<Rightarrow> bool"
where
  "server_contract r view \<longleftrightarrow> reads_stored (r_Client r) view \<and> updates_spec (r_Client r) view
     \<and> updates_status (r_Client r) view \<and> others_keep (r_Client r) (r_Lib r) view"

section \<open>What one run keeps\<close>

text \<open>
  How a later status of an object relates to an earlier one: the flags are not cleared, and the
  recorded plane stays, unless the spec names another one.
\<close>

definition status_kept :: "string \<Rightarrow> NoPlaneControlPlaneStatus \<Rightarrow> NoPlaneControlPlaneStatus \<Rightarrow> bool" where
  "status_kept spec_id a b \<longleftrightarrow>
     (st_Initialized a \<longrightarrow> st_Initialized b) \<and> (st_Ready a \<longrightarrow> st_Ready b)
     \<and> (st_PlaneID a \<noteq> '''' \<and> (spec_id = '''' \<or> spec_id = st_PlaneID a) \<longrightarrow> st_PlaneID b = st_PlaneID a)
     \<and> (st_PlaneID a \<noteq> '''' \<longrightarrow> st_PlaneID b \<noteq> '''')"

lemma status_kept_refl [simp]: "status_kept i a a"
  by (simp add: status_kept_def)

definition run_inv ::
  "('k \<Rightarrow> NamespacedName \<rightharpoonup> NoPlaneControlPlane) \<Rightarrow> (NamespacedName \<rightharpoonup> NoPlaneControlPlane) \<Rightarrow> NamespacedName \<Rightarrow>
     string \<Rightarrow> NoPlaneControlPlaneStatus \<Rightarrow> ('k, 'c) world \<Rightarrow> bool"
where
  "run_inv view v0 nn spec_id a w \<longleftrightarrow>
     (\<forall>nn'. nn' \<noteq> nn \<longrightarrow> view (kube w) nn' = v0 nn')
     \<and> (\<forall>n. view (kube w) nn = Some n \<longrightarrow> v0 nn \<noteq> None \<and> status_kept spec_id a (ncp_Status n))"

lemma run_inv_view: "view (kube w') = view (kube w) \<Longrightarrow> run_inv view v0 nn i a w \<Longrightarrow> run_inv view v0 nn i a w'"
  by (simp add: run_inv_def)

lemma keeps_api_ops [keeps_intros]:
  "keeps (run_inv view v0 nn i a) (api_CreatePlane api req) (\<lambda>_. True)"
  "keeps (run_inv view v0 nn i a) (api_GetPlane api ident) (\<lambda>_. True)"
  "keeps (run_inv view v0 nn i a) (api_GetPlaneByName api name) (\<lambda>_. True)"
  "keeps (run_inv view v0 nn i a) (api_UpdatePlane api ident u) (\<lambda>_. True)"
  "keeps (run_inv view v0 nn i a) (api_DeletePlane api ident) (\<lambda>_. True)"
  "keeps (run_inv view v0 nn i a) (api_GetKubeconfig api ident) (\<lambda>_. True)"
  unfolding api_op_defs by (auto intro!: keeps_cloud_call simp: run_inv_def)

lemma keeps_other_ops [keeps_intros]:
  assumes "server_contract r view"
  shows "keeps (run_inv view v0 nn i a) (Get_Secret r sn) (\<lambda>_. True)"
    and "keeps (run_inv view v0 nn i a) (Create_Secret r s) (\<lambda>_. True)"
    and "keeps (run_inv view v0 nn i a) (Update_Secret r s) (\<lambda>_. True)"
    and "keeps (run_inv view v0 nn i a) (Delete_Secret r s) (\<lambda>_. True)"
    and "keeps (run_inv view v0 nn i a) (GetOwnerCluster r om) (\<lambda>_. True)"
    and "keeps (run_inv view v0 nn i a) (GenerateKey r bits) (\<lambda>_. True)"
  using assms unfolding kube_op_defs server_contract_def others_keep_def
  by (auto intro!: keeps_kube_call elim!: run_inv_view [rotated])

text \<open>The two writes of the object, one call at a time.\<close>

lemma update_result:
  assumes "server_contract r view" and "kc_UpdateNCP (r_Client r) n k = (res, k')"
  shows "case res of Inl _ \<Rightarrow> view k' = view k
     | Inr n' \<Rightarrow> (\<exists>old. view k (ncp_key n) = Some old \<and> ncp_key n' = ncp_key n \<and> ncp_Status n' = ncp_Status old)
         \<and> (view k' = (view k)(ncp_key n \<mapsto> n') \<or> view k' = (view k)(ncp_key n := None))"
proof -
  have all: "updates_spec (r_Client r) view" using assms(1) by (simp add: server_contract_def)
  from spec [OF spec [OF all [unfolded updates_spec_def], of n], of k] show ?thesis
    using assms(2) by (simp split: sum.splits)
qed

lemma status_update_result:
  assumes "server_contract r view" and "kc_StatusUpdateNCP (r_Client r) n k = (res, k')"
  shows "case res of Inl _ \<Rightarrow> view k' = view k
     | Inr n' \<Rightarrow> ncp_key n' = ncp_key n \<and> ncp_Status n' = ncp_Status n
         \<and> (\<exists>old. view k (ncp_key n) = Some old \<and> ncp_Spec n' = ncp_Spec old)
         \<and> view k' = (view k)(ncp_key n \<mapsto> n')"
proof -
  have all: "updates_status (r_Client r) view" using assms(1) by (simp add: server_contract_def)
  from spec [OF spec [OF all [unfolded updates_status_def], of n], of k] show ?thesis
    using assms(2) by (simp split: sum.splits)
qed

lemma keeps_Update_NCP [keeps_intros]:
  assumes "server_contract r view" and "ncp_key n = nn"
  shows "keeps (run_inv view v0 nn i a) (Update_NCP r n)
    (\<lambda>res. \<forall>n'. res = Inr n' \<longrightarrow> ncp_key n' = nn \<and> status_kept i a (ncp_Status n'))"
  unfolding Update_NCP_def
proof (rule keeps_kube_call, goal_cases)
  case (1 w)
  obtain res k' where "kc_UpdateNCP (r_Client r) n (kube w) = (res, k')" by fastforce
  with update_result [OF assms(1) this] 1 show ?case
    unfolding assms(2) by (cases res) (auto simp: run_inv_def)
qed

lemma keeps_StatusUpdate_NCP [keeps_intros]:
  assumes "server_contract r view" and "ncp_key n = nn" and "status_kept i a (ncp_Status n)"
  shows "keeps (run_inv view v0 nn i a) (StatusUpdate_NCP r n)
    (\<lambda>res. \<forall>n'. res = Inr n' \<longrightarrow> ncp_key n' = nn \<and> status_kept i a (ncp_Status n'))"
  unfolding StatusUpdate_NCP_def
proof (rule keeps_kube_call, goal_cases)
  case (1 w)
  obtain res k' where "kc_StatusUpdateNCP (r_Client r) n (kube w) = (res, k')" by fastforce
  with status_update_result [OF assms(1) this] 1 assms(3) show ?case
    unfolding assms(2) by (cases res) (auto simp: run_inv_def)
qed

section \<open>The functions of the reconciler\<close>

lemma keeps_getAPIKey:
  "server_contract r view \<Longrightarrow> keeps (run_inv view v0 nn i a) (getAPIKey r ref) (\<lambda>_. True)"
  unfolding getAPIKey_def by (rule keeps_bind, erule keeps_other_ops) (intro keeps_intros TrueI)

lemma keeps_reconcileKubeconfig:
  assumes "server_contract r view"
  shows "keeps (run_inv view v0 nn i a) (reconcileKubeconfig r cluster ncp api) (\<lambda>_. True)"
  unfolding reconcileKubeconfig_def Let_def
  by (intro keeps_bind [OF keeps_api_ops(6)] keeps_bind [OF keeps_other_ops(1) [OF assms]] keeps_other_ops [OF assms]
      keeps_intros TrueI)

lemma keeps_reconcileCASecret:
  assumes "server_contract r view"
  shows "keeps (run_inv view v0 nn i a) (reconcileCASecret r cluster ncp api) (\<lambda>_. True)"
proof -
  have "keeps (run_inv view v0 nn i a) (extract_ca_data cfg) (\<lambda>_. True)" for cfg
    unfolding extract_ca_data_def Let_def by (intro keeps_intros TrueI)
  then have "keeps (run_inv view v0 nn i a) (fetch_ca_secret r cluster ncp api) (\<lambda>_. True)"
    unfolding fetch_ca_secret_def Let_def
    by (intro keeps_bind [OF keeps_api_ops(6)] keeps_bind [OF keeps_other_ops(6) [OF assms]] keeps_intros TrueI
        keeps_bind [where m = "extract_ca_data cfg" and R = "\<lambda>_. True" for cfg])
  moreover have "keeps (run_inv view v0 nn i a) (store_ca_secret r sn existing secret) (\<lambda>_. True)" for sn existing secret
    unfolding store_ca_secret_def Let_def
    by (intro keeps_bind [OF keeps_other_ops(1) [OF assms]] keeps_bind [OF keeps_other_ops(4) [OF assms]]
        keeps_other_ops [OF assms] keeps_intros TrueI)
  ultimately show ?thesis
    unfolding reconcileCASecret_def Let_def
    by (intro keeps_bind [OF keeps_other_ops(1) [OF assms]]
        keeps_bind [where m = "fetch_ca_secret r cluster ncp api" and R = "\<lambda>_. True"] keeps_intros TrueI)
qed

text \<open>Which identifier a run works with, given what the object it read recorded.\<close>

definition id_kept :: "string \<Rightarrow> NoPlaneControlPlaneStatus \<Rightarrow> string \<Rightarrow> bool" where
  "id_kept spec_id a planeID \<longleftrightarrow>
     (st_PlaneID a \<noteq> '''' \<and> (spec_id = '''' \<or> spec_id = st_PlaneID a) \<longrightarrow> planeID = st_PlaneID a)
     \<and> (st_PlaneID a \<noteq> '''' \<longrightarrow> planeID \<noteq> '''')"

lemma status_kept_final: "id_kept i a planeID \<Longrightarrow> status_kept i a (final_status planeID plane st)"
  by (simp add: id_kept_def status_kept_def final_status_def)

lemma status_kept_new_id: "st_PlaneID a = '''' \<Longrightarrow> status_kept i a (a\<lparr>st_PlaneID := x\<rparr>)"
  by (simp add: status_kept_def)

lemma keeps_resolvePlaneID:
  assumes "server_contract r view" and "ncp_key ncp = nn"
    and "ncp_Status ncp = a" and "spec_PlaneID (ncp_Spec ncp) = i"
  shows "keeps (run_inv view v0 nn i a) (resolvePlaneID r ncp api)
    (\<lambda>(res, ncp1). ncp_key ncp1 = nn \<and> status_kept i a (ncp_Status ncp1) \<and> (\<forall>planeID. res = Inr planeID \<longrightarrow> id_kept i a planeID))"
proof (cases "i = '''' \<and> st_PlaneID a = ''''")
  case False
  then show ?thesis
    unfolding resolvePlaneID_def using assms by (auto simp: id_kept_def intro!: keeps_return)
next
  case True
  have st: "keeps (run_inv view v0 nn i a) (StatusUpdate_NCP r (set_status (\<lambda>st. st\<lparr>st_PlaneID := x\<rparr>) ncp))
      (\<lambda>res. \<forall>n'. res = Inr n' \<longrightarrow> ncp_key n' = nn \<and> status_kept i a (ncp_Status n'))" for x
    using assms True by (intro keeps_StatusUpdate_NCP) (simp_all add: status_kept_new_id)
  show ?thesis
    unfolding resolvePlaneID_def Let_def using assms True
    by (intro keeps_intros keeps_bind [OF st] keeps_bind [OF keeps_api_ops(1)] keeps_bind [OF keeps_api_ops(3)]
        keeps_bind [where R = "\<lambda>_. True"]) (auto simp: id_kept_def status_kept_new_id intro: keeps_return)
qed

lemma keeps_publishPlane:
  assumes "server_contract r view" and "ncp_key ncp = nn" and "status_kept i a (ncp_Status ncp)" and "id_kept i a planeID"
  shows "keeps (run_inv view v0 nn i a) (publishPlane r cluster ncp api planeID plane) (\<lambda>_. True)"
proof -
  have sync: "keeps (run_inv view v0 nn i a) (syncEndpoint r ncp plane)
      (\<lambda>res. \<forall>n'. res = Inr n' \<longrightarrow> ncp_key n' = nn \<and> status_kept i a (ncp_Status n'))"
    unfolding syncEndpoint_def using assms
    by (intro keeps_intros keeps_bind [OF keeps_Update_NCP]) auto
  show ?thesis
    unfolding publishPlane_def
    by (intro keeps_bind [OF sync] keeps_bind [OF keeps_reconcileKubeconfig [OF assms(1)]]
        keeps_bind [OF keeps_reconcileCASecret [OF assms(1)]] keeps_bind [OF keeps_StatusUpdate_NCP [OF assms(1)]]
        keeps_intros TrueI) (simp_all add: status_kept_final assms(4))
qed

lemma keeps_reconcileNormal:
  assumes "server_contract r view" and "ncp_key ncp = nn"
    and "ncp_Status ncp = a" and "spec_PlaneID (ncp_Spec ncp) = i"
  shows "keeps (run_inv view v0 nn i a) (reconcileNormal r cluster ncp api) (\<lambda>_. True)"
  unfolding reconcileNormal_def
  by (intro keeps_bind [OF keeps_resolvePlaneID [OF assms]] keeps_bind [OF keeps_api_ops(2)]
      keeps_bind [OF keeps_api_ops(4)] keeps_publishPlane [OF assms(1)] keeps_intros TrueI) auto

lemma keeps_reconcileDelete:
  assumes "server_contract r view" and "ncp_key ncp = nn"
  shows "keeps (run_inv view v0 nn i a) (reconcileDelete r ncp api) (\<lambda>_. True)"
proof -
  have "keeps (run_inv view v0 nn i a) (removeFinalizer r ncp) (\<lambda>_. True)"
    unfolding removeFinalizer_def using assms
    by (intro keeps_bind [OF keeps_Update_NCP] keeps_intros TrueI) (auto simp: server_contract_def others_keep_def)
  then show ?thesis
    unfolding reconcileDelete_def by (intro keeps_bind [OF keeps_api_ops(5)] keeps_intros TrueI)
qed

lemma keeps_reconcileWithClient:
  assumes "server_contract r view" and "ncp_key ncp = nn"
    and "ncp_Status ncp = a" and "spec_PlaneID (ncp_Spec ncp) = i"
  shows "keeps (run_inv view v0 nn i a) (reconcileWithClient r cluster ncp) (\<lambda>_. True)"
  unfolding reconcileWithClient_def
  by (intro keeps_bind [OF keeps_getAPIKey [OF assms(1)]] keeps_reconcileNormal [OF assms]
      keeps_reconcileDelete [OF assms(1,2)] keeps_intros TrueI)

text \<open>What a run leaves of every stored object.\<close>

lemma Reconcile_run_inv:
  assumes "server_contract r view" and "view (kube w) nn = Some n"
  shows "run_inv view (view (kube w)) nn (spec_PlaneID (ncp_Spec n)) (ncp_Status n) (snd (Reconcile r nn w))"
proof -
  let ?I = "run_inv view (view (kube w)) nn (spec_PlaneID (ncp_Spec n)) (ncp_Status n)"
  obtain got k' where get: "kc_GetNCP (r_Client r) nn (kube w) = (got, k')" by fastforce
  have v: "view k' = view (kube w)" and g: "got = Inr m \<Longrightarrow> m = n \<and> ncp_key m = nn" for m
    using assms get unfolding server_contract_def reads_stored_def
    by (metis fst_conv snd_conv, metis fst_conv option.inject)
  let ?w1 = "w\<lparr>kube := k', history := history w @ [EvGetNCP nn got]\<rparr>"
  have I1: "?I ?w1" using assms(2) v by (simp add: run_inv_def)
  show ?thesis
  proof (cases got)
    case (Inl err)
    then show ?thesis using get I1 by (simp add: Reconcile_def Get_NCP_def go_bind_kube go_return_def)
  next
    case (Inr m)
    with g have m: "m = n" "ncp_key n = nn" by auto
    have fin: "ncp_key (lib_AddFinalizer (r_Lib r) n noplaneFinalizer) = nn"
      using assms(1) m by (simp add: server_contract_def others_keep_def)
    have "keeps ?I (go_bind (GetOwnerCluster r (ncp_ObjectMeta n)) (\<lambda>owner.
         case owner of
           Inl err \<Rightarrow> go_return (no_requeue, Some err)
         | Inr None \<Rightarrow> go_return (no_requeue, None)
         | Inr (Some cluster) \<Rightarrow>
             if lib_IsPaused (r_Lib r) cluster n then go_return (no_requeue, None)
             else if \<not> lib_ContainsFinalizer (r_Lib r) n noplaneFinalizer then
               go_bind (Update_NCP r (lib_AddFinalizer (r_Lib r) n noplaneFinalizer)) (\<lambda>res.
               go_return (no_requeue, case res of Inl err \<Rightarrow> Some err | Inr _ \<Rightarrow> None))
             else reconcileWithClient r cluster n)) (\<lambda>_. True)"
      by (intro keeps_bind [OF keeps_other_ops(5) [OF assms(1)]] keeps_bind [OF keeps_Update_NCP [OF assms(1) fin]]
          keeps_reconcileWithClient [OF assms(1) m(2)] keeps_intros TrueI refl)
    from keepsD [OF this I1] show ?thesis
      using get Inr m by (simp add: Reconcile_def Get_NCP_def go_bind_kube)
  qed
qed

section \<open>Many runs\<close>

text \<open>
  A step of the system, as a theorem about the object \<open>nn0\<close> sees it: the reconciler runs for some
  object, or the rest of the world acts. Other actors may do anything to the cluster and to the
  hosted service: edit, delete or create objects, their status included, and change secrets and
  planes. Of \<open>nn0\<close> itself they may change everything but the status, and delete it, but not create
  it again.
\<close>

inductive sys_step ::
  "('k, 'c, 'key) NoPlaneControlPlaneReconciler \<Rightarrow> ('k \<Rightarrow> NamespacedName \<rightharpoonup> NoPlaneControlPlane) \<Rightarrow> NamespacedName \<Rightarrow>
     ('k, 'c) world \<Rightarrow> ('k, 'c) world \<Rightarrow> bool"
  for r view nn0
where
  reconcile: "sys_step r view nn0 w (snd (Reconcile r nn w))"
| environment:
    "(\<And>n'. view (kube w') nn0 = Some n' \<Longrightarrow> \<exists>n. view (kube w) nn0 = Some n \<and> ncp_Status n' = ncp_Status n) \<Longrightarrow>
     history w' = history w \<Longrightarrow> sys_step r view nn0 w w'"

definition flags_kept :: "NoPlaneControlPlaneStatus \<Rightarrow> NoPlaneControlPlaneStatus \<Rightarrow> bool" where
  "flags_kept a b \<longleftrightarrow> (st_Initialized a \<longrightarrow> st_Initialized b) \<and> (st_Ready a \<longrightarrow> st_Ready b)
     \<and> (st_PlaneID a \<noteq> '''' \<longrightarrow> st_PlaneID b \<noteq> '''')"

lemma flags_kept_refl [simp]: "flags_kept a a"
  by (simp add: flags_kept_def)

lemma flags_kept_trans: "flags_kept a b \<Longrightarrow> flags_kept b c \<Longrightarrow> flags_kept a c"
  by (auto simp: flags_kept_def)

lemma status_kept_flags: "status_kept i a b \<Longrightarrow> flags_kept a b"
  by (simp add: status_kept_def flags_kept_def)

lemma Reconcile_view_missing:
  assumes "server_contract r view" and "view (kube w) nn = None"
  shows "view (kube (snd (Reconcile r nn w))) = view (kube w)"
proof -
  obtain got k' where get: "kc_GetNCP (r_Client r) nn (kube w) = (got, k')" by fastforce
  have rd: "view (snd (kc_GetNCP (r_Client r) nn (kube w))) = view (kube w)"
    and none: "\<forall>m. fst (kc_GetNCP (r_Client r) nn (kube w)) = Inr m \<longrightarrow> view (kube w) nn = Some m"
    using assms(1) unfolding server_contract_def reads_stored_def by blast+
  from none get assms(2) obtain err where "got = Inl err" by (cases got) auto
  then show ?thesis
    using get rd by (simp add: Reconcile_def Get_NCP_def go_bind_kube go_return_def)
qed

lemma sys_step_kept:
  assumes "server_contract r view" and "sys_step r view nn w w'" and "view (kube w') nn = Some n'"
  shows "\<exists>n. view (kube w) nn = Some n \<and> flags_kept (ncp_Status n) (ncp_Status n')"
  using assms(2)
proof cases
  case (reconcile nn1)
  show ?thesis
  proof (cases "view (kube w) nn1")
    case None
    then show ?thesis using Reconcile_view_missing [OF assms(1) None] reconcile assms(3) by auto
  next
    case (Some n)
    from Reconcile_run_inv [OF assms(1) Some] show ?thesis
      using reconcile assms(3) Some by (cases "nn = nn1") (auto simp: run_inv_def dest: status_kept_flags)
  qed
next
  case environment
  then show ?thesis using assms(3) by fastforce
qed

lemma sys_steps_kept:
  assumes "server_contract r view" and "(sys_step r view nn)\<^sup>*\<^sup>* w w'" and "view (kube w') nn = Some n'"
  shows "\<exists>n. view (kube w) nn = Some n \<and> flags_kept (ncp_Status n) (ncp_Status n')"
  using assms(2,3)
proof (induction arbitrary: n' rule: rtranclp_induct)
  case base
  then show ?case by auto
next
  case (step w1 w2)
  from sys_step_kept [OF assms(1) step.hyps(2) step.prems] step.IH show ?case
    using flags_kept_trans by blast
qed

text \<open>
  C13: Once true, \<open>Initialized\<close> stays true for as long as the object exists, over any number of
  runs of the reconciler for any objects, interleaved with the actions of others, who may do
  anything but write this object's status or create it again; so does \<open>Ready\<close>, and a plane that is
  recorded stays recorded.
\<close>
theorem runs_status_monotone:
  assumes "server_contract r view" and "(sys_step r view nn)\<^sup>*\<^sup>* w w'"
    and "view (kube w) nn = Some n" and "view (kube w') nn = Some n'"
  shows "(st_Initialized (ncp_Status n) \<longrightarrow> st_Initialized (ncp_Status n'))
    \<and> (st_Ready (ncp_Status n) \<longrightarrow> st_Ready (ncp_Status n'))
    \<and> (st_PlaneID (ncp_Status n) \<noteq> '''' \<longrightarrow> st_PlaneID (ncp_Status n') \<noteq> '''')"
  using sys_steps_kept [OF assms(1,2,4)] assms(3) by (simp add: flags_kept_def)

text \<open>
  C12: No duplicate planes: after the identifier of a plane has been recorded in an object's status,
  no later run for that object creates a plane, however many runs for any objects and actions of
  others came in between, provided that the others did not write this object's status or create
  the object again after a deletion, and that reads answer the current object, not an older version
  from a cache.
\<close>
theorem runs_never_recreate:
  assumes "server_contract r view" and "(sys_step r view nn)\<^sup>*\<^sup>* w w'"
    and "view (kube w) nn = Some n" and "st_PlaneID (ncp_Status n) \<noteq> ''''"
  shows "\<not> list_ex is_create_plane (calls (Reconcile r nn) w')"
proof -
  obtain got k' where get: "kc_GetNCP (r_Client r) nn (kube w') = (got, k')" by fastforce
  show ?thesis
  proof (cases got)
    case (Inl err)
    then show ?thesis
      using get by (simp add: calls_def Reconcile_def Get_NCP_def go_bind_kube go_return_def)
  next
    case (Inr n')
    then have "view (kube w') nn = Some n'"
      using get assms(1) unfolding server_contract_def reads_stored_def by (metis fst_conv)
    then have "st_PlaneID (ncp_Status n') \<noteq> ''''"
      using sys_steps_kept [OF assms(1,2)] assms(3,4) by (fastforce simp: flags_kept_def)
    then show ?thesis using Reconcile_known_no_create [of r nn w' n' k'] get Inr by simp
  qed
qed

section \<open>The contract can be met\<close>

lemma mem_view_upd:
  "meta_key (ncp_ObjectMeta n) = nn \<Longrightarrow> mem_view (k\<lparr>mk_ncps := (mk_ncps k)(nn \<mapsto> n)\<rparr>) = (mem_view k)(nn \<mapsto> n)"
  "mem_view (k\<lparr>mk_ncps := (mk_ncps k)(nn := None)\<rparr>) = (mem_view k)(nn := None)"
  "mem_view (k\<lparr>mk_secrets := ss\<rparr>) = mem_view k"
  by (auto simp: mem_view_def fun_eq_iff)

lemma mem_view_Some: "mem_view k nn = Some n \<Longrightarrow> meta_key (ncp_ObjectMeta n) = nn"
  by (auto simp: mem_view_def split: option.splits if_splits)

lemma mem_server_contract:
  assumes "r_Client r = mem_client" and "r_Lib r = mem_lib"
  shows "server_contract r mem_view"
proof -
  have "reads_stored mem_client mem_view"
    by (auto simp: reads_stored_def mem_GetNCP_def dest: mem_view_Some split: option.splits)
  moreover have "updates_spec mem_client mem_view"
    by (auto simp: updates_spec_def mem_UpdateNCP_def Let_def mem_view_upd meta_key_def split: option.split)
  moreover have "updates_status mem_client mem_view"
    by (auto simp: updates_status_def mem_StatusUpdateNCP_def Let_def mem_view_upd dest: mem_view_Some split: option.split)
  moreover have "others_keep mem_client mem_lib mem_view"
    by (auto simp: others_keep_def mem_op_defs(5-) mem_GetSecret_def Let_def mem_view_upd meta_key_def split: option.split)
  ultimately show ?thesis using assms by (simp add: server_contract_def)
qed

lemma ex_view [simp]:
  "meta_key (ncp_ObjectMeta n) = ex_key \<Longrightarrow> mem_view (kube (ex_world n f)) ex_key = Some n"
  by (simp add: mem_view_def ex_world_def ex_kube_def)

theorem runs_status_monotone_witness:
  "\<exists>w' n'. (sys_step ex_reconciler mem_view ex_key)\<^sup>*\<^sup>* (ex_world (with_finalizer ex_ncp) Fake_NewClient) w'
     \<and> mem_view (kube w') ex_key = Some n' \<and> st_PlaneID (ncp_Status n') \<noteq> ''''"
proof -
  let ?w = "ex_world (with_plane ''fake-np-id'' (with_finalizer ex_ncp)) Fake_NewClient"
  let ?w0 = "ex_world (with_finalizer ex_ncp) Fake_NewClient"
  let ?w1 = "snd (Reconcile ex_reconciler ex_key ?w0)" let ?w2 = "snd (Reconcile ex_reconciler ex_key ?w1)"
  have v1: "\<exists>n. mem_view (kube ?w1) ex_key = Some n \<and> st_PlaneID (ncp_Status n) \<noteq> ''''"
    and v2: "mem_view (kube ?w2) ex_key \<noteq> None"
    by (simp_all add: run_simps go_defs)
  have s1: "(sys_step ex_reconciler mem_view ex_key)\<^sup>*\<^sup>* ?w0 ?w1" and s2: "(sys_step ex_reconciler mem_view ex_key)\<^sup>*\<^sup>* ?w1 ?w2"
    by (auto intro: sys_step.reconcile)
  from v1 v2 obtain n n' where n: "mem_view (kube ?w1) ex_key = Some n" "st_PlaneID (ncp_Status n) \<noteq> ''''"
    and n': "mem_view (kube ?w2) ex_key = Some n'" by blast
  from runs_status_monotone [OF mem_server_contract s2 n(1) n'] n(2)
  have "st_PlaneID (ncp_Status n') \<noteq> ''''" by simp
  then show ?thesis using s1 s2 n' by (meson rtranclp_trans)
qed

theorem runs_never_recreate_witness:
  "let w = ex_world (with_plane ''p1'' (with_finalizer ex_ncp)) Fake_NewClient
   in \<not> list_ex is_create_plane (calls (Reconcile ex_reconciler ex_key) (snd (Reconcile ex_reconciler ex_key w)))"
proof -
  let ?n = "with_plane ''p1'' (with_finalizer ex_ncp)"
  have "(sys_step ex_reconciler mem_view ex_key)\<^sup>*\<^sup>* (ex_world ?n Fake_NewClient) (snd (Reconcile ex_reconciler ex_key (ex_world ?n Fake_NewClient)))"
    by (auto intro: sys_step.reconcile)
  then show ?thesis
    unfolding Let_def
    by (rule runs_never_recreate [OF mem_server_contract, of ex_reconciler ex_key _ _ ?n, rotated 2])
      (simp_all, simp add: with_plane_def)
qed

end
