(* ===== verification/Controller_Live.thy ===== *)
theory Controller_Live
  imports Controller_Runs
begin

text \<open>
  Progress: on a cluster and a hosted service that do not fail, two runs take a new object to a
  ready one. The API server and the libraries are still parameters; \<open>reliable\<close> states what a server
  without failures and without other writers does, the hosted service is the fake client. The
  world is followed through \<open>view\<close> and \<open>secs\<close>, the objects and secrets that are stored.
\<close>

section \<open>A server without failures\<close>








section \<open>Runs that return\<close>

text \<open>
  \<open>goes m w a w'\<close>: run from \<open>w\<close>, \<open>m\<close> returns \<open>a\<close> and leaves \<open>w'\<close>. The rules run a program call by
  call.
\<close>

definition goes :: "('w, 'a) go \<Rightarrow> 'w \<Rightarrow> 'a \<Rightarrow> 'w \<Rightarrow> bool" where
  "goes m w a w' \<longleftrightarrow> m w = (Returns a, w')"

lemma goes_return [simp]: "goes (go_return a) w b w' \<longleftrightarrow> a = b \<and> w = w'"
  by (auto simp: goes_def go_return_def)






section \<open>Single calls\<close>












section \<open>The hosted service\<close>






section \<open>The steps of a run\<close>














section \<open>From a new object to a ready one\<close>








section \<open>The in-memory cluster is reliable\<close>






end
