(* ===== verification/Controller_Release.thy ===== *)
theory Controller_Release
  imports Controller_Live
begin

text \<open>
  The end of an object: on an API server that does not fail, one run on an object marked for
  deletion deletes its plane and releases the object. The server and the fake service are those
  of \<open>Controller_Live\<close>; what is added is how the server treats an object that is being deleted.
\<close>

section \<open>Deletion on the server\<close>



section \<open>Deletion at the service\<close>



section \<open>A run on an object marked for deletion\<close>





end
