(* ===== verification/Controller_Adoption.thy ===== *)
theory Controller_Adoption
  imports Controller_Runs
begin

text \<open>
  Adopting a plane that is named in the spec. The identifier from the spec is used for every call
  but one: the kubeconfig is asked for with the identifier in the status, which is written only at
  the end of a successful run, so on the way to that first success it is the empty string.
\<close>

fun asks_empty :: "event \<Rightarrow> bool" where
  "asks_empty (EvGetKubeconfig ident _) = (ident = '''')"
| "asks_empty _ = True"

text \<open>
  \<open>unrecorded view nn h w\<close>: the stored object has no plane in its status, and since the history was
  \<open>h\<close> every request for a kubeconfig was made with the empty identifier.
\<close>

definition only_empty :: "event list \<Rightarrow> ('k, 'c) world \<Rightarrow> bool" where
  "only_empty h w \<longleftrightarrow> (\<exists>es. history w = h @ es \<and> list_all asks_empty es)"

definition unrecorded ::
  "('k \<Rightarrow> NamespacedName \<rightharpoonup> NoPlaneControlPlane) \<Rightarrow> NamespacedName \<Rightarrow> event list \<Rightarrow> ('k, 'c) world \<Rightarrow> bool"
where
  "unrecorded view nn h w \<longleftrightarrow> (\<forall>n. view (kube w) nn = Some n \<longrightarrow> st_PlaneID (ncp_Status n) = '''') \<and> only_empty h w"

definition asks :: "(('k, 'c) world \<Rightarrow> bool) \<Rightarrow> event list \<Rightarrow> (('k, 'c) world, 'a) go \<Rightarrow> bool" where
  "asks I h m \<longleftrightarrow> (\<forall>w. I w \<longrightarrow> only_empty h (snd (m w)))"

lemma asks_bind:
  assumes "\<And>w. I w \<Longrightarrow> only_empty h w" and "keeps I m R" and "\<And>a. R a \<Longrightarrow> asks I h (f a)"
  shows "asks I h (go_bind m f)"
  unfolding asks_def
proof (intro allI impI)
  fix w assume "I w"
  then have wp: "wp m (\<lambda>a w'. I w' \<and> R a) I w" using assms(2) by (simp add: keeps_def)
  show "only_empty h (snd (go_bind m f w))"
  proof (cases "m w")
    case (Pair r w')
    then show ?thesis using wp assms(1,3) by (cases r) (auto simp: wp_def go_bind_def asks_def)
  qed
qed

lemma asks_emits:
  assumes "\<And>w. I w \<Longrightarrow> only_empty h w" and "emits asks_empty m"
  shows "asks I h m"
  unfolding asks_def
proof (intro allI impI)
  fix w assume "I w"
  then obtain es where "history w = h @ es" "list_all asks_empty es" using assms(1) by (auto simp: only_empty_def)
  moreover obtain fs where "history (snd (m w)) = history w @ fs" "list_all asks_empty fs" using emitsD [OF assms(2)] by blast
  ultimately show "only_empty h (snd (m w))" by (auto simp: only_empty_def)
qed

lemma unrecorded_only: "unrecorded view nn h w \<Longrightarrow> only_empty h w"
  by (simp add: unrecorded_def)

lemma unrecorded_event:
  "unrecorded view nn h w \<Longrightarrow> view k' = view (kube w) \<Longrightarrow> asks_empty e \<Longrightarrow>
     unrecorded view nn h (w\<lparr>kube := k', history := history w @ [e]\<rparr>)"
  by (auto simp: unrecorded_def only_empty_def)

lemma keeps_unrecorded:
  assumes "server_contract r view"
  shows "keeps (unrecorded view nn h) (Get_Secret r sn) (\<lambda>_. True)"
    and "keeps (unrecorded view nn h) (GetOwnerCluster r om) (\<lambda>_. True)"
    and "keeps (unrecorded view nn h) (Update_NCP r n) (\<lambda>res. \<forall>n'. res = Inr n' \<longrightarrow> ncp_key n = nn \<longrightarrow> st_PlaneID (ncp_Status n') = '''')"
proof -
  show "keeps (unrecorded view nn h) (Get_Secret r sn) (\<lambda>_. True)" "keeps (unrecorded view nn h) (GetOwnerCluster r om) (\<lambda>_. True)"
    using assms unfolding kube_op_defs server_contract_def others_keep_def
    by (auto intro!: keeps_kube_call unrecorded_event)
  show "keeps (unrecorded view nn h) (Update_NCP r n) (\<lambda>res. \<forall>n'. res = Inr n' \<longrightarrow> ncp_key n = nn \<longrightarrow> st_PlaneID (ncp_Status n') = '''')"
    unfolding Update_NCP_def
  proof (rule keeps_kube_call, goal_cases)
    case (1 w)
    obtain res k' where u: "kc_UpdateNCP (r_Client r) n (kube w) = (res, k')" by fastforce
    from update_result [OF assms u] 1 u show ?case
      by (cases res) (auto simp: unrecorded_def only_empty_def split: if_splits)
  qed
qed

lemma keeps_unrecorded_api: "keeps (unrecorded view nn h) (api_GetPlane api ident) (\<lambda>_. True)"
  unfolding api_GetPlane_def keeps_def wp_cloud_call
  by (auto simp: unrecorded_def only_empty_def split: prod.split outcome.split)

text \<open>Once the object in hand has no plane in its status, only the empty identifier is asked for.\<close>

lemma emits_asks_empty:
  "emits asks_empty (Get_Secret r sn)" "emits asks_empty (Create_Secret r s)" "emits asks_empty (Update_Secret r s)"
  "emits asks_empty (Delete_Secret r s)" "emits asks_empty (GenerateKey r bits)" "emits asks_empty (StatusUpdate_NCP r n)"
  "emits asks_empty (Update_NCP r n)" "emits asks_empty (api_DeletePlane api ident)" "emits asks_empty (api_UpdatePlane api ident u)"
  "ident = '''' \<Longrightarrow> emits asks_empty (api_GetKubeconfig api ident)"
  by (simp_all add: kube_op_defs api_op_defs emits_kube_call emits_cloud_call)

lemma empty_reconcileKubeconfig: "st_PlaneID (ncp_Status n) = '''' \<Longrightarrow> emits asks_empty (reconcileKubeconfig r cluster n api)"
  unfolding reconcileKubeconfig_def Let_def by (intro emits_intros emits_asks_empty) simp_all

lemma empty_reconcileCASecret: "st_PlaneID (ncp_Status n) = '''' \<Longrightarrow> emits asks_empty (reconcileCASecret r cluster n api)"
  unfolding reconcileCASecret_def fetch_ca_secret_def store_ca_secret_def extract_ca_data_def Let_def
  by (intro emits_intros emits_asks_empty) simp_all

lemma asks_publishPlane:
  assumes "server_contract r view" and "ncp_key ncp = nn" and "st_PlaneID (ncp_Status ncp) = ''''"
  shows "asks (unrecorded view nn h) h (publishPlane r cluster ncp api planeID plane)"
proof -
  have sync: "keeps (unrecorded view nn h) (syncEndpoint r ncp plane) (\<lambda>res. \<forall>n'. res = Inr n' \<longrightarrow> st_PlaneID (ncp_Status n') = '''')"
    unfolding syncEndpoint_def using assms(2,3)
    by (intro keeps_intros keeps_bind [OF keeps_unrecorded(3) [OF assms(1)]]) auto
  show ?thesis
    unfolding publishPlane_def
    by (rule asks_bind [OF unrecorded_only sync])
      (auto intro!: asks_emits [OF unrecorded_only] emits_intros emits_asks_empty empty_reconcileKubeconfig empty_reconcileCASecret
        split: sum.split)
qed

lemma asks_reconcileWithClient:
  assumes "server_contract r view" and "ncp_key ncp = nn" and "st_PlaneID (ncp_Status ncp) = ''''" and "spec_PlaneID (ncp_Spec ncp) \<noteq> ''''"
  shows "asks (unrecorded view nn h) h (reconcileWithClient r cluster ncp)"
proof -
  have normal: "asks (unrecorded view nn h) h (reconcileNormal r cluster ncp api)" for api
    unfolding reconcileNormal_def resolvePlaneID_def using assms(4)
    by (simp, intro asks_bind [OF unrecorded_only keeps_unrecorded_api])
      (auto intro!: asks_emits [OF unrecorded_only] emits_intros emits_asks_empty asks_publishPlane [OF assms(1-3)] split: sum.split)
  have delete: "emits asks_empty (reconcileDelete r ncp api)" for api
    unfolding reconcileDelete_def removeFinalizer_def by (intro emits_intros emits_asks_empty)
  have key: "keeps (unrecorded view nn h) (getAPIKey r ref) (\<lambda>_. True)" for ref
    unfolding getAPIKey_def by (intro keeps_bind [OF keeps_unrecorded(1) [OF assms(1)]] keeps_intros TrueI)
  show ?thesis
    unfolding reconcileWithClient_def
    by (rule asks_bind [OF unrecorded_only key])
      (auto intro!: asks_emits [OF unrecorded_only] emits_intros normal delete split: sum.split)
qed

text \<open>
  C19: Adoption by \<open>spec.planeID\<close> asks for the wrong kubeconfig: as long as an object that names a
  plane in its spec has none in its status, every request of a run for a kubeconfig is made with the
  empty identifier, never with the one in the spec.
\<close>
theorem Reconcile_adopted_asks_empty:
  assumes "server_contract r view" and "view (kube w) nn = Some n"
    and "spec_PlaneID (ncp_Spec n) \<noteq> ''''" and "st_PlaneID (ncp_Status n) = ''''"
    and "EvGetKubeconfig ident res \<in> set (calls (Reconcile r nn) w)"
  shows "ident = ''''"
proof -
  obtain got k' where get: "kc_GetNCP (r_Client r) nn (kube w) = (got, k')" by fastforce
  have v: "view k' = view (kube w)" and g: "got = Inr m \<Longrightarrow> m = n \<and> ncp_key m = nn" for m
    using assms(1,2) get unfolding server_contract_def reads_stored_def
    by (metis fst_conv snd_conv, metis fst_conv option.inject)
  let ?w1 = "w\<lparr>kube := k', history := history w @ [EvGetNCP nn got]\<rparr>" and ?I = "unrecorded view nn (history w)"
  have I1: "?I ?w1" using assms(2,4) v by (simp add: unrecorded_def only_empty_def)
  have "only_empty (history w) (snd (Reconcile r nn w))"
  proof (cases got)
    case (Inl err)
    then show ?thesis
      using get unrecorded_only [OF I1] by (simp add: Reconcile_def Get_NCP_def go_bind_kube go_return_def)
  next
    case (Inr m)
    with g have m: "m = n" "ncp_key n = nn" by auto
    have "asks ?I (history w) (go_bind (GetOwnerCluster r (ncp_ObjectMeta n)) (\<lambda>owner.
         case owner of
           Inl err \<Rightarrow> go_return (no_requeue, Some err)
         | Inr None \<Rightarrow> go_return (no_requeue, None)
         | Inr (Some cluster) \<Rightarrow>
             if lib_IsPaused (r_Lib r) cluster n then go_return (no_requeue, None)
             else if \<not> lib_ContainsFinalizer (r_Lib r) n noplaneFinalizer then
               go_bind (Update_NCP r (lib_AddFinalizer (r_Lib r) n noplaneFinalizer)) (\<lambda>res.
               go_return (no_requeue, case res of Inl err \<Rightarrow> Some err | Inr _ \<Rightarrow> None))
             else reconcileWithClient r cluster n))"
      by (rule asks_bind [OF unrecorded_only keeps_unrecorded(2) [OF assms(1)]])
        (auto intro!: asks_emits [OF unrecorded_only] emits_intros emits_asks_empty
          asks_reconcileWithClient [OF assms(1) m(2) assms(4,3)] split: sum.split option.split)
    then show ?thesis
      using I1 get Inr m by (simp add: asks_def Reconcile_def Get_NCP_def go_bind_kube)
  qed
  then have "list_all asks_empty (calls (Reconcile r nn) w)" by (auto simp: only_empty_def calls_def)
  then show ?thesis using assms(5) by (fastforce simp: list_all_iff)
qed

text \<open>A plane that the service has and the spec names; the run asks for the kubeconfig of nobody.\<close>

definition adopting :: "string \<Rightarrow> NoPlaneControlPlane \<Rightarrow> NoPlaneControlPlane" where
  "adopting i n = n\<lparr>ncp_Spec := (ncp_Spec n)\<lparr>spec_PlaneID := i\<rparr>\<rparr>"

theorem Reconcile_adopted_asks_empty_witness:
  "\<exists>ident res. EvGetKubeconfig ident res \<in> set (calls (Reconcile ex_reconciler ex_key)
       (ex_world (adopting ''fake-np-id'' (with_finalizer ex_ncp))
         (snd (Fake_CreatePlane \<lparr> cr_Name = ''old'', cr_KubernetesVersion = ''v1.29.2'' \<rparr> Fake_NewClient)))) \<and> ident = ''''"
proof -
  let ?n = "adopting ''fake-np-id'' (with_finalizer ex_ncp)"
  let ?w = "ex_world ?n (snd (Fake_CreatePlane \<lparr> cr_Name = ''old'', cr_KubernetesVersion = ''v1.29.2'' \<rparr> Fake_NewClient))"
  have "\<exists>ident res. EvGetKubeconfig ident res \<in> set (calls (Reconcile ex_reconciler ex_key) ?w)"
    by (simp add: run_simps go_defs adopting_def)
  then obtain ident res where e: "EvGetKubeconfig ident res \<in> set (calls (Reconcile ex_reconciler ex_key) ?w)" by blast
  have "ncp_key ?n = ex_key" by (simp add: adopting_def)
  then have v: "mem_view (kube ?w) ex_key = Some ?n" by simp
  have "ident = ''''"
    by (rule Reconcile_adopted_asks_empty [OF mem_server_contract v _ _ e]) (simp_all add: adopting_def with_finalizer_def ex_ncp_def)
  then show ?thesis using e by blast
qed

end
