(* ===== verification/Controller_Panics.thy ===== *)
theory Controller_Panics
  imports Controller_Client
begin

text \<open>
  Panics. Of all calls of the reconciler only \<open>CreatePlane\<close> can panic, for every client that keeps
  the promises of \<open>plane_client\<close>; this is proved once inside that locale and used for both clients
  it is interpreted on. The nil entry that \<^verbatim>\<open>reconcileCASecret\<close> would dereference is excluded by
  what the kubeconfig loader documents.
\<close>

section \<open>Computations that panic only in given states\<close>

definition panics_only :: "('w \<Rightarrow> bool) \<Rightarrow> ('w \<Rightarrow> bool) \<Rightarrow> ('w, 'a) go \<Rightarrow> bool" where
  "panics_only E I m \<longleftrightarrow> (\<forall>w. I w \<longrightarrow> wp m (\<lambda>_. I) E w)"

named_theorems panics_intros \<open>rules that derive where a computation may panic\<close>

lemma panics_return [panics_intros]: "panics_only E I (go_return a)"
  by (simp add: panics_only_def wp_simps)

lemma panics_bind [panics_intros]:
  "panics_only E I m \<Longrightarrow> (\<And>a. panics_only E I (f a)) \<Longrightarrow> panics_only E I (go_bind m f)"
  unfolding panics_only_def wp_bind
  by (intro allI impI, rule wp_mono [where Q = "\<lambda>_. I" and E = E]) simp_all

lemma panics_cases [panics_intros]:
  "(b \<Longrightarrow> panics_only E I m) \<Longrightarrow> (\<not> b \<Longrightarrow> panics_only E I n) \<Longrightarrow> panics_only E I (if b then m else n)"
  "(\<And>x. r = Inl x \<Longrightarrow> panics_only E I (f x)) \<Longrightarrow> (\<And>y. r = Inr y \<Longrightarrow> panics_only E I (g y)) \<Longrightarrow>
     panics_only E I (case_sum f g r)"
  "(opt = None \<Longrightarrow> panics_only E I h) \<Longrightarrow> (\<And>z. opt = Some z \<Longrightarrow> panics_only E I (k z)) \<Longrightarrow>
     panics_only E I (case_option h k opt)"
  "(\<And>x y. p = (x, y) \<Longrightarrow> panics_only E I (l x y)) \<Longrightarrow> panics_only E I (case_prod l p)"
  by (auto split: sum.split option.split prod.split)

text \<open>\<^verbatim>\<open>clientcmd.Load\<close> builds every entry of its maps, so none is nil.\<close>

definition loads_clusters :: "('k, 'key) KubeLib \<Rightarrow> bool" where
  "loads_clusters lib \<longleftrightarrow>
     (\<forall>bs cfg. lib_Load lib bs = Inr cfg \<longrightarrow> (\<forall>(name, c) \<in> set (cfg_Clusters cfg). c \<noteq> None))"

text \<open>The last call is a creation that panicked, made after the first \<open>h\<close> calls of the history.\<close>

definition panicked_in_create :: "nat \<Rightarrow> ('k, 'c) world \<Rightarrow> bool" where
  "panicked_in_create h w \<longleftrightarrow> (\<exists>pre req m. history w = pre @ [EvCreatePlane req (Panics m)] \<and> h \<le> length pre)"

lemma panics_extract_ca_data [panics_intros]:
  "(\<forall>(name, c) \<in> set (cfg_Clusters cfg). c \<noteq> None) \<Longrightarrow> panics_only E I (extract_ca_data cfg)"
  unfolding extract_ca_data_def Let_def
  by (cases "cfg_Clusters cfg") (auto intro!: panics_intros split: option.split)

text \<open>The invariant of the client's state, after the first \<open>h\<close> calls of the history.\<close>

definition cloud_inv :: "('c \<Rightarrow> bool) \<Rightarrow> nat \<Rightarrow> ('k, 'c) world \<Rightarrow> bool" where
  "cloud_inv cinv h w \<longleftrightarrow> cinv (cloud w) \<and> h \<le> length (history w)"

lemma panics_kube_ops [panics_intros]:
  "panics_only (panicked_in_create h) (cloud_inv cinv h) (Get_NCP r nn)"
  "panics_only (panicked_in_create h) (cloud_inv cinv h) (Update_NCP r n)"
  "panics_only (panicked_in_create h) (cloud_inv cinv h) (StatusUpdate_NCP r n)"
  "panics_only (panicked_in_create h) (cloud_inv cinv h) (Get_Secret r nn)"
  "panics_only (panicked_in_create h) (cloud_inv cinv h) (Create_Secret r s)"
  "panics_only (panicked_in_create h) (cloud_inv cinv h) (Update_Secret r s)"
  "panics_only (panicked_in_create h) (cloud_inv cinv h) (Delete_Secret r s)"
  "panics_only (panicked_in_create h) (cloud_inv cinv h) (GetOwnerCluster r om)"
  "panics_only (panicked_in_create h) (cloud_inv cinv h) (GenerateKey r bits)"
  unfolding kube_op_defs panics_only_def by (auto simp: wp_simps cloud_inv_def split: prod.split)

section \<open>The reconciler on any client that keeps its promises\<close>

context plane_client
begin

lemma cloud_call_panics:
  assumes "\<And>s. inv s \<Longrightarrow> wp m (\<lambda>_. inv) (\<lambda>_. False) s"
  shows "panics_only E (cloud_inv inv h) (cloud_call ev m)"
  unfolding panics_only_def
proof (intro allI impI, goal_cases)
  case (1 w)
  then have "wp m (\<lambda>_. inv) (\<lambda>_. False) (cloud w)" "h \<le> length (history w)"
    using assms by (simp_all add: cloud_inv_def)
  then show ?case
    by (auto simp: wp_simps cloud_inv_def wp_def [of m] split: prod.splits outcome.splits)
qed

lemma panics_api_ops [panics_intros]:
  "panics_only E (cloud_inv inv h) (api_GetPlane api ident)"
  "panics_only E (cloud_inv inv h) (api_GetPlaneByName api name)"
  "panics_only E (cloud_inv inv h) (api_UpdatePlane api ident u)"
  "panics_only E (cloud_inv inv h) (api_DeletePlane api ident)"
  "panics_only E (cloud_inv inv h) (api_GetKubeconfig api ident)"
  unfolding api_op_defs
  by (intro cloud_call_panics; blast intro: wp_mono [OF wp_GetPlane] wp_mono [OF wp_GetPlaneByName]
      wp_UpdatePlane wp_DeletePlane wp_GetKubeconfig)+

lemma panics_api_CreatePlane [panics_intros]: "panics_only (panicked_in_create h) (cloud_inv inv h) (api_CreatePlane api req)"
  unfolding panics_only_def api_op_defs
proof (intro allI impI, goal_cases)
  case (1 w)
  then have "wp (CreatePlane api req) (\<lambda>_. inv) inv (cloud w)" "h \<le> length (history w)"
    by (simp_all add: cloud_inv_def wp_CreatePlane)
  then show ?case
    by (auto simp: wp_simps cloud_inv_def panicked_in_create_def wp_def [of "CreatePlane api req"]
        split: prod.splits outcome.splits)
qed

lemma panics_reconcileNormal:
  assumes "loads_clusters (r_Lib r)"
  shows "panics_only (panicked_in_create h) (cloud_inv inv h) (reconcileNormal r cluster ncp api)"
proof -
  have "panics_only (panicked_in_create h) (cloud_inv inv h) (fetch_ca_secret r cluster n api)" for n
    unfolding fetch_ca_secret_def Let_def using assms
    by (intro panics_intros) (auto simp: loads_clusters_def)
  then have "panics_only (panicked_in_create h) (cloud_inv inv h) (reconcileCASecret r cluster n api)" for n
    unfolding reconcileCASecret_def store_ca_secret_def Let_def by (intro panics_intros)
  then show ?thesis
    unfolding reconcileNormal_def resolvePlaneID_def publishPlane_def syncEndpoint_def reconcileKubeconfig_def Let_def
    by (intro panics_intros)
qed

lemma panics_reconcileDelete: "panics_only (panicked_in_create h) (cloud_inv inv h) (reconcileDelete r ncp api)"
  unfolding reconcileDelete_def removeFinalizer_def by (intro panics_intros)

end

text \<open>A run, given what its two halves do on every client the factory can return.\<close>

lemma Reconcile_panics_only:
  assumes "\<And>key api cluster ncp h. r_ClientFactory r key = Inr api \<Longrightarrow>
      panics_only (panicked_in_create h) (cloud_inv cinv h) (reconcileNormal r cluster ncp api)"
    and "\<And>key api ncp h. r_ClientFactory r key = Inr api \<Longrightarrow>
      panics_only (panicked_in_create h) (cloud_inv cinv h) (reconcileDelete r ncp api)"
    and "cinv (cloud w)"
  shows "wp (Reconcile r nn) (\<lambda>_ w'. cinv (cloud w')) (panicked_in_create (length (history w))) w"
proof -
  have wc: "panics_only (panicked_in_create h) (cloud_inv cinv h) (reconcileWithClient r cluster ncp)" for cluster ncp h
    unfolding reconcileWithClient_def getAPIKey_def
    by (intro panics_intros assms(1,2))
  have "panics_only (panicked_in_create h) (cloud_inv cinv h) (Reconcile r nn)" for h
    unfolding Reconcile_def by (intro wc panics_intros)
  then have "wp (Reconcile r nn) (\<lambda>_. cloud_inv cinv (length (history w))) (panicked_in_create (length (history w))) w"
    unfolding panics_only_def using assms(3) by (simp add: cloud_inv_def)
  then show ?thesis by (rule wp_mono) (simp_all add: cloud_inv_def)
qed


section \<open>Both clients\<close>

lemma Fake_CreatePlane_total: "\<exists>r f'. Fake_CreatePlane req f = (Returns r, f')"
  by (auto simp: Fake_CreatePlane_def Let_def split: option.split)

lemma fake_Reconcile_no_create_panic:
  assumes "\<And>key api'. r_ClientFactory r key = Inr api' \<Longrightarrow> api' = fake_client"
  shows "emits (\<lambda>e. \<forall>req m. e \<noteq> EvCreatePlane req (Panics m)) (Reconcile r nn)"
proof -
  let ?P = "\<lambda>e. \<forall>req m. e \<noteq> EvCreatePlane req (Panics m)"
  have create: "emits ?P (api_CreatePlane fake_client req)" for req
    using Fake_CreatePlane_total [of req]
    by (auto simp: emits_def api_op_defs cloud_call_def split: prod.split) (metis Pair_inject outcome.distinct(1))
  have "emits ?P (resolvePlaneID r ncp fake_client)" for ncp
    unfolding resolvePlaneID_def by (intro create emits_intros) simp_all
  then have "emits ?P (reconcileNormal r cluster ncp fake_client)" for cluster ncp
    unfolding reconcileNormal_def publishPlane_def
    by (intro emits_bind emits_case_prod emits_case_sum emits_case_option emits_if emits_return emits_api_ops
        emits_kube_ops emits_syncEndpoint emits_reconcileKubeconfig emits_reconcileCASecret) simp_all
  then have "emits ?P (reconcileWithClient r cluster ncp)" for cluster ncp
    unfolding reconcileWithClient_def
    by (intro emits_bind emits_case_sum emits_if emits_return emits_getAPIKey emits_reconcileDelete) (auto dest!: assms)
  then show ?thesis by (intro emits_Reconcile) simp_all
qed

text \<open>
  C17: With the fake client a run never panics, whatever errors are injected into it, and leaves
  the client in a state in which its invariant holds.
\<close>
theorem Reconcile_fake_never_panics:
  assumes "loads_clusters (r_Lib r)" and "\<And>key api'. r_ClientFactory r key = Inr api' \<Longrightarrow> api' = fake_client"
    and "fake_inv (cloud w)"
  shows "\<exists>res w'. Reconcile r nn w = (Returns res, w') \<and> fake_inv (cloud w')"
proof -
  have safe: "wp (Reconcile r nn) (\<lambda>_ w'. fake_inv (cloud w')) (panicked_in_create (length (history w))) w"
    by (rule Reconcile_panics_only)
      (auto dest!: assms(2) intro: fake.panics_reconcileNormal [OF assms(1)] fake.panics_reconcileDelete assms(3))
  obtain out w' where run: "Reconcile r nn w = (out, w')" by fastforce
  have "emits (\<lambda>e. \<forall>req m. e \<noteq> EvCreatePlane req (Panics m)) (Reconcile r nn)"
    by (rule fake_Reconcile_no_create_panic) (rule assms(2))
  from emits_run [OF this run] obtain es where es: "history w' = history w @ es"
    "list_all (\<lambda>e. \<forall>req m. e \<noteq> EvCreatePlane req (Panics m)) es" by blast
  show ?thesis
  proof (cases out)
    case (Returns res)
    then show ?thesis using safe run by (auto simp: wp_def)
  next
    case (Panics m)
    then obtain pre req e where pre: "history w' = pre @ [EvCreatePlane req (Panics e)]" "length (history w) \<le> length pre"
      using safe run by (auto simp: wp_def panicked_in_create_def)
    have "es = drop (length (history w)) (history w')" using es(1) by simp
    then have "EvCreatePlane req (Panics e) \<in> set es" using pre by simp
    then show ?thesis using es(2) by (auto simp: list_all_iff)
  qed
qed

lemma loads_clusters_mem: "loads_clusters mem_lib"
  by (auto simp: loads_clusters_def)

theorem Reconcile_fake_never_panics_witness:
  "\<exists>res w'. Reconcile ex_reconciler ex_key (ex_world (with_finalizer ex_ncp)
       (Fake_NewClient\<lparr>fc_GetErr := Some (ForeignError ''down'')\<rparr>)) = (Returns res, w') \<and> fake_inv (cloud w')"
  by (rule Reconcile_fake_never_panics)
    (simp_all add: loads_clusters_mem ex_world_def fake_inv_def Fake_NewClient_def)

text \<open>
  C18: With the deployed client a run panics in one way only: inside a \<open>CreatePlane\<close> call, which is
  then its last call.
\<close>
theorem Reconcile_deployed_panic_cause:
  assumes "r_ClientFactory r = NewClient h j" and "loads_clusters (r_Lib r)"
    and "Reconcile r nn w = (Panics m, w')"
  shows "\<exists>pre req m. history w' = history w @ pre @ [EvCreatePlane req (Panics m)]"
proof -
  have "wp (Reconcile r nn) (\<lambda>_ w'. True) (panicked_in_create (length (history w))) w"
    by (rule Reconcile_panics_only [where cinv = "\<lambda>_. True"])
      (auto simp: assms(1) NewClient_Inr intro: real.panics_reconcileNormal [OF assms(2)] real.panics_reconcileDelete)
  then obtain pre req e where pre: "history w' = pre @ [EvCreatePlane req (Panics e)]" "length (history w) \<le> length pre"
    using assms(3) by (auto simp: wp_def panicked_in_create_def)
  obtain es where "history w' = history w @ es"
    using emits_run [OF emits_anything(4) assms(3)] by blast
  with pre show ?thesis by (auto simp: append_eq_append_conv2)
qed

text \<open>A service that answers without a content type.\<close>

definition plain_http :: "(string, int \<times> bytes) GoHttp" where
  "plain_http = ex_http\<lparr>http_DefaultDo :=
     (\<lambda>req s. (Inr ((json_response (fst s) (snd s))\<lparr>rs_Header := empty_Header\<rparr>), s))\<rparr>"

theorem Reconcile_deployed_panic_cause_witness:
  "\<exists>w' pre req m e.
     Reconcile (deployed\<lparr>r_ClientFactory := NewClient plain_http ex_json\<rparr>) ex_key (deployed_world (with_finalizer ex_ncp) 201)
       = (Panics m, w')
     \<and> history w' = pre @ [EvCreatePlane req (Panics e)]"
proof -
  let ?r = "deployed\<lparr>r_ClientFactory := NewClient plain_http ex_json\<rparr>"
  let ?w = "deployed_world (with_finalizer ex_ncp) 201"
  obtain m w' where run: "Reconcile ?r ex_key ?w = (Panics m, w')"
    by (simp add: deployed_run_simps plain_http_def deployed_def Client_CreatePlane_run create_tenant_body_def
        NewCreateTenantRequest_def NewCreateTenantRequestWithBody_def with_content_type_def
        CreateTenantResponse_StatusCode_def empty_Header_def)
  have "\<exists>pre req e. history w' = history ?w @ pre @ [EvCreatePlane req (Panics e)]"
    by (rule Reconcile_deployed_panic_cause [OF _ _ run]) (simp_all add: loads_clusters_mem)
  then have "\<exists>pre req e. history w' = pre @ [EvCreatePlane req (Panics e)]" by (simp add: deployed_world_def)
  then show ?thesis using run by blast
qed

end
