(* ===== verification/Controller_Corners.thy ===== *)
theory Controller_Corners
  imports Controller_Secrets
begin

text \<open>
  Two corners of the reconciler in which it asks the API server for something the server has to
  refuse: a failed second read of the CA secret, and an object that is deleted before, or stays
  after, the reconciler's own finalizer.
\<close>

section \<open>A read that is not checked\<close>

text \<open>
  \<^verbatim>\<open>reconcileCASecret\<close> reads the secret twice. When the first read finds none, and the second fails for
  another reason, the code goes on with the empty secret of its variable: its type is the wrong
  one, so a secret without a name or namespace is deleted.
\<close>

lemma store_ca_secret_deletes_nameless:
  assumes "kc_GetSecret (r_Client r) nn (kube w) = (Inl err, k)" and "\<not> lib_IsNotFound (r_Lib r) err"
    and "sec_Type secret \<noteq> ''''"
  shows "\<exists>res es. calls (store_ca_secret r nn empty_Secret secret) w = [EvGetSecret nn (Inl err), EvDeleteSecret empty_Secret res] @ es
    \<and> list_all (\<lambda>e. \<exists>res. e = EvCreateSecret secret res) es"
proof -
  have "sec_Type empty_Secret = ''''" by (simp add: empty_Secret_def)
  then show ?thesis
    using assms by (cases "kc_DeleteSecret (r_Client r) empty_Secret k")
      (simp add: store_ca_secret_def kube_op_defs go_defs go_bind_def calls_def Let_def split: prod.split option.split)
qed

section \<open>The finalizer of an object that is being deleted\<close>

text \<open>
  The finalizer is added before the deletion mark is looked at, so also to an object that carries
  it, and the reconciler does nothing else in that run. The Kubernetes API refuses a new finalizer on an object marked for deletion.
\<close>

lemma Reconcile_adds_finalizer_first:
  assumes "kc_GetNCP (r_Client r) nn (kube w) = (Inr ncp, k1)"
    and "lib_GetOwnerCluster (r_Lib r) (ncp_ObjectMeta ncp) k1 = (Inr (Some cluster), k2)"
    and "\<not> lib_IsPaused (r_Lib r) cluster ncp" and "\<not> lib_ContainsFinalizer (r_Lib r) ncp noplaneFinalizer"
  shows "\<exists>res. calls (Reconcile r nn) w =
    [EvGetNCP nn (Inr ncp), EvGetOwnerCluster (ncp_ObjectMeta ncp) (Inr (Some cluster)),
     EvUpdateNCP (lib_AddFinalizer (r_Lib r) ncp noplaneFinalizer) res]"
  using assms
  by (simp add: Reconcile_def kube_op_defs go_defs go_bind_def calls_def split: prod.split outcome.split)

end
