(* ===== verification/Go_Flag.thy ===== *)
theory Go_Flag
  imports Go_Prelude
begin

text \<open>
  Go's package \<^verbatim>\<open>flag\<close> as the entry point uses it: flags that set a string or a boolean, and
  \<^verbatim>\<open>flag.Parse\<close> on the command line, which ends the process on a bad one (status 2) or on a request
  for help (status 0).
\<close>

record 'st flag =
  fl_IsBool :: bool
  fl_Set :: "string \<Rightarrow> 'st \<Rightarrow> error + 'st"

type_synonym 'st FlagSet = "string \<rightharpoonup> 'st flag"

datatype 'st parsed = Parsed 'st "string list" | ParseExit int

definition strconv_ParseBool :: "string \<Rightarrow> bool option" where
  "strconv_ParseBool s =
     (if s \<in> set [''1'', ''t'', ''T'', ''true'', ''TRUE'', ''True''] then Some True
      else if s \<in> set [''0'', ''f'', ''F'', ''false'', ''FALSE'', ''False''] then Some False
      else None)"

definition StringVar :: "(string \<Rightarrow> 'st \<Rightarrow> 'st) \<Rightarrow> 'st flag" where
  "StringVar upd = \<lparr> fl_IsBool = False, fl_Set = (\<lambda>v st. Inr (upd v st)) \<rparr>"

definition BoolVar :: "(bool \<Rightarrow> 'st \<Rightarrow> 'st) \<Rightarrow> 'st flag" where
  "BoolVar upd = \<lparr> fl_IsBool = True,
     fl_Set = (\<lambda>v st. case strconv_ParseBool v of
       None \<Rightarrow> Inl (ForeignError ''parse error'') | Some b \<Rightarrow> Inr (upd b st)) \<rparr>"

text \<open>
  What an argument is: not a flag, the end of the flags, malformed, or a flag with its name and the
  value after an equals sign. The equals sign cannot come first.
\<close>

datatype flag_arg = NotAFlag | EndOfFlags | BadSyntax | FlagNamed string "string option"

fun split_equals :: "string \<Rightarrow> string \<times> string option" where
  "split_equals [] = ([], None)"
| "split_equals (c # s) =
     (if c = CHR ''='' then ([], Some s) else (case split_equals s of (n, v) \<Rightarrow> (c # n, v)))"

definition flag_name :: "string \<Rightarrow> flag_arg" where
  "flag_name name =
     (case name of
        [] \<Rightarrow> BadSyntax
      | c # s \<Rightarrow>
          if c = CHR ''-'' \<or> c = CHR ''='' then BadSyntax
          else (case split_equals s of (n, v) \<Rightarrow> FlagNamed (c # n) v))"

fun classify_arg :: "string \<Rightarrow> flag_arg" where
  "classify_arg (a # b # s) =
     (if a \<noteq> CHR ''-'' then NotAFlag
      else if b = CHR ''-'' then (if s = [] then EndOfFlags else flag_name s)
      else flag_name (b # s))"
| "classify_arg _ = NotAFlag"

fun flag_Parse :: "'st FlagSet \<Rightarrow> string list \<Rightarrow> 'st \<Rightarrow> 'st parsed" where
  "flag_Parse formal [] st = Parsed st []"
| "flag_Parse formal (s # args) st =
     (case classify_arg s of
        NotAFlag \<Rightarrow> Parsed st (s # args)
      | EndOfFlags \<Rightarrow> Parsed st args
      | BadSyntax \<Rightarrow> ParseExit 2
      | FlagNamed name val \<Rightarrow>
          (case formal name of
             None \<Rightarrow> if name = ''help'' \<or> name = ''h'' then ParseExit 0 else ParseExit 2
           | Some f \<Rightarrow>
               if fl_IsBool f then
                 (case fl_Set f (case val of Some v \<Rightarrow> v | None \<Rightarrow> ''true'') st of
                    Inl _ \<Rightarrow> ParseExit 2
                  | Inr st' \<Rightarrow> flag_Parse formal args st')
               else
                 (case val of
                    Some v \<Rightarrow> (case fl_Set f v st of Inl _ \<Rightarrow> ParseExit 2 | Inr st' \<Rightarrow> flag_Parse formal args st')
                  | None \<Rightarrow>
                      (case args of
                         [] \<Rightarrow> ParseExit 2
                       | v # rest \<Rightarrow>
                           (case fl_Set f v st of Inl _ \<Rightarrow> ParseExit 2 | Inr st' \<Rightarrow> flag_Parse formal rest st')))))"

section \<open>Lemmas\<close>

lemma split_equals_plain: "CHR ''='' \<notin> set n \<Longrightarrow> split_equals (n @ CHR ''='' # v) = (n, Some v)"
  by (induction n) auto

lemma split_equals_none: "CHR ''='' \<notin> set n \<Longrightarrow> split_equals n = (n, None)"
  by (induction n) auto

text \<open>Both spellings of a flag with its value after an equals sign.\<close>

lemma classify_flag_value:
  assumes "n \<noteq> []" and "hd n \<noteq> CHR ''-''" and "CHR ''='' \<notin> set n"
  shows "classify_arg (''--'' @ n @ ''='' @ v) = FlagNamed n (Some v)"
    and "classify_arg (''-'' @ n @ ''='' @ v) = FlagNamed n (Some v)"
  using assms by (cases n; simp add: flag_name_def split_equals_plain; blast)+

text \<open>
  An invariant of the flag values that every flag named on the command line keeps holds of
  whatever a successful parse yields.
\<close>

lemma flag_Parse_invariant:
  assumes "flag_Parse formal args st = Parsed st' rest" and "P st"
    and keeps: "\<And>s name val f v st st'. s \<in> set args \<Longrightarrow> classify_arg s = FlagNamed name val \<Longrightarrow> formal name = Some f
          \<Longrightarrow> fl_Set f v st = Inr st' \<Longrightarrow> P st \<Longrightarrow> P st'"
  shows "P st'"
proof -
  have "P st'" if "flag_Parse formal as st = Parsed st' rest" "P st" "set as \<subseteq> set args" for as st
    using that
  proof (induction as arbitrary: st rule: length_induct)
    case (1 as)
    have step: "P st'" if "s \<in> set as" "classify_arg s = FlagNamed name val" "formal name = Some f"
      "fl_Set f v st = Inr st1" "flag_Parse formal as' st1 = Parsed st' rest" "length as' < length as" "set as' \<subseteq> set as"
      for s name val f v st1 as'
      using that "1.IH" "1.prems"(2,3) keeps by (meson subset_eq subset_trans)
    show ?case
    proof (cases as)
      case Nil
      then show ?thesis using "1.prems" by simp
    next
      case (Cons s as')
      then show ?thesis
        using "1.prems"
        by (auto split: flag_arg.splits option.splits if_splits sum.splits list.splits intro: step [of s])
    qed
  qed
  then show ?thesis using assms(1,2) by blast
qed

end
