(* ===== verification/Manager.thy ===== *)
theory Manager
  imports Go_Flag Controller_Client
begin

text \<open>
  The entry point \<^verbatim>\<open>cmd/main.go\<close> and the template controller: the command line flags, the TLS and
  server options they lead to, and the start of the controller manager with its exit status. The
  controller runtime (manager, webhook server, client configuration) and the flags of its logger
  are parameters; log lines are left out.
\<close>

section \<open>The template controller\<close>

record 'k NoPlaneControlPlaneTemplateReconciler =
  tc_Client :: "'k KubeClient"

definition Template_Reconcile ::
  "'k NoPlaneControlPlaneTemplateReconciler \<Rightarrow> NamespacedName \<Rightarrow> (('k, 'c) world, Result \<times> error option) go"
where
  "Template_Reconcile r req = go_return (no_requeue, None)"

section \<open>Flags\<close>

text \<open>The variables the flags set; \<open>'z\<close> are the options of the logger, with flags of their own.\<close>

record 'z MainFlags =
  mf_metricsAddr :: string
  mf_probeAddr :: string
  mf_enableLeaderElection :: bool
  mf_secureMetrics :: bool
  mf_webhookCertPath :: string
  mf_webhookCertName :: string
  mf_webhookCertKey :: string
  mf_metricsCertPath :: string
  mf_metricsCertName :: string
  mf_metricsCertKey :: string
  mf_enableHTTP2 :: bool
  mf_zap :: 'z

definition default_flags :: "'z \<Rightarrow> 'z MainFlags" where
  "default_flags z = \<lparr> mf_metricsAddr = ''0'', mf_probeAddr = '':8081'', mf_enableLeaderElection = False,
     mf_secureMetrics = True, mf_webhookCertPath = '''', mf_webhookCertName = ''tls.crt'', mf_webhookCertKey = ''tls.key'',
     mf_metricsCertPath = '''', mf_metricsCertName = ''tls.crt'', mf_metricsCertKey = ''tls.key'',
     mf_enableHTTP2 = False, mf_zap = z \<rparr>"

definition zap_flag :: "'z flag \<Rightarrow> 'z MainFlags flag" where
  "zap_flag f = \<lparr> fl_IsBool = fl_IsBool f,
     fl_Set = (\<lambda>v st. case fl_Set f v (mf_zap st) of Inl err \<Rightarrow> Inl err | Inr z \<Rightarrow> Inr (st\<lparr>mf_zap := z\<rparr>)) \<rparr>"

definition main_flags :: "'z FlagSet \<Rightarrow> 'z MainFlags FlagSet" where
  "main_flags zap = (\<lambda>name. map_option zap_flag (zap name))(
     ''metrics-bind-address'' \<mapsto> StringVar (\<lambda>v st. st\<lparr>mf_metricsAddr := v\<rparr>),
     ''health-probe-bind-address'' \<mapsto> StringVar (\<lambda>v st. st\<lparr>mf_probeAddr := v\<rparr>),
     ''leader-elect'' \<mapsto> BoolVar (\<lambda>v st. st\<lparr>mf_enableLeaderElection := v\<rparr>),
     ''metrics-secure'' \<mapsto> BoolVar (\<lambda>v st. st\<lparr>mf_secureMetrics := v\<rparr>),
     ''webhook-cert-path'' \<mapsto> StringVar (\<lambda>v st. st\<lparr>mf_webhookCertPath := v\<rparr>),
     ''webhook-cert-name'' \<mapsto> StringVar (\<lambda>v st. st\<lparr>mf_webhookCertName := v\<rparr>),
     ''webhook-cert-key'' \<mapsto> StringVar (\<lambda>v st. st\<lparr>mf_webhookCertKey := v\<rparr>),
     ''metrics-cert-path'' \<mapsto> StringVar (\<lambda>v st. st\<lparr>mf_metricsCertPath := v\<rparr>),
     ''metrics-cert-name'' \<mapsto> StringVar (\<lambda>v st. st\<lparr>mf_metricsCertName := v\<rparr>),
     ''metrics-cert-key'' \<mapsto> StringVar (\<lambda>v st. st\<lparr>mf_metricsCertKey := v\<rparr>),
     ''enable-http2'' \<mapsto> BoolVar (\<lambda>v st. st\<lparr>mf_enableHTTP2 := v\<rparr>))"

section \<open>Server options\<close>

text \<open>Of a TLS configuration, the protocols offered during the handshake.\<close>

record TLSConfig =
  tls_NextProtos :: "string list"

definition disableHTTP2 :: "TLSConfig \<Rightarrow> TLSConfig" where
  "disableHTTP2 c = c\<lparr>tls_NextProtos := [''http/1.1'']\<rparr>"

definition tlsOpts :: "'z MainFlags \<Rightarrow> (TLSConfig \<Rightarrow> TLSConfig) list" where
  "tlsOpts st = (if \<not> mf_enableHTTP2 st then [disableHTTP2] else [])"

record WebhookOptions =
  wo_TLSOpts :: "(TLSConfig \<Rightarrow> TLSConfig) list"
  wo_CertDir :: string
  wo_CertName :: string
  wo_KeyName :: string

definition webhookServerOptions :: "'z MainFlags \<Rightarrow> WebhookOptions" where
  "webhookServerOptions st =
     (let o1 = \<lparr> wo_TLSOpts = tlsOpts st, wo_CertDir = '''', wo_CertName = '''', wo_KeyName = '''' \<rparr> in
      if length (mf_webhookCertPath st) > 0 then
        o1\<lparr>wo_CertDir := mf_webhookCertPath st, wo_CertName := mf_webhookCertName st, wo_KeyName := mf_webhookCertKey st\<rparr>
      else o1)"

datatype filter_provider = WithAuthenticationAndAuthorization

record MetricsOptions =
  mo_BindAddress :: string
  mo_SecureServing :: bool
  mo_TLSOpts :: "(TLSConfig \<Rightarrow> TLSConfig) list"
  mo_FilterProvider :: "filter_provider option"
  mo_CertDir :: string
  mo_CertName :: string
  mo_KeyName :: string

definition metricsServerOptions :: "'z MainFlags \<Rightarrow> MetricsOptions" where
  "metricsServerOptions st =
     (let o1 = \<lparr> mo_BindAddress = mf_metricsAddr st, mo_SecureServing = mf_secureMetrics st, mo_TLSOpts = tlsOpts st,
                 mo_FilterProvider = None, mo_CertDir = '''', mo_CertName = '''', mo_KeyName = '''' \<rparr>;
          o2 = (if mf_secureMetrics st then o1\<lparr>mo_FilterProvider := Some WithAuthenticationAndAuthorization\<rparr> else o1)
      in
      if length (mf_metricsCertPath st) > 0 then
        o2\<lparr>mo_CertDir := mf_metricsCertPath st, mo_CertName := mf_metricsCertName st, mo_KeyName := mf_metricsCertKey st\<rparr>
      else o2)"

record 'w ManagerOptions =
  op_Metrics :: MetricsOptions
  op_WebhookServer :: 'w
  op_HealthProbeBindAddress :: string
  op_LeaderElection :: bool
  op_LeaderElectionID :: string

section \<open>Starting the manager\<close>

text \<open>
  The controller runtime, on the state \<open>'o\<close> of the process and what it talks to.
  \<open>rt_GetConfigOrDie\<close> yields nothing when it ends the process; \<open>rt_Complete\<close> registers a reconcile
  function under the kind it is for and its name.
\<close>

type_synonym ('k, 'c) reconcile_fn = "NamespacedName \<Rightarrow> (('k, 'c) world, Result \<times> error option) go"

record ('cfg, 'w, 'm, 'k, 'c, 'o) ManagerLib =
  rt_NewServer :: "WebhookOptions \<Rightarrow> 'w"
  rt_GetConfigOrDie :: "'o \<Rightarrow> 'cfg option \<times> 'o"
  rt_NewManager :: "'cfg \<Rightarrow> 'w ManagerOptions \<Rightarrow> 'o \<Rightarrow> (error + 'm) \<times> 'o"
  rt_GetClient :: "'m \<Rightarrow> 'k KubeClient"
  rt_Complete :: "'m \<Rightarrow> string \<Rightarrow> string \<Rightarrow> ('k, 'c) reconcile_fn \<Rightarrow> 'o \<Rightarrow> error option \<times> 'o"
  rt_AddHealthzCheck :: "'m \<Rightarrow> string \<Rightarrow> 'o \<Rightarrow> error option \<times> 'o"
  rt_AddReadyzCheck :: "'m \<Rightarrow> string \<Rightarrow> 'o \<Rightarrow> error option \<times> 'o"
  rt_Start :: "'m \<Rightarrow> 'o \<Rightarrow> error option \<times> 'o"

definition SetupWithManager ::
  "('cfg, 'w, 'm, 'k, 'c, 'o) ManagerLib \<Rightarrow> ('k, 'c, 'key) NoPlaneControlPlaneReconciler \<Rightarrow> 'm \<Rightarrow> 'o \<Rightarrow> error option \<times> 'o"
where
  "SetupWithManager L r mgr = rt_Complete L mgr ''NoPlaneControlPlane'' ''noplanecontrolplane'' (Reconcile r)"

definition Template_SetupWithManager ::
  "('cfg, 'w, 'm, 'k, 'c, 'o) ManagerLib \<Rightarrow> 'k NoPlaneControlPlaneTemplateReconciler \<Rightarrow> 'm \<Rightarrow> 'o \<Rightarrow> error option \<times> 'o"
where
  "Template_SetupWithManager L r mgr =
     rt_Complete L mgr ''NoPlaneControlPlaneTemplate'' ''noplanecontrolplanetemplate'' (Template_Reconcile r)"

definition manager_options :: "('cfg, 'w, 'm, 'k, 'c, 'o) ManagerLib \<Rightarrow> 'z MainFlags \<Rightarrow> 'w ManagerOptions" where
  "manager_options L st = \<lparr>
     op_Metrics = metricsServerOptions st, op_WebhookServer = rt_NewServer L (webhookServerOptions st),
     op_HealthProbeBindAddress = mf_probeAddr st, op_LeaderElection = mf_enableLeaderElection st,
     op_LeaderElectionID = ''25d1ccc8.noplane.io'' \<rparr>"

text \<open>The reconciler the process registers: the manager's client and the HTTP client's factory.\<close>

definition deployed_reconciler ::
  "('cfg, 'w, 'm, 'k, 'c, 'o) ManagerLib \<Rightarrow> ('k, 'key) KubeLib \<Rightarrow> ('u, 'c) GoHttp \<Rightarrow> Json \<Rightarrow> 'm \<Rightarrow>
     ('k, 'c, 'key) NoPlaneControlPlaneReconciler"
where
  "deployed_reconciler L lib h j mgr = \<lparr> r_Client = rt_GetClient L mgr, r_Lib = lib, r_ClientFactory = NewClient h j \<rparr>"

text \<open>\<^verbatim>\<open>if err := step; err != nil { os.Exit(1) }\<close>, and what follows it.\<close>

definition exit_on_error :: "('o \<Rightarrow> error option \<times> 'o) \<Rightarrow> ('o \<Rightarrow> int \<times> 'o) \<Rightarrow> 'o \<Rightarrow> int \<times> 'o" where
  "exit_on_error step continue os = (case step os of (Some err, os') \<Rightarrow> (1, os') | (None, os') \<Rightarrow> continue os')"

definition start_manager ::
  "('cfg, 'w, 'm, 'k, 'c, 'o) ManagerLib \<Rightarrow> ('k, 'key) KubeLib \<Rightarrow> ('u, 'c) GoHttp \<Rightarrow> Json \<Rightarrow> 'm \<Rightarrow> 'o \<Rightarrow> int \<times> 'o"
where
  "start_manager L lib h j mgr =
     exit_on_error (SetupWithManager L (deployed_reconciler L lib h j mgr) mgr)
     (exit_on_error (Template_SetupWithManager L \<lparr> tc_Client = rt_GetClient L mgr \<rparr> mgr)
     (exit_on_error (rt_AddHealthzCheck L mgr ''healthz'')
     (exit_on_error (rt_AddReadyzCheck L mgr ''readyz'')
     (exit_on_error (rt_Start L mgr) (\<lambda>os. (0, os))))))"

definition main ::
  "('cfg, 'w, 'm, 'k, 'c, 'o) ManagerLib \<Rightarrow> ('k, 'key) KubeLib \<Rightarrow> ('u, 'c) GoHttp \<Rightarrow> Json \<Rightarrow> 'z FlagSet \<Rightarrow> 'z \<Rightarrow>
     string list \<Rightarrow> 'o \<Rightarrow> int \<times> 'o"
where
  "main L lib h j zap z args os =
     (case flag_Parse (main_flags zap) args (default_flags z) of
        ParseExit code \<Rightarrow> (code, os)
      | Parsed st _ \<Rightarrow>
          (case rt_GetConfigOrDie L os of
             (None, os1) \<Rightarrow> (1, os1)
           | (Some cfg, os1) \<Rightarrow>
               (case rt_NewManager L cfg (manager_options L st) os1 of
                  (Inl err, os2) \<Rightarrow> (1, os2)
                | (Inr mgr, os2) \<Rightarrow> start_manager L lib h j mgr os2)))"

section \<open>The command line\<close>

lemma main_flags_frame:
  assumes "main_flags zap name = Some f" and "fl_Set f v st = Inr st'"
  shows "name \<noteq> ''enable-http2'' \<Longrightarrow> mf_enableHTTP2 st' = mf_enableHTTP2 st"
    and "name \<noteq> ''metrics-secure'' \<Longrightarrow> mf_secureMetrics st' = mf_secureMetrics st"
  using assms
  by (auto simp: main_flags_def StringVar_def BoolVar_def zap_flag_def split: if_splits option.splits sum.splits)

definition names_flag :: "string \<Rightarrow> string list \<Rightarrow> bool" where
  "names_flag name args \<longleftrightarrow> list_ex (\<lambda>s. case classify_arg s of FlagNamed n _ \<Rightarrow> n = name | _ \<Rightarrow> False) args"

lemma names_flagI: "s \<in> set args \<Longrightarrow> classify_arg s = FlagNamed name v \<Longrightarrow> names_flag name args"
  by (auto simp: names_flag_def list_ex_iff intro!: bexI [of _ s])

lemma parsed_flags_keep:
  assumes "flag_Parse (main_flags zap) args (default_flags z) = Parsed st rest"
  shows "\<not> names_flag ''enable-http2'' args \<Longrightarrow> \<not> mf_enableHTTP2 st"
    and "\<not> names_flag ''metrics-secure'' args \<Longrightarrow> mf_secureMetrics st"
proof -
  assume quiet: "\<not> names_flag ''enable-http2'' args"
  show "\<not> mf_enableHTTP2 st"
    by (rule flag_Parse_invariant [OF assms, where P = "\<lambda>st. \<not> mf_enableHTTP2 st"])
      (use quiet main_flags_frame(1) names_flagI in \<open>auto simp: default_flags_def, blast+\<close>)
next
  assume quiet: "\<not> names_flag ''metrics-secure'' args"
  show "mf_secureMetrics st"
    by (rule flag_Parse_invariant [OF assms, where P = mf_secureMetrics])
      (use quiet main_flags_frame(2) names_flagI in \<open>auto simp: default_flags_def, blast+\<close>)
qed

text \<open>
  C39: Secure by default. Whatever else is on the command line, without the flag
  \<^verbatim>\<open>enable-http2\<close> both servers offer HTTP/1.1 only, whatever their TLS configuration was before, and
  without the flag \<^verbatim>\<open>metrics-secure\<close> the metrics are served over HTTPS behind authentication and
  authorization.
\<close>
theorem main_secure_by_default:
  assumes "flag_Parse (main_flags zap) args (default_flags z) = Parsed st rest"
    and "\<not> names_flag ''enable-http2'' args" and "\<not> names_flag ''metrics-secure'' args"
  shows "tls_NextProtos (fold (\<lambda>f. f) (mo_TLSOpts (op_Metrics (manager_options L st))) c) = [''http/1.1'']
     \<and> tls_NextProtos (fold (\<lambda>f. f) (wo_TLSOpts (webhookServerOptions st)) c) = [''http/1.1'']
     \<and> mo_SecureServing (op_Metrics (manager_options L st))
     \<and> mo_FilterProvider (op_Metrics (manager_options L st)) = Some WithAuthenticationAndAuthorization"
  using parsed_flags_keep [OF assms(1)] assms(2,3)
  by (simp add: manager_options_def metricsServerOptions_def webhookServerOptions_def tlsOpts_def disableHTTP2_def Let_def)

section \<open>Starting\<close>

lemma exit_on_error_zero:
  "exit_on_error step continue os = (0, os') \<longleftrightarrow> (\<exists>os1. step os = (None, os1) \<and> continue os1 = (0, os'))"
  by (auto simp: exit_on_error_def split: prod.splits option.splits)

text \<open>
  C40: A run of the process that ends with status 0 either only printed its help, or registered
  both controllers, the first with the reconciler of \<open>Controller\<close> over the manager's client and the
  HTTP client, and both probes, in that order and each without an error, before the manager was
  started and stopped without an error.
\<close>
theorem main_exit_zero_iff:
  "main L lib h j zap z args os = (0, os') \<longleftrightarrow>
     (flag_Parse (main_flags zap) args (default_flags z) = ParseExit 0 \<and> os' = os)
     \<or> (\<exists>st rest cfg mgr os1 os2 os3 os4 os5 os6.
          flag_Parse (main_flags zap) args (default_flags z) = Parsed st rest
          \<and> rt_GetConfigOrDie L os = (Some cfg, os1) \<and> rt_NewManager L cfg (manager_options L st) os1 = (Inr mgr, os2)
          \<and> rt_Complete L mgr ''NoPlaneControlPlane'' ''noplanecontrolplane''
              (Reconcile \<lparr> r_Client = rt_GetClient L mgr, r_Lib = lib, r_ClientFactory = NewClient h j \<rparr>) os2 = (None, os3)
          \<and> rt_Complete L mgr ''NoPlaneControlPlaneTemplate'' ''noplanecontrolplanetemplate''
              (\<lambda>_. go_return (no_requeue, None)) os3 = (None, os4)
          \<and> rt_AddHealthzCheck L mgr ''healthz'' os4 = (None, os5) \<and> rt_AddReadyzCheck L mgr ''readyz'' os5 = (None, os6)
          \<and> rt_Start L mgr os6 = (None, os'))"
proof -
  have template: "Template_Reconcile r = (\<lambda>_. go_return (no_requeue, None))" for r
    by (rule ext) (simp add: Template_Reconcile_def)
  show ?thesis
    unfolding main_def start_manager_def SetupWithManager_def Template_SetupWithManager_def deployed_reconciler_def template
    by (auto simp: exit_on_error_zero split: parsed.splits prod.splits option.splits sum.splits)
qed

theorem main_secure_by_default_witness:
  "\<exists>st. flag_Parse (main_flags (\<lambda>_. None)) [''--leader-elect'', ''-metrics-bind-address'', '':8443''] (default_flags ()) = Parsed st []
     \<and> mf_enableLeaderElection st \<and> mf_metricsAddr st = '':8443''
     \<and> tls_NextProtos (fold (\<lambda>f. f) (wo_TLSOpts (webhookServerOptions st)) \<lparr> tls_NextProtos = [''h2''] \<rparr>) = [''http/1.1'']"
proof -
  let ?args = "[''--leader-elect'', ''-metrics-bind-address'', '':8443'']"
  define st where "st = (default_flags ())\<lparr>mf_enableLeaderElection := True, mf_metricsAddr := '':8443''\<rparr>"
  have parse: "flag_Parse (main_flags (\<lambda>_. None)) ?args (default_flags ()) = Parsed st []"
    by (simp add: flag_name_def main_flags_def StringVar_def BoolVar_def strconv_ParseBool_def st_def)
  have "\<not> names_flag ''enable-http2'' ?args" "\<not> names_flag ''metrics-secure'' ?args"
    by (simp_all add: names_flag_def flag_name_def)
  from main_secure_by_default [OF parse this] show ?thesis using parse by (auto simp: st_def)
qed

end
