(* ===== verification/Go_Heap.thy ===== *)
theory Go_Heap
  imports V1alpha1
begin

text \<open>
  Pointers and slices, for the generated deep copies: a heap is the list of the cells allocated so
  far, an address an index into it. What it means that a value with references denotes a plain
  value in a heap is a relation \<open>rep h v x R\<close>, with the set \<open>R\<close> of addresses it rests on. The
  locale \<open>deep_copier\<close> is the contract of a deep copy.
\<close>

type_synonym addr = nat

definition alloc :: "'c \<Rightarrow> ('c list, addr) go" where
  "alloc c h = (Returns (length h), h @ [c])"

text \<open>Dereferencing; an address outside the heap or a cell of another type has no counterpart in Go.\<close>

definition load :: "('c \<Rightarrow> 'a option) \<Rightarrow> addr \<Rightarrow> ('c list, 'a) go" where
  "load sel a h =
     (if a < length h then
        (case sel (h ! a) of Some x \<Rightarrow> (Returns x, h) | None \<Rightarrow> (Panics ''type'', h))
      else (Panics ''invalid memory address'', h))"

text \<open>The loop over a slice: each element is copied in turn.\<close>

fun copy_items :: "('v \<Rightarrow> ('c list, 'v) go) \<Rightarrow> 'v list \<Rightarrow> ('c list, 'v list) go" where
  "copy_items copy [] = go_return []"
| "copy_items copy (v # vs) = go_bind (copy v) (\<lambda>v'. go_bind (copy_items copy vs) (\<lambda>vs'. go_return (v' # vs')))"

section \<open>The contract of a deep copy\<close>

definition same_at :: "addr set \<Rightarrow> 'c list \<Rightarrow> 'c list \<Rightarrow> bool" where
  "same_at R h h' \<longleftrightarrow> (\<forall>a\<in>R. a < length h' \<and> h' ! a = h ! a)"

lemma same_at_append: "R \<subseteq> {..<length h} \<Longrightarrow> same_at R h (h @ hs)"
  by (auto simp: same_at_def nth_append)

lemma same_at_update: "R \<subseteq> {..<length h} \<Longrightarrow> a \<notin> R \<Longrightarrow> same_at R h (h[a := c])"
  unfolding same_at_def by (metis length_list_update lessThan_iff nth_list_update_neq subsetD)

lemma same_at_Un [simp]: "same_at (R \<union> S) h h' \<longleftrightarrow> same_at R h h' \<and> same_at S h h'"
  by (auto simp: same_at_def)

lemma same_at_insert [simp]: "same_at (insert a R) h h' \<longleftrightarrow> a < length h' \<and> h' ! a = h ! a \<and> same_at R h h'"
  by (auto simp: same_at_def)

lemma same_at_subset: "same_at S h h' \<Longrightarrow> R \<subseteq> S \<Longrightarrow> same_at R h h'"
  by (auto simp: same_at_def)

definition copies_to :: "'c list \<Rightarrow> ('c list, 'v) go \<Rightarrow> ('c list \<Rightarrow> 'v \<Rightarrow> addr set \<Rightarrow> bool) \<Rightarrow> bool" where
  "copies_to h m P \<longleftrightarrow>
     (\<exists>v hs S. m h = (Returns v, h @ hs) \<and> P (h @ hs) v S \<and> S \<subseteq> {length h ..< length (h @ hs)})"

text \<open>A list of elements: they rest on what each rests on.\<close>

fun rep_items :: "('c list \<Rightarrow> 'v \<Rightarrow> 'x \<Rightarrow> addr set \<Rightarrow> bool) \<Rightarrow> 'c list \<Rightarrow> 'v list \<Rightarrow> 'x list \<Rightarrow> addr set \<Rightarrow> bool" where
  "rep_items rep h [] [] R \<longleftrightarrow> R = {}"
| "rep_items rep h (v # vs) (x # xs) R \<longleftrightarrow> (\<exists>S T. R = S \<union> T \<and> rep h v x S \<and> rep_items rep h vs xs T)"
| "rep_items rep h _ _ R \<longleftrightarrow> False"

lemma rep_items_Nil [simp]: "rep_items rep h [] xs R \<longleftrightarrow> xs = [] \<and> R = {}"
  by (cases xs) auto

lemma rep_items_Cons:
  "rep_items rep h (v # vs) xs R \<longleftrightarrow>
     (\<exists>x ys S T. xs = x # ys \<and> R = S \<union> T \<and> rep h v x S \<and> rep_items rep h vs ys T)"
  by (cases xs) auto

locale deep_copier =
  fixes copy :: "'v \<Rightarrow> ('c list, 'v) go"
    and rep :: "'c list \<Rightarrow> 'v \<Rightarrow> 'x \<Rightarrow> addr set \<Rightarrow> bool"
  assumes rep_alloc: "rep h v x R \<Longrightarrow> R \<subseteq> {..<length h}"
    and rep_local: "rep h v x R \<Longrightarrow> same_at R h h' \<Longrightarrow> rep h' v x R"
    and copy_rep: "rep h v x R \<Longrightarrow> copies_to h (copy v) (\<lambda>h' v' S. rep h' v' x S)"
begin

lemma rep_append: "rep h v x R \<Longrightarrow> rep (h @ hs) v x R"
  by (rule rep_local) (auto intro!: same_at_append dest: rep_alloc)

lemma rep_update: "rep h v x R \<Longrightarrow> a \<notin> R \<Longrightarrow> rep (h[a := c]) v x R"
  by (rule rep_local) (auto intro!: same_at_update dest: rep_alloc)

text \<open>The copy and the original are independent: neither sees a write to the other.\<close>

lemma copy_independent:
  assumes "rep h v x R"
  shows "\<exists>v' h' S. copy v h = (Returns v', h') \<and> rep h' v' x S \<and> rep h' v x R \<and> R \<inter> S = {}
     \<and> (\<forall>a c. a \<in> S \<longrightarrow> rep (h'[a := c]) v x R) \<and> (\<forall>a c. a \<in> R \<longrightarrow> rep (h'[a := c]) v' x S)"
proof -
  obtain v' hs S where run: "copy v h = (Returns v', h @ hs)" and v': "rep (h @ hs) v' x S"
    and S: "S \<subseteq> {length h ..< length (h @ hs)}"
    using copy_rep [OF assms] unfolding copies_to_def by blast
  have v: "rep (h @ hs) v x R" by (rule rep_append [OF assms])
  have disj: "R \<inter> S = {}" using rep_alloc [OF assms] S by fastforce
  have "rep ((h @ hs)[a := c]) v x R" if "a \<in> S" for a c
    using that disj by (intro rep_update v) blast
  moreover have "rep ((h @ hs)[a := c]) v' x S" if "a \<in> R" for a c
    using that disj by (intro rep_update v') blast
  ultimately show ?thesis using run v v' disj by blast
qed

text \<open>Copying a slice's elements one after the other is a deep copy of the list.\<close>

lemma rep_items_alloc: "rep_items rep h vs xs R \<Longrightarrow> R \<subseteq> {..<length h}"
proof (induction vs arbitrary: xs R)
  case (Cons v vs)
  then obtain x ys S T where "R = S \<union> T" "rep h v x S" "rep_items rep h vs ys T" by (auto simp: rep_items_Cons)
  then show ?case using rep_alloc Cons.IH by (metis Un_least)
qed simp

lemma rep_items_local: "rep_items rep h vs xs R \<Longrightarrow> same_at R h h' \<Longrightarrow> rep_items rep h' vs xs R"
proof (induction vs arbitrary: xs R)
  case (Cons v vs)
  then obtain x ys S T where "xs = x # ys" "R = S \<union> T" "rep h v x S" "rep_items rep h vs ys T"
    by (auto simp: rep_items_Cons)
  then show ?case using rep_local Cons.IH Cons.prems(2) by (metis rep_items.simps(2) same_at_Un)
qed simp

lemma copy_items_rep:
  "rep_items rep h vs xs R \<Longrightarrow> copies_to h (copy_items copy vs) (\<lambda>h' vs' S. rep_items rep h' vs' xs S)"
proof (induction vs arbitrary: h xs R)
  case Nil
  then show ?case by (auto simp: copies_to_def go_return_def)
next
  case (Cons v vs)
  then obtain x ys S T where xs: "xs = x # ys" and v: "rep h v x S" and vs: "rep_items rep h vs ys T"
    by (auto simp: rep_items_Cons)
  obtain v' hs S' where c1: "copy v h = (Returns v', h @ hs)" "rep (h @ hs) v' x S'"
    "S' \<subseteq> {length h ..< length (h @ hs)}"
    using copy_rep [OF v] unfolding copies_to_def by blast
  have "rep_items rep (h @ hs) vs ys T"
    by (rule rep_items_local [OF vs]) (simp add: same_at_append rep_items_alloc [OF vs])
  then obtain vs' hs' T' where c2: "copy_items copy vs (h @ hs) = (Returns vs', (h @ hs) @ hs')"
    "rep_items rep ((h @ hs) @ hs') vs' ys T'" "T' \<subseteq> {length (h @ hs) ..< length ((h @ hs) @ hs')}"
    using Cons.IH unfolding copies_to_def by blast
  have "rep_items rep ((h @ hs) @ hs') (v' # vs') xs (S' \<union> T')"
    using rep_append [OF c1(2)] c2(2) xs by auto
  moreover have "S' \<union> T' \<subseteq> {length h ..< length (h @ hs @ hs')}" using c1(3) c2(3) by fastforce
  moreover have "copy_items copy (v # vs) h = (Returns (v' # vs'), h @ hs @ hs')"
    using c1(1) c2(1) by (simp add: go_bind_def go_return_def)
  ultimately show ?case unfolding copies_to_def append_assoc by blast
qed

end

section \<open>Pointers and slices\<close>

text \<open>
  A pointer to a cell, or nil: it rests on its own address and on what the cell's contents rest on.
\<close>

definition rep_ref ::
  "('c \<Rightarrow> 'w option) \<Rightarrow> ('c list \<Rightarrow> 'w \<Rightarrow> 'y \<Rightarrow> addr set \<Rightarrow> bool) \<Rightarrow> 'c list \<Rightarrow> addr option \<Rightarrow> 'y option \<Rightarrow> addr set \<Rightarrow> bool"
where
  "rep_ref sel rep h p y R \<longleftrightarrow>
     (case (p, y) of
        (None, None) \<Rightarrow> R = {}
      | (Some a, Some x) \<Rightarrow> (\<exists>w S. a < length h \<and> sel (h ! a) = Some w \<and> rep h w x S \<and> R = insert a S)
      | _ \<Rightarrow> False)"

text \<open>The generated pattern for a pointer or slice field: nil stays nil, else copy into a new cell.\<close>

definition copy_ref ::
  "('c \<Rightarrow> 'w option) \<Rightarrow> ('w \<Rightarrow> 'c) \<Rightarrow> ('w \<Rightarrow> ('c list, 'w) go) \<Rightarrow> addr option \<Rightarrow> ('c list, addr option) go"
where
  "copy_ref sel mk copy p =
     (case p of
        None \<Rightarrow> go_return None
      | Some a \<Rightarrow> go_bind (load sel a) (\<lambda>w. go_bind (copy w) (\<lambda>w'. go_bind (alloc (mk w')) (\<lambda>b. go_return (Some b)))))"

lemma copy_ref_copier:
  assumes "deep_copier copy rep" and sel: "\<And>w. sel (mk w) = Some w"
  shows "deep_copier (copy_ref sel mk copy) (rep_ref sel rep)"
proof
  fix h p y R assume "rep_ref sel rep h p y R"
  then show "R \<subseteq> {..<length h}"
    using deep_copier.rep_alloc [OF assms(1)] by (fastforce simp: rep_ref_def split: option.splits)
next
  fix h p y R h' assume "rep_ref sel rep h p y R" "same_at R h h'"
  then show "rep_ref sel rep h' p y R"
    using deep_copier.rep_local [OF assms(1)] by (fastforce simp: rep_ref_def split: option.splits)
next
  fix h p y R assume p: "rep_ref sel rep h p y R"
  show "copies_to h (copy_ref sel mk copy p) (\<lambda>h' v' S. rep_ref sel rep h' v' y S)"
  proof (cases p)
    case None
    then show ?thesis
      using p by (auto simp: copies_to_def copy_ref_def go_return_def rep_ref_def split: option.splits)
  next
    case (Some a)
    then obtain x w S where y: "y = Some x" and a: "a < length h" "sel (h ! a) = Some w" and w: "rep h w x S"
      using p by (auto simp: rep_ref_def split: option.splits)
    obtain w' hs S' where c: "copy w h = (Returns w', h @ hs)" "rep (h @ hs) w' x S'"
      "S' \<subseteq> {length h ..< length (h @ hs)}"
      using deep_copier.copy_rep [OF assms(1) w] unfolding copies_to_def by blast
    have "rep (h @ hs @ [mk w']) w' x S'"
      using deep_copier.rep_append [OF assms(1) c(2)] by simp
    then have "rep_ref sel rep (h @ hs @ [mk w']) (Some (length (h @ hs))) y (insert (length (h @ hs)) S')"
      using y sel by (auto simp: rep_ref_def nth_append)
    moreover have "insert (length (h @ hs)) S' \<subseteq> {length h ..< length (h @ hs @ [mk w'])}"
      using c(3) by fastforce
    moreover have "copy_ref sel mk copy p h = (Returns (Some (length (h @ hs))), h @ hs @ [mk w'])"
      using Some a c(1) by (simp add: copy_ref_def go_bind_def load_def alloc_def go_return_def)
    ultimately show ?thesis unfolding copies_to_def by blast
  qed
qed

text \<open>Values without references copy to themselves.\<close>

definition rep_plain :: "'c list \<Rightarrow> 'v \<Rightarrow> 'v \<Rightarrow> addr set \<Rightarrow> bool" where
  "rep_plain h v x R \<longleftrightarrow> v = x \<and> R = {}"

lemma plain_copier: "(\<And>v. copy v = go_return v) \<Longrightarrow> deep_copier copy rep_plain"
  by unfold_locales (auto simp: rep_plain_def copies_to_def go_return_def)

lemma items_copier: "deep_copier copy rep \<Longrightarrow> deep_copier (copy_items copy) (rep_items rep)"
  by (rule deep_copier.intro)
    (erule (1) deep_copier.rep_items_alloc | erule (2) deep_copier.rep_items_local
      | erule (1) deep_copier.copy_items_rep)+

section \<open>Structs\<close>

text \<open>Two values copied one after the other.\<close>

definition copy_pair :: "('u \<Rightarrow> ('c list, 'u) go) \<Rightarrow> ('v \<Rightarrow> ('c list, 'v) go) \<Rightarrow> 'u \<times> 'v \<Rightarrow> ('c list, 'u \<times> 'v) go" where
  "copy_pair c1 c2 p = go_bind (c1 (fst p)) (\<lambda>u. go_bind (c2 (snd p)) (\<lambda>v. go_return (u, v)))"

definition rep_pair ::
  "('c list \<Rightarrow> 'u \<Rightarrow> 'x \<Rightarrow> addr set \<Rightarrow> bool) \<Rightarrow> ('c list \<Rightarrow> 'v \<Rightarrow> 'y \<Rightarrow> addr set \<Rightarrow> bool) \<Rightarrow>
     'c list \<Rightarrow> 'u \<times> 'v \<Rightarrow> 'x \<times> 'y \<Rightarrow> addr set \<Rightarrow> bool"
where
  "rep_pair r1 r2 h p x R \<longleftrightarrow> (\<exists>S T. R = S \<union> T \<and> r1 h (fst p) (fst x) S \<and> r2 h (snd p) (snd x) T)"

lemma pair_copier:
  assumes d1: "deep_copier c1 r1" and d2: "deep_copier c2 r2"
  shows "deep_copier (copy_pair c1 c2) (rep_pair r1 r2)"
proof
  fix h p x R assume "rep_pair r1 r2 h p x R"
  then show "R \<subseteq> {..<length h}"
    unfolding rep_pair_def using deep_copier.rep_alloc [OF d1] deep_copier.rep_alloc [OF d2] by (metis Un_least)
next
  fix h p x R h' assume "rep_pair r1 r2 h p x R" "same_at R h h'"
  then show "rep_pair r1 r2 h' p x R"
    unfolding rep_pair_def using deep_copier.rep_local [OF d1] deep_copier.rep_local [OF d2] by (metis same_at_Un)
next
  fix h p x R assume "rep_pair r1 r2 h p x R"
  then obtain S T where u: "r1 h (fst p) (fst x) S" and v: "r2 h (snd p) (snd x) T" by (auto simp: rep_pair_def)
  obtain u' hs S' where c1: "c1 (fst p) h = (Returns u', h @ hs)" "r1 (h @ hs) u' (fst x) S'"
    "S' \<subseteq> {length h ..< length (h @ hs)}"
    using deep_copier.copy_rep [OF d1 u] unfolding copies_to_def by blast
  obtain v' hs' T' where c2: "c2 (snd p) (h @ hs) = (Returns v', (h @ hs) @ hs')" "r2 ((h @ hs) @ hs') v' (snd x) T'"
    "T' \<subseteq> {length (h @ hs) ..< length ((h @ hs) @ hs')}"
    using deep_copier.copy_rep [OF d2 deep_copier.rep_append [OF d2 v, of hs]] unfolding copies_to_def by blast
  have "rep_pair r1 r2 ((h @ hs) @ hs') (u', v') x (S' \<union> T')"
    using deep_copier.rep_append [OF d1 c1(2)] c2(2) by (auto simp: rep_pair_def)
  moreover have "S' \<union> T' \<subseteq> {length h ..< length (h @ hs @ hs')}" using c1(3) c2(3) by fastforce
  moreover have "copy_pair c1 c2 p h = (Returns (u', v'), h @ hs @ hs')"
    using c1(1) c2(1) by (simp add: copy_pair_def go_bind_def go_return_def)
  ultimately show "copies_to h (copy_pair c1 c2 p) (\<lambda>h' v' S. rep_pair r1 r2 h' v' x S)"
    unfolding copies_to_def append_assoc by blast
qed

text \<open>A struct whose references are copied and whose other fields are kept.\<close>

lemma struct_copier:
  assumes d: "deep_copier copy rep"
    and copy: "\<And>s. copy' s = go_bind (copy (get s)) (\<lambda>f. go_return (put f s))"
    and get: "\<And>f s. get (put f s) = f" and plain: "\<And>f s. plain (put f s) = plain s"
    and rep: "\<And>h s x R. rep' h s x R \<longleftrightarrow> rep h (get s) (xget x) R \<and> plain s = xplain x"
  shows "deep_copier copy' rep'"
proof
  fix h s x R assume "rep' h s x R"
  then show "R \<subseteq> {..<length h}" using rep deep_copier.rep_alloc [OF d] by blast
next
  fix h s x R h' assume "rep' h s x R" "same_at R h h'"
  then show "rep' h' s x R" using rep deep_copier.rep_local [OF d] by blast
next
  fix h s x R assume s: "rep' h s x R"
  then obtain f hs S where f: "copy (get s) h = (Returns f, h @ hs)" "rep (h @ hs) f (xget x) S"
    "S \<subseteq> {length h ..< length (h @ hs)}"
    using deep_copier.copy_rep [OF d] rep unfolding copies_to_def by blast
  then have "rep' (h @ hs) (put f s) x S" using s by (simp add: rep get plain)
  moreover have "copy' s h = (Returns (put f s), h @ hs)" using f(1) by (simp add: copy go_bind_def go_return_def)
  ultimately show "copies_to h (copy' s) (\<lambda>h' v' S. rep' h' v' x S)"
    unfolding copies_to_def using f(3) by blast
qed

end
