(* ===== verification/Deep_Copy.thy ===== *)
theory Deep_Copy
  imports Go_Heap
begin

text \<open>
  The generated deep copies of \<^verbatim>\<open>zz_generated.deepcopy.go\<close> over an explicit heap. The structs of
  package \<^verbatim>\<open>v1alpha1\<close> are here as they lie in memory, with addresses where they have pointers and
  slices; the structs of other packages they embed are the types \<open>'m\<close> (object metadata), \<open>'l\<close> (list
  metadata), \<open>'t\<close> (Cluster API's template metadata) and the type \<open>'f\<close> of the cells those need,
  and their own deep copies are the parameter \<open>DeepLib\<close>. The order in which a copy allocates its
  cells cannot be observed; a cell is allocated here once its contents are known.
\<close>

section \<open>Structs in memory\<close>

record hSpec =
  hs_Version :: string
  hs_Replicas :: "addr option"
  hs_ControlPlaneEndpoint :: APIEndpoint
  hs_CredentialsSecretRef :: SecretReference
  hs_PlaneID :: string

record hStatus =
  ht_Ready :: bool
  ht_Initialized :: bool
  ht_PlaneID :: string
  ht_Version :: string
  ht_Replicas :: "addr option"
  ht_ReadyReplicas :: "addr option"
  ht_Selector :: string
  ht_Conditions :: "addr option"

record 'm hNCP =
  hn_TypeMeta :: TypeMeta
  hn_ObjectMeta :: 'm
  hn_Spec :: hSpec
  hn_Status :: hStatus

record 'l hNCPList =
  hnl_TypeMeta :: TypeMeta
  hnl_ListMeta :: 'l
  hnl_Items :: "addr option"

record 't hResource =
  hr_ObjectMeta :: 't
  hr_Spec :: hSpec

record 't hTemplateSpec =
  hts_Template :: "'t hResource"

record ('m, 't) hTemplate =
  hm_TypeMeta :: TypeMeta
  hm_ObjectMeta :: 'm
  hm_Spec :: "'t hTemplateSpec"

record 'l hTemplateList =
  hml_TypeMeta :: TypeMeta
  hml_ListMeta :: 'l
  hml_Items :: "addr option"

datatype ('m, 'l, 't, 'f) cell =
    CInt32 int32
  | CConditions "Condition list"
  | CSpec hSpec
  | CStatus hStatus
  | CNCP "'m hNCP"
  | CNCPs "'m hNCP list"
  | CNCPList "'l hNCPList"
  | CResource "'t hResource"
  | CTemplateSpec "'t hTemplateSpec"
  | CTemplate "('m, 't) hTemplate"
  | CTemplates "('m, 't) hTemplate list"
  | CTemplateList "'l hTemplateList"
  | CForeign 'f

type_synonym ('m, 'l, 't, 'f) heap = "('m, 'l, 't, 'f) cell list"

definition as_int32 where "as_int32 c = (case c of CInt32 x \<Rightarrow> Some x | _ \<Rightarrow> None)"

definition as_conditions where "as_conditions c = (case c of CConditions x \<Rightarrow> Some x | _ \<Rightarrow> None)"

definition as_spec where "as_spec c = (case c of CSpec x \<Rightarrow> Some x | _ \<Rightarrow> None)"

definition as_status where "as_status c = (case c of CStatus x \<Rightarrow> Some x | _ \<Rightarrow> None)"

definition as_ncp where "as_ncp c = (case c of CNCP x \<Rightarrow> Some x | _ \<Rightarrow> None)"

definition as_ncps where "as_ncps c = (case c of CNCPs x \<Rightarrow> Some x | _ \<Rightarrow> None)"

definition as_ncp_list where "as_ncp_list c = (case c of CNCPList x \<Rightarrow> Some x | _ \<Rightarrow> None)"

definition as_resource where "as_resource c = (case c of CResource x \<Rightarrow> Some x | _ \<Rightarrow> None)"

definition as_template_spec where "as_template_spec c = (case c of CTemplateSpec x \<Rightarrow> Some x | _ \<Rightarrow> None)"

definition as_template where "as_template c = (case c of CTemplate x \<Rightarrow> Some x | _ \<Rightarrow> None)"

definition as_templates where "as_templates c = (case c of CTemplates x \<Rightarrow> Some x | _ \<Rightarrow> None)"

definition as_template_list where "as_template_list c = (case c of CTemplateList x \<Rightarrow> Some x | _ \<Rightarrow> None)"

lemmas cell_sel_defs = as_int32_def as_conditions_def as_spec_def as_status_def as_ncp_def as_ncps_def
  as_ncp_list_def as_resource_def as_template_spec_def as_template_def as_templates_def as_template_list_def

text \<open>The deep copies of the embedded structs, from other packages.\<close>

record ('m, 'l, 't, 'f) DeepLib =
  dl_ObjectMeta :: "'m \<Rightarrow> (('m, 'l, 't, 'f) heap, 'm) go"
  dl_ListMeta :: "'l \<Rightarrow> (('m, 'l, 't, 'f) heap, 'l) go"
  dl_TemplateMeta :: "'t \<Rightarrow> (('m, 'l, 't, 'f) heap, 't) go"
  dl_Condition :: "Condition \<Rightarrow> (('m, 'l, 't, 'f) heap, Condition) go"

section \<open>The copy functions\<close>

text \<open>\<^verbatim>\<open>*out = new(int32); **out = **in\<close>, for a pointer that is not nil.\<close>

definition copy_int32 :: "addr option \<Rightarrow> (('m, 'l, 't, 'f) heap, addr option) go" where
  "copy_int32 = copy_ref as_int32 CInt32 go_return"

definition NoPlaneControlPlaneSpec_DeepCopyInto :: "hSpec \<Rightarrow> (('m, 'l, 't, 'f) heap, hSpec) go" where
  "NoPlaneControlPlaneSpec_DeepCopyInto i =
     go_bind (copy_int32 (hs_Replicas i)) (\<lambda>replicas. go_return (i\<lparr>hs_Replicas := replicas\<rparr>))"

definition NoPlaneControlPlaneStatus_DeepCopyInto ::
  "('m, 'l, 't, 'f) DeepLib \<Rightarrow> hStatus \<Rightarrow> (('m, 'l, 't, 'f) heap, hStatus) go"
where
  "NoPlaneControlPlaneStatus_DeepCopyInto L i =
     go_bind (copy_int32 (ht_Replicas i)) (\<lambda>replicas.
     go_bind (copy_int32 (ht_ReadyReplicas i)) (\<lambda>readyReplicas.
     go_bind (copy_ref as_conditions CConditions (copy_items (dl_Condition L)) (ht_Conditions i)) (\<lambda>conditions.
     go_return (i\<lparr>ht_Replicas := replicas, ht_ReadyReplicas := readyReplicas, ht_Conditions := conditions\<rparr>))))"

definition NoPlaneControlPlane_DeepCopyInto ::
  "('m, 'l, 't, 'f) DeepLib \<Rightarrow> 'm hNCP \<Rightarrow> (('m, 'l, 't, 'f) heap, 'm hNCP) go"
where
  "NoPlaneControlPlane_DeepCopyInto L i =
     go_bind (dl_ObjectMeta L (hn_ObjectMeta i)) (\<lambda>meta.
     go_bind (NoPlaneControlPlaneSpec_DeepCopyInto (hn_Spec i)) (\<lambda>spec.
     go_bind (NoPlaneControlPlaneStatus_DeepCopyInto L (hn_Status i)) (\<lambda>status.
     go_return (i\<lparr>hn_ObjectMeta := meta, hn_Spec := spec, hn_Status := status\<rparr>))))"

definition NoPlaneControlPlaneList_DeepCopyInto ::
  "('m, 'l, 't, 'f) DeepLib \<Rightarrow> 'l hNCPList \<Rightarrow> (('m, 'l, 't, 'f) heap, 'l hNCPList) go"
where
  "NoPlaneControlPlaneList_DeepCopyInto L i =
     go_bind (dl_ListMeta L (hnl_ListMeta i)) (\<lambda>meta.
     go_bind (copy_ref as_ncps CNCPs (copy_items (NoPlaneControlPlane_DeepCopyInto L)) (hnl_Items i)) (\<lambda>items.
     go_return (i\<lparr>hnl_ListMeta := meta, hnl_Items := items\<rparr>)))"

definition NoPlaneControlPlaneTemplateResource_DeepCopyInto ::
  "('m, 'l, 't, 'f) DeepLib \<Rightarrow> 't hResource \<Rightarrow> (('m, 'l, 't, 'f) heap, 't hResource) go"
where
  "NoPlaneControlPlaneTemplateResource_DeepCopyInto L i =
     go_bind (dl_TemplateMeta L (hr_ObjectMeta i)) (\<lambda>meta.
     go_bind (NoPlaneControlPlaneSpec_DeepCopyInto (hr_Spec i)) (\<lambda>spec.
     go_return (i\<lparr>hr_ObjectMeta := meta, hr_Spec := spec\<rparr>)))"

definition NoPlaneControlPlaneTemplateSpec_DeepCopyInto ::
  "('m, 'l, 't, 'f) DeepLib \<Rightarrow> 't hTemplateSpec \<Rightarrow> (('m, 'l, 't, 'f) heap, 't hTemplateSpec) go"
where
  "NoPlaneControlPlaneTemplateSpec_DeepCopyInto L i =
     go_bind (NoPlaneControlPlaneTemplateResource_DeepCopyInto L (hts_Template i)) (\<lambda>template.
     go_return (i\<lparr>hts_Template := template\<rparr>))"

definition NoPlaneControlPlaneTemplate_DeepCopyInto ::
  "('m, 'l, 't, 'f) DeepLib \<Rightarrow> ('m, 't) hTemplate \<Rightarrow> (('m, 'l, 't, 'f) heap, ('m, 't) hTemplate) go"
where
  "NoPlaneControlPlaneTemplate_DeepCopyInto L i =
     go_bind (dl_ObjectMeta L (hm_ObjectMeta i)) (\<lambda>meta.
     go_bind (NoPlaneControlPlaneTemplateSpec_DeepCopyInto L (hm_Spec i)) (\<lambda>spec.
     go_return (i\<lparr>hm_ObjectMeta := meta, hm_Spec := spec\<rparr>)))"

definition NoPlaneControlPlaneTemplateList_DeepCopyInto ::
  "('m, 'l, 't, 'f) DeepLib \<Rightarrow> 'l hTemplateList \<Rightarrow> (('m, 'l, 't, 'f) heap, 'l hTemplateList) go"
where
  "NoPlaneControlPlaneTemplateList_DeepCopyInto L i =
     go_bind (dl_ListMeta L (hml_ListMeta i)) (\<lambda>meta.
     go_bind (copy_ref as_templates CTemplates (copy_items (NoPlaneControlPlaneTemplate_DeepCopyInto L)) (hml_Items i)) (\<lambda>items.
     go_return (i\<lparr>hml_ListMeta := meta, hml_Items := items\<rparr>)))"

text \<open>
  \<^verbatim>\<open>DeepCopy\<close> on a pointer: nil for nil, else a new struct. \<^verbatim>\<open>DeepCopyObject\<close> returns the same pointer
  as an object, and the nil interface for nil.
\<close>

definition NoPlaneControlPlaneSpec_DeepCopy :: "addr option \<Rightarrow> (('m, 'l, 't, 'f) heap, addr option) go" where
  "NoPlaneControlPlaneSpec_DeepCopy = copy_ref as_spec CSpec NoPlaneControlPlaneSpec_DeepCopyInto"

definition NoPlaneControlPlaneStatus_DeepCopy where
  "NoPlaneControlPlaneStatus_DeepCopy L = copy_ref as_status CStatus (NoPlaneControlPlaneStatus_DeepCopyInto L)"

definition NoPlaneControlPlane_DeepCopy where
  "NoPlaneControlPlane_DeepCopy L = copy_ref as_ncp CNCP (NoPlaneControlPlane_DeepCopyInto L)"

definition NoPlaneControlPlaneList_DeepCopy where
  "NoPlaneControlPlaneList_DeepCopy L = copy_ref as_ncp_list CNCPList (NoPlaneControlPlaneList_DeepCopyInto L)"

definition NoPlaneControlPlaneTemplateResource_DeepCopy where
  "NoPlaneControlPlaneTemplateResource_DeepCopy L =
     copy_ref as_resource CResource (NoPlaneControlPlaneTemplateResource_DeepCopyInto L)"

definition NoPlaneControlPlaneTemplateSpec_DeepCopy where
  "NoPlaneControlPlaneTemplateSpec_DeepCopy L =
     copy_ref as_template_spec CTemplateSpec (NoPlaneControlPlaneTemplateSpec_DeepCopyInto L)"

definition NoPlaneControlPlaneTemplate_DeepCopy where
  "NoPlaneControlPlaneTemplate_DeepCopy L = copy_ref as_template CTemplate (NoPlaneControlPlaneTemplate_DeepCopyInto L)"

definition NoPlaneControlPlaneTemplateList_DeepCopy where
  "NoPlaneControlPlaneTemplateList_DeepCopy L =
     copy_ref as_template_list CTemplateList (NoPlaneControlPlaneTemplateList_DeepCopyInto L)"

definition deep_copy_object :: "('h, addr option) go \<Rightarrow> ('h, addr option) go" where
  "deep_copy_object copy =
     go_bind copy (\<lambda>c. case c of Some a \<Rightarrow> go_return (Some a) | None \<Rightarrow> go_return None)"

definition NoPlaneControlPlane_DeepCopyObject where
  "NoPlaneControlPlane_DeepCopyObject L p = deep_copy_object (NoPlaneControlPlane_DeepCopy L p)"

definition NoPlaneControlPlaneList_DeepCopyObject where
  "NoPlaneControlPlaneList_DeepCopyObject L p = deep_copy_object (NoPlaneControlPlaneList_DeepCopy L p)"

definition NoPlaneControlPlaneTemplate_DeepCopyObject where
  "NoPlaneControlPlaneTemplate_DeepCopyObject L p = deep_copy_object (NoPlaneControlPlaneTemplate_DeepCopy L p)"

definition NoPlaneControlPlaneTemplateList_DeepCopyObject where
  "NoPlaneControlPlaneTemplateList_DeepCopyObject L p = deep_copy_object (NoPlaneControlPlaneTemplateList_DeepCopy L p)"

section \<open>What the structs denote\<close>

definition rep_int32 :: "('m, 'l, 't, 'f) heap \<Rightarrow> addr option \<Rightarrow> int32 option \<Rightarrow> addr set \<Rightarrow> bool" where
  "rep_int32 = rep_ref as_int32 rep_plain"

definition rep_conditions :: "('m, 'l, 't, 'f) heap \<Rightarrow> addr option \<Rightarrow> Condition list option \<Rightarrow> addr set \<Rightarrow> bool" where
  "rep_conditions = rep_ref as_conditions (rep_items rep_plain)"

definition rep_spec :: "('m, 'l, 't, 'f) heap \<Rightarrow> hSpec \<Rightarrow> NoPlaneControlPlaneSpec \<Rightarrow> addr set \<Rightarrow> bool" where
  "rep_spec h s x R \<longleftrightarrow> rep_int32 h (hs_Replicas s) (spec_Replicas x) R
     \<and> (hs_Version s, hs_ControlPlaneEndpoint s, hs_CredentialsSecretRef s, hs_PlaneID s)
       = (spec_Version x, spec_ControlPlaneEndpoint x, spec_CredentialsSecretRef x, spec_PlaneID x)"

definition rep_status :: "('m, 'l, 't, 'f) heap \<Rightarrow> hStatus \<Rightarrow> NoPlaneControlPlaneStatus \<Rightarrow> addr set \<Rightarrow> bool" where
  "rep_status h s x R \<longleftrightarrow>
     rep_pair rep_int32 (rep_pair rep_int32 rep_conditions) h
       (ht_Replicas s, ht_ReadyReplicas s, ht_Conditions s) (st_Replicas x, st_ReadyReplicas x, st_Conditions x) R
     \<and> (ht_Ready s, ht_Initialized s, ht_PlaneID s, ht_Version s, ht_Selector s)
       = (st_Ready x, st_Initialized x, st_PlaneID x, st_Version x, st_Selector x)"

definition rep_ncp where
  "rep_ncp rm h s x R \<longleftrightarrow>
     rep_pair rm (rep_pair rep_spec rep_status) h
       (hn_ObjectMeta s, hn_Spec s, hn_Status s) (ncp_ObjectMeta x, ncp_Spec x, ncp_Status x) R
     \<and> hn_TypeMeta s = ncp_TypeMeta x"

definition rep_ncp_list where
  "rep_ncp_list rm rl h s x R \<longleftrightarrow>
     rep_pair rl (rep_ref as_ncps (rep_items (rep_ncp rm))) h
       (hnl_ListMeta s, hnl_Items s) (ncpl_ListMeta x, ncpl_Items x) R
     \<and> hnl_TypeMeta s = ncpl_TypeMeta x"

definition rep_resource where
  "rep_resource rt h s x R \<longleftrightarrow>
     rep_pair rt rep_spec h (hr_ObjectMeta s, hr_Spec s) (tr_ObjectMeta x, tr_Spec x) R"

definition rep_template_spec where
  "rep_template_spec rt h s x R \<longleftrightarrow> rep_resource rt h (hts_Template s) (ts_Template x) R"

definition rep_template where
  "rep_template rm rt h s x R \<longleftrightarrow>
     rep_pair rm (rep_template_spec rt) h (hm_ObjectMeta s, hm_Spec s) (ncpt_ObjectMeta x, ncpt_Spec x) R
     \<and> hm_TypeMeta s = ncpt_TypeMeta x"

definition rep_template_list where
  "rep_template_list rm rl rt h s x R \<longleftrightarrow>
     rep_pair rl (rep_ref as_templates (rep_items (rep_template rm rt))) h
       (hml_ListMeta s, hml_Items s) (ncptl_ListMeta x, ncptl_Items x) R
     \<and> hml_TypeMeta s = ncptl_TypeMeta x"

text \<open>
  What the copies of the embedded structs promise: they are deep copies themselves, of metadata
  that denotes the plain metadata of \<open>V1alpha1\<close>; a condition has no references.
\<close>

definition embedded_contract ::
  "('m, 'l, 't, 'f) DeepLib \<Rightarrow>
   (('m, 'l, 't, 'f) heap \<Rightarrow> 'm \<Rightarrow> ObjectMeta \<Rightarrow> addr set \<Rightarrow> bool) \<Rightarrow>
   (('m, 'l, 't, 'f) heap \<Rightarrow> 'l \<Rightarrow> ListMeta \<Rightarrow> addr set \<Rightarrow> bool) \<Rightarrow>
   (('m, 'l, 't, 'f) heap \<Rightarrow> 't \<Rightarrow> TemplateObjectMeta \<Rightarrow> addr set \<Rightarrow> bool) \<Rightarrow> bool"
where
  "embedded_contract L rm rl rt \<longleftrightarrow>
     deep_copier (dl_ObjectMeta L) rm \<and> deep_copier (dl_ListMeta L) rl \<and> deep_copier (dl_TemplateMeta L) rt
     \<and> deep_copier (dl_Condition L) rep_plain"

section \<open>The copies keep the contract\<close>

interpretation int32_ref: deep_copier copy_int32 rep_int32
  unfolding copy_int32_def rep_int32_def
  by (rule copy_ref_copier [OF plain_copier]) (simp_all add: as_int32_def)

interpretation spec_copy: deep_copier NoPlaneControlPlaneSpec_DeepCopyInto rep_spec
  by (rule struct_copier [OF int32_ref.deep_copier_axioms, where get = hs_Replicas and xget = spec_Replicas
        and put = "\<lambda>f s. s\<lparr>hs_Replicas := f\<rparr>"
        and plain = "\<lambda>s. (hs_Version s, hs_ControlPlaneEndpoint s, hs_CredentialsSecretRef s, hs_PlaneID s)"
        and xplain = "\<lambda>x. (spec_Version x, spec_ControlPlaneEndpoint x, spec_CredentialsSecretRef x, spec_PlaneID x)"])
    (simp_all add: NoPlaneControlPlaneSpec_DeepCopyInto_def rep_spec_def)

lemma status_copier:
  assumes "deep_copier (dl_Condition L) rep_plain"
  shows "deep_copier (NoPlaneControlPlaneStatus_DeepCopyInto L) rep_status"
proof -
  have "deep_copier (copy_ref as_conditions CConditions (copy_items (dl_Condition L))) rep_conditions"
    unfolding rep_conditions_def using assms
    by (intro copy_ref_copier items_copier) (simp_all add: as_conditions_def)
  note d = pair_copier [OF int32_ref.deep_copier_axioms pair_copier [OF int32_ref.deep_copier_axioms this]]
  show ?thesis
    by (rule struct_copier [OF d, where get = "\<lambda>s. (ht_Replicas s, ht_ReadyReplicas s, ht_Conditions s)"
          and xget = "\<lambda>x. (st_Replicas x, st_ReadyReplicas x, st_Conditions x)"
          and put = "\<lambda>(a, b, c) s. s\<lparr>ht_Replicas := a, ht_ReadyReplicas := b, ht_Conditions := c\<rparr>"
          and plain = "\<lambda>s. (ht_Ready s, ht_Initialized s, ht_PlaneID s, ht_Version s, ht_Selector s)"
          and xplain = "\<lambda>x. (st_Ready x, st_Initialized x, st_PlaneID x, st_Version x, st_Selector x)"])
      (auto simp: NoPlaneControlPlaneStatus_DeepCopyInto_def rep_status_def copy_pair_def go_bind_assoc)
qed

lemma ncp_copier:
  assumes "embedded_contract L rm rl rt"
  shows "deep_copier (NoPlaneControlPlane_DeepCopyInto L) (rep_ncp rm)"
proof -
  have "deep_copier (dl_ObjectMeta L) rm" "deep_copier (NoPlaneControlPlaneStatus_DeepCopyInto L) rep_status"
    using assms status_copier by (auto simp: embedded_contract_def)
  note d = pair_copier [OF this(1) pair_copier [OF spec_copy.deep_copier_axioms this(2)]]
  show ?thesis
    by (rule struct_copier [OF d, where get = "\<lambda>s. (hn_ObjectMeta s, hn_Spec s, hn_Status s)"
          and xget = "\<lambda>x. (ncp_ObjectMeta x, ncp_Spec x, ncp_Status x)"
          and put = "\<lambda>(a, b, c) s. s\<lparr>hn_ObjectMeta := a, hn_Spec := b, hn_Status := c\<rparr>"
          and plain = hn_TypeMeta and xplain = ncp_TypeMeta])
      (auto simp: NoPlaneControlPlane_DeepCopyInto_def rep_ncp_def copy_pair_def go_bind_assoc)
qed

lemma ncp_list_copier:
  assumes "embedded_contract L rm rl rt"
  shows "deep_copier (NoPlaneControlPlaneList_DeepCopyInto L) (rep_ncp_list rm rl)"
proof -
  have "deep_copier (copy_ref as_ncps CNCPs (copy_items (NoPlaneControlPlane_DeepCopyInto L)))
      (rep_ref as_ncps (rep_items (rep_ncp rm)))"
    by (intro copy_ref_copier items_copier ncp_copier [OF assms]) (simp add: as_ncps_def)
  note d = pair_copier [OF _ this, of "dl_ListMeta L" rl]
  show ?thesis
    by (rule struct_copier [OF d, where get = "\<lambda>s. (hnl_ListMeta s, hnl_Items s)"
          and xget = "\<lambda>x. (ncpl_ListMeta x, ncpl_Items x)" and put = "\<lambda>(a, b) s. s\<lparr>hnl_ListMeta := a, hnl_Items := b\<rparr>"
          and plain = hnl_TypeMeta and xplain = ncpl_TypeMeta])
      (use assms in \<open>auto simp: embedded_contract_def NoPlaneControlPlaneList_DeepCopyInto_def rep_ncp_list_def
        copy_pair_def go_bind_assoc\<close>)
qed

lemma resource_copier:
  assumes "embedded_contract L rm rl rt"
  shows "deep_copier (NoPlaneControlPlaneTemplateResource_DeepCopyInto L) (rep_resource rt)"
  by (rule struct_copier [OF pair_copier [OF _ spec_copy.deep_copier_axioms, of "dl_TemplateMeta L" rt],
        where get = "\<lambda>s. (hr_ObjectMeta s, hr_Spec s)" and xget = "\<lambda>x. (tr_ObjectMeta x, tr_Spec x)"
        and put = "\<lambda>(a, b) s. s\<lparr>hr_ObjectMeta := a, hr_Spec := b\<rparr>" and plain = "\<lambda>_. ()" and xplain = "\<lambda>_. ()"])
    (use assms in \<open>auto simp: embedded_contract_def NoPlaneControlPlaneTemplateResource_DeepCopyInto_def
      rep_resource_def copy_pair_def go_bind_assoc\<close>)

lemma template_spec_copier:
  assumes "embedded_contract L rm rl rt"
  shows "deep_copier (NoPlaneControlPlaneTemplateSpec_DeepCopyInto L) (rep_template_spec rt)"
  by (rule struct_copier [OF resource_copier [OF assms], where get = hts_Template and xget = ts_Template
        and put = "\<lambda>f s. s\<lparr>hts_Template := f\<rparr>" and plain = "\<lambda>_. ()" and xplain = "\<lambda>_. ()"])
    (auto simp: NoPlaneControlPlaneTemplateSpec_DeepCopyInto_def rep_template_spec_def)

lemma template_copier:
  assumes "embedded_contract L rm rl rt"
  shows "deep_copier (NoPlaneControlPlaneTemplate_DeepCopyInto L) (rep_template rm rt)"
  by (rule struct_copier [OF pair_copier [OF _ template_spec_copier [OF assms], of "dl_ObjectMeta L" rm],
        where get = "\<lambda>s. (hm_ObjectMeta s, hm_Spec s)" and xget = "\<lambda>x. (ncpt_ObjectMeta x, ncpt_Spec x)"
        and put = "\<lambda>(a, b) s. s\<lparr>hm_ObjectMeta := a, hm_Spec := b\<rparr>" and plain = hm_TypeMeta and xplain = ncpt_TypeMeta])
    (use assms in \<open>auto simp: embedded_contract_def NoPlaneControlPlaneTemplate_DeepCopyInto_def rep_template_def
      copy_pair_def go_bind_assoc\<close>)

lemma template_list_copier:
  assumes "embedded_contract L rm rl rt"
  shows "deep_copier (NoPlaneControlPlaneTemplateList_DeepCopyInto L) (rep_template_list rm rl rt)"
proof -
  have "deep_copier (copy_ref as_templates CTemplates (copy_items (NoPlaneControlPlaneTemplate_DeepCopyInto L)))
      (rep_ref as_templates (rep_items (rep_template rm rt)))"
    by (intro copy_ref_copier items_copier template_copier [OF assms]) (simp add: as_templates_def)
  note d = pair_copier [OF _ this, of "dl_ListMeta L" rl]
  show ?thesis
    by (rule struct_copier [OF d, where get = "\<lambda>s. (hml_ListMeta s, hml_Items s)"
          and xget = "\<lambda>x. (ncptl_ListMeta x, ncptl_Items x)" and put = "\<lambda>(a, b) s. s\<lparr>hml_ListMeta := a, hml_Items := b\<rparr>"
          and plain = hml_TypeMeta and xplain = ncptl_TypeMeta])
      (use assms in \<open>auto simp: embedded_contract_def NoPlaneControlPlaneTemplateList_DeepCopyInto_def
        rep_template_list_def copy_pair_def go_bind_assoc\<close>)
qed

section \<open>Copies are equal and independent\<close>

lemma deep_copy_object_eq [simp]: "deep_copy_object m = m"
  by (rule ext) (simp add: deep_copy_object_def go_bind_def go_return_def split: prod.split outcome.split option.split)

lemma rep_ref_SomeD: "rep_ref sel rep h p (Some x) R \<Longrightarrow> \<exists>a. p = Some a"
  by (cases p) (simp_all add: rep_ref_def)

lemma ref_copy_independent:
  assumes "deep_copier copy rep" and "\<And>w. sel (mk w) = Some w" and "rep_ref sel rep h (Some p) (Some x) R"
  shows "\<exists>q h' S. copy_ref sel mk copy (Some p) h = (Returns (Some q), h')
     \<and> rep_ref sel rep h' (Some q) (Some x) S \<and> rep_ref sel rep h' (Some p) (Some x) R \<and> R \<inter> S = {}
     \<and> (\<forall>a c. a \<in> S \<longrightarrow> rep_ref sel rep (h'[a := c]) (Some p) (Some x) R)
     \<and> (\<forall>a c. a \<in> R \<longrightarrow> rep_ref sel rep (h'[a := c]) (Some q) (Some x) S)"
proof -
  obtain v' h' S where "copy_ref sel mk copy (Some p) h = (Returns v', h')" and q: "rep_ref sel rep h' v' (Some x) S"
    and "rep_ref sel rep h' (Some p) (Some x) R" "R \<inter> S = {}"
      "\<forall>a c. a \<in> S \<longrightarrow> rep_ref sel rep (h'[a := c]) (Some p) (Some x) R"
      "\<forall>a c. a \<in> R \<longrightarrow> rep_ref sel rep (h'[a := c]) v' (Some x) S"
    using deep_copier.copy_independent [OF copy_ref_copier [where sel = sel and mk = mk, OF assms(1,2)] assms(3)]
    by (elim exE conjE) (rule that; assumption)
  moreover obtain b where "v' = Some b" using rep_ref_SomeD [OF q] by blast
  ultimately show ?thesis by (intro exI [of _ b] exI [of _ h'] exI [of _ S] conjI; simp)
qed

text \<open>
  C37: A deep copy of a control plane object is equal to the original and shares no memory with it:
  the copy always succeeds, denotes the same object, leaves the original as it was, and afterwards
  no write to a cell of the one changes the other.
\<close>
theorem NoPlaneControlPlane_DeepCopyObject_independent:
  assumes "embedded_contract L rm rl rt" and "rep_ref as_ncp (rep_ncp rm) h (Some p) (Some x) R"
  shows "\<exists>q h' S. NoPlaneControlPlane_DeepCopyObject L (Some p) h = (Returns (Some q), h')
     \<and> rep_ref as_ncp (rep_ncp rm) h' (Some q) (Some x) S
     \<and> rep_ref as_ncp (rep_ncp rm) h' (Some p) (Some x) R \<and> R \<inter> S = {}
     \<and> (\<forall>a c. a \<in> S \<longrightarrow> rep_ref as_ncp (rep_ncp rm) (h'[a := c]) (Some p) (Some x) R)
     \<and> (\<forall>a c. a \<in> R \<longrightarrow> rep_ref as_ncp (rep_ncp rm) (h'[a := c]) (Some q) (Some x) S)"
  unfolding NoPlaneControlPlane_DeepCopyObject_def deep_copy_object_eq NoPlaneControlPlane_DeepCopy_def
  by (rule ref_copy_independent [OF ncp_copier [OF assms(1)] _ assms(2)]) (simp add: as_ncp_def)

text \<open>
  C38: The same for a list of templates, where the copy descends through the slice of items, each
  item's metadata and its spec's pointer.
\<close>
theorem NoPlaneControlPlaneTemplateList_DeepCopyObject_independent:
  assumes "embedded_contract L rm rl rt" and "rep_ref as_template_list (rep_template_list rm rl rt) h (Some p) (Some x) R"
  shows "\<exists>q h' S. NoPlaneControlPlaneTemplateList_DeepCopyObject L (Some p) h = (Returns (Some q), h')
     \<and> rep_ref as_template_list (rep_template_list rm rl rt) h' (Some q) (Some x) S
     \<and> rep_ref as_template_list (rep_template_list rm rl rt) h' (Some p) (Some x) R \<and> R \<inter> S = {}
     \<and> (\<forall>a c. a \<in> S \<longrightarrow> rep_ref as_template_list (rep_template_list rm rl rt) (h'[a := c]) (Some p) (Some x) R)
     \<and> (\<forall>a c. a \<in> R \<longrightarrow> rep_ref as_template_list (rep_template_list rm rl rt) (h'[a := c]) (Some q) (Some x) S)"
  unfolding NoPlaneControlPlaneTemplateList_DeepCopyObject_def deep_copy_object_eq
    NoPlaneControlPlaneTemplateList_DeepCopy_def
  by (rule ref_copy_independent [OF template_list_copier [OF assms(1)] _ assms(2)]) (simp add: as_template_list_def)

section \<open>A concrete heap\<close>

text \<open>Embedded metadata kept behind one pointer, and copied with the generated pattern.\<close>

datatype ex_foreign = FMeta ObjectMeta | FTemplateMeta TemplateObjectMeta

type_synonym ex_heap = "(addr option, ListMeta, addr option, ex_foreign) heap"

definition as_meta :: "(addr option, ListMeta, addr option, ex_foreign) cell \<Rightarrow> ObjectMeta option" where
  "as_meta c = (case c of CForeign (FMeta m) \<Rightarrow> Some m | _ \<Rightarrow> None)"

definition as_template_meta :: "(addr option, ListMeta, addr option, ex_foreign) cell \<Rightarrow> TemplateObjectMeta option" where
  "as_template_meta c = (case c of CForeign (FTemplateMeta m) \<Rightarrow> Some m | _ \<Rightarrow> None)"

definition ex_deep :: "(addr option, ListMeta, addr option, ex_foreign) DeepLib" where
  "ex_deep = \<lparr> dl_ObjectMeta = copy_ref as_meta (\<lambda>m. CForeign (FMeta m)) go_return, dl_ListMeta = go_return,
     dl_TemplateMeta = copy_ref as_template_meta (\<lambda>m. CForeign (FTemplateMeta m)) go_return, dl_Condition = go_return \<rparr>"

definition rep_meta :: "ex_heap \<Rightarrow> addr option \<Rightarrow> ObjectMeta \<Rightarrow> addr set \<Rightarrow> bool" where
  "rep_meta h p x R \<longleftrightarrow> rep_ref as_meta rep_plain h p (Some x) R"

definition rep_template_meta :: "ex_heap \<Rightarrow> addr option \<Rightarrow> TemplateObjectMeta \<Rightarrow> addr set \<Rightarrow> bool" where
  "rep_template_meta h p x R \<longleftrightarrow> rep_ref as_template_meta rep_plain h p (Some x) R"

lemma ex_embedded: "embedded_contract ex_deep rep_meta rep_plain rep_template_meta"
proof -
  have "deep_copier (copy_ref as_meta (\<lambda>m. CForeign (FMeta m)) go_return) rep_meta"
    by (rule struct_copier [OF copy_ref_copier [OF plain_copier, of go_return as_meta "\<lambda>m. CForeign (FMeta m)"],
          where get = id and put = "\<lambda>f _. f" and xget = Some and plain = "\<lambda>_. ()" and xplain = "\<lambda>_. ()"])
      (simp_all add: as_meta_def rep_meta_def)
  moreover have "deep_copier (copy_ref as_template_meta (\<lambda>m. CForeign (FTemplateMeta m)) go_return) rep_template_meta"
    by (rule struct_copier [OF copy_ref_copier
            [OF plain_copier, of go_return as_template_meta "\<lambda>m. CForeign (FTemplateMeta m)"],
          where get = id and put = "\<lambda>f _. f" and xget = Some and plain = "\<lambda>_. ()" and xplain = "\<lambda>_. ()"])
      (simp_all add: as_template_meta_def rep_template_meta_def)
  ultimately show ?thesis by (simp add: embedded_contract_def ex_deep_def plain_copier)
qed

definition ex_spec_value :: NoPlaneControlPlaneSpec where
  "ex_spec_value = \<lparr> spec_Version = ''v1.29.2'', spec_Replicas = Some 3,
     spec_ControlPlaneEndpoint = \<lparr> ae_Host = ''cp'', ae_Port = 6443 \<rparr>,
     spec_CredentialsSecretRef = \<lparr> sr_Name = ''creds'', sr_Namespace = ''ns'' \<rparr>, spec_PlaneID = '''' \<rparr>"

definition ex_ncp_value :: NoPlaneControlPlane where
  "ex_ncp_value = \<lparr> ncp_TypeMeta = \<lparr> tm_Kind = ''NoPlaneControlPlane'', tm_APIVersion = ''v1alpha1'' \<rparr>,
     ncp_ObjectMeta = empty_ObjectMeta, ncp_Spec = ex_spec_value,
     ncp_Status = \<lparr> st_Ready = False, st_Initialized = False, st_PlaneID = '''', st_Version = '''', st_Replicas = None,
       st_ReadyReplicas = Some 3, st_Selector = '''', st_Conditions = Some [] \<rparr> \<rparr>"

text \<open>An object whose spec and status point to the same cell: the copy separates them.\<close>

definition ex_spec_cell :: hSpec where
  "ex_spec_cell = \<lparr> hs_Version = ''v1.29.2'', hs_Replicas = Some 1,
     hs_ControlPlaneEndpoint = \<lparr> ae_Host = ''cp'', ae_Port = 6443 \<rparr>,
     hs_CredentialsSecretRef = \<lparr> sr_Name = ''creds'', sr_Namespace = ''ns'' \<rparr>, hs_PlaneID = '''' \<rparr>"

definition ex_heap_ncp :: ex_heap where
  "ex_heap_ncp = [CForeign (FMeta empty_ObjectMeta), CInt32 3, CConditions [],
     CNCP \<lparr> hn_TypeMeta = \<lparr> tm_Kind = ''NoPlaneControlPlane'', tm_APIVersion = ''v1alpha1'' \<rparr>,
       hn_ObjectMeta = Some 0, hn_Spec = ex_spec_cell,
       hn_Status = \<lparr> ht_Ready = False, ht_Initialized = False, ht_PlaneID = '''', ht_Version = '''', ht_Replicas = None,
         ht_ReadyReplicas = Some 1, ht_Selector = '''', ht_Conditions = Some 2 \<rparr> \<rparr>]"

lemma rep_ref_intro:
  "a < length h \<Longrightarrow> sel (h ! a) = Some w \<Longrightarrow> rep h w x S \<Longrightarrow> rep_ref sel rep h (Some a) (Some x) (insert a S)"
  by (auto simp: rep_ref_def)

lemma rep_ref_nil [simp]: "rep_ref sel rep h None None {}"
  by (simp add: rep_ref_def)

lemma rep_pair_intro: "r1 h u x S \<Longrightarrow> r2 h v y T \<Longrightarrow> rep_pair r1 r2 h (u, v) (x, y) (S \<union> T)"
  by (auto simp: rep_pair_def)

lemma rep_plain_intro: "rep_plain h x x {}"
  by (simp add: rep_plain_def)

lemma rep_items_intro: "rep h v x R \<Longrightarrow> rep_items rep h [v] [x] R"
  by auto

lemma ex_spec_rep: "1 < length h \<Longrightarrow> h ! 1 = CInt32 3 \<Longrightarrow> rep_spec h ex_spec_cell ex_spec_value {1}"
  unfolding rep_spec_def rep_int32_def ex_spec_cell_def ex_spec_value_def
  by (auto intro!: rep_ref_intro [where S = "{}"] simp: as_int32_def rep_plain_def)

lemma ex_heap_rep: "rep_ref as_ncp (rep_ncp rep_meta) ex_heap_ncp (Some 3) (Some ex_ncp_value) {0, 1, 2, 3}"
proof -
  let ?h = ex_heap_ncp and ?st = "hn_Status (the (as_ncp (ex_heap_ncp ! 3)))"
  have cells: "length ?h = 4" "?h ! 0 = CForeign (FMeta empty_ObjectMeta)" "?h ! Suc 0 = CInt32 3" "?h ! 2 = CConditions []"
    by (simp_all add: ex_heap_ncp_def)
  have meta: "rep_meta ?h (Some 0) empty_ObjectMeta {0}"
    unfolding rep_meta_def
    by (rule rep_ref_intro) (simp_all add: cells as_meta_def rep_plain_def)
  have ints: "rep_int32 ?h (Some 1) (Some 3) {1}" "rep_int32 ?h None None {}"
    and conds: "rep_conditions ?h (Some 2) (Some []) {2}"
    unfolding rep_int32_def rep_conditions_def
    by (simp_all add: rep_ref_def rep_plain_def cells as_int32_def as_conditions_def)
  have "rep_pair rep_int32 (rep_pair rep_int32 rep_conditions) ?h (None, Some 1, Some 2) (None, Some 3, Some [])
      ({} \<union> ({1} \<union> {2}))"
    by (intro rep_pair_intro ints conds)
  then have status: "rep_status ?h ?st (ncp_Status ex_ncp_value) ({} \<union> ({1} \<union> {2}))"
    by (simp add: rep_status_def ex_ncp_value_def ex_heap_ncp_def as_ncp_def)
  have spec: "rep_spec ?h ex_spec_cell ex_spec_value {1}" using cells by (intro ex_spec_rep) simp_all
  have "rep_pair rep_meta (rep_pair rep_spec rep_status) ?h (Some 0, ex_spec_cell, ?st)
      (empty_ObjectMeta, ex_spec_value, ncp_Status ex_ncp_value) ({0} \<union> ({1} \<union> ({} \<union> ({1} \<union> {2}))))"
    by (intro rep_pair_intro meta spec status)
  then have "rep_ncp rep_meta ?h (the (as_ncp (?h ! 3))) ex_ncp_value ({0} \<union> ({1} \<union> ({} \<union> ({1} \<union> {2}))))"
    by (simp add: rep_ncp_def ex_ncp_value_def ex_heap_ncp_def as_ncp_def)
  then have "rep_ref as_ncp (rep_ncp rep_meta) ?h (Some 3) (Some ex_ncp_value) (insert 3 ({0} \<union> ({1} \<union> ({} \<union> ({1} \<union> {2})))))"
    by (intro rep_ref_intro) (simp_all add: ex_heap_ncp_def as_ncp_def)
  moreover have "insert 3 ({0} \<union> ({1} \<union> ({} \<union> ({1} \<union> {2})))) = {0, 1, 2, 3 :: addr}" by auto
  ultimately show ?thesis by metis
qed

theorem NoPlaneControlPlane_DeepCopyObject_independent_witness:
  "\<exists>q h' S. NoPlaneControlPlane_DeepCopyObject ex_deep (Some 3) ex_heap_ncp = (Returns (Some q), h')
     \<and> rep_ref as_ncp (rep_ncp rep_meta) h' (Some q) (Some ex_ncp_value) S \<and> {0, 1, 2, 3} \<inter> S = {}"
  using NoPlaneControlPlane_DeepCopyObject_independent [OF ex_embedded ex_heap_rep]
  by (elim exE conjE) (intro exI conjI; assumption)

definition ex_heap_templates :: ex_heap where
  "ex_heap_templates = [CForeign (FMeta empty_ObjectMeta), CInt32 3,
     CForeign (FTemplateMeta \<lparr> tom_Labels = Map.empty, tom_Annotations = Map.empty \<rparr>),
     CTemplates [\<lparr> hm_TypeMeta = \<lparr> tm_Kind = '''', tm_APIVersion = '''' \<rparr>, hm_ObjectMeta = Some 0,
       hm_Spec = \<lparr> hts_Template = \<lparr> hr_ObjectMeta = Some 2, hr_Spec = ex_spec_cell \<rparr> \<rparr> \<rparr>],
     CTemplateList \<lparr> hml_TypeMeta = \<lparr> tm_Kind = ''List'', tm_APIVersion = ''v1alpha1'' \<rparr>,
       hml_ListMeta = \<lparr> lm_ResourceVersion = ''7'', lm_Continue = '''' \<rparr>, hml_Items = Some 3 \<rparr>]"

definition ex_templates_value :: NoPlaneControlPlaneTemplateList where
  "ex_templates_value = \<lparr> ncptl_TypeMeta = \<lparr> tm_Kind = ''List'', tm_APIVersion = ''v1alpha1'' \<rparr>,
     ncptl_ListMeta = \<lparr> lm_ResourceVersion = ''7'', lm_Continue = '''' \<rparr>,
     ncptl_Items = Some [\<lparr> ncpt_TypeMeta = \<lparr> tm_Kind = '''', tm_APIVersion = '''' \<rparr>, ncpt_ObjectMeta = empty_ObjectMeta,
       ncpt_Spec = \<lparr> ts_Template = \<lparr> tr_ObjectMeta = \<lparr> tom_Labels = Map.empty, tom_Annotations = Map.empty \<rparr>,
         tr_Spec = ex_spec_value \<rparr> \<rparr> \<rparr>] \<rparr>"

lemma ex_templates_rep:
  "rep_ref as_template_list (rep_template_list rep_meta rep_plain rep_template_meta) ex_heap_templates (Some 4)
     (Some ex_templates_value) {0, 1, 2, 3, 4}"
proof -
  let ?h = ex_heap_templates
  let ?tm = "\<lparr> tom_Labels = Map.empty, tom_Annotations = Map.empty \<rparr>"
  let ?x = "hd (the (ncptl_Items ex_templates_value))" and ?v = "hd (the (as_templates (?h ! 3)))"
  have cells: "length ?h = 5" "?h ! 0 = CForeign (FMeta empty_ObjectMeta)" "?h ! Suc 0 = CInt32 3"
    "?h ! 2 = CForeign (FTemplateMeta ?tm)"
    by (simp_all add: ex_heap_templates_def)
  have metas: "rep_meta ?h (Some 0) empty_ObjectMeta {0}" "rep_template_meta ?h (Some 2) ?tm {2}"
    by (simp_all add: rep_meta_def rep_template_meta_def rep_ref_def rep_plain_def cells as_meta_def as_template_meta_def)
  have spec: "rep_spec ?h ex_spec_cell ex_spec_value {1}" using cells by (intro ex_spec_rep) simp_all
  have "rep_pair rep_template_meta rep_spec ?h (Some 2, ex_spec_cell) (?tm, ex_spec_value) ({2} \<union> {1})"
    by (intro rep_pair_intro metas spec)
  then have "rep_template_spec rep_template_meta ?h (hm_Spec ?v) (ncpt_Spec ?x) ({2} \<union> {1})"
    by (simp add: rep_template_spec_def rep_resource_def ex_heap_templates_def ex_templates_value_def as_templates_def)
  with metas(1) have "rep_pair rep_meta (rep_template_spec rep_template_meta) ?h (Some 0, hm_Spec ?v)
      (empty_ObjectMeta, ncpt_Spec ?x) ({0} \<union> ({2} \<union> {1}))"
    by (rule rep_pair_intro)
  then have "rep_template rep_meta rep_template_meta ?h ?v ?x ({0} \<union> ({2} \<union> {1}))"
    by (simp add: rep_template_def ex_heap_templates_def ex_templates_value_def as_templates_def)
  then have items: "rep_items (rep_template rep_meta rep_template_meta) ?h [?v] [?x] ({0} \<union> ({2} \<union> {1}))"
    by (rule rep_items_intro)
  have "rep_ref as_templates (rep_items (rep_template rep_meta rep_template_meta)) ?h (Some 3) (Some [?x])
      (insert 3 ({0} \<union> ({2} \<union> {1})))"
    by (rule rep_ref_intro [where w = "[?v]"]) (rule_tac [3] items, simp_all add: ex_heap_templates_def as_templates_def)
  with rep_plain_intro have "rep_pair rep_plain
      (rep_ref as_templates (rep_items (rep_template rep_meta rep_template_meta))) ?h
      (ncptl_ListMeta ex_templates_value, Some 3) (ncptl_ListMeta ex_templates_value, Some [?x])
      ({} \<union> insert 3 ({0} \<union> ({2} \<union> {1})))"
    by (rule rep_pair_intro)
  then have "rep_template_list rep_meta rep_plain rep_template_meta ?h (the (as_template_list (?h ! 4))) ex_templates_value
      ({} \<union> insert 3 ({0} \<union> ({2} \<union> {1})))"
    by (simp add: rep_template_list_def ex_heap_templates_def ex_templates_value_def as_template_list_def)
  then have "rep_ref as_template_list (rep_template_list rep_meta rep_plain rep_template_meta) ?h (Some 4)
      (Some ex_templates_value) (insert 4 ({} \<union> insert 3 ({0} \<union> ({2} \<union> {1}))))"
    by (intro rep_ref_intro) (simp_all add: ex_heap_templates_def as_template_list_def)
  moreover have "insert 4 ({} \<union> insert 3 ({0} \<union> ({2} \<union> {1}))) = {0, 1, 2, 3, 4 :: addr}" by auto
  ultimately show ?thesis by metis
qed

theorem NoPlaneControlPlaneTemplateList_DeepCopyObject_independent_witness:
  "\<exists>q h' S. NoPlaneControlPlaneTemplateList_DeepCopyObject ex_deep (Some 4) ex_heap_templates = (Returns (Some q), h')
     \<and> rep_ref as_template_list (rep_template_list rep_meta rep_plain rep_template_meta) h' (Some q)
         (Some ex_templates_value) S \<and> {0, 1, 2, 3, 4} \<inter> S = {}"
  using NoPlaneControlPlaneTemplateList_DeepCopyObject_independent [OF ex_embedded ex_templates_rep]
  by (elim exE conjE) (intro exI conjI; assumption)

end
