(* ===== verification/Go_Fmt.thy ===== *)
theory Go_Fmt
  imports Noplane_Api
begin

text \<open>
  The text of an error: what \<^verbatim>\<open>fmt.Sprintf\<close> makes of a format with the verbs the repository uses,
  and the method \<^verbatim>\<open>Error\<close> of every error value of the development. \<^verbatim>\<open>%q\<close> quotes with
  \<^verbatim>\<open>strconv.Quote\<close>, which depends on Unicode's table of printable characters and is the parameter
  \<open>quote\<close>.
\<close>

section \<open>Formatting\<close>

fun digits_of :: "nat \<Rightarrow> string" where
  "digits_of n = (if n < 10 then [char_of (n + 48)] else digits_of (n div 10) @ [char_of (n mod 10 + 48)])"

declare digits_of.simps [simp del]

definition fmt_decimal :: "int \<Rightarrow> string" where
  "fmt_decimal i = (if i < 0 then ''-'' @ digits_of (nat (- i)) else digits_of (nat i))"

fun fmt_arg_text :: "(string \<Rightarrow> string) \<Rightarrow> char \<Rightarrow> fmt_arg \<Rightarrow> string" where
  "fmt_arg_text quote verb (FmtS s) = (if verb = CHR ''q'' then quote s else s)"
| "fmt_arg_text quote verb (FmtD i) = fmt_decimal i"

text \<open>A verb consumes one argument; the formats of the repository have as many verbs as arguments.\<close>

fun sprintf :: "(string \<Rightarrow> string) \<Rightarrow> string \<Rightarrow> fmt_arg list \<Rightarrow> string" where
  "sprintf quote [] args = []"
| "sprintf quote [c] args = [c]"
| "sprintf quote (c # v # f) [] = c # sprintf quote (v # f) []"
| "sprintf quote (c # v # f) (a # args) =
     (if c = CHR ''%'' then fmt_arg_text quote v a @ sprintf quote f args
      else c # sprintf quote (v # f) (a # args))"

section \<open>Parameter errors of the generated server\<close>

definition UnescapedCookieParamError_Error :: "string \<Rightarrow> string" where
  "UnescapedCookieParamError_Error paramName =
     sprintf id (''error unescaping cookie parameter '%s'' @ [CHR 0x27]) [FmtS paramName]"

definition UnmarshalingParamError_Error :: "string \<Rightarrow> string \<Rightarrow> string" where
  "UnmarshalingParamError_Error paramName err =
     sprintf id ''Error unmarshaling parameter %s as JSON: %s'' [FmtS paramName, FmtS err]"

definition RequiredParamError_Error :: "string \<Rightarrow> string" where
  "RequiredParamError_Error paramName =
     sprintf id ''Query argument %s is required, but not found'' [FmtS paramName]"

definition RequiredHeaderError_Error :: "string \<Rightarrow> string" where
  "RequiredHeaderError_Error paramName =
     sprintf id ''Header parameter %s is required, but not found'' [FmtS paramName]"

definition InvalidParamFormatError_Error :: "string \<Rightarrow> string \<Rightarrow> string" where
  "InvalidParamFormatError_Error paramName err =
     sprintf id ''Invalid format for parameter %s: %s'' [FmtS paramName, FmtS err]"

definition TooManyValuesForParamError_Error :: "string \<Rightarrow> int \<Rightarrow> string" where
  "TooManyValuesForParamError_Error paramName count =
     sprintf id ''Expected one value for %s, got %d'' [FmtS paramName, FmtD count]"

section \<open>The text and the cause of an error\<close>

fun error_Error :: "(string \<Rightarrow> string) \<Rightarrow> error \<Rightarrow> string" where
  "error_Error quote (ConflictError name) = (case ConflictError_Error name of Sprintf f args \<Rightarrow> sprintf quote f args)"
| "error_Error quote (NotFoundError ident) = (case NotFoundError_Error ident of Sprintf f args \<Rightarrow> sprintf quote f args)"
| "error_Error quote (Errorf f args) = sprintf quote f args"
| "error_Error quote (Wrapf f args e) = sprintf quote f (args @ [FmtS (error_Error quote e)])"
| "error_Error quote (ForeignError m) = m"
| "error_Error quote (UnescapedCookieParamError p e) = UnescapedCookieParamError_Error p"
| "error_Error quote (UnmarshalingParamError p e) = UnmarshalingParamError_Error p (error_Error quote e)"
| "error_Error quote (RequiredParamError p) = RequiredParamError_Error p"
| "error_Error quote (RequiredHeaderError p e) = RequiredHeaderError_Error p"
| "error_Error quote (InvalidParamFormatError p e) = InvalidParamFormatError_Error p (error_Error quote e)"
| "error_Error quote (TooManyValuesForParamError p n) = TooManyValuesForParamError_Error p n"

text \<open>\<^verbatim>\<open>errors.Unwrap\<close>: the cause of a wrapping error.\<close>

fun errors_Unwrap :: "error \<Rightarrow> error option" where
  "errors_Unwrap (Wrapf f args e) = Some e"
| "errors_Unwrap (UnescapedCookieParamError p e) = Some e"
| "errors_Unwrap (UnmarshalingParamError p e) = Some e"
| "errors_Unwrap (RequiredHeaderError p e) = Some e"
| "errors_Unwrap (InvalidParamFormatError p e) = Some e"
| "errors_Unwrap _ = None"

lemma sprintf_literal: "CHR ''%'' \<notin> set f \<Longrightarrow> sprintf quote f args = f"
  by (induction quote f args rule: sprintf.induct) auto

lemma sprintf_verb: "sprintf quote (CHR ''%'' # v # f) (a # args) = fmt_arg_text quote v a @ sprintf quote f args"
  by simp

lemma sprintf_prefix:
  "CHR ''%'' \<notin> set p \<Longrightarrow> sprintf quote (p @ CHR ''%'' # f) args = p @ sprintf quote (CHR ''%'' # f) args"
proof (induction p)
  case (Cons c p)
  then show ?case by (cases p; cases args) auto
qed simp

text \<open>The text of an invalid parameter names the parameter and ends with the text of its cause.\<close>

lemma InvalidParamFormatError_text:
  "error_Error quote (InvalidParamFormatError p e) =
     ''Invalid format for parameter '' @ p @ '': '' @ error_Error quote e"
  by (simp add: InvalidParamFormatError_Error_def)

end
