(* ===== verification/Go_Json.thy ===== *)
theory Go_Json
  imports Go_Fmt
begin

text \<open>
  Go's \<^verbatim>\<open>encoding/json\<close>: UTF-8 and the string escapes of the encoder and the decoder, JSON values,
  how the encoder prints them and how the decoder reads them, with the limit of 10000 nested
  values. A number keeps its literal. The main fact is that what is printed is read back.
\<close>

section \<open>UTF-8\<close>

abbreviation code :: "char \<Rightarrow> nat" where
  "code c \<equiv> of_char c"

definition btw :: "nat \<Rightarrow> nat \<Rightarrow> char \<Rightarrow> bool" where
  "btw lo hi c \<longleftrightarrow> lo \<le> code c \<and> code c \<le> hi"

text \<open>The number of bytes of the character at the start of a string, 0 when there is none or it is malformed.\<close>

fun utf8_len :: "string \<Rightarrow> nat" where
  "utf8_len [] = 0"
| "utf8_len [a] = (if code a < 128 then 1 else 0)"
| "utf8_len [a, b] =
     (if code a < 128 then 1 else if btw 0xC2 0xDF a \<and> btw 0x80 0xBF b then 2 else 0)"
| "utf8_len [a, b, c] =
     (if code a < 128 then 1
      else if btw 0xC2 0xDF a \<and> btw 0x80 0xBF b then 2
      else if code a = 0xE0 \<and> btw 0xA0 0xBF b \<and> btw 0x80 0xBF c then 3
      else if btw 0xE1 0xEF a \<and> code a \<noteq> 0xED \<and> btw 0x80 0xBF b \<and> btw 0x80 0xBF c then 3
      else if code a = 0xED \<and> btw 0x80 0x9F b \<and> btw 0x80 0xBF c then 3
      else 0)"
| "utf8_len (a # b # c # d # s) =
     (if utf8_len [a, b, c] > 0 then utf8_len [a, b, c]
      else if code a = 0xF0 \<and> btw 0x90 0xBF b \<and> btw 0x80 0xBF c \<and> btw 0x80 0xBF d then 4
      else if btw 0xF1 0xF3 a \<and> btw 0x80 0xBF b \<and> btw 0x80 0xBF c \<and> btw 0x80 0xBF d then 4
      else if code a = 0xF4 \<and> btw 0x80 0x8F b \<and> btw 0x80 0xBF c \<and> btw 0x80 0xBF d then 4
      else 0)"

definition utf8_encode :: "nat \<Rightarrow> string" where
  "utf8_encode r =
     (if r < 0x80 then [char_of r]
      else if r < 0x800 then [char_of (0xC0 + r div 64), char_of (0x80 + r mod 64)]
      else if r < 0x10000 then
        [char_of (0xE0 + r div 4096), char_of (0x80 + r div 64 mod 64), char_of (0x80 + r mod 64)]
      else [char_of (0xF0 + r div 262144), char_of (0x80 + r div 4096 mod 64),
            char_of (0x80 + r div 64 mod 64), char_of (0x80 + r mod 64)])"

definition replacement :: string where
  "replacement = [CHR 0xEF, CHR 0xBF, CHR 0xBD]"

lemma utf8_len_le: "utf8_len s \<le> length s"
  by (induction s rule: utf8_len.induct) auto

lemma utf8_len_ascii [simp]: "code c < 128 \<Longrightarrow> utf8_len (c # s) = 1"
  by (cases "c # s" rule: utf8_len.cases) simp_all

lemma utf8_len_0_or: "utf8_len s = 0 \<or> 1 \<le> utf8_len s"
  by arith

text \<open>Whether a character is well formed depends on its own bytes only.\<close>

lemma utf8_len_take: "utf8_len s = Suc n \<Longrightarrow> utf8_len (take (Suc n) s @ t) = Suc n"
proof (induction s rule: utf8_len.induct)
  case (2 a)
  then show ?case by (auto split: if_splits)
next
  case (3 a b)
  then show ?case by (cases t rule: utf8_len.cases) (auto split: if_splits)
next
  case (4 a b c)
  then show ?case by (cases t rule: utf8_len.cases) (auto split: if_splits simp: btw_def)
next
  case (5 a b c d s)
  then show ?case by (cases t rule: utf8_len.cases) (auto split: if_splits simp: btw_def)
qed simp

function (sequential) utf8_valid :: "string \<Rightarrow> bool" where
  "utf8_valid [] = True"
| "utf8_valid s = (if utf8_len s = 0 then False else utf8_valid (drop (utf8_len s) s))"
  by pat_completeness auto
termination
  by (relation "measure length") auto

section \<open>Strings\<close>

definition hex_digit :: "nat \<Rightarrow> char" where
  "hex_digit n = (if n < 10 then char_of (48 + n) else char_of (87 + n))"

text \<open>The encoder with HTML escaping, byte by byte for ASCII.\<close>

definition ascii_escape :: "char \<Rightarrow> string" where
  "ascii_escape c =
     (if c = CHR 0x22 \<or> c = CHR 0x5C then [CHR 0x5C, c]
      else if c = CHR 0x08 then [CHR 0x5C, CHR ''b'']
      else if c = CHR 0x0C then [CHR 0x5C, CHR ''f'']
      else if c = CHR 0x0A then [CHR 0x5C, CHR ''n'']
      else if c = CHR 0x0D then [CHR 0x5C, CHR ''r'']
      else if c = CHR 0x09 then [CHR 0x5C, CHR ''t'']
      else if code c < 32 \<or> c = CHR ''<'' \<or> c = CHR ''>'' \<or> c = CHR ''&'' then
        [CHR 0x5C, CHR ''u'', CHR ''0'', CHR ''0'', hex_digit (code c div 16), hex_digit (code c mod 16)]
      else [c])"

definition rune_escape :: "string \<Rightarrow> string" where
  "rune_escape bs =
     (if bs = [CHR 0xE2, CHR 0x80, CHR 0xA8] then CHR 0x5C # ''u2028''
      else if bs = [CHR 0xE2, CHR 0x80, CHR 0xA9] then CHR 0x5C # ''u2029''
      else bs)"

function (sequential) json_escape :: "string \<Rightarrow> string" where
  "json_escape [] = []"
| "json_escape (c # s) =
     (if code c < 128 then ascii_escape c @ json_escape s
      else if utf8_len (c # s) = 0 then CHR 0x5C # ''ufffd'' @ json_escape s
      else rune_escape (take (utf8_len (c # s)) (c # s)) @ json_escape (drop (utf8_len (c # s)) (c # s)))"
  by pat_completeness auto
termination
  by (relation "measure length") auto

declare json_escape.simps(2) [simp del]

definition hex_value :: "char \<Rightarrow> nat option" where
  "hex_value c =
     (if btw 48 57 c then Some (code c - 48)
      else if btw 97 102 c then Some (code c - 87)
      else if btw 65 70 c then Some (code c - 55)
      else None)"

text \<open>Four hexadecimal digits.\<close>

fun getu4 :: "string \<Rightarrow> (nat \<times> string) option" where
  "getu4 (a # b # c # d # s) =
     (case (hex_value a, hex_value b, hex_value c, hex_value d) of
        (Some w, Some x, Some y, Some z) \<Rightarrow> Some (((w * 16 + x) * 16 + y) * 16 + z, s)
      | _ \<Rightarrow> None)"
| "getu4 _ = None"

fun getu4_escape :: "string \<Rightarrow> (nat \<times> string) option" where
  "getu4_escape (a # b # s) = (if a = CHR 0x5C \<and> b = CHR ''u'' then getu4 s else None)"
| "getu4_escape _ = None"

text \<open>
  The character after \<^verbatim>\<open>\u\<close>: a surrogate needs its other half, in an escape that follows; without it
  the replacement character stands for it.
\<close>

definition unescape_u :: "string \<Rightarrow> (string \<times> string) option" where
  "unescape_u s =
     (case getu4 s of
        None \<Rightarrow> None
      | Some (r, s1) \<Rightarrow>
          if 0xD800 \<le> r \<and> r < 0xE000 then
            (case getu4_escape s1 of
               Some (r2, s2) \<Rightarrow>
                 if r < 0xDC00 \<and> 0xDC00 \<le> r2 \<and> r2 < 0xE000
                 then Some (utf8_encode ((r - 0xD800) * 1024 + (r2 - 0xDC00) + 0x10000), s2)
                 else Some (replacement, s1)
             | None \<Rightarrow> Some (replacement, s1))
          else Some (utf8_encode r, s1))"

text \<open>One character or escape inside a string, decoded, and what follows it.\<close>

fun json_char :: "string \<Rightarrow> (string \<times> string) option" where
  "json_char [] = None"
| "json_char (c # s) =
     (if c = CHR 0x5C then
        (case s of
           [] \<Rightarrow> None
         | e # t \<Rightarrow>
             if e = CHR 0x22 \<or> e = CHR 0x5C \<or> e = CHR ''/'' then Some ([e], t)
             else if e = CHR ''b'' then Some ([CHR 0x08], t)
             else if e = CHR ''f'' then Some ([CHR 0x0C], t)
             else if e = CHR ''n'' then Some ([CHR 0x0A], t)
             else if e = CHR ''r'' then Some ([CHR 0x0D], t)
             else if e = CHR ''t'' then Some ([CHR 0x09], t)
             else if e = CHR ''u'' then unescape_u t
             else None)
      else if code c < 32 then None
      else if utf8_len (c # s) = 0 then Some (replacement, s)
      else Some (take (utf8_len (c # s)) (c # s), drop (utf8_len (c # s)) (c # s)))"

lemma getu4_length: "getu4 s = Some (r, t) \<Longrightarrow> length t < length s"
  by (cases s rule: getu4.cases) (auto split: option.splits)

lemma getu4_escape_length: "getu4_escape s = Some (r, t) \<Longrightarrow> length t < length s"
  using getu4_length by (cases s rule: getu4_escape.cases) (fastforce split: if_splits)+

lemma json_char_length: "json_char s = Some (x, t) \<Longrightarrow> length t < length s"
  by (cases s) (auto simp: unescape_u_def split: if_splits list.splits option.splits
      dest!: getu4_length getu4_escape_length)

declare json_char.simps(2) [simp del]

text \<open>The rest of a string after its opening quote, up to the closing one.\<close>

function json_string :: "string \<Rightarrow> (string \<times> string) option" where
  "json_string s =
     (case s of
        [] \<Rightarrow> None
      | c # t \<Rightarrow>
          if c = CHR 0x22 then Some ([], t)
          else
            (case json_char s of
               None \<Rightarrow> None
             | Some (x, u) \<Rightarrow>
                 (case json_string u of None \<Rightarrow> None | Some (y, v) \<Rightarrow> Some (x @ y, v))))"
  by pat_completeness auto
termination
  by (relation "measure length") (auto dest: json_char_length)

declare json_string.simps [simp del]

text \<open>Escaping and reading back.\<close>

lemma hex_value_digit: "n < 16 \<Longrightarrow> hex_value (hex_digit n) = Some n"
  by (simp add: hex_value_def hex_digit_def btw_def)

lemma unescape_u_byte:
  assumes "n < 128"
  shows "unescape_u (CHR ''0'' # CHR ''0'' # hex_digit (n div 16) # hex_digit (n mod 16) # t) = Some ([char_of n], t)"
proof -
  have "hex_value CHR ''0'' = Some 0" by (simp add: hex_value_def btw_def)
  moreover have "n div 16 < 16" using assms by auto
  ultimately show ?thesis using assms by (simp add: unescape_u_def hex_value_digit utf8_encode_def)
qed

lemma json_char_ascii:
  assumes "code c < 128"
  shows "json_char (ascii_escape c @ t) = Some ([c], t)"
proof (cases "c = CHR 0x22 \<or> c = CHR 0x5C \<or> c = CHR 0x08 \<or> c = CHR 0x0C \<or> c = CHR 0x0A \<or> c = CHR 0x0D \<or> c = CHR 0x09")
  case True
  then show ?thesis by (elim disjE) (simp_all add: ascii_escape_def json_char.simps)
next
  case plain: False
  show ?thesis
  proof (cases "code c < 32 \<or> c = CHR ''<'' \<or> c = CHR ''>'' \<or> c = CHR ''&''")
    case True
    with plain have "ascii_escape c =
        [CHR 0x5C, CHR ''u'', CHR ''0'', CHR ''0'', hex_digit (code c div 16), hex_digit (code c mod 16)]"
      by (auto simp: ascii_escape_def)
    then show ?thesis using unescape_u_byte [OF assms] by (simp add: json_char.simps)
  next
    case False
    with plain have "ascii_escape c = [c]" by (auto simp: ascii_escape_def)
    then show ?thesis using plain False assms by (simp add: json_char.simps)
  qed
qed

lemma ascii_escape_hd: "\<exists>x y. ascii_escape c = x # y \<and> x \<noteq> CHR 0x22"
  by (auto simp: ascii_escape_def)

lemma json_char_rune:
  assumes "utf8_len (c # s) = Suc n" and "\<not> code c < 128"
  shows "json_char (rune_escape (take (Suc n) (c # s)) @ t) = Some (take (Suc n) (c # s), t)"
    and "\<exists>x y. rune_escape (take (Suc n) (c # s)) = x # y \<and> x \<noteq> CHR 0x22"
proof -
  let ?bs = "take (Suc n) (c # s)"
  have "json_char (CHR 0x5C # ''u2028'' @ t) = Some ([CHR 0xE2, CHR 0x80, CHR 0xA8], t)"
    "json_char (CHR 0x5C # ''u2029'' @ t) = Some ([CHR 0xE2, CHR 0x80, CHR 0xA9], t)"
    by (simp_all add: json_char.simps unescape_u_def hex_value_def btw_def utf8_encode_def char_of_def bit_0)
  moreover have "json_char (?bs @ t) = Some (?bs, t)"
  proof -
    have n: "utf8_len (?bs @ t) = Suc n" by (rule utf8_len_take [OF assms(1)])
    moreover have "length ?bs = Suc n" using utf8_len_le [of "c # s"] assms(1) by simp
    moreover have "c \<noteq> CHR 0x5C" using assms(2) by auto
    ultimately show ?thesis using assms(2) by (simp add: json_char.simps)
  qed
  ultimately show "json_char (rune_escape ?bs @ t) = Some (?bs, t)"
    by (simp add: rune_escape_def split: if_split del: take_Suc_Cons)
  show "\<exists>x y. rune_escape ?bs = x # y \<and> x \<noteq> CHR 0x22" using assms(2) by (auto simp: rune_escape_def)
qed

lemma json_string_step:
  assumes "x = h # y" and "h \<noteq> CHR 0x22" and "json_char (x @ t) = Some (b, t)" and "json_string t = Some (d, u)"
  shows "json_string (x @ t) = Some (b @ d, u)"
  using assms by (subst json_string.simps) simp

lemma json_string_escape:
  assumes "utf8_valid s"
  shows "json_string (json_escape s @ CHR 0x22 # t) = Some (s, t)"
  using assms
proof (induction s rule: json_escape.induct)
  case 1
  then show ?case by (subst json_string.simps) simp
next
  case (2 c s)
  then obtain n where n: "utf8_len (c # s) = Suc n" by (cases "utf8_len (c # s)") simp_all
  have valid: "utf8_valid (drop (Suc n) (c # s))" using "2.prems" n by simp
  show ?case
  proof (cases "code c < 128")
    case True
    then have rest: "json_string (json_escape s @ CHR 0x22 # t) = Some (s, t)"
      using "2.IH"(1) valid n by simp
    obtain h y where "ascii_escape c = h # y" "h \<noteq> CHR 0x22" using ascii_escape_hd by blast
    from json_string_step [OF this json_char_ascii [OF True] rest] show ?thesis
      using True by (simp add: json_escape.simps)
  next
    case False
    then have rest: "json_string (json_escape (drop (Suc n) (c # s)) @ CHR 0x22 # t) = Some (drop (Suc n) (c # s), t)"
      using "2.IH"(3) valid n by simp
    obtain h y where "rune_escape (take (Suc n) (c # s)) = h # y" "h \<noteq> CHR 0x22"
      using json_char_rune(2) [OF n False] by blast
    from json_string_step [OF this json_char_rune(1) [OF n False] rest] show ?thesis
      using False n by (simp add: json_escape.simps)
  qed
qed

section \<open>Values\<close>

text \<open>A string value keeps the text between its quotes, as a type with its own decoder sees it.\<close>

datatype json =
    JNull
  | JBool bool
  | JNum string
  | JStr string
  | JArr "json list"
  | JObj "(string \<times> json) list"

fun commas :: "string list \<Rightarrow> string" where
  "commas [] = []"
| "commas [x] = x"
| "commas (x # xs) = x @ CHR '','' # commas xs"

definition json_quote :: "string \<Rightarrow> string" where
  "json_quote s = CHR 0x22 # json_escape s @ [CHR 0x22]"

fun json_print :: "json \<Rightarrow> string" where
  "json_print JNull = ''null''"
| "json_print (JBool b) = (if b then ''true'' else ''false'')"
| "json_print (JNum n) = n"
| "json_print (JStr raw) = CHR 0x22 # raw @ [CHR 0x22]"
| "json_print (JArr vs) = ''['' @ commas (map json_print vs) @ '']''"
| "json_print (JObj kvs) = ''{'' @ commas (map (\<lambda>kv. json_quote (fst kv) @ '':'' @ json_print (snd kv)) kvs) @ ''}''"

definition json_text :: "string \<Rightarrow> string" where
  "json_text raw = (case json_string (raw @ [CHR 0x22]) of Some (x, _) \<Rightarrow> x | None \<Rightarrow> [])"

lemma json_text_escape: "utf8_valid s \<Longrightarrow> json_text (json_escape s) = s"
  using json_string_escape [of s "[]"] by (simp add: json_text_def)

section \<open>Reading\<close>

definition is_space :: "char \<Rightarrow> bool" where
  "is_space c \<longleftrightarrow> c = CHR '' '' \<or> c = CHR 0x09 \<or> c = CHR 0x0A \<or> c = CHR 0x0D"

definition skip :: "string \<Rightarrow> string" where
  "skip s = dropWhile is_space s"

definition is_dig :: "char \<Rightarrow> bool" where
  "is_dig c \<longleftrightarrow> btw 48 57 c"

text \<open>
  A number literal: an optional sign, an integer part without leading zeros, a fraction and an
  exponent. Each part is read as far as it goes and yields what it consumed.
\<close>

definition read_digits :: "string \<Rightarrow> (string \<times> string) option" where
  "read_digits s =
     (case takeWhile is_dig s of [] \<Rightarrow> None | ds \<Rightarrow> Some (ds, dropWhile is_dig s))"

definition read_int :: "string \<Rightarrow> (string \<times> string) option" where
  "read_int s =
     (case s of
        [] \<Rightarrow> None
      | c # t \<Rightarrow> if c = CHR ''0'' then Some ([c], t) else read_digits s)"

definition read_frac :: "string \<Rightarrow> (string \<times> string) option" where
  "read_frac s =
     (case s of
        c # t \<Rightarrow>
          if c = CHR ''.'' then (case read_digits t of None \<Rightarrow> None | Some (ds, u) \<Rightarrow> Some (c # ds, u))
          else Some ([], s)
      | [] \<Rightarrow> Some ([], s))"

definition read_exp :: "string \<Rightarrow> (string \<times> string) option" where
  "read_exp s =
     (case s of
        c # t \<Rightarrow>
          if c = CHR ''e'' \<or> c = CHR ''E'' then
            (case t of
               d # u \<Rightarrow>
                 if d = CHR ''+'' \<or> d = CHR ''-''
                 then (case read_digits u of None \<Rightarrow> None | Some (ds, v) \<Rightarrow> Some (c # d # ds, v))
                 else (case read_digits t of None \<Rightarrow> None | Some (ds, v) \<Rightarrow> Some (c # ds, v))
             | [] \<Rightarrow> None)
          else Some ([], s)
      | [] \<Rightarrow> Some ([], s))"

definition read_unsigned :: "string \<Rightarrow> (string \<times> string) option" where
  "read_unsigned s =
     (case read_int s of
        None \<Rightarrow> None
      | Some (i, s1) \<Rightarrow>
          (case read_frac s1 of
             None \<Rightarrow> None
           | Some (f, s2) \<Rightarrow>
               (case read_exp s2 of None \<Rightarrow> None | Some (e, s3) \<Rightarrow> Some (i @ f @ e, s3))))"

definition read_number :: "string \<Rightarrow> (string \<times> string) option" where
  "read_number s =
     (case s of
        c # t \<Rightarrow>
          if c = CHR ''-'' then (case read_unsigned t of None \<Rightarrow> None | Some (n, u) \<Rightarrow> Some (c # n, u))
          else read_unsigned s
      | [] \<Rightarrow> None)"

definition read_word :: "string \<Rightarrow> json \<Rightarrow> string \<Rightarrow> (json \<times> string) option" where
  "read_word w v s = (if take (length w) s = w then Some (v, drop (length w) s) else None)"

text \<open>
  A value at the start of a string, with at most \<open>d\<close> values nested around the innermost, and what
  follows it. \<open>read_elems\<close> reads the elements of an array after its bracket, \<open>read_members\<close> the
  members of an object after its brace; both start at a first element. The tests on lengths hold
  whenever they are reached, \<open>read_elems_unguarded\<close> and \<open>read_members_unguarded\<close>: reading always
  consumes something.
\<close>

function (sequential) read_value :: "nat \<Rightarrow> string \<Rightarrow> (json \<times> string) option"
  and read_elems :: "nat \<Rightarrow> string \<Rightarrow> (json list \<times> string) option"
  and read_members :: "nat \<Rightarrow> string \<Rightarrow> ((string \<times> json) list \<times> string) option"
where
  "read_value d [] = None"
| "read_value d (c # s) =
     (if c = CHR ''{'' then
        (if d = 0 then None
         else if take 1 (skip s) = ''}'' then Some (JObj [], tl (skip s))
         else if length (skip s) \<le> length s then
           (case read_members (d - 1) (skip s) of None \<Rightarrow> None | Some (kvs, t) \<Rightarrow> Some (JObj kvs, t))
         else None)
      else if c = CHR ''['' then
        (if d = 0 then None
         else if take 1 (skip s) = '']'' then Some (JArr [], tl (skip s))
         else if length (skip s) \<le> length s then
           (case read_elems (d - 1) (skip s) of None \<Rightarrow> None | Some (vs, t) \<Rightarrow> Some (JArr vs, t))
         else None)
      else if c = CHR 0x22 then (case json_string s of None \<Rightarrow> None | Some (x, t) \<Rightarrow> Some (JStr (take (length s - length t - 1) s), t))
      else if c = CHR ''n'' then read_word ''null'' JNull (c # s)
      else if c = CHR ''t'' then read_word ''true'' (JBool True) (c # s)
      else if c = CHR ''f'' then read_word ''false'' (JBool False) (c # s)
      else (case read_number (c # s) of None \<Rightarrow> None | Some (n, t) \<Rightarrow> Some (JNum n, t)))"
| "read_elems d s =
     (case read_value d s of
        None \<Rightarrow> None
      | Some (v, t) \<Rightarrow>
          (case skip t of
             [] \<Rightarrow> None
           | c # u \<Rightarrow>
               if c = CHR '']'' then Some ([v], u)
               else if c = CHR '','' \<and> length (skip u) < length s then
                 (case read_elems d (skip u) of None \<Rightarrow> None | Some (vs, x) \<Rightarrow> Some (v # vs, x))
               else None))"
| "read_members d s =
     (case s of
        [] \<Rightarrow> None
      | q # s1 \<Rightarrow>
          if q \<noteq> CHR 0x22 then None
          else
            (case json_string s1 of
               None \<Rightarrow> None
             | Some (k, s2) \<Rightarrow>
                 (case skip s2 of
                    [] \<Rightarrow> None
                  | c # s3 \<Rightarrow>
                      if c = CHR '':'' \<and> length (skip s3) < length s then
                        (case read_value d (skip s3) of
                           None \<Rightarrow> None
                         | Some (v, t) \<Rightarrow>
                             (case skip t of
                                [] \<Rightarrow> None
                              | e # u \<Rightarrow>
                                  if e = CHR ''}'' then Some ([(k, v)], u)
                                  else if e = CHR '','' \<and> length (skip u) < length s then
                                    (case read_members d (skip u) of
                                       None \<Rightarrow> None | Some (kvs, x) \<Rightarrow> Some ((k, v) # kvs, x))
                                  else None))
                      else None)))"
  by pat_completeness auto
termination
  by (relation "measure (\<lambda>x. case x of Inl (d, s) \<Rightarrow> 2 * length s
        | Inr (Inl (d, s)) \<Rightarrow> 2 * length s + 1 | Inr (Inr (d, s)) \<Rightarrow> 2 * length s + 1)") auto

declare read_value.simps(2) [simp del] read_elems.simps [simp del] read_members.simps [simp del]

text \<open>The tests on lengths are never what decides: whatever is read is shorter than what was there.\<close>

lemma skip_length: "length (skip s) \<le> length s"
  unfolding skip_def by (rule length_dropWhile_le)

lemma json_string_length: "json_string s = Some (x, t) \<Longrightarrow> length t < length s"
proof (induction "length s" arbitrary: s x rule: less_induct)
  case less
  from less.prems show ?case
    by (subst (asm) json_string.simps)
      (fastforce split: list.splits if_splits option.splits dest: less.hyps [rotated] json_char_length)
qed

lemma read_word_length: "read_word w v s = Some (x, t) \<Longrightarrow> w \<noteq> [] \<Longrightarrow> length t < length s"
  by (cases w; cases s) (auto simp: read_word_def split: if_splits)

lemma read_digits_length: "read_digits s = Some (ds, t) \<Longrightarrow> length t < length s"
proof -
  assume "read_digits s = Some (ds, t)"
  then have "takeWhile is_dig s \<noteq> []" "t = dropWhile is_dig s"
    by (auto simp: read_digits_def split: list.splits)
  then show ?thesis
    using arg_cong [OF takeWhile_dropWhile_id [of is_dig s], of length] by (cases "takeWhile is_dig s") auto
qed

lemma read_number_length: "read_number s = Some (n, t) \<Longrightarrow> length t < length s"
proof -
  have "read_int s = Some (n, t) \<Longrightarrow> length t < length s" for s n t
    by (auto simp: read_int_def split: list.splits if_splits dest: read_digits_length)
  moreover have "read_frac s = Some (n, t) \<Longrightarrow> length t \<le> length s" for s n t
    by (auto simp: read_frac_def split: list.splits if_splits option.splits dest!: read_digits_length)
  moreover have "read_exp s = Some (n, t) \<Longrightarrow> length t \<le> length s" for s n t
    by (auto simp: read_exp_def split: list.splits if_splits option.splits dest!: read_digits_length)
  ultimately have "read_unsigned s = Some (n, t) \<Longrightarrow> length t < length s" for s n t
    by (fastforce simp: read_unsigned_def split: option.splits)
  then show "read_number s = Some (n, t) \<Longrightarrow> length t < length s"
    by (fastforce simp: read_number_def split: list.splits if_splits option.splits)
qed

lemma read_length:
  "read_value d s = Some (v, t) \<Longrightarrow> length t < length s"
  "read_elems d s = Some (vs, t) \<Longrightarrow> length t < length s"
  "read_members d s = Some (kvs, t) \<Longrightarrow> length t < length s"
proof (induction d s and d s and d s arbitrary: v t and vs t and kvs t rule: read_value_read_elems_read_members.induct)
  case (1 d)
  then show ?case by simp
next
  case (2 d c s)
  have "read_elems (d - 1) (skip s) = Some (a, t) \<Longrightarrow> c = CHR ''['' \<Longrightarrow> d \<noteq> 0 \<Longrightarrow> take 1 (skip s) \<noteq> '']'' \<Longrightarrow> length t < length (skip s)"
    "read_members (d - 1) (skip s) = Some (b, t) \<Longrightarrow> c = CHR ''{'' \<Longrightarrow> d \<noteq> 0 \<Longrightarrow> take 1 (skip s) \<noteq> ''}'' \<Longrightarrow> length t < length (skip s)" for a b
    using "2.IH" skip_length [of s] by auto
  with "2.prems" skip_length [of s] show ?case
    by (fastforce simp: read_value.simps(2) split: if_splits option.splits
        dest: json_string_length read_number_length read_word_length)
next
  case (3 d s)
  from "3.prems" obtain w u where w: "read_value d s = Some (w, u)"
    by (subst (asm) read_elems.simps) (auto split: option.splits)
  then have "length u < length s" by (rule "3.IH"(1))
  with "3.prems" w skip_length [of u] show ?case
    by (subst (asm) read_elems.simps) (fastforce split: list.splits if_splits option.splits dest: "3.IH"(2) [OF w refl])
next
  case (4 d s)
  from "4.prems" obtain s1 k s2 s3 where s: "s = CHR 0x22 # s1" "json_string s1 = Some (k, s2)" "skip s2 = CHR '':'' # s3"
    by (subst (asm) read_members.simps) (auto split: option.splits list.splits if_splits)
  have s3: "length (skip s3) < length s"
    using json_string_length [OF s(2)] skip_length [of s2] skip_length [of s3] s(1, 3) by simp
  from "4.prems" s s3 obtain w u where w: "read_value d (skip s3) = Some (w, u)"
    by (subst (asm) read_members.simps) (auto split: option.splits)
  have u: "length u < length (skip s3)"
    using "4.IH"(1) [OF s(1) _ s(2) refl s(3) _ w] s3 by simp
  let ?rest = "\<lambda>e v. if e = CHR ''}'' then Some ([(k, w)], v)
    else if e = CHR '','' \<and> length (skip v) < length s
    then (case read_members d (skip v) of None \<Rightarrow> None | Some (kvs, x) \<Rightarrow> Some ((k, w) # kvs, x)) else None"
  have "read_members d s = (case skip u of [] \<Rightarrow> None | e # v \<Rightarrow> ?rest e v)"
    using s s3 w by (subst read_members.simps) simp
  with "4.prems" obtain e v where v: "skip u = e # v" "?rest e v = Some (kvs, t)"
    by (cases "skip u") simp_all
  show ?case
  proof (cases "e = CHR ''}''")
    case True
    then show ?thesis using v u s3 skip_length [of u] by simp
  next
    case False
    with v(2) obtain rest where "e = CHR '',''" "length (skip v) < length s" "read_members d (skip v) = Some (rest, t)"
      by (auto split: if_splits option.splits)
    with "4.IH"(2) [OF s(1) _ s(2) refl s(3) _ w refl v(1) False] s3 show ?thesis by fastforce
  qed
qed

lemma skip_shorter: "skip t = c # u \<Longrightarrow> length t < n \<Longrightarrow> length (skip u) < n"
  using skip_length [of t] skip_length [of u] by simp

text \<open>So the readers are those without the tests.\<close>

lemma read_elems_unguarded:
  "read_elems d s =
     (case read_value d s of
        None \<Rightarrow> None
      | Some (v, t) \<Rightarrow>
          (case skip t of
             [] \<Rightarrow> None
           | c # u \<Rightarrow>
               if c = CHR '']'' then Some ([v], u)
               else if c = CHR '','' then
                 (case read_elems d (skip u) of None \<Rightarrow> None | Some (vs, x) \<Rightarrow> Some (v # vs, x))
               else None))"
proof (cases "read_value d s")
  case (Some vt)
  then obtain v t where v: "read_value d s = Some (v, t)" by (cases vt) simp
  then show ?thesis
    using skip_shorter [OF _ read_length(1) [OF v]]
    by (cases "skip t") (simp_all add: read_elems.simps [of d s])
qed (simp add: read_elems.simps [of d s])

lemma read_members_unguarded:
  "read_members d s =
     (case s of
        [] \<Rightarrow> None
      | q # s1 \<Rightarrow>
          if q \<noteq> CHR 0x22 then None
          else
            (case json_string s1 of
               None \<Rightarrow> None
             | Some (k, s2) \<Rightarrow>
                 (case skip s2 of
                    [] \<Rightarrow> None
                  | c # s3 \<Rightarrow>
                      if c = CHR '':'' then
                        (case read_value d (skip s3) of
                           None \<Rightarrow> None
                         | Some (v, t) \<Rightarrow>
                             (case skip t of
                                [] \<Rightarrow> None
                              | e # u \<Rightarrow>
                                  if e = CHR ''}'' then Some ([(k, v)], u)
                                  else if e = CHR '','' then
                                    (case read_members d (skip u) of
                                       None \<Rightarrow> None | Some (kvs, x) \<Rightarrow> Some ((k, v) # kvs, x))
                                  else None))
                      else None)))"
proof (cases s)
  case (Cons q s1)
  then show ?thesis
  proof (cases "json_string s1")
    case k: (Some r)
    show ?thesis
    proof (cases "skip (snd r)")
      case c: (Cons c s3)
      have short: "length (skip s3) < length s"
        using skip_shorter [OF c, of "length s"] json_string_length [of s1 "fst r" "snd r"] k Cons by simp
      show ?thesis
      proof (cases "read_value d (skip s3)")
        case v: (Some r')
        have "length (skip u) < length s" if "skip (snd r') = e # u" for e u
          using skip_shorter [OF that, of "length s"] read_length(1) [of d "skip s3" "fst r'" "snd r'"] v short by simp
        then show ?thesis
          using short Cons k c v
          by (subst read_members.simps) (cases r; cases r'; cases "skip (snd r')"; simp)
      qed (use Cons k c short in \<open>subst read_members.simps; cases r; simp\<close>)
    qed (use Cons k in \<open>subst read_members.simps; cases r; simp\<close>)
  qed (subst read_members.simps; simp)
qed (subst read_members.simps; simp)

text \<open>\<^verbatim>\<open>json.Unmarshal\<close> first checks that the input is one value with space around it.\<close>

definition json_parse :: "string \<Rightarrow> json option" where
  "json_parse s =
     (case read_value 10000 (skip s) of
        None \<Rightarrow> None
      | Some (v, t) \<Rightarrow> if skip t = [] then Some v else None)"

section \<open>Printing and reading back\<close>

lemma digits_of_digits: "list_all is_dig (digits_of n)"
proof (induction n rule: digits_of.induct)
  case (1 n)
  have "is_dig (char_of (m + 48))" if "m < 10" for m :: nat
    using that by (simp add: is_dig_def btw_def)
  with 1 show ?case by (subst digits_of.simps) simp
qed

lemma digits_of_hd: "\<exists>c s. digits_of n = c # s \<and> is_dig c \<and> (c = CHR ''0'' \<longrightarrow> n = 0 \<and> s = [])"
proof (induction n rule: digits_of.induct)
  case (1 n)
  show ?case
  proof (cases "n < 10")
    case True
    moreover have "char_of (n + 48) = CHR ''0'' \<longrightarrow> n = 0"
    proof
      assume "char_of (n + 48) = CHR ''0''"
      then have "(of_char (char_of (n + 48) :: char) :: nat) = of_char (CHR ''0'')" by simp
      then show "n = 0" using True by simp
    qed
    ultimately show ?thesis by (subst digits_of.simps) (simp add: is_dig_def btw_def)
  next
    case False
    then obtain c s where "digits_of (n div 10) = c # s" "is_dig c" "c = CHR ''0'' \<longrightarrow> n div 10 = 0 \<and> s = []"
      using 1 by blast
    with False show ?thesis by (subst digits_of.simps) auto
  qed
qed

lemma digits_of_0 [simp]: "digits_of 0 = ''0''"
  by (subst digits_of.simps) (simp add: char_of_def bit_0)

definition stops :: "string \<Rightarrow> bool" where
  "stops s \<longleftrightarrow> (case s of [] \<Rightarrow> True | c # _ \<Rightarrow> \<not> is_dig c \<and> c \<notin> set ''.eE'')"

lemma read_digits_of: "stops rest \<Longrightarrow> read_digits (digits_of n @ rest) = Some (digits_of n, rest)"
proof -
  assume "stops rest"
  then have "takeWhile is_dig (digits_of n @ rest) = digits_of n" "dropWhile is_dig (digits_of n @ rest) = rest"
    using digits_of_digits [of n]
    by (simp_all add: takeWhile_append list_all_iff dropWhile_append stops_def takeWhile_eq_all_conv split: list.splits)
  then show ?thesis using digits_of_hd [of n] by (auto simp: read_digits_def)
qed

lemma read_unsigned_digits: "stops rest \<Longrightarrow> read_unsigned (digits_of n @ rest) = Some (digits_of n, rest)"
proof -
  assume rest: "stops rest"
  obtain c s where c: "digits_of n = c # s" "c = CHR ''0'' \<longrightarrow> n = 0 \<and> s = []" using digits_of_hd by blast
  have "read_int (digits_of n @ rest) = Some (digits_of n, rest)"
    using c read_digits_of [OF rest, of n] by (cases "c = CHR ''0''") (simp_all add: read_int_def)
  moreover have "read_frac rest = Some ([], rest)" "read_exp rest = Some ([], rest)"
    using rest by (auto simp: read_frac_def read_exp_def stops_def split: list.splits)
  ultimately show ?thesis by (simp add: read_unsigned_def)
qed

lemma read_number_decimal: "stops rest \<Longrightarrow> read_number (fmt_decimal i @ rest) = Some (fmt_decimal i, rest)"
proof -
  assume rest: "stops rest"
  obtain c s where c: "digits_of (nat i) = c # s" "is_dig c" using digits_of_hd by blast
  then have "c \<noteq> CHR ''-''" by (auto simp: is_dig_def btw_def)
  moreover have "read_unsigned (c # s @ rest) = Some (c # s, rest)"
    using read_unsigned_digits [OF rest, of "nat i"] c(1) by simp
  ultimately show ?thesis
    using c read_unsigned_digits [OF rest, of "nat (- i)"] by (simp add: fmt_decimal_def read_number_def)
qed

fun json_ok :: "json \<Rightarrow> bool" where
  "json_ok JNull = True"
| "json_ok (JBool b) = True"
| "json_ok (JNum n) = (\<exists>i. n = fmt_decimal i)"
| "json_ok (JStr raw) = (\<exists>s. raw = json_escape s \<and> utf8_valid s)"
| "json_ok (JArr vs) = (\<forall>v\<in>set vs. json_ok v)"
| "json_ok (JObj kvs) = (\<forall>kv\<in>set kvs. utf8_valid (fst kv) \<and> json_ok (snd kv))"

fun json_depth :: "json \<Rightarrow> nat" where
  "json_depth (JArr vs) = Suc (fold max (map json_depth vs) 0)"
| "json_depth (JObj kvs) = Suc (fold max (map (\<lambda>kv. json_depth (snd kv)) kvs) 0)"
| "json_depth _ = 0"

lemma fold_max_le: "fold max xs a \<le> (d :: nat) \<longleftrightarrow> a \<le> d \<and> (\<forall>x\<in>set xs. x \<le> d)"
  by (induction xs arbitrary: a) auto

lemma fmt_decimal_hd: "\<exists>c s. fmt_decimal i = c # s \<and> (is_dig c \<or> c = CHR ''-'')"
  using digits_of_hd [of "nat i"] by (auto simp: fmt_decimal_def)

lemma json_print_hd:
  "json_ok v \<Longrightarrow> \<exists>c s. json_print v = c # s \<and> \<not> is_space c \<and> c \<noteq> CHR '']'' \<and> c \<noteq> CHR ''}''"
  using fmt_decimal_hd by (cases v) (fastforce simp: json_quote_def is_space_def is_dig_def btw_def)+

lemma skip_print: "json_ok v \<Longrightarrow> skip (json_print v @ s) = json_print v @ s"
  using json_print_hd [of v] by (auto simp: skip_def)

lemma skip_simps [simp]:
  "skip (CHR '','' # s) = CHR '','' # s" "skip (CHR '':'' # s) = CHR '':'' # s" "skip (CHR '']'' # s) = CHR '']'' # s"
  "skip (CHR ''}'' # s) = CHR ''}'' # s" "skip (CHR 0x22 # s) = CHR 0x22 # s"
  by (simp_all add: skip_def is_space_def)

lemma stops_simps [simp]:
  "stops []" "stops (CHR '','' # s)" "stops (CHR '']'' # s)" "stops (CHR ''}'' # s)" "stops (CHR 0x0A # s)"
  by (simp_all add: stops_def is_dig_def btw_def)

definition reads :: "nat \<Rightarrow> json \<Rightarrow> bool" where
  "reads d v \<longleftrightarrow> (\<forall>rest. stops rest \<longrightarrow> read_value d (json_print v @ rest) = Some (v, rest))"

lemma read_elems_more:
  assumes "read_value d s = Some (v, CHR '','' # u)" and "skip u = u" and "length u < length s"
    and "read_elems d u = Some (vs, x)"
  shows "read_elems d s = Some (v # vs, x)"
  using assms by (subst read_elems.simps) simp

lemma read_elems_print:
  assumes "vs \<noteq> []" and "\<forall>v\<in>set vs. json_ok v \<and> reads d v"
  shows "read_elems d (commas (map json_print vs) @ CHR '']'' # rest) = Some (vs, rest)"
  using assms
proof (induction vs rule: induct_list012)
  case (2 v)
  then show ?case by (subst read_elems.simps) (simp add: reads_def)
next
  case (3 v w vs)
  let ?u = "commas (map json_print (w # vs)) @ CHR '']'' # rest"
  have "\<exists>t. commas (map json_print (w # vs)) = json_print w @ t" by (cases vs) simp_all
  then have skip: "skip ?u = ?u" using 3(4) skip_print by fastforce
  have "read_value d (json_print v @ CHR '','' # ?u) = Some (v, CHR '','' # ?u)" using 3(4) by (simp add: reads_def)
  moreover have "read_elems d ?u = Some (w # vs, rest)" using 3(2,4) by simp
  moreover have "commas (map json_print (v # w # vs)) @ CHR '']'' # rest = json_print v @ CHR '','' # ?u" by simp
  ultimately show ?case using read_elems_more [OF _ skip] by simp
qed simp

lemma json_string_quote:
  "utf8_valid k \<Longrightarrow> json_quote k @ s = CHR 0x22 # t \<Longrightarrow> json_string t = Some (k, s)"
  using json_string_escape [of k s] by (auto simp: json_quote_def)

lemma read_members_one:
  assumes "utf8_valid k" and "skip u = u" and "read_value d u = Some (v, CHR ''}'' # rest)"
  shows "read_members d (json_quote k @ CHR '':'' # u) = Some ([(k, v)], rest)"
proof -
  obtain t where t: "json_quote k @ CHR '':'' # u = CHR 0x22 # t" by (simp add: json_quote_def)
  then have "json_string t = Some (k, CHR '':'' # u)" by (rule json_string_quote [OF assms(1)])
  moreover have "length u < Suc (length t)" using arg_cong [OF t, of length] by simp
  ultimately show ?thesis unfolding t using assms by (subst read_members.simps) simp
qed

lemma read_members_more:
  assumes "utf8_valid k" and "skip u = u" and "read_value d u = Some (v, CHR '','' # w)" and "skip w = w"
    and "length w < length u" and "read_members d w = Some (kvs, rest)"
  shows "read_members d (json_quote k @ CHR '':'' # u) = Some ((k, v) # kvs, rest)"
proof -
  obtain t where t: "json_quote k @ CHR '':'' # u = CHR 0x22 # t" by (simp add: json_quote_def)
  then have "json_string t = Some (k, CHR '':'' # u)" by (rule json_string_quote [OF assms(1)])
  moreover have "length u < Suc (length t)" using arg_cong [OF t, of length] by simp
  ultimately show ?thesis unfolding t using assms by (subst read_members.simps) simp
qed

definition member_text :: "string \<times> json \<Rightarrow> string" where
  "member_text kv = json_quote (fst kv) @ '':'' @ json_print (snd kv)"

lemma read_members_print:
  assumes "kvs \<noteq> []" and "\<forall>kv\<in>set kvs. utf8_valid (fst kv) \<and> json_ok (snd kv) \<and> reads d (snd kv)"
  shows "read_members d (commas (map member_text kvs) @ CHR ''}'' # rest) = Some (kvs, rest)"
  using assms
proof (induction kvs rule: induct_list012)
  case (2 kv)
  let ?u = "json_print (snd kv) @ CHR ''}'' # rest"
  have "skip ?u = ?u" "read_value d ?u = Some (snd kv, CHR ''}'' # rest)" using 2 by (simp_all add: skip_print reads_def)
  from read_members_one [OF _ this] show ?case using 2 by (simp add: member_text_def)
next
  case (3 kv kw kvs)
  let ?w = "commas (map member_text (kw # kvs)) @ CHR ''}'' # rest"
  let ?u = "json_print (snd kv) @ CHR '','' # ?w"
  have "\<exists>t. commas (map member_text (kw # kvs)) = CHR 0x22 # t" by (cases kvs) (simp_all add: member_text_def json_quote_def)
  then have w: "skip ?w = ?w" by auto
  have u: "skip ?u = ?u" "read_value d ?u = Some (snd kv, CHR '','' # ?w)" using 3(4) by (simp_all add: skip_print reads_def)
  have "read_members d ?w = Some (kw # kvs, rest)" using 3(2,4) by simp
  moreover have "length ?w < length ?u" by simp
  moreover have "commas (map member_text (kv # kw # kvs)) @ CHR ''}'' # rest = json_quote (fst kv) @ CHR '':'' # ?u"
    by (simp add: member_text_def)
  ultimately show ?case using read_members_more [OF _ u w, of "fst kv"] 3(4) by simp
qed simp

lemma json_print_obj: "json_print (JObj kvs) = CHR ''{'' # commas (map member_text kvs) @ ''}''"
  unfolding json_print.simps member_text_def [abs_def] by simp

lemma read_value_print:
  assumes "json_ok v" and "json_depth v \<le> d"
  shows "reads d v"
  using assms
proof (induction v arbitrary: d)
  case JNull
  then show ?case by (simp add: reads_def read_value.simps read_word_def)
next
  case (JBool b)
  then show ?case by (cases b) (simp_all add: reads_def read_value.simps read_word_def)
next
  case (JNum n)
  then obtain i where n: "n = fmt_decimal i" by auto
  obtain c s where c: "n = c # s" "is_dig c \<or> c = CHR ''-''" using fmt_decimal_hd n by blast
  then have "c \<notin> set ''{[ntf'' \<and> c \<noteq> CHR 0x22" by (auto simp: is_dig_def btw_def)
  then have "read_value d (n @ rest) = (case read_number (n @ rest) of None \<Rightarrow> None | Some (n, t) \<Rightarrow> Some (JNum n, t))" for rest
    using c(1) by (auto simp: read_value.simps)
  then show ?case using read_number_decimal [of _ i] n by (simp add: reads_def)
next
  case (JStr raw)
  then obtain s where "raw = json_escape s" "utf8_valid s" by auto
  then show ?case using json_string_escape by (simp add: reads_def read_value.simps)
next
  case (JArr vs)
  then obtain e where d: "d = Suc e" by (cases d) simp_all
  show ?case
  proof (cases vs)
    case Nil
    then show ?thesis using d by (simp add: reads_def read_value.simps)
  next
    case (Cons v ws)
    have "\<forall>v\<in>set vs. json_ok v \<and> reads e v" using JArr d by (auto simp: fold_max_le)
    then have elems: "read_elems e (commas (map json_print vs) @ CHR '']'' # rest) = Some (vs, rest)" for rest
      using Cons by (intro read_elems_print) simp_all
    have "\<exists>t. commas (map json_print vs) = json_print v @ t" using Cons by (cases ws) simp_all
    then have "skip (commas (map json_print vs) @ t) = commas (map json_print vs) @ t"
      "take 1 (commas (map json_print vs) @ t) \<noteq> '']''" for t
      using JArr.prems(1) Cons skip_print [of v] json_print_hd [of v] by auto
    then show ?thesis using d elems by (simp add: reads_def read_value.simps)
  qed
next
  case (JObj kvs)
  then obtain e where d: "d = Suc e" by (cases d) simp_all
  show ?case
  proof (cases kvs)
    case Nil
    then show ?thesis using d by (simp add: reads_def read_value.simps)
  next
    case (Cons kv ws)
    have "\<forall>kv\<in>set kvs. utf8_valid (fst kv) \<and> json_ok (snd kv) \<and> reads e (snd kv)"
      using JObj d by (fastforce simp: fold_max_le)
    then have members: "read_members e (commas (map member_text kvs) @ CHR ''}'' # rest) = Some (kvs, rest)" for rest
      using Cons by (intro read_members_print) simp_all
    have "\<exists>t. commas (map member_text kvs) = CHR 0x22 # t"
      using Cons by (cases ws) (simp_all add: member_text_def json_quote_def)
    then have "skip (commas (map member_text kvs) @ t) = commas (map member_text kvs) @ t"
      "take 1 (commas (map member_text kvs) @ t) \<noteq> ''}''" for t by auto
    then show ?thesis using d members unfolding reads_def json_print_obj by (simp add: read_value.simps)
  qed
qed

text \<open>What the encoder prints, also with the line feed a stream encoder adds, parses to the same value.\<close>

lemma json_parse_print:
  assumes "json_ok v" and "json_depth v \<le> 10000"
  shows "json_parse (json_print v) = Some v" and "json_parse (json_print v @ [CHR 0x0A]) = Some v"
proof -
  have "read_value 10000 (json_print v @ []) = Some (v, [])"
    "read_value 10000 (json_print v @ [CHR 0x0A]) = Some (v, [CHR 0x0A])"
    using read_value_print [OF assms] unfolding reads_def by (blast intro: stops_simps)+
  moreover have "skip [] = []" "skip [CHR 0x0A] = []" by (simp_all add: skip_def is_space_def)
  ultimately show "json_parse (json_print v) = Some v" "json_parse (json_print v @ [CHR 0x0A]) = Some v"
    using skip_print [OF assms(1), of "[]"] skip_print [OF assms(1), of "[CHR 0x0A]"] by (simp_all add: json_parse_def)
qed

end
