(* ===== verification/Go_Time.thy ===== *)
theory Go_Time
  imports Go_Json
begin

text \<open>
  Go's \<^verbatim>\<open>time.Time\<close> in JSON: RFC 3339 with nanoseconds. A time is the number of nanoseconds since
  the first of January of year 1, read in UTC; printing uses the Gregorian calendar and fails
  outside the years 0 to 9999, reading is strict and accepts a zone offset.
\<close>

section \<open>The calendar\<close>

definition days_before_year :: "int \<Rightarrow> int" where
  "days_before_year y = 365 * (y - 1) + (y - 1) div 4 - (y - 1) div 100 + (y - 1) div 400"

definition leap :: "int \<Rightarrow> bool" where
  "leap y \<longleftrightarrow> y mod 4 = 0 \<and> (y mod 100 \<noteq> 0 \<or> y mod 400 = 0)"

lemma pred_div: "0 < n \<Longrightarrow> (y - 1) div n = y div n - (if y mod n = 0 then 1 else 0)" for y n :: int
proof (cases "y mod n = 0")
  case True
  assume "0 < n"
  moreover have "y - 1 = n * (y div n - 1) + (n - 1)"
    using True mult_div_mod_eq [of n y] by (simp add: algebra_simps)
  ultimately show ?thesis using True by (subst int_div_pos_eq [where q = "y div n - 1" and r = "n - 1"]) simp_all
next
  case False
  assume n: "0 < n"
  moreover have "y - 1 = n * (y div n) + (y mod n - 1)" using mult_div_mod_eq [of n y] by simp
  moreover have "0 \<le> y mod n - 1" "y mod n - 1 < n"
    using False pos_mod_sign [OF n, of y] pos_mod_bound [OF n, of y] by linarith+
  ultimately show ?thesis using False by (subst int_div_pos_eq [where q = "y div n" and r = "y mod n - 1"]) simp_all
qed

lemma days_of_year: "days_before_year (y + 1) = days_before_year y + (if leap y then 366 else 365)"
proof -
  have "y mod 400 = 0 \<Longrightarrow> y mod 100 = 0" using dvd_trans [of 100 400 y] by (simp add: mod_eq_0_iff_dvd)
  moreover have "y mod 100 = 0 \<Longrightarrow> y mod 4 = 0" using dvd_trans [of 4 100 y] by (simp add: mod_eq_0_iff_dvd)
  ultimately show ?thesis by (auto simp: days_before_year_def leap_def pred_div)
qed

text \<open>The year of a day, found by counting up from an estimate that is never too high.\<close>

function year_up :: "int \<Rightarrow> int \<Rightarrow> int" where
  "year_up y d = (if days_before_year (y + 1) \<le> d then year_up (y + 1) d else y)"
  by pat_completeness auto
termination
  by (relation "measure (\<lambda>(y, d). nat (d - days_before_year y))") (auto simp: days_of_year split: if_splits)

declare year_up.simps [simp del]

definition year_of :: "int \<Rightarrow> int" where
  "year_of d = year_up (d div 366 + 1) d"

lemma year_up_bounds:
  "days_before_year y \<le> d \<Longrightarrow> days_before_year (year_up y d) \<le> d \<and> d < days_before_year (year_up y d + 1)"
  by (induction y d rule: year_up.induct) (subst year_up.simps, auto simp: year_up.simps)

lemma year_of_bounds:
  assumes "-366 \<le> d"
  shows "days_before_year (year_of d) \<le> d" and "d < days_before_year (year_of d + 1)"
proof -
  let ?k = "d div 366"
  have k: "366 * ?k \<le> d" "-1 \<le> ?k"
    using mult_div_mod_eq [of 366 d] pos_mod_sign [of 366 d] zdiv_mono1 [OF assms, of 366] by simp_all
  have "?k div 4 - ?k div 100 + ?k div 400 \<le> ?k"
  proof (cases "?k = -1")
    case False
    then have "0 \<le> ?k" using k(2) by simp
    then have "?k div 4 \<le> ?k div 1" "?k div 400 \<le> ?k div 100" by (intro zdiv_mono2; simp)+
    then show ?thesis by simp
  qed simp
  then have "days_before_year (?k + 1) \<le> d" using k(1) by (simp add: days_before_year_def)
  from year_up_bounds [OF this] show "days_before_year (year_of d) \<le> d" "d < days_before_year (year_of d + 1)"
    by (simp_all add: year_of_def)
qed

definition month_lengths :: "int \<Rightarrow> int list" where
  "month_lengths y = [31, if leap y then 29 else 28, 31, 30, 31, 30, 31, 31, 30, 31, 30, 31]"

text \<open>The month, counted from \<open>m\<close>, and the day in it of a day counted from the start of month \<open>m\<close>.\<close>

fun month_of :: "nat \<Rightarrow> int list \<Rightarrow> int \<Rightarrow> nat \<times> int" where
  "month_of m [] d = (m, d)"
| "month_of m (l # ls) d = (if d < l then (m, d) else month_of (Suc m) ls (d - l))"

lemma sum_month_lengths: "sum_list (month_lengths y) = (if leap y then 366 else 365)"
  by (simp add: month_lengths_def)

lemma month_of_spec:
  assumes "0 \<le> d" and "d < sum_list ls" and "month_of m ls d = (m', d')"
  shows "m \<le> m' \<and> m' - m < length ls \<and> 0 \<le> d' \<and> d' < ls ! (m' - m) \<and> d = sum_list (take (m' - m) ls) + d'"
  using assms
proof (induction m ls d rule: month_of.induct)
  case (2 m l ls d)
  show ?case
  proof (cases "d < l")
    case True
    then show ?thesis using "2.prems" by auto
  next
    case False
    then have "Suc m \<le> m' \<and> m' - Suc m < length ls \<and> 0 \<le> d' \<and> d' < ls ! (m' - Suc m)
        \<and> d - l = sum_list (take (m' - Suc m) ls) + d'"
      using 2 by simp
    moreover from this have "m' - m = Suc (m' - Suc m)" by (elim conjE) linarith
    ultimately show ?thesis by simp
  qed
qed simp

section \<open>Fixed-width numbers and fractions\<close>

fun pad :: "nat \<Rightarrow> nat \<Rightarrow> string" where
  "pad 0 n = []"
| "pad (Suc k) n = pad k (n div 10) @ [char_of (n mod 10 + 48)]"

fun dec_value :: "string \<Rightarrow> nat" where
  "dec_value s = foldl (\<lambda>n c. n * 10 + (code c - 48)) 0 s"

declare dec_value.simps [simp del]

definition read_fixed :: "nat \<Rightarrow> string \<Rightarrow> (nat \<times> string) option" where
  "read_fixed k s =
     (if k \<le> length s \<and> list_all is_dig (take k s) then Some (dec_value (take k s), drop k s) else None)"

lemma length_pad [simp]: "length (pad k n) = k"
  by (induction k arbitrary: n) simp_all

lemma pad_digits: "list_all is_dig (pad k n)"
proof (induction k arbitrary: n)
  case (Suc k)
  then show ?case by (simp add: is_dig_def btw_def)
qed simp

lemma dec_value_snoc: "dec_value (s @ [c]) = dec_value s * 10 + (code c - 48)"
  by (simp add: dec_value.simps)

lemma dec_value_pad: "n < 10 ^ k \<Longrightarrow> dec_value (pad k n) = n"
proof (induction k arbitrary: n)
  case (Suc k)
  then have "n div 10 < 10 ^ k" by (auto simp: less_mult_imp_div_less mult.commute)
  then show ?case using Suc.IH by (simp add: dec_value_snoc)
qed (simp add: dec_value.simps)

lemma read_fixed_pad: "n < 10 ^ k \<Longrightarrow> read_fixed k (pad k n @ s) = Some (n, s)"
  by (simp add: read_fixed_def pad_digits dec_value_pad)

text \<open>A fraction of a second: nine digits without trailing zeros, or nothing.\<close>

definition strip_zeros :: "string \<Rightarrow> string" where
  "strip_zeros s = rev (dropWhile (\<lambda>c. c = CHR ''0'') (rev s))"

definition print_fraction :: "nat \<Rightarrow> string" where
  "print_fraction ns = (if ns = 0 then [] else CHR ''.'' # strip_zeros (pad 9 ns))"

definition read_fraction :: "string \<Rightarrow> nat \<times> string" where
  "read_fraction s =
     (case s of
        c # t \<Rightarrow>
          if c = CHR ''.'' \<and> takeWhile is_dig t \<noteq> [] then
            (let ds = take 9 (takeWhile is_dig t) in
             (dec_value (ds @ replicate (9 - length ds) (CHR ''0'')), dropWhile is_dig t))
          else (0, s)
      | [] \<Rightarrow> (0, s))"

lemma strip_zeros_restore:
  "length s = k \<Longrightarrow> strip_zeros s @ replicate (k - length (strip_zeros s)) (CHR ''0'') = s \<and> length (strip_zeros s) \<le> k"
proof -
  assume k: "length s = k"
  let ?p = "\<lambda>c. c = CHR ''0''"
  have "rev s = takeWhile ?p (rev s) @ dropWhile ?p (rev s)" by simp
  then have s: "s = strip_zeros s @ rev (takeWhile ?p (rev s))"
    unfolding strip_zeros_def by (metis rev_append rev_rev_ident)
  have "\<forall>c\<in>set (rev (takeWhile ?p (rev s))). c = CHR ''0''" by (auto dest: set_takeWhileD)
  then have "rev (takeWhile ?p (rev s)) = replicate (length (rev (takeWhile ?p (rev s)))) (CHR ''0'')"
    by (metis replicate_eqI)
  moreover have "length (strip_zeros s) + length (rev (takeWhile ?p (rev s))) = k"
    using arg_cong [OF s, of length] k by simp
  ultimately show ?thesis using s by (metis diff_add_inverse le_add1)
qed

lemma strip_zeros_pad:
  assumes "0 < n" and "n < 10 ^ k"
  shows "strip_zeros (pad k n) \<noteq> []" and "list_all is_dig (strip_zeros (pad k n))"
proof -
  have zeros: "dec_value (replicate m (CHR ''0'')) = 0" for m
    by (induction m) (simp_all add: dec_value.simps replicate_append_same [symmetric])
  show "strip_zeros (pad k n) \<noteq> []"
  proof
    assume "strip_zeros (pad k n) = []"
    then have "pad k n = replicate k (CHR ''0'')" using strip_zeros_restore [of "pad k n" k] by simp
    then have "dec_value (pad k n) = 0" using zeros by simp
    then show False using dec_value_pad [OF assms(2)] assms(1) by simp
  qed
  show "list_all is_dig (strip_zeros (pad k n))"
    using pad_digits [of k n] unfolding strip_zeros_def list_all_iff by (auto dest: set_dropWhileD)
qed

lemma read_fraction_print:
  assumes "ns < 10 ^ 9" and "s \<noteq> []" and "\<not> is_dig (hd s)" and "hd s \<noteq> CHR ''.''"
  shows "read_fraction (print_fraction ns @ s) = (ns, s)"
proof (cases "ns = 0")
  case True
  then show ?thesis using assms by (cases s) (simp_all add: print_fraction_def read_fraction_def)
next
  case False
  let ?f = "strip_zeros (pad 9 ns)"
  have f: "?f \<noteq> []" "list_all is_dig ?f" using strip_zeros_pad [of ns 9] False assms(1) by simp_all
  have "takeWhile is_dig (?f @ s) = ?f" "dropWhile is_dig (?f @ s) = s"
    using f(2) assms(2,3) by (cases s; simp add: takeWhile_append dropWhile_append list_all_iff)+
  moreover have "take 9 ?f = ?f" "?f @ replicate (9 - length ?f) (CHR ''0'') = pad 9 ns"
    using strip_zeros_restore [of "pad 9 ns" 9] by simp_all
  ultimately show ?thesis
    using f(1) False assms(1) by (simp add: print_fraction_def read_fraction_def Let_def dec_value_pad)
qed

section \<open>Times\<close>

definition day_ns :: int where
  "day_ns = 86400 * 1000000000"

definition print_clock :: "nat \<Rightarrow> string" where
  "print_clock secs = pad 2 (secs div 3600) @ '':'' @ pad 2 (secs div 60 mod 60) @ '':'' @ pad 2 (secs mod 60)"

definition print_date :: "int \<Rightarrow> string" where
  "print_date days =
     (let y = year_of days; (m, d) = month_of 1 (month_lengths y) (days - days_before_year y) in
      pad 4 (nat y) @ ''-'' @ pad 2 m @ ''-'' @ pad 2 (nat d + 1))"

text \<open>\<^verbatim>\<open>Time.MarshalJSON\<close> without the quotes; an error for a year that has no four digits.\<close>

definition format_time :: "Time \<Rightarrow> string option" where
  "format_time t =
     (let days = t div day_ns; ns = nat (t mod day_ns) in
      if days < -366 \<or> days_before_year 10000 \<le> days then None
      else Some (print_date days @ ''T'' @ print_clock (ns div 1000000000) @ print_fraction (ns mod 1000000000) @ ''Z''))"

definition expect :: "char \<Rightarrow> string \<Rightarrow> string option" where
  "expect c s = (case s of d # t \<Rightarrow> if d = c then Some t else None | [] \<Rightarrow> None)"

text \<open>A two-digit number within bounds, and one that a separator precedes.\<close>

definition read_num2 :: "nat \<Rightarrow> nat \<Rightarrow> string \<Rightarrow> (nat \<times> string) option" where
  "read_num2 lo hi s =
     (case read_fixed 2 s of
        Some (n, t) \<Rightarrow> if lo \<le> n \<and> n \<le> hi then Some (n, t) else None
      | None \<Rightarrow> None)"

definition read_sep :: "char \<Rightarrow> nat \<Rightarrow> nat \<Rightarrow> string \<Rightarrow> (nat \<times> string) option" where
  "read_sep c lo hi s = Option.bind (expect c s) (read_num2 lo hi)"

definition read_date :: "string \<Rightarrow> (int \<times> string) option" where
  "read_date s =
     Option.bind (read_fixed 4 s) (\<lambda>(y, s1).
     Option.bind (read_sep (CHR ''-'') 1 12 s1) (\<lambda>(m, s2).
     Option.bind (read_sep (CHR ''-'') 1 (nat (month_lengths (int y) ! (m - 1))) s2) (\<lambda>(d, s3).
     Some (days_before_year (int y) + sum_list (take (m - 1) (month_lengths (int y))) + int d - 1, s3))))"

definition read_clock :: "string \<Rightarrow> (nat \<times> string) option" where
  "read_clock s =
     Option.bind (read_num2 0 23 s) (\<lambda>(h, s1).
     Option.bind (read_sep (CHR '':'') 0 59 s1) (\<lambda>(m, s2).
     Option.bind (read_sep (CHR '':'') 0 59 s2) (\<lambda>(sec, s3). Some (h * 3600 + m * 60 + sec, s3))))"

text \<open>The zone, as the number of seconds it is ahead of UTC.\<close>

definition read_zone :: "string \<Rightarrow> int option" where
  "read_zone s =
     (if s = ''Z'' then Some 0
      else
        (case s of
           c # t \<Rightarrow>
             if c = CHR ''+'' \<or> c = CHR ''-'' then
               Option.bind (read_num2 0 23 t) (\<lambda>(h, t1).
               Option.bind (read_sep (CHR '':'') 0 59 t1) (\<lambda>(m, t2).
               if t2 = [] then Some ((if c = CHR ''-'' then -1 else 1) * int (h * 3600 + m * 60)) else None))
             else None
         | [] \<Rightarrow> None))"

definition parse_time :: "string \<Rightarrow> Time option" where
  "parse_time s =
     Option.bind (read_date s) (\<lambda>(days, s1).
     Option.bind (expect (CHR ''T'') s1) (\<lambda>s2.
     Option.bind (read_clock s2) (\<lambda>(secs, s3).
     case read_fraction s3 of
       (ns, s4) \<Rightarrow>
         Option.bind (read_zone s4) (\<lambda>ahead.
         Some (days * day_ns + (int secs - ahead) * 1000000000 + int ns)))))"

lemma read_num2_pad: "lo \<le> n \<Longrightarrow> n \<le> hi \<Longrightarrow> n < 100 \<Longrightarrow> read_num2 lo hi (pad 2 n @ s) = Some (n, s)"
  by (simp add: read_num2_def read_fixed_pad)

lemma read_sep_pad: "lo \<le> n \<Longrightarrow> n \<le> hi \<Longrightarrow> n < 100 \<Longrightarrow> read_sep c lo hi (c # pad 2 n @ s) = Some (n, s)"
  by (simp add: read_sep_def expect_def read_num2_pad)

lemma read_clock_print:
  assumes "secs < 86400"
  shows "read_clock (print_clock secs @ s) = Some (secs, s)"
proof -
  have "secs div 3600 < 24" using assms by (simp add: less_mult_imp_div_less)
  moreover have "secs = secs div 3600 * 3600 + secs div 60 mod 60 * 60 + secs mod 60"
  proof -
    have "secs div 60 div 60 = secs div 3600" by (simp add: div_mult2_eq [symmetric])
    then show ?thesis using mult_div_mod_eq [of 60 secs] mult_div_mod_eq [of 60 "secs div 60"] by linarith
  qed
  ultimately show ?thesis
    by (simp add: read_clock_def print_clock_def read_num2_pad read_sep_pad)
qed

lemma year_bounds:
  assumes "-366 \<le> d" and "d < days_before_year 10000"
  shows "0 \<le> year_of d \<and> year_of d < 10000"
proof -
  have mono: "days_before_year y \<le> days_before_year z" if "y \<le> z" for y z
  proof -
    have "(y - 1) div 4 \<le> (z - 1) div 4" "(y - 1) div 400 \<le> (z - 1) div 400" "(z - 1) div 100 - (y - 1) div 100 \<le> z - y"
      using that by (simp_all add: zdiv_mono1)
    then show ?thesis using that by (simp add: days_before_year_def)
  qed
  have "days_before_year 0 = -366" by (simp add: days_before_year_def)
  then have "0 \<le> year_of d" using year_of_bounds(2) [OF assms(1)] mono [of "year_of d + 1" 0] assms(1) by linarith
  moreover have "year_of d < 10000" using year_of_bounds(1) [OF assms(1)] mono [of 10000 "year_of d"] assms(2) by linarith
  ultimately show ?thesis by simp
qed

lemma month_lengths_bounds: "l \<in> set (month_lengths y) \<Longrightarrow> 28 \<le> l \<and> l \<le> 31"
  by (auto simp: month_lengths_def)

lemma read_date_print:
  assumes "-366 \<le> days" and "days < days_before_year 10000"
  shows "read_date (print_date days @ s) = Some (days, s)"
proof -
  let ?y = "year_of days"
  let ?doy = "days - days_before_year ?y"
  obtain m d where md: "month_of 1 (month_lengths ?y) ?doy = (m, d)" by fastforce
  have y: "0 \<le> ?y" "?y < 10000" using year_bounds [OF assms] by simp_all
  have "0 \<le> ?doy" "?doy < sum_list (month_lengths ?y)"
    using year_of_bounds [OF assms(1)] by (simp_all add: days_of_year sum_month_lengths split: if_splits)
  from month_of_spec [OF this md]
  have m: "1 \<le> m" "m - 1 < 12" and d: "0 \<le> d" "d < month_lengths ?y ! (m - 1)"
    and doy: "?doy = sum_list (take (m - 1) (month_lengths ?y)) + d"
    by (simp_all add: month_lengths_def)
  have "m - 1 < length (month_lengths ?y)" using m(2) by (simp add: month_lengths_def)
  from month_lengths_bounds [OF nth_mem [OF this]] have "month_lengths ?y ! (m - 1) \<le> 31" by simp
  then have "nat d + 1 < 100" "nat d + 1 \<le> nat (month_lengths ?y ! (m - 1))" using d by linarith+
  moreover have "nat ?y < 10 ^ 4" using y by simp
  ultimately show ?thesis
    using md m doy d(1) y by (simp add: read_date_def print_date_def read_fixed_pad read_sep_pad)
qed

text \<open>What is printed is read back.\<close>

lemma parse_format_time:
  assumes "format_time t = Some s"
  shows "parse_time s = Some t"
proof -
  let ?days = "t div day_ns" and ?ns = "nat (t mod day_ns)"
  have range: "-366 \<le> ?days" "?days < days_before_year 10000"
    and s: "s = print_date ?days @ ''T'' @ print_clock (?ns div 1000000000) @ print_fraction (?ns mod 1000000000) @ ''Z''"
    using assms by (auto simp: format_time_def Let_def split: if_splits)
  have ns: "0 \<le> t mod day_ns" "t mod day_ns < day_ns" by (simp_all add: day_ns_def)
  then have "?ns div 1000000000 < 86400" by (simp add: day_ns_def less_mult_imp_div_less nat_less_iff)
  moreover have "read_fraction (print_fraction (?ns mod 1000000000) @ ''Z'') = (?ns mod 1000000000, ''Z'')"
    by (rule read_fraction_print) (simp_all add: is_dig_def btw_def)
  moreover have "?days * day_ns + int (?ns div 1000000000) * 1000000000 + int (?ns mod 1000000000) = t"
  proof -
    have "int (?ns div 1000000000) * 1000000000 + int (?ns mod 1000000000) = t mod day_ns"
      using arg_cong [OF div_mult_mod_eq [of ?ns 1000000000], of int] ns(1)
      by (simp only: of_nat_add of_nat_mult of_nat_numeral nat_0_le)
    then show ?thesis using div_mult_mod_eq [of t day_ns] by linarith
  qed
  ultimately show ?thesis
    unfolding s parse_time_def by (simp add: read_date_print [OF range] read_clock_print expect_def read_zone_def)
qed

text \<open>Characters the encoder leaves alone; a printed time has no others.\<close>

definition json_plain :: "char \<Rightarrow> bool" where
  "json_plain c \<longleftrightarrow> 32 \<le> code c \<and> code c < 128 \<and> c \<notin> set ''<>&'' \<and> c \<noteq> CHR 0x22 \<and> c \<noteq> CHR 0x5C"

lemma json_plain_escape: "list_all json_plain s \<Longrightarrow> json_escape s = s \<and> utf8_valid s"
proof (induction s)
  case (Cons c s)
  then have c: "32 \<le> code c" "code c < 128" "c \<noteq> CHR ''<''" "c \<noteq> CHR ''>''" "c \<noteq> CHR ''&''" "c \<noteq> CHR 0x22" "c \<noteq> CHR 0x5C"
    by (simp_all add: json_plain_def)
  have "c \<noteq> CHR 0x08" "c \<noteq> CHR 0x0C" "c \<noteq> CHR 0x0A" "c \<noteq> CHR 0x0D" "c \<noteq> CHR 0x09" using c(1) by auto
  with c have "ascii_escape c = [c]" by (simp add: ascii_escape_def)
  then show ?case using Cons c(2) by (simp add: json_escape.simps)
qed simp

lemma is_dig_plain: "is_dig c \<Longrightarrow> json_plain c"
  by (auto simp: json_plain_def is_dig_def btw_def)

lemma pad_plain: "list_all json_plain (pad k n)" "list_all json_plain (strip_zeros (pad k n))"
proof -
  have "\<forall>c\<in>set (pad k n). json_plain c" using pad_digits [of k n] is_dig_plain by (auto simp: list_all_iff)
  then show "list_all json_plain (pad k n)" "list_all json_plain (strip_zeros (pad k n))"
    unfolding strip_zeros_def list_all_iff by (auto dest: set_dropWhileD)
qed

lemma json_plain_separators: "list_all json_plain ''-:.TZ''"
  by code_simp

lemma format_time_plain: "format_time t = Some s \<Longrightarrow> list_all json_plain s"
  using pad_plain json_plain_separators
  by (simp add: format_time_def print_date_def print_clock_def print_fraction_def Let_def split: if_splits prod.splits)
    (auto simp: print_fraction_def)

end
