(* ===== verification/Go_Server.thy ===== *)
theory Go_Server
  imports Go_Fmt Go_Http
begin

text \<open>
  The serving half of Go's \<^verbatim>\<open>net/http\<close> as far as the generated server uses it: the response writer
  as a state, \<^verbatim>\<open>http.Error\<close>, requests with their context, and handlers as programs over a backend
  state and the writer. The first \<^verbatim>\<open>WriteHeader\<close> wins and freezes the header; writing a body sends
  status 200 when none was sent, and is refused for a status that allows no body. The library's
  content sniffing, its check of a declared length and the log lines it prints are left out.
\<close>

section \<open>The response writer\<close>

record ResponseWriter =
  rw_Header :: Header
  rw_Sent :: "(int \<times> Header) option"  \<comment> \<open>the status and the header as they were sent\<close>
  rw_Body :: bytes
  rw_WriteErr :: "error option"  \<comment> \<open>what the connection answers to a write\<close>

definition rw_SetHeader :: "string \<Rightarrow> string \<Rightarrow> ResponseWriter \<Rightarrow> ResponseWriter" where
  "rw_SetHeader k v w = w\<lparr>rw_Header := Header_Set (rw_Header w) k v\<rparr>"

definition rw_DelHeader :: "string \<Rightarrow> ResponseWriter \<Rightarrow> ResponseWriter" where
  "rw_DelHeader k w = w\<lparr>rw_Header := (rw_Header w)(CanonicalHeaderKey k := [])\<rparr>"

definition rw_WriteHeader :: "int \<Rightarrow> ResponseWriter \<Rightarrow> ResponseWriter" where
  "rw_WriteHeader code w =
     (case rw_Sent w of
        None \<Rightarrow> w\<lparr>rw_Sent := Some (code, rw_Header w)\<rparr>
      | Some _ \<Rightarrow> w)"

definition bodyAllowedForStatus :: "int \<Rightarrow> bool" where
  "bodyAllowedForStatus code \<longleftrightarrow> \<not> (100 \<le> code \<and> code \<le> 199) \<and> code \<noteq> 204 \<and> code \<noteq> 304"

definition rw_Write :: "bytes \<Rightarrow> ResponseWriter \<Rightarrow> error option \<times> ResponseWriter" where
  "rw_Write bs w =
     (let w1 = rw_WriteHeader 200 w in
      if bs = [] then (None, w1)
      else if \<not> bodyAllowedForStatus (case rw_Sent w1 of Some (code, _) \<Rightarrow> code | None \<Rightarrow> 200) then
        (Some (ForeignError ''http: request method or response status code does not allow body''), w1)
      else
        (case rw_WriteErr w1 of
           Some err \<Rightarrow> (Some err, w1)
         | None \<Rightarrow> (None, w1\<lparr>rw_Body := rw_Body w1 @ bs\<rparr>)))"

text \<open>\<^verbatim>\<open>http.Error\<close>: a plain text answer with the message and a line feed; the write's error is dropped.\<close>

definition http_Error :: "string \<Rightarrow> int \<Rightarrow> ResponseWriter \<Rightarrow> ResponseWriter" where
  "http_Error msg code w =
     snd (rw_Write (msg @ [CHR 0x0A])
       (rw_WriteHeader code
         (rw_SetHeader ''X-Content-Type-Options'' ''nosniff''
           (rw_SetHeader ''Content-Type'' ''text/plain; charset=utf-8'' (rw_DelHeader ''Content-Length'' w)))))"

section \<open>Handlers\<close>

text \<open>
  A request as a handler sees it. Its body is the outcome of reading it; its context holds the
  values the generated code puts there, by key.
\<close>

type_synonym Context = "string \<rightharpoonup> string list"

record ServerRequest =
  sv_Method :: string
  sv_Path :: string
  sv_Header :: Header
  sv_Body :: "error + bytes"
  sv_Context :: Context

type_synonym 's serving = "'s \<times> ResponseWriter"
type_synonym 's HandlerFunc = "ServerRequest \<Rightarrow> ('s serving, unit) go"
type_synonym 's ErrorHandlerFunc = "ServerRequest \<Rightarrow> error \<Rightarrow> ('s serving, unit) go"

definition with_writer :: "(ResponseWriter \<Rightarrow> 'a \<times> ResponseWriter) \<Rightarrow> ('s serving, 'a) go" where
  "with_writer f x = (case f (snd x) of (a, w) \<Rightarrow> (Returns a, (fst x, w)))"

definition with_backend :: "('s, 'a) go \<Rightarrow> ('s serving, 'a) go" where
  "with_backend m x = (case m (fst x) of (a, s) \<Rightarrow> (a, (s, snd x)))"

text \<open>Calling a function value that may be nil.\<close>

definition call_error_handler :: "'s ErrorHandlerFunc option \<Rightarrow> 's ErrorHandlerFunc" where
  "call_error_handler f r err =
     (case f of
        None \<Rightarrow> go_panic ''nil pointer dereference''
      | Some g \<Rightarrow> g r err)"

text \<open>The handler that answers with the error's text.\<close>

definition error_handler :: "(string \<Rightarrow> string) \<Rightarrow> int \<Rightarrow> 's ErrorHandlerFunc" where
  "error_handler quote code r err = with_writer (\<lambda>w. ((), http_Error (error_Error quote err) code w))"

section \<open>Sending\<close>

text \<open>
  What the client receives of an answer: status 200 when the handler sent none, the header as it
  was when the status was sent, and the body.
\<close>

definition new_ResponseWriter :: ResponseWriter where
  "new_ResponseWriter = \<lparr> rw_Header = empty_Header, rw_Sent = None, rw_Body = [], rw_WriteErr = None \<rparr>"

definition received :: "ResponseWriter \<Rightarrow> Response" where
  "received w =
     (case rw_Sent w of
        None \<Rightarrow> \<lparr> rs_StatusCode = 200, rs_Status = '''', rs_Header = rw_Header w, rs_Body = Inr (rw_Body w) \<rparr>
      | Some (code, hdr) \<Rightarrow> \<lparr> rs_StatusCode = code, rs_Status = '''', rs_Header = hdr, rs_Body = Inr (rw_Body w) \<rparr>)"

section \<open>Lemmas\<close>

lemma rw_WriteHeader_simps [simp]:
  "rw_Sent w = Some sent \<Longrightarrow> rw_WriteHeader code w = w"
  "rw_Header (rw_WriteHeader code w) = rw_Header w" "rw_Body (rw_WriteHeader code w) = rw_Body w"
  "rw_WriteErr (rw_WriteHeader code w) = rw_WriteErr w"
  by (simp_all add: rw_WriteHeader_def split: option.split)

lemma rw_WriteHeader_fresh: "rw_Sent w = None \<Longrightarrow> rw_WriteHeader code w = w\<lparr>rw_Sent := Some (code, rw_Header w)\<rparr>"
  by (simp add: rw_WriteHeader_def)

lemma rw_Write_sent:
  assumes "rw_Sent w = Some (code, hdr)" and "bodyAllowedForStatus code" and "rw_WriteErr w = None"
  shows "rw_Write bs w = (None, w\<lparr>rw_Body := rw_Body w @ bs\<rparr>)"
  using assms by (simp add: rw_Write_def)

text \<open>Once a status was sent, nothing changes it or the header that went with it.\<close>

lemma rw_Sent_final:
  assumes "rw_Sent w = Some sent"
  shows "rw_Sent (rw_SetHeader k v w) = Some sent" "rw_Sent (rw_DelHeader k w) = Some sent"
    "rw_Sent (rw_WriteHeader code w) = Some sent" "rw_Sent (snd (rw_Write bs w)) = Some sent"
    "rw_Sent (http_Error msg code w) = Some sent"
  using assms
  by (simp_all add: rw_SetHeader_def rw_DelHeader_def rw_Write_def http_Error_def Let_def split: option.split)

lemma http_Error_fresh:
  assumes "rw_Sent w = None" and "rw_WriteErr w = None" and "bodyAllowedForStatus code"
  shows "rs_StatusCode (received (http_Error msg code w)) = code"
    and "Header_Get (rs_Header (received (http_Error msg code w))) ''Content-Type'' = ''text/plain; charset=utf-8''"
    and "rs_Body (received (http_Error msg code w)) = Inr (rw_Body w @ msg @ [CHR 0x0A])"
proof -
  have "CanonicalHeaderKey ''X-Content-Type-Options'' \<noteq> CanonicalHeaderKey ''Content-Type''" by code_simp
  then show "Header_Get (rs_Header (received (http_Error msg code w))) ''Content-Type'' = ''text/plain; charset=utf-8''"
    using assms
    by (simp add: http_Error_def rw_WriteHeader_fresh rw_SetHeader_def rw_DelHeader_def rw_Write_sent received_def
        Header_Get_Set_other Header_Get_Set del: canonical_keys)
qed (use assms in \<open>simp_all add: http_Error_def rw_WriteHeader_fresh rw_SetHeader_def rw_DelHeader_def rw_Write_sent
    received_def\<close>)

lemma with_writer_run [simp]: "with_writer f (s, w) = (Returns (fst (f w)), (s, snd (f w)))"
  by (simp add: with_writer_def split: prod.split)

lemma with_backend_run: "with_backend m (s, w) = (fst (m s), (snd (m s), w))"
  by (simp add: with_backend_def split: prod.split)

end
