(* ===== verification/Gen_Server.thy ===== *)
theory Gen_Server
  imports Go_Server Gen_Client
begin

text \<open>
  The routing half of the generated server: the interface a server implements, the empty
  implementation, the wrapper that binds path parameters and runs the middlewares, and the route
  table. The chi router and the parameter binder of the oapi runtime are the parameters \<open>Chi\<close> and
  \<open>ChiRuntime\<close>; \<open>route_table\<close> is an instance of the router that keeps the registrations.
\<close>

section \<open>Server interface\<close>

record 's ServerInterface =
  si_GetTenants :: "'s HandlerFunc"
  si_CreateTenant :: "'s HandlerFunc"
  si_ValidateTenantUniqueId :: "string \<Rightarrow> 's HandlerFunc"
  si_DeleteTenant :: "string \<Rightarrow> 's HandlerFunc"
  si_GetTenantKubeconfig :: "string \<Rightarrow> 's HandlerFunc"
  si_ListTenantTokens :: "string \<Rightarrow> 's HandlerFunc"
  si_CreateTenantToken :: "string \<Rightarrow> 's HandlerFunc"

definition not_implemented :: "'s HandlerFunc" where
  "not_implemented r = with_writer (\<lambda>w. ((), rw_WriteHeader 501 w))"

definition Unimplemented_GetTenants :: "'s HandlerFunc" where
  "Unimplemented_GetTenants = not_implemented"

definition Unimplemented_CreateTenant :: "'s HandlerFunc" where
  "Unimplemented_CreateTenant = not_implemented"

definition Unimplemented_ValidateTenantUniqueId :: "string \<Rightarrow> 's HandlerFunc" where
  "Unimplemented_ValidateTenantUniqueId uniqueID = not_implemented"

definition Unimplemented_DeleteTenant :: "string \<Rightarrow> 's HandlerFunc" where
  "Unimplemented_DeleteTenant tenantId = not_implemented"

definition Unimplemented_GetTenantKubeconfig :: "string \<Rightarrow> 's HandlerFunc" where
  "Unimplemented_GetTenantKubeconfig tenantId = not_implemented"

definition Unimplemented_ListTenantTokens :: "string \<Rightarrow> 's HandlerFunc" where
  "Unimplemented_ListTenantTokens tenantId = not_implemented"

definition Unimplemented_CreateTenantToken :: "string \<Rightarrow> 's HandlerFunc" where
  "Unimplemented_CreateTenantToken tenantId = not_implemented"

definition Unimplemented :: "'s ServerInterface" where
  "Unimplemented = \<lparr>
     si_GetTenants = Unimplemented_GetTenants, si_CreateTenant = Unimplemented_CreateTenant,
     si_ValidateTenantUniqueId = Unimplemented_ValidateTenantUniqueId,
     si_DeleteTenant = Unimplemented_DeleteTenant,
     si_GetTenantKubeconfig = Unimplemented_GetTenantKubeconfig,
     si_ListTenantTokens = Unimplemented_ListTenantTokens,
     si_CreateTenantToken = Unimplemented_CreateTenantToken \<rparr>"

section \<open>Wrapper\<close>

type_synonym 's MiddlewareFunc = "'s HandlerFunc \<Rightarrow> 's HandlerFunc"

record 's ServerInterfaceWrapper =
  siw_Handler :: "'s ServerInterface"
  siw_HandlerMiddlewares :: "'s MiddlewareFunc list"
  siw_ErrorHandlerFunc :: "'s ErrorHandlerFunc option"

text \<open>
  Parameters: \<open>chi_URLParam\<close> is \<^verbatim>\<open>chi.URLParam\<close>, \<open>BindStyledParameter\<close> the runtime's
  \<^verbatim>\<open>BindStyledParameterWithOptions\<close> for a required simple string in the path, given the
  parameter's name and raw value.
\<close>

record ChiRuntime =
  chi_URLParam :: "ServerRequest \<Rightarrow> string \<Rightarrow> string"
  BindStyledParameter :: "string \<Rightarrow> string \<Rightarrow> error + string"

text \<open>The loop every method of the wrapper ends with: each middleware wraps the handler so far.\<close>

fun apply_middlewares :: "'s MiddlewareFunc list \<Rightarrow> 's HandlerFunc \<Rightarrow> 's HandlerFunc" where
  "apply_middlewares [] handler = handler"
| "apply_middlewares (middleware # ms) handler = apply_middlewares ms (middleware handler)"

definition wrapper_serve :: "'s ServerInterfaceWrapper \<Rightarrow> 's HandlerFunc \<Rightarrow> 's HandlerFunc" where
  "wrapper_serve siw handler r =
     apply_middlewares (siw_HandlerMiddlewares siw) handler
       (r\<lparr>sv_Context := (sv_Context r)(BearerAuthScopes \<mapsto> [])\<rparr>)"

text \<open>The lines that bind a path parameter, in every method that has one.\<close>

definition wrapper_bind ::
  "ChiRuntime \<Rightarrow> 's ServerInterfaceWrapper \<Rightarrow> string \<Rightarrow> (string \<Rightarrow> 's HandlerFunc) \<Rightarrow> 's HandlerFunc"
where
  "wrapper_bind rt siw param handler r =
     (case BindStyledParameter rt param (chi_URLParam rt r param) of
        Inl err \<Rightarrow> call_error_handler (siw_ErrorHandlerFunc siw) r (InvalidParamFormatError param err)
      | Inr val \<Rightarrow> wrapper_serve siw (handler val) r)"

definition Wrapper_GetTenants :: "'s ServerInterfaceWrapper \<Rightarrow> 's HandlerFunc" where
  "Wrapper_GetTenants siw = wrapper_serve siw (si_GetTenants (siw_Handler siw))"

definition Wrapper_CreateTenant :: "'s ServerInterfaceWrapper \<Rightarrow> 's HandlerFunc" where
  "Wrapper_CreateTenant siw = wrapper_serve siw (si_CreateTenant (siw_Handler siw))"

definition Wrapper_ValidateTenantUniqueId :: "ChiRuntime \<Rightarrow> 's ServerInterfaceWrapper \<Rightarrow> 's HandlerFunc" where
  "Wrapper_ValidateTenantUniqueId rt siw =
     wrapper_bind rt siw ''uniqueID'' (si_ValidateTenantUniqueId (siw_Handler siw))"

definition Wrapper_DeleteTenant :: "ChiRuntime \<Rightarrow> 's ServerInterfaceWrapper \<Rightarrow> 's HandlerFunc" where
  "Wrapper_DeleteTenant rt siw = wrapper_bind rt siw ''tenantId'' (si_DeleteTenant (siw_Handler siw))"

definition Wrapper_GetTenantKubeconfig :: "ChiRuntime \<Rightarrow> 's ServerInterfaceWrapper \<Rightarrow> 's HandlerFunc" where
  "Wrapper_GetTenantKubeconfig rt siw =
     wrapper_bind rt siw ''tenantId'' (si_GetTenantKubeconfig (siw_Handler siw))"

definition Wrapper_ListTenantTokens :: "ChiRuntime \<Rightarrow> 's ServerInterfaceWrapper \<Rightarrow> 's HandlerFunc" where
  "Wrapper_ListTenantTokens rt siw = wrapper_bind rt siw ''tenantId'' (si_ListTenantTokens (siw_Handler siw))"

definition Wrapper_CreateTenantToken :: "ChiRuntime \<Rightarrow> 's ServerInterfaceWrapper \<Rightarrow> 's HandlerFunc" where
  "Wrapper_CreateTenantToken rt siw = wrapper_bind rt siw ''tenantId'' (si_CreateTenantToken (siw_Handler siw))"

section \<open>Routes\<close>

text \<open>The operations of a chi router that the generated code calls, on routers of type \<open>'r\<close>.\<close>

record ('r, 's) Chi =
  chi_NewRouter :: 'r
  chi_Group :: "('r \<Rightarrow> 'r) \<Rightarrow> 'r \<Rightarrow> 'r"
  chi_Get :: "string \<Rightarrow> 's HandlerFunc \<Rightarrow> 'r \<Rightarrow> 'r"
  chi_Post :: "string \<Rightarrow> 's HandlerFunc \<Rightarrow> 'r \<Rightarrow> 'r"
  chi_Delete :: "string \<Rightarrow> 's HandlerFunc \<Rightarrow> 'r \<Rightarrow> 'r"

record ('r, 's) ChiServerOptions =
  co_BaseURL :: string
  co_BaseRouter :: "'r option"
  co_Middlewares :: "'s MiddlewareFunc list"
  co_ErrorHandlerFunc :: "'s ErrorHandlerFunc option"

definition options_wrapper ::
  "(string \<Rightarrow> string) \<Rightarrow> 's ServerInterface \<Rightarrow> ('r, 's) ChiServerOptions \<Rightarrow> 's ServerInterfaceWrapper"
where
  "options_wrapper quote si options = \<lparr>
     siw_Handler = si, siw_HandlerMiddlewares = co_Middlewares options,
     siw_ErrorHandlerFunc =
       (case co_ErrorHandlerFunc options of
          None \<Rightarrow> Some (error_handler quote 400)
        | Some f \<Rightarrow> Some f) \<rparr>"

definition HandlerWithOptions ::
  "('r, 's) Chi \<Rightarrow> ChiRuntime \<Rightarrow> (string \<Rightarrow> string) \<Rightarrow> 's ServerInterface \<Rightarrow> ('r, 's) ChiServerOptions \<Rightarrow> 'r"
where
  "HandlerWithOptions chi rt quote si options =
     (let r0 = (case co_BaseRouter options of None \<Rightarrow> chi_NewRouter chi | Some r \<Rightarrow> r);
          wrapper = options_wrapper quote si options;
          baseURL = co_BaseURL options;
          r1 = chi_Group chi (chi_Get chi (baseURL @ ''/tenants'') (Wrapper_GetTenants wrapper)) r0;
          r2 = chi_Group chi (chi_Post chi (baseURL @ ''/tenants'') (Wrapper_CreateTenant wrapper)) r1;
          r3 = chi_Group chi (chi_Get chi (baseURL @ ''/tenants/validate/unique-id/{uniqueID}'')
                 (Wrapper_ValidateTenantUniqueId rt wrapper)) r2;
          r4 = chi_Group chi (chi_Delete chi (baseURL @ ''/tenants/{tenantId}'') (Wrapper_DeleteTenant rt wrapper)) r3;
          r5 = chi_Group chi (chi_Get chi (baseURL @ ''/tenants/{tenantId}/kubeconfig'')
                 (Wrapper_GetTenantKubeconfig rt wrapper)) r4;
          r6 = chi_Group chi (chi_Get chi (baseURL @ ''/tenants/{tenantId}/token'') (Wrapper_ListTenantTokens rt wrapper)) r5
      in chi_Group chi (chi_Post chi (baseURL @ ''/tenants/{tenantId}/token'') (Wrapper_CreateTenantToken rt wrapper)) r6)"

definition no_options :: "('r, 's) ChiServerOptions" where
  "no_options = \<lparr> co_BaseURL = '''', co_BaseRouter = None, co_Middlewares = [], co_ErrorHandlerFunc = None \<rparr>"

definition Handler :: "('r, 's) Chi \<Rightarrow> ChiRuntime \<Rightarrow> (string \<Rightarrow> string) \<Rightarrow> 's ServerInterface \<Rightarrow> 'r" where
  "Handler chi rt quote si = HandlerWithOptions chi rt quote si no_options"

definition HandlerFromMux :: "('r, 's) Chi \<Rightarrow> ChiRuntime \<Rightarrow> (string \<Rightarrow> string) \<Rightarrow> 's ServerInterface \<Rightarrow> 'r \<Rightarrow> 'r" where
  "HandlerFromMux chi rt quote si r = HandlerWithOptions chi rt quote si (no_options\<lparr>co_BaseRouter := Some r\<rparr>)"

definition HandlerFromMuxWithBaseURL ::
  "('r, 's) Chi \<Rightarrow> ChiRuntime \<Rightarrow> (string \<Rightarrow> string) \<Rightarrow> 's ServerInterface \<Rightarrow> 'r \<Rightarrow> string \<Rightarrow> 'r"
where
  "HandlerFromMuxWithBaseURL chi rt quote si r baseURL =
     HandlerWithOptions chi rt quote si (no_options\<lparr>co_BaseRouter := Some r, co_BaseURL := baseURL\<rparr>)"

section \<open>Middlewares and parameters\<close>

lemma apply_middlewares_append [simp]:
  "apply_middlewares (ms @ ns) handler = apply_middlewares ns (apply_middlewares ms handler)"
  by (induction ms arbitrary: handler) simp_all

lemma apply_middlewares_fold: "apply_middlewares ms handler = fold (\<lambda>m h. m h) ms handler"
  by (induction ms arbitrary: handler) simp_all

text \<open>
  The route table: a router that keeps its registrations in order, as method, pattern and
  handler.
\<close>

type_synonym 's route = "string \<times> string \<times> 's HandlerFunc"

definition route_table :: "('s route list, 's) Chi" where
  "route_table = \<lparr> chi_NewRouter = [], chi_Group = (\<lambda>f r. f r),
     chi_Get = (\<lambda>p h r. r @ [(''GET'', p, h)]), chi_Post = (\<lambda>p h r. r @ [(''POST'', p, h)]),
     chi_Delete = (\<lambda>p h r. r @ [(''DELETE'', p, h)]) \<rparr>"

lemma route_table_routes:
  "HandlerWithOptions route_table rt quote si options =
     (case co_BaseRouter options of None \<Rightarrow> [] | Some r \<Rightarrow> r) @
     (let wrapper = options_wrapper quote si options; base = co_BaseURL options in
      [(''GET'', base @ ''/tenants'', Wrapper_GetTenants wrapper),
       (''POST'', base @ ''/tenants'', Wrapper_CreateTenant wrapper),
       (''GET'', base @ ''/tenants/validate/unique-id/{uniqueID}'', Wrapper_ValidateTenantUniqueId rt wrapper),
       (''DELETE'', base @ ''/tenants/{tenantId}'', Wrapper_DeleteTenant rt wrapper),
       (''GET'', base @ ''/tenants/{tenantId}/kubeconfig'', Wrapper_GetTenantKubeconfig rt wrapper),
       (''GET'', base @ ''/tenants/{tenantId}/token'', Wrapper_ListTenantTokens rt wrapper),
       (''POST'', base @ ''/tenants/{tenantId}/token'', Wrapper_CreateTenantToken rt wrapper)])"
  by (simp add: HandlerWithOptions_def route_table_def Let_def split: option.split)

end
