(* ===== verification/Gen_Strict.thy ===== *)
theory Gen_Strict
  imports Gen_Server
begin

text \<open>
  The strict half of the generated server: request and response objects, how each response writes
  itself, and the handler that decodes a request, runs the typed implementation behind its
  middlewares and writes the answer. The values that pass through \<^verbatim>\<open>interface{}\<close> are the datatypes
  \<open>request_any\<close> and \<open>response_any\<close>; the response interfaces are open, so each has a constructor for
  another type that implements it, with its visit method.
\<close>

section \<open>Response objects\<close>

type_synonym visit = "ResponseWriter \<Rightarrow> error option \<times> ResponseWriter"

text \<open>
  The server's half of the JSON codec: encoders for what a response may carry (a nil slice is
  \<open>None\<close>), and for the two request bodies what a decoder makes of a reader and leaves of it.
\<close>

record ServerJson =
  encode_Tenants :: "Tenant list option \<Rightarrow> error + bytes"
  encode_Tenant :: "Tenant \<Rightarrow> error + bytes"
  encode_Error :: "Error \<Rightarrow> error + bytes"
  encode_Availability :: "Availability \<Rightarrow> error + bytes"
  encode_KubeconfigBody :: "KubeconfigBody \<Rightarrow> error + bytes"
  encode_Tokens :: "BootstrapTokenListItem list option \<Rightarrow> error + bytes"
  encode_Token :: "BootstrapTokenListItem \<Rightarrow> error + bytes"
  decode_CreateTenantRequest :: "error + bytes \<Rightarrow> (error + CreateTenantRequest) \<times> (error + bytes)"
  decode_CreateTokenRequest :: "error + bytes \<Rightarrow> (error + CreateTokenRequest) \<times> (error + bytes)"

text \<open>
  The body of every visit method with JSON: the header, the status, and what the encoder writes,
  the value and a line feed. A value that cannot be encoded fails after the status was sent.
\<close>

definition visit_json :: "int \<Rightarrow> error + bytes \<Rightarrow> visit" where
  "visit_json code encoded w =
     (let w2 = rw_WriteHeader code (rw_SetHeader ''Content-Type'' ''application/json'' w) in
      case encoded of
        Inl err \<Rightarrow> (Some err, w2)
      | Inr bs \<Rightarrow> rw_Write (bs @ [CHR 0x0A]) w2)"

datatype GetTenantsResponseObject =
    GetTenants200JSONResponse "Tenant list option"
  | GetTenants500JSONResponse Error
  | OtherGetTenantsResponse string visit

fun VisitGetTenantsResponse :: "ServerJson \<Rightarrow> GetTenantsResponseObject \<Rightarrow> visit" where
  "VisitGetTenantsResponse sj (GetTenants200JSONResponse response) = visit_json 200 (encode_Tenants sj response)"
| "VisitGetTenantsResponse sj (GetTenants500JSONResponse response) = visit_json 500 (encode_Error sj response)"
| "VisitGetTenantsResponse sj (OtherGetTenantsResponse _ v) = v"

datatype CreateTenantResponseObject =
    CreateTenant201JSONResponse Tenant
  | CreateTenant400JSONResponse Error
  | CreateTenant403JSONResponse Error
  | CreateTenant500JSONResponse Error
  | OtherCreateTenantResponse string visit

fun VisitCreateTenantResponse :: "ServerJson \<Rightarrow> CreateTenantResponseObject \<Rightarrow> visit" where
  "VisitCreateTenantResponse sj (CreateTenant201JSONResponse response) = visit_json 201 (encode_Tenant sj response)"
| "VisitCreateTenantResponse sj (CreateTenant400JSONResponse response) = visit_json 400 (encode_Error sj response)"
| "VisitCreateTenantResponse sj (CreateTenant403JSONResponse response) = visit_json 403 (encode_Error sj response)"
| "VisitCreateTenantResponse sj (CreateTenant500JSONResponse response) = visit_json 500 (encode_Error sj response)"
| "VisitCreateTenantResponse sj (OtherCreateTenantResponse _ v) = v"

datatype ValidateTenantUniqueIdResponseObject =
    ValidateTenantUniqueId200JSONResponse Availability
  | ValidateTenantUniqueId400JSONResponse Error
  | ValidateTenantUniqueId500JSONResponse Error
  | OtherValidateTenantUniqueIdResponse string visit

fun VisitValidateTenantUniqueIdResponse :: "ServerJson \<Rightarrow> ValidateTenantUniqueIdResponseObject \<Rightarrow> visit" where
  "VisitValidateTenantUniqueIdResponse sj (ValidateTenantUniqueId200JSONResponse response) = visit_json 200 (encode_Availability sj response)"
| "VisitValidateTenantUniqueIdResponse sj (ValidateTenantUniqueId400JSONResponse response) = visit_json 400 (encode_Error sj response)"
| "VisitValidateTenantUniqueIdResponse sj (ValidateTenantUniqueId500JSONResponse response) = visit_json 500 (encode_Error sj response)"
| "VisitValidateTenantUniqueIdResponse sj (OtherValidateTenantUniqueIdResponse _ v) = v"

datatype DeleteTenantResponseObject =
    DeleteTenant204Response
  | DeleteTenant400JSONResponse Error
  | DeleteTenant403JSONResponse Error
  | DeleteTenant404JSONResponse Error
  | DeleteTenant500JSONResponse Error
  | OtherDeleteTenantResponse string visit

fun VisitDeleteTenantResponse :: "ServerJson \<Rightarrow> DeleteTenantResponseObject \<Rightarrow> visit" where
  "VisitDeleteTenantResponse sj DeleteTenant204Response = (\<lambda>w. (None, rw_WriteHeader 204 w))"
| "VisitDeleteTenantResponse sj (DeleteTenant400JSONResponse response) = visit_json 400 (encode_Error sj response)"
| "VisitDeleteTenantResponse sj (DeleteTenant403JSONResponse response) = visit_json 403 (encode_Error sj response)"
| "VisitDeleteTenantResponse sj (DeleteTenant404JSONResponse response) = visit_json 404 (encode_Error sj response)"
| "VisitDeleteTenantResponse sj (DeleteTenant500JSONResponse response) = visit_json 500 (encode_Error sj response)"
| "VisitDeleteTenantResponse sj (OtherDeleteTenantResponse _ v) = v"

datatype GetTenantKubeconfigResponseObject =
    GetTenantKubeconfig200JSONResponse KubeconfigBody
  | GetTenantKubeconfig400JSONResponse Error
  | GetTenantKubeconfig403JSONResponse Error
  | GetTenantKubeconfig404JSONResponse Error
  | GetTenantKubeconfig500JSONResponse Error
  | OtherGetTenantKubeconfigResponse string visit

fun VisitGetTenantKubeconfigResponse :: "ServerJson \<Rightarrow> GetTenantKubeconfigResponseObject \<Rightarrow> visit" where
  "VisitGetTenantKubeconfigResponse sj (GetTenantKubeconfig200JSONResponse response) = visit_json 200 (encode_KubeconfigBody sj response)"
| "VisitGetTenantKubeconfigResponse sj (GetTenantKubeconfig400JSONResponse response) = visit_json 400 (encode_Error sj response)"
| "VisitGetTenantKubeconfigResponse sj (GetTenantKubeconfig403JSONResponse response) = visit_json 403 (encode_Error sj response)"
| "VisitGetTenantKubeconfigResponse sj (GetTenantKubeconfig404JSONResponse response) = visit_json 404 (encode_Error sj response)"
| "VisitGetTenantKubeconfigResponse sj (GetTenantKubeconfig500JSONResponse response) = visit_json 500 (encode_Error sj response)"
| "VisitGetTenantKubeconfigResponse sj (OtherGetTenantKubeconfigResponse _ v) = v"

datatype ListTenantTokensResponseObject =
    ListTenantTokens200JSONResponse "BootstrapTokenListItem list option"
  | ListTenantTokens403JSONResponse Error
  | ListTenantTokens404JSONResponse Error
  | ListTenantTokens500JSONResponse Error
  | OtherListTenantTokensResponse string visit

fun VisitListTenantTokensResponse :: "ServerJson \<Rightarrow> ListTenantTokensResponseObject \<Rightarrow> visit" where
  "VisitListTenantTokensResponse sj (ListTenantTokens200JSONResponse response) = visit_json 200 (encode_Tokens sj response)"
| "VisitListTenantTokensResponse sj (ListTenantTokens403JSONResponse response) = visit_json 403 (encode_Error sj response)"
| "VisitListTenantTokensResponse sj (ListTenantTokens404JSONResponse response) = visit_json 404 (encode_Error sj response)"
| "VisitListTenantTokensResponse sj (ListTenantTokens500JSONResponse response) = visit_json 500 (encode_Error sj response)"
| "VisitListTenantTokensResponse sj (OtherListTenantTokensResponse _ v) = v"

datatype CreateTenantTokenResponseObject =
    CreateTenantToken201JSONResponse BootstrapTokenListItem
  | CreateTenantToken400JSONResponse Error
  | CreateTenantToken403JSONResponse Error
  | CreateTenantToken404JSONResponse Error
  | CreateTenantToken500JSONResponse Error
  | OtherCreateTenantTokenResponse string visit

fun VisitCreateTenantTokenResponse :: "ServerJson \<Rightarrow> CreateTenantTokenResponseObject \<Rightarrow> visit" where
  "VisitCreateTenantTokenResponse sj (CreateTenantToken201JSONResponse response) = visit_json 201 (encode_Token sj response)"
| "VisitCreateTenantTokenResponse sj (CreateTenantToken400JSONResponse response) = visit_json 400 (encode_Error sj response)"
| "VisitCreateTenantTokenResponse sj (CreateTenantToken403JSONResponse response) = visit_json 403 (encode_Error sj response)"
| "VisitCreateTenantTokenResponse sj (CreateTenantToken404JSONResponse response) = visit_json 404 (encode_Error sj response)"
| "VisitCreateTenantTokenResponse sj (CreateTenantToken500JSONResponse response) = visit_json 500 (encode_Error sj response)"
| "VisitCreateTenantTokenResponse sj (OtherCreateTenantTokenResponse _ v) = v"

section \<open>Request objects\<close>

datatype GetTenantsRequestObject = GetTenantsRequestObject

record CreateTenantRequestObject =
  ctq_Body :: "CreateTenantJSONRequestBody option"

record ValidateTenantUniqueIdRequestObject =
  vtq_UniqueID :: string

record DeleteTenantRequestObject =
  dtq_TenantId :: string

record GetTenantKubeconfigRequestObject =
  gkq_TenantId :: string

record ListTenantTokensRequestObject =
  ltq_TenantId :: string

record CreateTenantTokenRequestObject =
  tkq_TenantId :: string
  tkq_Body :: "CreateTenantTokenJSONRequestBody option"

section \<open>Dynamically typed values\<close>

datatype operation =
    OpGetTenants
  | OpCreateTenant
  | OpValidateTenantUniqueId
  | OpDeleteTenant
  | OpGetTenantKubeconfig
  | OpListTenantTokens
  | OpCreateTenantToken

fun operation_name :: "operation \<Rightarrow> string" where
  "operation_name OpGetTenants = ''GetTenants''"
| "operation_name OpCreateTenant = ''CreateTenant''"
| "operation_name OpValidateTenantUniqueId = ''ValidateTenantUniqueId''"
| "operation_name OpDeleteTenant = ''DeleteTenant''"
| "operation_name OpGetTenantKubeconfig = ''GetTenantKubeconfig''"
| "operation_name OpListTenantTokens = ''ListTenantTokens''"
| "operation_name OpCreateTenantToken = ''CreateTenantToken''"

datatype request_any =
    ReqGetTenants GetTenantsRequestObject
  | ReqCreateTenant CreateTenantRequestObject
  | ReqValidateTenantUniqueId ValidateTenantUniqueIdRequestObject
  | ReqDeleteTenant DeleteTenantRequestObject
  | ReqGetTenantKubeconfig GetTenantKubeconfigRequestObject
  | ReqListTenantTokens ListTenantTokensRequestObject
  | ReqCreateTenantToken CreateTenantTokenRequestObject
  | ReqOther string

datatype response_any =
    AnyGetTenants GetTenantsResponseObject
  | AnyCreateTenant CreateTenantResponseObject
  | AnyValidateTenantUniqueId ValidateTenantUniqueIdResponseObject
  | AnyDeleteTenant DeleteTenantResponseObject
  | AnyGetTenantKubeconfig GetTenantKubeconfigResponseObject
  | AnyListTenantTokens ListTenantTokensResponseObject
  | AnyCreateTenantToken CreateTenantTokenResponseObject
  | AnyOther string "operation \<Rightarrow> visit option"

text \<open>The type assertion on a response: the visit method of the operation, where the value has it.\<close>

fun response_visit :: "ServerJson \<Rightarrow> operation \<Rightarrow> response_any \<Rightarrow> visit option" where
  "response_visit sj oper (AnyGetTenants x) = (if oper = OpGetTenants then Some (VisitGetTenantsResponse sj x) else None)"
| "response_visit sj oper (AnyCreateTenant x) = (if oper = OpCreateTenant then Some (VisitCreateTenantResponse sj x) else None)"
| "response_visit sj oper (AnyValidateTenantUniqueId x) = (if oper = OpValidateTenantUniqueId then Some (VisitValidateTenantUniqueIdResponse sj x) else None)"
| "response_visit sj oper (AnyDeleteTenant x) = (if oper = OpDeleteTenant then Some (VisitDeleteTenantResponse sj x) else None)"
| "response_visit sj oper (AnyGetTenantKubeconfig x) = (if oper = OpGetTenantKubeconfig then Some (VisitGetTenantKubeconfigResponse sj x) else None)"
| "response_visit sj oper (AnyListTenantTokens x) = (if oper = OpListTenantTokens then Some (VisitListTenantTokensResponse sj x) else None)"
| "response_visit sj oper (AnyCreateTenantToken x) = (if oper = OpCreateTenantToken then Some (VisitCreateTenantTokenResponse sj x) else None)"
| "response_visit sj oper (AnyOther _ visits) = visits oper"

text \<open>The name \<^verbatim>\<open>%T\<close> prints.\<close>

fun response_type :: "response_any \<Rightarrow> string" where
  "response_type (AnyGetTenants (GetTenants200JSONResponse _)) = ''v1.GetTenants200JSONResponse''"
| "response_type (AnyGetTenants (GetTenants500JSONResponse _)) = ''v1.GetTenants500JSONResponse''"
| "response_type (AnyGetTenants (OtherGetTenantsResponse ty _)) = ty"
| "response_type (AnyCreateTenant (CreateTenant201JSONResponse _)) = ''v1.CreateTenant201JSONResponse''"
| "response_type (AnyCreateTenant (CreateTenant400JSONResponse _)) = ''v1.CreateTenant400JSONResponse''"
| "response_type (AnyCreateTenant (CreateTenant403JSONResponse _)) = ''v1.CreateTenant403JSONResponse''"
| "response_type (AnyCreateTenant (CreateTenant500JSONResponse _)) = ''v1.CreateTenant500JSONResponse''"
| "response_type (AnyCreateTenant (OtherCreateTenantResponse ty _)) = ty"
| "response_type (AnyValidateTenantUniqueId (ValidateTenantUniqueId200JSONResponse _)) = ''v1.ValidateTenantUniqueId200JSONResponse''"
| "response_type (AnyValidateTenantUniqueId (ValidateTenantUniqueId400JSONResponse _)) = ''v1.ValidateTenantUniqueId400JSONResponse''"
| "response_type (AnyValidateTenantUniqueId (ValidateTenantUniqueId500JSONResponse _)) = ''v1.ValidateTenantUniqueId500JSONResponse''"
| "response_type (AnyValidateTenantUniqueId (OtherValidateTenantUniqueIdResponse ty _)) = ty"
| "response_type (AnyDeleteTenant DeleteTenant204Response) = ''v1.DeleteTenant204Response''"
| "response_type (AnyDeleteTenant (DeleteTenant400JSONResponse _)) = ''v1.DeleteTenant400JSONResponse''"
| "response_type (AnyDeleteTenant (DeleteTenant403JSONResponse _)) = ''v1.DeleteTenant403JSONResponse''"
| "response_type (AnyDeleteTenant (DeleteTenant404JSONResponse _)) = ''v1.DeleteTenant404JSONResponse''"
| "response_type (AnyDeleteTenant (DeleteTenant500JSONResponse _)) = ''v1.DeleteTenant500JSONResponse''"
| "response_type (AnyDeleteTenant (OtherDeleteTenantResponse ty _)) = ty"
| "response_type (AnyGetTenantKubeconfig (GetTenantKubeconfig200JSONResponse _)) = ''v1.GetTenantKubeconfig200JSONResponse''"
| "response_type (AnyGetTenantKubeconfig (GetTenantKubeconfig400JSONResponse _)) = ''v1.GetTenantKubeconfig400JSONResponse''"
| "response_type (AnyGetTenantKubeconfig (GetTenantKubeconfig403JSONResponse _)) = ''v1.GetTenantKubeconfig403JSONResponse''"
| "response_type (AnyGetTenantKubeconfig (GetTenantKubeconfig404JSONResponse _)) = ''v1.GetTenantKubeconfig404JSONResponse''"
| "response_type (AnyGetTenantKubeconfig (GetTenantKubeconfig500JSONResponse _)) = ''v1.GetTenantKubeconfig500JSONResponse''"
| "response_type (AnyGetTenantKubeconfig (OtherGetTenantKubeconfigResponse ty _)) = ty"
| "response_type (AnyListTenantTokens (ListTenantTokens200JSONResponse _)) = ''v1.ListTenantTokens200JSONResponse''"
| "response_type (AnyListTenantTokens (ListTenantTokens403JSONResponse _)) = ''v1.ListTenantTokens403JSONResponse''"
| "response_type (AnyListTenantTokens (ListTenantTokens404JSONResponse _)) = ''v1.ListTenantTokens404JSONResponse''"
| "response_type (AnyListTenantTokens (ListTenantTokens500JSONResponse _)) = ''v1.ListTenantTokens500JSONResponse''"
| "response_type (AnyListTenantTokens (OtherListTenantTokensResponse ty _)) = ty"
| "response_type (AnyCreateTenantToken (CreateTenantToken201JSONResponse _)) = ''v1.CreateTenantToken201JSONResponse''"
| "response_type (AnyCreateTenantToken (CreateTenantToken400JSONResponse _)) = ''v1.CreateTenantToken400JSONResponse''"
| "response_type (AnyCreateTenantToken (CreateTenantToken403JSONResponse _)) = ''v1.CreateTenantToken403JSONResponse''"
| "response_type (AnyCreateTenantToken (CreateTenantToken404JSONResponse _)) = ''v1.CreateTenantToken404JSONResponse''"
| "response_type (AnyCreateTenantToken (CreateTenantToken500JSONResponse _)) = ''v1.CreateTenantToken500JSONResponse''"
| "response_type (AnyCreateTenantToken (OtherCreateTenantTokenResponse ty _)) = ty"
| "response_type (AnyOther ty _) = ty"

section \<open>The typed server and its handler\<close>

text \<open>
  A typed handler returns a response, which may be nil, and an error, which may be nil; both may
  be set.
\<close>

record 's StrictServerInterface =
  ssi_GetTenants :: "Context \<Rightarrow> GetTenantsRequestObject \<Rightarrow> ('s, GetTenantsResponseObject option \<times> error option) go"
  ssi_CreateTenant :: "Context \<Rightarrow> CreateTenantRequestObject \<Rightarrow> ('s, CreateTenantResponseObject option \<times> error option) go"
  ssi_ValidateTenantUniqueId :: "Context \<Rightarrow> ValidateTenantUniqueIdRequestObject \<Rightarrow> ('s, ValidateTenantUniqueIdResponseObject option \<times> error option) go"
  ssi_DeleteTenant :: "Context \<Rightarrow> DeleteTenantRequestObject \<Rightarrow> ('s, DeleteTenantResponseObject option \<times> error option) go"
  ssi_GetTenantKubeconfig :: "Context \<Rightarrow> GetTenantKubeconfigRequestObject \<Rightarrow> ('s, GetTenantKubeconfigResponseObject option \<times> error option) go"
  ssi_ListTenantTokens :: "Context \<Rightarrow> ListTenantTokensRequestObject \<Rightarrow> ('s, ListTenantTokensResponseObject option \<times> error option) go"
  ssi_CreateTenantToken :: "Context \<Rightarrow> CreateTenantTokenRequestObject \<Rightarrow> ('s, CreateTenantTokenResponseObject option \<times> error option) go"

type_synonym 's StrictHandlerFunc =
  "Context \<Rightarrow> ServerRequest \<Rightarrow> request_any \<Rightarrow> ('s serving, response_any option \<times> error option) go"

type_synonym 's StrictMiddlewareFunc = "'s StrictHandlerFunc \<Rightarrow> string \<Rightarrow> 's StrictHandlerFunc"

record 's StrictHTTPServerOptions =
  so_RequestErrorHandlerFunc :: "'s ErrorHandlerFunc option"
  so_ResponseErrorHandlerFunc :: "'s ErrorHandlerFunc option"

record 's strictHandler =
  sh_ssi :: "'s StrictServerInterface"
  sh_middlewares :: "'s StrictMiddlewareFunc list"
  sh_options :: "'s StrictHTTPServerOptions"

fun apply_strict_middlewares :: "'s StrictMiddlewareFunc list \<Rightarrow> string \<Rightarrow> 's StrictHandlerFunc \<Rightarrow> 's StrictHandlerFunc" where
  "apply_strict_middlewares [] name handler = handler"
| "apply_strict_middlewares (middleware # ms) name handler = apply_strict_middlewares ms name (middleware handler name)"

text \<open>The innermost handler: assert the request's type, call the implementation, forget the response's type.\<close>

definition typed_call ::
  "'q option \<Rightarrow> ('q \<Rightarrow> ('s, 'r option \<times> error option) go) \<Rightarrow> ('r \<Rightarrow> response_any) \<Rightarrow>
     ('s serving, response_any option \<times> error option) go"
where
  "typed_call request call inject =
     (case request of
        None \<Rightarrow> go_panic ''interface conversion''
      | Some q \<Rightarrow> go_bind (with_backend (call q)) (\<lambda>(response, err). go_return (map_option inject response, err)))"

text \<open>The end of every method: an error, a response of the expected type, another one, or nil.\<close>

definition strict_respond ::
  "ServerJson \<Rightarrow> 's strictHandler \<Rightarrow> operation \<Rightarrow> ServerRequest \<Rightarrow> response_any option \<times> error option \<Rightarrow>
     ('s serving, unit) go"
where
  "strict_respond sj sh oper r result =
     (let fail = call_error_handler (so_ResponseErrorHandlerFunc (sh_options sh)) r in
      case result of
        (_, Some err) \<Rightarrow> fail err
      | (None, None) \<Rightarrow> go_return ()
      | (Some response, None) \<Rightarrow>
          (case response_visit sj oper response of
             Some visit \<Rightarrow> go_bind (with_writer visit) (\<lambda>err. case err of Some e \<Rightarrow> fail e | None \<Rightarrow> go_return ())
           | None \<Rightarrow> fail (Errorf ''unexpected response type: %T'' [FmtS (response_type response)])))"

definition strict_run ::
  "ServerJson \<Rightarrow> 's strictHandler \<Rightarrow> operation \<Rightarrow> 's StrictHandlerFunc \<Rightarrow> request_any \<Rightarrow> 's HandlerFunc"
where
  "strict_run sj sh oper handler request r =
     go_bind (apply_strict_middlewares (sh_middlewares sh) (operation_name oper) handler (sv_Context r) r request)
       (strict_respond sj sh oper r)"

text \<open>Decoding a body: on failure the request error handler answers, with the error wrapped.\<close>

definition strict_body ::
  "'s strictHandler \<Rightarrow> (error + bytes \<Rightarrow> (error + 'b) \<times> (error + bytes)) \<Rightarrow> ('b \<Rightarrow> 's HandlerFunc) \<Rightarrow> 's HandlerFunc"
where
  "strict_body sh decode continue r =
     (case decode (sv_Body r) of
        (Inl err, rest) \<Rightarrow>
          call_error_handler (so_RequestErrorHandlerFunc (sh_options sh)) (r\<lparr>sv_Body := rest\<rparr>)
            (Wrapf ''can't decode JSON body: %w'' [] err)
      | (Inr body, rest) \<Rightarrow> continue body (r\<lparr>sv_Body := rest\<rparr>))"

fun as_GetTenants :: "request_any \<Rightarrow> GetTenantsRequestObject option" where
  "as_GetTenants (ReqGetTenants q) = Some q"
| "as_GetTenants _ = None"

fun as_CreateTenant :: "request_any \<Rightarrow> CreateTenantRequestObject option" where
  "as_CreateTenant (ReqCreateTenant q) = Some q"
| "as_CreateTenant _ = None"

fun as_ValidateTenantUniqueId :: "request_any \<Rightarrow> ValidateTenantUniqueIdRequestObject option" where
  "as_ValidateTenantUniqueId (ReqValidateTenantUniqueId q) = Some q"
| "as_ValidateTenantUniqueId _ = None"

fun as_DeleteTenant :: "request_any \<Rightarrow> DeleteTenantRequestObject option" where
  "as_DeleteTenant (ReqDeleteTenant q) = Some q"
| "as_DeleteTenant _ = None"

fun as_GetTenantKubeconfig :: "request_any \<Rightarrow> GetTenantKubeconfigRequestObject option" where
  "as_GetTenantKubeconfig (ReqGetTenantKubeconfig q) = Some q"
| "as_GetTenantKubeconfig _ = None"

fun as_ListTenantTokens :: "request_any \<Rightarrow> ListTenantTokensRequestObject option" where
  "as_ListTenantTokens (ReqListTenantTokens q) = Some q"
| "as_ListTenantTokens _ = None"

fun as_CreateTenantToken :: "request_any \<Rightarrow> CreateTenantTokenRequestObject option" where
  "as_CreateTenantToken (ReqCreateTenantToken q) = Some q"
| "as_CreateTenantToken _ = None"

definition strict_GetTenants :: "ServerJson \<Rightarrow> 's strictHandler \<Rightarrow> 's HandlerFunc" where
  "strict_GetTenants sj sh =
     strict_run sj sh OpGetTenants
       (\<lambda>ctx r request. typed_call (as_GetTenants request) (ssi_GetTenants (sh_ssi sh) ctx) AnyGetTenants)
       (ReqGetTenants GetTenantsRequestObject)"

definition strict_CreateTenant :: "ServerJson \<Rightarrow> 's strictHandler \<Rightarrow> 's HandlerFunc" where
  "strict_CreateTenant sj sh =
     strict_body sh (decode_CreateTenantRequest sj) (\<lambda>body. strict_run sj sh OpCreateTenant
       (\<lambda>ctx r request. typed_call (as_CreateTenant request) (ssi_CreateTenant (sh_ssi sh) ctx) AnyCreateTenant)
       (ReqCreateTenant \<lparr> ctq_Body = Some body \<rparr>))"

definition strict_ValidateTenantUniqueId :: "ServerJson \<Rightarrow> 's strictHandler \<Rightarrow> string \<Rightarrow> 's HandlerFunc" where
  "strict_ValidateTenantUniqueId sj sh uniqueID =
     strict_run sj sh OpValidateTenantUniqueId
       (\<lambda>ctx r request. typed_call (as_ValidateTenantUniqueId request) (ssi_ValidateTenantUniqueId (sh_ssi sh) ctx) AnyValidateTenantUniqueId)
       (ReqValidateTenantUniqueId \<lparr> vtq_UniqueID = uniqueID \<rparr>)"

definition strict_DeleteTenant :: "ServerJson \<Rightarrow> 's strictHandler \<Rightarrow> string \<Rightarrow> 's HandlerFunc" where
  "strict_DeleteTenant sj sh tenantId =
     strict_run sj sh OpDeleteTenant
       (\<lambda>ctx r request. typed_call (as_DeleteTenant request) (ssi_DeleteTenant (sh_ssi sh) ctx) AnyDeleteTenant)
       (ReqDeleteTenant \<lparr> dtq_TenantId = tenantId \<rparr>)"

definition strict_GetTenantKubeconfig :: "ServerJson \<Rightarrow> 's strictHandler \<Rightarrow> string \<Rightarrow> 's HandlerFunc" where
  "strict_GetTenantKubeconfig sj sh tenantId =
     strict_run sj sh OpGetTenantKubeconfig
       (\<lambda>ctx r request. typed_call (as_GetTenantKubeconfig request) (ssi_GetTenantKubeconfig (sh_ssi sh) ctx) AnyGetTenantKubeconfig)
       (ReqGetTenantKubeconfig \<lparr> gkq_TenantId = tenantId \<rparr>)"

definition strict_ListTenantTokens :: "ServerJson \<Rightarrow> 's strictHandler \<Rightarrow> string \<Rightarrow> 's HandlerFunc" where
  "strict_ListTenantTokens sj sh tenantId =
     strict_run sj sh OpListTenantTokens
       (\<lambda>ctx r request. typed_call (as_ListTenantTokens request) (ssi_ListTenantTokens (sh_ssi sh) ctx) AnyListTenantTokens)
       (ReqListTenantTokens \<lparr> ltq_TenantId = tenantId \<rparr>)"

definition strict_CreateTenantToken :: "ServerJson \<Rightarrow> 's strictHandler \<Rightarrow> string \<Rightarrow> 's HandlerFunc" where
  "strict_CreateTenantToken sj sh tenantId =
     strict_body sh (decode_CreateTokenRequest sj) (\<lambda>body. strict_run sj sh OpCreateTenantToken
       (\<lambda>ctx r request. typed_call (as_CreateTenantToken request) (ssi_CreateTenantToken (sh_ssi sh) ctx) AnyCreateTenantToken)
       (ReqCreateTenantToken \<lparr> tkq_TenantId = tenantId, tkq_Body = Some body \<rparr>))"

definition strict_interface :: "ServerJson \<Rightarrow> 's strictHandler \<Rightarrow> 's ServerInterface" where
  "strict_interface sj sh = \<lparr>
     si_GetTenants = strict_GetTenants sj sh,
     si_CreateTenant = strict_CreateTenant sj sh,
     si_ValidateTenantUniqueId = strict_ValidateTenantUniqueId sj sh,
     si_DeleteTenant = strict_DeleteTenant sj sh,
     si_GetTenantKubeconfig = strict_GetTenantKubeconfig sj sh,
     si_ListTenantTokens = strict_ListTenantTokens sj sh,
     si_CreateTenantToken = strict_CreateTenantToken sj sh \<rparr>"

definition NewStrictHandlerWithOptions ::
  "ServerJson \<Rightarrow> 's StrictServerInterface \<Rightarrow> 's StrictMiddlewareFunc list \<Rightarrow> 's StrictHTTPServerOptions \<Rightarrow> 's ServerInterface"
where
  "NewStrictHandlerWithOptions sj ssi middlewares options =
     strict_interface sj \<lparr> sh_ssi = ssi, sh_middlewares = middlewares, sh_options = options \<rparr>"

definition NewStrictHandler ::
  "ServerJson \<Rightarrow> (string \<Rightarrow> string) \<Rightarrow> 's StrictServerInterface \<Rightarrow> 's StrictMiddlewareFunc list \<Rightarrow> 's ServerInterface"
where
  "NewStrictHandler sj quote ssi middlewares =
     NewStrictHandlerWithOptions sj ssi middlewares
       \<lparr> so_RequestErrorHandlerFunc = Some (error_handler quote 400),
         so_ResponseErrorHandlerFunc = Some (error_handler quote 500) \<rparr>"

end
