(* ===== verification/Gen_Json.thy ===== *)
theory Gen_Json
  imports Go_Time Gen_Strict
begin

text \<open>
  How Go's reflection-based codec encodes and decodes the data types of the generated API: the
  struct tags as lists of fields, \<^verbatim>\<open>omitempty\<close> pointers, maps with sorted keys, times, and the
  instances \<open>go_json\<close> and \<open>go_server_json\<close> of the two codec records. Decoding follows the library:
  members in the order of the input into a zero value, exact names before case-insensitive ones,
  unknown members ignored, null leaving a value as it is and making a pointer nil. What the library
  writes into a destination before it fails is not modelled, as every caller drops it, and neither
  is the text of its errors.
\<close>

section \<open>Decoders\<close>

type_synonym 'a decoder = "json \<Rightarrow> 'a \<Rightarrow> 'a option"

fun dec_string :: "string decoder" where
  "dec_string (JStr raw) old = Some (json_text raw)"
| "dec_string JNull old = Some old"
| "dec_string _ old = None"

fun dec_bool :: "bool decoder" where
  "dec_bool (JBool b) old = Some b"
| "dec_bool JNull old = Some old"
| "dec_bool _ old = None"

fun dec_time :: "Time decoder" where
  "dec_time (JStr raw) old = parse_time raw"
| "dec_time JNull old = Some old"
| "dec_time _ old = None"

text \<open>An integer literal without fraction or exponent, within 64 bits.\<close>

definition parse_int :: "string \<Rightarrow> int option" where
  "parse_int s =
     (let neg = (take 1 s = ''-''); ds = (if neg then drop 1 s else s);
          i = (if neg then - int (dec_value ds) else int (dec_value ds)) in
      if ds \<noteq> [] \<and> list_all is_dig ds \<and> - (2 ^ 63) \<le> i \<and> i < 2 ^ 63 then Some i else None)"

fun dec_int :: "int decoder" where
  "dec_int (JNum n) old = parse_int n"
| "dec_int JNull old = Some old"
| "dec_int _ old = None"

fun dec_goint :: "goint decoder" where
  "dec_goint (JNum n) old = map_option word_of_int (parse_int n)"
| "dec_goint JNull old = Some old"
| "dec_goint _ old = None"

fun dec_ptr :: "'a \<Rightarrow> 'a decoder \<Rightarrow> 'a option decoder" where
  "dec_ptr zero dec JNull old = Some None"
| "dec_ptr zero dec j old = map_option Some (dec j (case old of None \<Rightarrow> zero | Some x \<Rightarrow> x))"

fun dec_items :: "'a \<Rightarrow> 'a decoder \<Rightarrow> json list \<Rightarrow> 'a list option" where
  "dec_items zero dec [] = Some []"
| "dec_items zero dec (j # js) =
     (case dec j zero of None \<Rightarrow> None | Some x \<Rightarrow> map_option (\<lambda>xs. x # xs) (dec_items zero dec js))"

fun dec_slice :: "'a \<Rightarrow> 'a decoder \<Rightarrow> 'a list decoder" where
  "dec_slice zero dec (JArr js) old = dec_items zero dec js"
| "dec_slice zero dec JNull old = Some []"
| "dec_slice zero dec _ old = None"

text \<open>A map from strings to strings is the list of its entries, sorted by key.\<close>

fun str_less :: "string \<Rightarrow> string \<Rightarrow> bool" where
  "str_less [] [] = False"
| "str_less [] (d # t) = True"
| "str_less (c # s) [] = False"
| "str_less (c # s) (d # t) = (code c < code d \<or> c = d \<and> str_less s t)"

fun put :: "string \<Rightarrow> string \<Rightarrow> (string \<times> string) list \<Rightarrow> (string \<times> string) list" where
  "put k v [] = [(k, v)]"
| "put k v ((l, w) # kvs) =
     (if k = l then (k, v) # kvs
      else if str_less k l then (k, v) # (l, w) # kvs
      else (l, w) # put k v kvs)"

fun dec_entries :: "(string \<times> json) list \<Rightarrow> (string \<times> string) list \<Rightarrow> (string \<times> string) list option" where
  "dec_entries [] m = Some m"
| "dec_entries ((k, j) # kvs) m =
     (case dec_string j '''' of None \<Rightarrow> None | Some v \<Rightarrow> dec_entries kvs (put k v m))"

fun dec_map :: "(string \<times> string) list decoder" where
  "dec_map (JObj kvs) old = dec_entries kvs old"
| "dec_map JNull old = Some []"
| "dec_map _ old = None"

text \<open>
  Names that differ in case only match, with the two non-ASCII characters that fold to ASCII
  letters, the Kelvin sign and the long s.
\<close>

fun fold_name :: "string \<Rightarrow> string" where
  "fold_name [] = []"
| "fold_name (c # s) =
     (if c = CHR 0xE2 \<and> take 2 s = [CHR 0x84, CHR 0xAA] then CHR ''K'' # fold_name (drop 2 s)
      else if c = CHR 0xC5 \<and> take 1 s = [CHR 0xBF] then CHR ''S'' # fold_name (drop 1 s)
      else char_upper c # fold_name s)"

type_synonym 's fields = "(string \<times> 's decoder) list"

definition find_field :: "'s fields \<Rightarrow> string \<Rightarrow> 's decoder option" where
  "find_field fs key =
     (case map_of fs key of
        Some dec \<Rightarrow> Some dec
      | None \<Rightarrow> map_option snd (find (\<lambda>f. fold_name (fst f) = fold_name key) fs))"

fun dec_members :: "'s fields \<Rightarrow> (string \<times> json) list \<Rightarrow> 's \<Rightarrow> 's option" where
  "dec_members fs [] s = Some s"
| "dec_members fs ((k, j) # kvs) s =
     (case find_field fs k of
        None \<Rightarrow> dec_members fs kvs s
      | Some dec \<Rightarrow> (case dec j s of None \<Rightarrow> None | Some s' \<Rightarrow> dec_members fs kvs s'))"

fun dec_struct :: "'s fields \<Rightarrow> 's decoder" where
  "dec_struct fs (JObj kvs) s = dec_members fs kvs s"
| "dec_struct fs JNull s = Some s"
| "dec_struct fs _ s = None"

definition field :: "('s \<Rightarrow> 'a) \<Rightarrow> ('a \<Rightarrow> 's \<Rightarrow> 's) \<Rightarrow> 'a decoder \<Rightarrow> 's decoder" where
  "field get upd dec j s = map_option (\<lambda>x. upd x s) (dec j (get s))"

section \<open>Fields of the data types\<close>

definition token_fields :: "BootstrapTokenListItem fields" where
  "token_fields =
     [(''createdAt'', field btl_CreatedAt (\<lambda>x. btl_CreatedAt_update (\<lambda>_. x)) dec_time),
      (''expiresAt'', field btl_ExpiresAt (\<lambda>x. btl_ExpiresAt_update (\<lambda>_. x)) dec_time),
      (''id'', field btl_Id (\<lambda>x. btl_Id_update (\<lambda>_. x)) dec_string),
      (''name'', field btl_Name (\<lambda>x. btl_Name_update (\<lambda>_. x)) dec_string),
      (''secret'', field btl_Secret (\<lambda>x. btl_Secret_update (\<lambda>_. x)) dec_string)]"

definition create_tenant_fields :: "CreateTenantRequest fields" where
  "create_tenant_fields =
     [(''description'', field ctr_Description (\<lambda>x. ctr_Description_update (\<lambda>_. x)) (dec_ptr '''' dec_string)),
      (''kubernetesVersion'', field ctr_KubernetesVersion (\<lambda>x. ctr_KubernetesVersion_update (\<lambda>_. x)) (dec_ptr '''' dec_string)),
      (''labels'', field ctr_Labels (\<lambda>x. ctr_Labels_update (\<lambda>_. x)) (dec_ptr [] dec_map)),
      (''name'', field ctr_Name (\<lambda>x. ctr_Name_update (\<lambda>_. x)) dec_string),
      (''replicas'', field ctr_Replicas (\<lambda>x. ctr_Replicas_update (\<lambda>_. x)) (dec_ptr 0 dec_goint)),
      (''subdomain'', field ctr_Subdomain (\<lambda>x. ctr_Subdomain_update (\<lambda>_. x)) (dec_ptr '''' dec_string)),
      (''uniqueId'', field ctr_UniqueId (\<lambda>x. ctr_UniqueId_update (\<lambda>_. x)) dec_string)]"

definition create_token_fields :: "CreateTokenRequest fields" where
  "create_token_fields = [(''ttl'', field ctk_Ttl (\<lambda>x. ctk_Ttl_update (\<lambda>_. x)) dec_string)]"

definition error_item_fields :: "ErrorItem fields" where
  "error_item_fields =
     [(''code'', field ei_Code (\<lambda>x. ei_Code_update (\<lambda>_. x)) (dec_ptr '''' dec_string)),
      (''field'', field ei_Field (\<lambda>x. ei_Field_update (\<lambda>_. x)) dec_string),
      (''message'', field ei_Message (\<lambda>x. ei_Message_update (\<lambda>_. x)) dec_string)]"

definition zero_error_item :: ErrorItem where
  "zero_error_item = \<lparr> ei_Code = None, ei_Field = '''', ei_Message = '''' \<rparr>"

definition error_fields :: "Error fields" where
  "error_fields =
     [(''detail'', field er_Detail (\<lambda>x. er_Detail_update (\<lambda>_. x)) (dec_ptr '''' dec_string)),
      (''errors'', field er_Errors (\<lambda>x. er_Errors_update (\<lambda>_. x))
         (dec_ptr [] (dec_slice zero_error_item (dec_struct error_item_fields)))),
      (''instance'', field er_Instance (\<lambda>x. er_Instance_update (\<lambda>_. x)) (dec_ptr '''' dec_string)),
      (''status'', field er_Status (\<lambda>x. er_Status_update (\<lambda>_. x)) dec_int),
      (''title'', field er_Title (\<lambda>x. er_Title_update (\<lambda>_. x)) dec_string),
      (''type'', field er_Type (\<lambda>x. er_Type_update (\<lambda>_. x)) dec_string)]"

definition tenant_fields :: "Tenant fields" where
  "tenant_fields =
     [(''createdAt'', field tn_CreatedAt (\<lambda>x. tn_CreatedAt_update (\<lambda>_. x)) dec_time),
      (''description'', field tn_Description (\<lambda>x. tn_Description_update (\<lambda>_. x)) (dec_ptr '''' dec_string)),
      (''hash'', field tn_Hash (\<lambda>x. tn_Hash_update (\<lambda>_. x)) dec_string),
      (''hostname'', field tn_Hostname (\<lambda>x. tn_Hostname_update (\<lambda>_. x)) (dec_ptr '''' dec_string)),
      (''id'', field tn_Id (\<lambda>x. tn_Id_update (\<lambda>_. x)) dec_string),
      (''kubernetesVersion'', field tn_KubernetesVersion (\<lambda>x. tn_KubernetesVersion_update (\<lambda>_. x)) (dec_ptr '''' dec_string)),
      (''labels'', field tn_Labels (\<lambda>x. tn_Labels_update (\<lambda>_. x)) (dec_ptr [] dec_map)),
      (''name'', field tn_Name (\<lambda>x. tn_Name_update (\<lambda>_. x)) dec_string),
      (''owner'', field tn_Owner (\<lambda>x. tn_Owner_update (\<lambda>_. x)) dec_string),
      (''replicas'', field tn_Replicas (\<lambda>x. tn_Replicas_update (\<lambda>_. x)) (dec_ptr 0 dec_goint)),
      (''subdomain'', field tn_Subdomain (\<lambda>x. tn_Subdomain_update (\<lambda>_. x)) (dec_ptr '''' dec_string)),
      (''updatedAt'', field tn_UpdatedAt (\<lambda>x. tn_UpdatedAt_update (\<lambda>_. x)) (dec_ptr 0 dec_time))]"

definition availability_fields :: "Availability fields" where
  "availability_fields = [(''available'', field av_Available (\<lambda>x. av_Available_update (\<lambda>_. x)) dec_bool)]"

definition kubeconfig_fields :: "KubeconfigBody fields" where
  "kubeconfig_fields = [(''kubeconfig'', field kb_Kubeconfig (\<lambda>x. kb_Kubeconfig_update (\<lambda>_. x)) dec_string)]"

section \<open>Encoders\<close>

text \<open>A member of a struct, and one that is left out when its pointer is nil.\<close>

definition string_json :: "string \<Rightarrow> json" where
  "string_json s = JStr (json_escape s)"

definition int_json :: "int \<Rightarrow> json" where
  "int_json i = JNum (fmt_decimal i)"

definition time_json :: "Time \<Rightarrow> json" where
  "time_json t = JStr (case format_time t of Some s \<Rightarrow> s | None \<Rightarrow> [])"

definition time_ok :: "Time \<Rightarrow> bool" where
  "time_ok t \<longleftrightarrow> format_time t \<noteq> None"

definition map_json :: "(string \<times> string) list \<Rightarrow> json" where
  "map_json m = JObj (map (\<lambda>(k, v). (k, string_json v)) m)"

fun opt_member :: "string \<Rightarrow> ('a \<Rightarrow> json) \<Rightarrow> 'a option \<Rightarrow> (string \<times> json) list" where
  "opt_member name enc None = []"
| "opt_member name enc (Some x) = [(name, enc x)]"

definition member :: "string \<Rightarrow> json \<Rightarrow> (string \<times> json) list" where
  "member name j = [(name, j)]"

definition token_json :: "BootstrapTokenListItem \<Rightarrow> json" where
  "token_json t = JObj (member ''createdAt'' (time_json (btl_CreatedAt t)) @ member ''expiresAt'' (time_json (btl_ExpiresAt t))
     @ member ''id'' (string_json (btl_Id t)) @ member ''name'' (string_json (btl_Name t))
     @ member ''secret'' (string_json (btl_Secret t)))"

definition create_tenant_json :: "CreateTenantRequest \<Rightarrow> json" where
  "create_tenant_json r = JObj (opt_member ''description'' string_json (ctr_Description r)
     @ opt_member ''kubernetesVersion'' string_json (ctr_KubernetesVersion r) @ opt_member ''labels'' map_json (ctr_Labels r)
     @ member ''name'' (string_json (ctr_Name r)) @ opt_member ''replicas'' (\<lambda>n. int_json (sint n)) (ctr_Replicas r)
     @ opt_member ''subdomain'' string_json (ctr_Subdomain r) @ member ''uniqueId'' (string_json (ctr_UniqueId r)))"

definition create_token_json :: "CreateTokenRequest \<Rightarrow> json" where
  "create_token_json r = JObj (member ''ttl'' (string_json (ctk_Ttl r)))"

definition error_item_json :: "ErrorItem \<Rightarrow> json" where
  "error_item_json e = JObj (opt_member ''code'' string_json (ei_Code e) @ member ''field'' (string_json (ei_Field e))
     @ member ''message'' (string_json (ei_Message e)))"

definition error_json :: "Error \<Rightarrow> json" where
  "error_json e = JObj (opt_member ''detail'' string_json (er_Detail e)
     @ opt_member ''errors'' (\<lambda>es. JArr (map error_item_json es)) (er_Errors e)
     @ opt_member ''instance'' string_json (er_Instance e) @ member ''status'' (int_json (er_Status e))
     @ member ''title'' (string_json (er_Title e)) @ member ''type'' (string_json (er_Type e)))"

definition tenant_json :: "Tenant \<Rightarrow> json" where
  "tenant_json t = JObj (member ''createdAt'' (time_json (tn_CreatedAt t))
     @ opt_member ''description'' string_json (tn_Description t) @ member ''hash'' (string_json (tn_Hash t))
     @ opt_member ''hostname'' string_json (tn_Hostname t) @ member ''id'' (string_json (tn_Id t))
     @ opt_member ''kubernetesVersion'' string_json (tn_KubernetesVersion t) @ opt_member ''labels'' map_json (tn_Labels t)
     @ member ''name'' (string_json (tn_Name t)) @ member ''owner'' (string_json (tn_Owner t))
     @ opt_member ''replicas'' (\<lambda>n. int_json (sint n)) (tn_Replicas t) @ opt_member ''subdomain'' string_json (tn_Subdomain t)
     @ opt_member ''updatedAt'' time_json (tn_UpdatedAt t))"

definition availability_json :: "Availability \<Rightarrow> json" where
  "availability_json a = JObj (member ''available'' (JBool (av_Available a)))"

definition kubeconfig_json :: "KubeconfigBody \<Rightarrow> json" where
  "kubeconfig_json k = JObj (member ''kubeconfig'' (string_json (kb_Kubeconfig k)))"

fun slice_json :: "('a \<Rightarrow> json) \<Rightarrow> 'a list option \<Rightarrow> json" where
  "slice_json enc None = JNull"
| "slice_json enc (Some xs) = JArr (map enc xs)"

section \<open>The codec\<close>

definition time_error :: error where
  "time_error = ForeignError ''json: error calling MarshalJSON for type time.Time: year outside of range [0,9999]''"

definition json_error :: error where
  "json_error = ForeignError ''json: cannot unmarshal''"

text \<open>Encoding fails on a time that has no representation, decoding on a syntax error or a type that does not fit.\<close>

definition marshal :: "('a \<Rightarrow> bool) \<Rightarrow> ('a \<Rightarrow> json) \<Rightarrow> 'a \<Rightarrow> error + bytes" where
  "marshal times_ok enc x = (if times_ok x then Inr (json_print (enc x)) else Inl time_error)"

definition unmarshal :: "'a \<Rightarrow> 'a decoder \<Rightarrow> bytes \<Rightarrow> error + 'a" where
  "unmarshal zero dec bs =
     (case json_parse bs of
        None \<Rightarrow> Inl json_error
      | Some j \<Rightarrow> (case dec j zero of None \<Rightarrow> Inl json_error | Some x \<Rightarrow> Inr x))"

text \<open>
  A stream decoder reads one value and leaves the rest of what it has buffered to itself; here the
  whole body has been read.
\<close>

definition stream_decode :: "'a \<Rightarrow> 'a decoder \<Rightarrow> error + bytes \<Rightarrow> (error + 'a) \<times> (error + bytes)" where
  "stream_decode zero dec body =
     (case body of
        Inl err \<Rightarrow> (Inl err, body)
      | Inr bs \<Rightarrow>
          (case read_value 10000 (skip bs) of
             None \<Rightarrow> (Inl json_error, Inr [])
           | Some (j, _) \<Rightarrow> ((case dec j zero of None \<Rightarrow> Inl json_error | Some x \<Rightarrow> Inr x), Inr [])))"

definition zero_token :: BootstrapTokenListItem where
  "zero_token = \<lparr> btl_CreatedAt = 0, btl_ExpiresAt = 0, btl_Id = '''', btl_Name = '''', btl_Secret = '''' \<rparr>"

definition zero_create_tenant :: CreateTenantRequest where
  "zero_create_tenant = \<lparr> ctr_Description = None, ctr_KubernetesVersion = None, ctr_Labels = None, ctr_Name = '''',
     ctr_Replicas = None, ctr_Subdomain = None, ctr_UniqueId = '''' \<rparr>"

definition zero_error :: Error where
  "zero_error = \<lparr> er_Detail = None, er_Errors = None, er_Instance = None, er_Status = 0, er_Title = '''', er_Type = '''' \<rparr>"

definition zero_tenant :: Tenant where
  "zero_tenant = \<lparr> tn_CreatedAt = 0, tn_Description = None, tn_Hash = '''', tn_Hostname = None, tn_Id = '''',
     tn_KubernetesVersion = None, tn_Labels = None, tn_Name = '''', tn_Owner = '''', tn_Replicas = None, tn_Subdomain = None,
     tn_UpdatedAt = None \<rparr>"

definition token_times :: "BootstrapTokenListItem \<Rightarrow> bool" where
  "token_times t \<longleftrightarrow> time_ok (btl_CreatedAt t) \<and> time_ok (btl_ExpiresAt t)"

definition tenant_times :: "Tenant \<Rightarrow> bool" where
  "tenant_times t \<longleftrightarrow> time_ok (tn_CreatedAt t) \<and> (case tn_UpdatedAt t of None \<Rightarrow> True | Some u \<Rightarrow> time_ok u)"

definition all_items :: "('a \<Rightarrow> bool) \<Rightarrow> 'a list option \<Rightarrow> bool" where
  "all_items p xs = (case xs of None \<Rightarrow> True | Some ys \<Rightarrow> list_all p ys)"

definition go_json :: Json where
  "go_json = \<lparr>
     marshal_CreateTenantRequest = marshal (\<lambda>_. True) create_tenant_json,
     marshal_CreateTokenRequest = marshal (\<lambda>_. True) create_token_json,
     unmarshal_Tenants = unmarshal [] (dec_slice zero_tenant (dec_struct tenant_fields)),
     unmarshal_Tenant = unmarshal zero_tenant (dec_struct tenant_fields),
     unmarshal_Error = unmarshal zero_error (dec_struct error_fields),
     unmarshal_Availability = unmarshal \<lparr> av_Available = False \<rparr> (dec_struct availability_fields),
     unmarshal_KubeconfigBody = unmarshal \<lparr> kb_Kubeconfig = '''' \<rparr> (dec_struct kubeconfig_fields),
     unmarshal_Tokens = unmarshal [] (dec_slice zero_token (dec_struct token_fields)),
     unmarshal_Token = unmarshal zero_token (dec_struct token_fields) \<rparr>"

definition go_server_json :: ServerJson where
  "go_server_json = \<lparr>
     encode_Tenants = marshal (all_items tenant_times) (slice_json tenant_json),
     encode_Tenant = marshal tenant_times tenant_json,
     encode_Error = marshal (\<lambda>_. True) error_json,
     encode_Availability = marshal (\<lambda>_. True) availability_json,
     encode_KubeconfigBody = marshal (\<lambda>_. True) kubeconfig_json,
     encode_Tokens = marshal (all_items token_times) (slice_json token_json),
     encode_Token = marshal token_times token_json,
     decode_CreateTenantRequest = stream_decode zero_create_tenant (dec_struct create_tenant_fields),
     decode_CreateTokenRequest = stream_decode \<lparr> ctk_Ttl = '''' \<rparr> (dec_struct create_token_fields) \<rparr>"

end
