(* ===== verification/Gen_Json_Laws.thy ===== *)
theory Gen_Json_Laws
  imports Gen_Json
begin

text \<open>
  Round trips of the JSON codec: for every type of the API, a well-formed value that was encoded
  decodes to itself. Well-formed means that strings are UTF-8, numbers fit into 64 bits, times
  have a year of four digits and the entries of a map are sorted. The laws are the locale
  \<open>json_codec\<close>, interpreted on each type.
\<close>

section \<open>Scalars\<close>

lemma dec_string_json [simp]: "utf8_valid s \<Longrightarrow> dec_string (string_json s) old = Some s"
  by (simp add: string_json_def json_text_escape)

lemma dec_time_json [simp]: "time_ok t \<Longrightarrow> dec_time (time_json t) old = Some t"
  by (auto simp: time_json_def time_ok_def parse_format_time)

lemma dec_value_digits_of: "dec_value (digits_of n) = n"
proof (induction n rule: digits_of.induct)
  case (1 n)
  then show ?case by (subst digits_of.simps) (auto simp: dec_value_snoc, simp add: dec_value.simps)
qed

definition int64 :: "int \<Rightarrow> bool" where
  "int64 i \<longleftrightarrow> - (2 ^ 63) \<le> i \<and> i < 2 ^ 63"

lemma parse_int_decimal: "int64 i \<Longrightarrow> parse_int (fmt_decimal i) = Some i"
proof -
  assume i: "int64 i"
  have ds: "list_all is_dig (digits_of n)" "digits_of n \<noteq> []" "take 1 (digits_of n) \<noteq> ''-''" for n
    using digits_of_digits digits_of_hd [of n] by (auto simp: is_dig_def btw_def)
  show ?thesis
    using i ds by (auto simp: parse_int_def fmt_decimal_def int64_def dec_value_digits_of Let_def)
qed

lemma dec_int_json [simp]: "int64 i \<Longrightarrow> dec_int (int_json i) old = Some i"
  by (simp add: int_json_def parse_int_decimal)

lemma dec_goint_json [simp]: "dec_goint (int_json (sint w)) old = Some w" for w :: goint
proof -
  have "int64 (sint w)" using sint_ge [of w] sint_lt [of w] by (simp add: int64_def)
  then show ?thesis by (simp add: int_json_def parse_int_decimal)
qed

lemma time_ok_iff: "time_ok t \<longleftrightarrow> -366 \<le> t div day_ns \<and> t div day_ns < days_before_year 10000"
  by (auto simp: time_ok_def format_time_def Let_def)

section \<open>Maps\<close>

lemma str_less_asym: "str_less s t \<Longrightarrow> s \<noteq> t \<and> \<not> str_less t s"
  by (induction s t rule: str_less.induct) auto

fun keys_sorted :: "(string \<times> string) list \<Rightarrow> bool" where
  "keys_sorted [] = True"
| "keys_sorted ((k, v) # m) = (list_all (\<lambda>(l, _). str_less k l) m \<and> keys_sorted m)"

definition labels_ok :: "(string \<times> string) list \<Rightarrow> bool" where
  "labels_ok m \<longleftrightarrow> keys_sorted m \<and> list_all (\<lambda>(k, v). utf8_valid k \<and> utf8_valid v) m"

lemma put_last: "list_all (\<lambda>(l, _). str_less l k) m \<Longrightarrow> put k v m = m @ [(k, v)]"
  by (induction m) (auto dest: str_less_asym)

lemma keys_sorted_append:
  "keys_sorted (m @ n) \<Longrightarrow> keys_sorted n \<and> list_all (\<lambda>(k, _). list_all (\<lambda>(l, _). str_less k l) n) m"
  by (induction m) auto

lemma dec_entries_json:
  assumes "keys_sorted (m @ n)" and "list_all (\<lambda>(k, v). utf8_valid v) n"
  shows "dec_entries (map (\<lambda>(k, v). (k, string_json v)) n) m = Some (m @ n)"
  using assms
proof (induction n arbitrary: m)
  case (Cons kv n)
  obtain k v where kv: "kv = (k, v)" by fastforce
  have "list_all (\<lambda>(l, _). str_less l k) m"
    using keys_sorted_append [OF Cons.prems(1)] kv by (auto simp: list_all_iff)
  then have "put k v m = m @ [kv]" by (simp add: put_last kv)
  then show ?case using Cons kv by simp
qed simp

lemma dec_map_json: "labels_ok m \<Longrightarrow> dec_map (map_json m) [] = Some m"
  using dec_entries_json [of "[]" m] by (auto simp: map_json_def labels_ok_def list_all_iff)

section \<open>Members\<close>

lemma dec_members_member:
  assumes "find_field fs n = Some (field get upd dec)" and "dec j (get s) = Some x"
  shows "dec_members fs (member n j @ rest) s = dec_members fs rest (upd x s)"
  using assms by (simp add: member_def field_def)

lemma dec_members_opt:
  assumes "find_field fs n = Some (field get upd (dec_ptr z dec))" and "get s = None" and "upd None s = s"
    and "\<And>y. x = Some y \<Longrightarrow> enc y \<noteq> JNull \<and> dec (enc y) z = Some y"
  shows "dec_members fs (opt_member n enc x @ rest) s = dec_members fs rest (upd x s)"
proof (cases x)
  case (Some y)
  then have "dec_ptr z dec (enc y) None = Some (Some y)" using assms(4) by (cases "enc y") simp_all
  then show ?thesis using Some assms(1,2) by (simp add: field_def)
qed (simp add: assms(3))

lemma json_not_null [simp]:
  "string_json s \<noteq> JNull" "int_json i \<noteq> JNull" "time_json t \<noteq> JNull" "map_json m \<noteq> JNull"
  by (simp_all add: string_json_def int_json_def time_json_def map_json_def)

definition opt_ok :: "('a \<Rightarrow> bool) \<Rightarrow> 'a option \<Rightarrow> bool" where
  "opt_ok p x = (case x of None \<Rightarrow> True | Some y \<Rightarrow> p y)"

lemma opt_ok_simps [simp]: "opt_ok p None" "opt_ok p (Some y) = p y"
  by (simp_all add: opt_ok_def)

text \<open>One rule per kind of field, with the decoder that the field has.\<close>

lemma member_string:
  assumes "find_field fs n = Some (field get upd dec_string)" and "utf8_valid v"
  shows "dec_members fs (member n (string_json v) @ rest) s = dec_members fs rest (upd v s)"
  by (rule dec_members_member [OF assms(1)]) (simp add: assms(2))

lemma member_time:
  assumes "find_field fs n = Some (field get upd dec_time)" and "time_ok v"
  shows "dec_members fs (member n (time_json v) @ rest) s = dec_members fs rest (upd v s)"
  by (rule dec_members_member [OF assms(1)]) (simp add: assms(2))

lemma member_int:
  assumes "find_field fs n = Some (field get upd dec_int)" and "int64 v"
  shows "dec_members fs (member n (int_json v) @ rest) s = dec_members fs rest (upd v s)"
  by (rule dec_members_member [OF assms(1)]) (simp add: assms(2))

lemma member_bool:
  assumes "find_field fs n = Some (field get upd dec_bool)"
  shows "dec_members fs (member n (JBool v) @ rest) s = dec_members fs rest (upd v s)"
  by (rule dec_members_member [OF assms(1)]) simp

lemma opt_string:
  assumes "find_field fs n = Some (field get upd (dec_ptr '''' dec_string))"
    and "opt_ok utf8_valid x" and "get s = None" and "upd None s = s"
  shows "dec_members fs (opt_member n string_json x @ rest) s = dec_members fs rest (upd x s)"
  by (rule dec_members_opt [OF assms(1,3,4)]) (use assms(2) in simp)

lemma opt_time:
  assumes "find_field fs n = Some (field get upd (dec_ptr 0 dec_time))"
    and "opt_ok time_ok x" and "get s = None" and "upd None s = s"
  shows "dec_members fs (opt_member n time_json x @ rest) s = dec_members fs rest (upd x s)"
  by (rule dec_members_opt [OF assms(1,3,4)]) (use assms(2) in simp)

lemma opt_goint:
  assumes "find_field fs n = Some (field get upd (dec_ptr 0 dec_goint))" and "get s = None" and "upd None s = s"
  shows "dec_members fs (opt_member n (\<lambda>w. int_json (sint w)) x @ rest) s = dec_members fs rest (upd x s)"
  by (rule dec_members_opt [OF assms]) simp

lemma opt_map:
  assumes "find_field fs n = Some (field get upd (dec_ptr [] dec_map))"
    and "opt_ok labels_ok x" and "get s = None" and "upd None s = s"
  shows "dec_members fs (opt_member n map_json x @ rest) s = dec_members fs rest (upd x s)"
  by (rule dec_members_opt [OF assms(1,3,4)]) (use assms(2) dec_map_json in simp)

section \<open>Well-formed text\<close>

lemma json_ok_scalars [simp]:
  "utf8_valid s \<Longrightarrow> json_ok (string_json s)" "json_ok (int_json i)" "time_ok t \<Longrightarrow> json_ok (time_json t)"
proof -
  show "json_ok (time_json t)" if "time_ok t"
  proof -
    from that obtain s where s: "format_time t = Some s" by (auto simp: time_ok_def)
    then have "s = json_escape s \<and> utf8_valid s" using json_plain_escape [OF format_time_plain [OF s]] by simp
    then show ?thesis using s by (auto simp: time_json_def)
  qed
qed (auto simp: string_json_def int_json_def)

lemma json_ok_map [simp]: "labels_ok m \<Longrightarrow> json_ok (map_json m)"
  by (auto simp: map_json_def labels_ok_def list_all_iff)

lemma json_depth_scalars [simp]:
  "json_depth (string_json s) = 0" "json_depth (int_json i) = 0" "json_depth (time_json t) = 0"
  by (simp_all add: string_json_def int_json_def time_json_def)

lemma json_depth_map: "json_depth (map_json m) = 1"
proof -
  have "fold max (map (\<lambda>kv. json_depth (snd kv)) (map (\<lambda>(k, v). (k, string_json v)) m)) 0 \<le> 0"
    unfolding fold_max_le by auto
  then show ?thesis by (simp add: map_json_def)
qed

lemma set_member [simp]: "set (member n j) = {(n, j)}"
  by (simp add: member_def)

lemma set_opt_member: "set (opt_member n enc x) = (case x of None \<Rightarrow> {} | Some y \<Rightarrow> {(n, enc y)})"
  by (cases x) simp_all

section \<open>The laws of a codec\<close>

locale json_codec =
  fixes zero :: 'a
    and dec :: "'a decoder"
    and enc :: "'a \<Rightarrow> json"
    and ok :: "'a \<Rightarrow> bool"
  assumes enc_ok: "ok x \<Longrightarrow> json_ok (enc x)"
    and enc_depth: "json_depth (enc x) \<le> 100"
    and dec_enc: "ok x \<Longrightarrow> dec (enc x) zero = Some x"
begin

lemma unmarshal_print:
  assumes "ok x"
  shows "unmarshal zero dec (json_print (enc x)) = Inr x" "unmarshal zero dec (json_print (enc x) @ [CHR 0x0A]) = Inr x"
  using json_parse_print [OF enc_ok [OF assms]] enc_depth [of x] dec_enc [OF assms] by (simp_all add: unmarshal_def)

lemma stream_decode_print: "ok x \<Longrightarrow> fst (stream_decode zero dec (Inr (json_print (enc x)))) = Inr x"
proof -
  assume x: "ok x"
  have "json_depth (enc x) \<le> 10000" using enc_depth [of x] by simp
  then have "reads 10000 (enc x)" by (rule read_value_print [OF enc_ok [OF x]])
  then have "read_value 10000 (json_print (enc x) @ []) = Some (enc x, [])"
    unfolding reads_def by (blast intro: stops_simps)
  then show ?thesis using skip_print [OF enc_ok [OF x], of "[]"] dec_enc [OF x] by (simp add: stream_decode_def)
qed

lemma dec_items_enc: "list_all ok xs \<Longrightarrow> dec_items zero dec (map enc xs) = Some xs"
  by (induction xs) (simp_all add: dec_enc)

end

text \<open>A slice of values with a codec has one; a nil slice is read as the empty one.\<close>

lemma slice_codec:
  assumes "json_codec zero dec enc ok" and "\<And>x. json_depth (enc x) \<le> 50"
  shows "json_codec [] (dec_slice zero dec) (\<lambda>xs. JArr (map enc xs)) (list_all ok)"
proof
  fix xs
  show "json_depth (JArr (map enc xs)) \<le> 100"
  proof -
    have "fold max (map json_depth (map enc xs)) 0 \<le> 50" unfolding fold_max_le using assms(2) by simp
    then show ?thesis by simp
  qed
  show "json_ok (JArr (map enc xs))" if "list_all ok xs"
    using that json_codec.enc_ok [OF assms(1)] by (auto simp: list_all_iff)
  show "dec_slice zero dec (JArr (map enc xs)) [] = Some xs" if "list_all ok xs"
    using that json_codec.dec_items_enc [OF assms(1)] by simp
qed

text \<open>An object is as deep as its deepest part.\<close>

lemma json_depth_obj: "json_depth (JObj kvs) \<le> Suc d \<longleftrightarrow> (\<forall>kv\<in>set kvs. json_depth (snd kv) \<le> d)"
  by (simp add: fold_max_le)

lemma json_depth_append: "json_depth (JObj (xs @ ys)) \<le> Suc d \<longleftrightarrow> json_depth (JObj xs) \<le> Suc d \<and> json_depth (JObj ys) \<le> Suc d"
  unfolding json_depth_obj by auto

lemma json_depth_member: "json_depth (JObj (member n j)) \<le> Suc d \<longleftrightarrow> json_depth j \<le> d"
  unfolding json_depth_obj by simp

lemma json_depth_opt: "(\<And>y. json_depth (enc y) \<le> d) \<Longrightarrow> json_depth (JObj (opt_member n enc x)) \<le> Suc d"
  unfolding json_depth_obj by (cases x) simp_all

lemmas json_depth_parts = json_depth_append json_depth_member

text \<open>An object is well formed when each of its parts is.\<close>

lemma json_ok_append: "json_ok (JObj (xs @ ys)) \<longleftrightarrow> json_ok (JObj xs) \<and> json_ok (JObj ys)"
  by auto

lemma json_ok_member: "json_ok (JObj (member n j)) \<longleftrightarrow> utf8_valid n \<and> json_ok j"
  by simp

lemma json_ok_opt:
  "opt_ok p x \<Longrightarrow> utf8_valid n \<Longrightarrow> (\<And>y. p y \<Longrightarrow> json_ok (enc y)) \<Longrightarrow> json_ok (JObj (opt_member n enc x))"
  by (cases x) auto

lemma json_ok_opt_goint: "utf8_valid n \<Longrightarrow> json_ok (JObj (opt_member n (\<lambda>w. int_json (sint w)) x))"
  by (cases x) auto

lemmas json_ok_opts = json_ok_opt [where p = utf8_valid and enc = string_json, OF _ _ json_ok_scalars(1)]
  json_ok_opt [where p = time_ok and enc = time_json, OF _ _ json_ok_scalars(3)]
  json_ok_opt [where p = labels_ok and enc = map_json, OF _ _ json_ok_map] json_ok_opt_goint

lemmas json_ok_parts = json_ok_append json_ok_member json_ok_opts

lemma utf8_ascii: "list_all (\<lambda>c. code c < 128) s \<Longrightarrow> utf8_valid s"
  by (induction s) simp_all

section \<open>The data types\<close>

subsection \<open>Small ones\<close>

interpretation availability_codec: json_codec "\<lparr> av_Available = False \<rparr>" "dec_struct availability_fields" availability_json "\<lambda>_. True"
proof
  fix x
  have f: "find_field availability_fields ''available'' = Some (field av_Available (\<lambda>x. av_Available_update (\<lambda>_. x)) dec_bool)"
    by (simp add: find_field_def availability_fields_def)
  show "dec_struct availability_fields (availability_json x) \<lparr> av_Available = False \<rparr> = Some x"
    using member_bool [OF f, where rest = "[]"] by (simp add: availability_json_def)
  show "json_ok (availability_json x)" by (simp add: availability_json_def utf8_ascii)
  show "json_depth (availability_json x) \<le> 100" by (simp add: availability_json_def member_def)
qed

definition kubeconfig_ok :: "KubeconfigBody \<Rightarrow> bool" where
  "kubeconfig_ok k \<longleftrightarrow> utf8_valid (kb_Kubeconfig k)"

interpretation kubeconfig_codec: json_codec "\<lparr> kb_Kubeconfig = '''' \<rparr>" "dec_struct kubeconfig_fields" kubeconfig_json kubeconfig_ok
proof
  fix x
  have f: "find_field kubeconfig_fields ''kubeconfig'' = Some (field kb_Kubeconfig (\<lambda>x. kb_Kubeconfig_update (\<lambda>_. x)) dec_string)"
    by (simp add: find_field_def kubeconfig_fields_def)
  show "dec_struct kubeconfig_fields (kubeconfig_json x) \<lparr> kb_Kubeconfig = '''' \<rparr> = Some x" if "kubeconfig_ok x"
    using member_string [OF f, where rest = "[]"] that by (simp add: kubeconfig_json_def kubeconfig_ok_def)
  show "json_ok (kubeconfig_json x)" if "kubeconfig_ok x"
    using that by (simp add: kubeconfig_json_def kubeconfig_ok_def utf8_ascii)
  show "json_depth (kubeconfig_json x) \<le> 100" by (simp add: kubeconfig_json_def member_def)
qed

definition create_token_ok :: "CreateTokenRequest \<Rightarrow> bool" where
  "create_token_ok r \<longleftrightarrow> utf8_valid (ctk_Ttl r)"

interpretation create_token_codec: json_codec "\<lparr> ctk_Ttl = '''' \<rparr>" "dec_struct create_token_fields" create_token_json create_token_ok
proof
  fix x
  have f: "find_field create_token_fields ''ttl'' = Some (field ctk_Ttl (\<lambda>x. ctk_Ttl_update (\<lambda>_. x)) dec_string)"
    by (simp add: find_field_def create_token_fields_def)
  show "dec_struct create_token_fields (create_token_json x) \<lparr> ctk_Ttl = '''' \<rparr> = Some x" if "create_token_ok x"
    using member_string [OF f, where rest = "[]"] that by (simp add: create_token_json_def create_token_ok_def)
  show "json_ok (create_token_json x)" if "create_token_ok x"
    using that by (simp add: create_token_json_def create_token_ok_def utf8_ascii)
  show "json_depth (create_token_json x) \<le> 100" by (simp add: create_token_json_def member_def)
qed

subsection \<open>Tenants\<close>

definition tenant_ok :: "Tenant \<Rightarrow> bool" where
  "tenant_ok t \<longleftrightarrow> time_ok (tn_CreatedAt t) \<and> opt_ok utf8_valid (tn_Description t) \<and> utf8_valid (tn_Hash t)
     \<and> opt_ok utf8_valid (tn_Hostname t) \<and> utf8_valid (tn_Id t) \<and> opt_ok utf8_valid (tn_KubernetesVersion t)
     \<and> opt_ok labels_ok (tn_Labels t) \<and> utf8_valid (tn_Name t) \<and> utf8_valid (tn_Owner t)
     \<and> opt_ok utf8_valid (tn_Subdomain t) \<and> opt_ok time_ok (tn_UpdatedAt t)"

lemma find_tenant:
  "find_field tenant_fields ''createdAt'' = Some (field tn_CreatedAt (\<lambda>x. tn_CreatedAt_update (\<lambda>_. x)) dec_time)"
  "find_field tenant_fields ''description'' = Some (field tn_Description (\<lambda>x. tn_Description_update (\<lambda>_. x)) (dec_ptr '''' dec_string))"
  "find_field tenant_fields ''hash'' = Some (field tn_Hash (\<lambda>x. tn_Hash_update (\<lambda>_. x)) dec_string)"
  "find_field tenant_fields ''hostname'' = Some (field tn_Hostname (\<lambda>x. tn_Hostname_update (\<lambda>_. x)) (dec_ptr '''' dec_string))"
  "find_field tenant_fields ''id'' = Some (field tn_Id (\<lambda>x. tn_Id_update (\<lambda>_. x)) dec_string)"
  "find_field tenant_fields ''kubernetesVersion'' =
     Some (field tn_KubernetesVersion (\<lambda>x. tn_KubernetesVersion_update (\<lambda>_. x)) (dec_ptr '''' dec_string))"
  "find_field tenant_fields ''labels'' = Some (field tn_Labels (\<lambda>x. tn_Labels_update (\<lambda>_. x)) (dec_ptr [] dec_map))"
  "find_field tenant_fields ''name'' = Some (field tn_Name (\<lambda>x. tn_Name_update (\<lambda>_. x)) dec_string)"
  "find_field tenant_fields ''owner'' = Some (field tn_Owner (\<lambda>x. tn_Owner_update (\<lambda>_. x)) dec_string)"
  "find_field tenant_fields ''replicas'' = Some (field tn_Replicas (\<lambda>x. tn_Replicas_update (\<lambda>_. x)) (dec_ptr 0 dec_goint))"
  "find_field tenant_fields ''subdomain'' = Some (field tn_Subdomain (\<lambda>x. tn_Subdomain_update (\<lambda>_. x)) (dec_ptr '''' dec_string))"
  "find_field tenant_fields ''updatedAt'' = Some (field tn_UpdatedAt (\<lambda>x. tn_UpdatedAt_update (\<lambda>_. x)) (dec_ptr 0 dec_time))"
  by (simp_all add: find_field_def tenant_fields_def)

lemmas tenant_steps = member_time [OF find_tenant(1)] opt_string [OF find_tenant(2)] member_string [OF find_tenant(3)]
  opt_string [OF find_tenant(4)] member_string [OF find_tenant(5)] opt_string [OF find_tenant(6)] opt_map [OF find_tenant(7)]
  member_string [OF find_tenant(8)] member_string [OF find_tenant(9)] opt_goint [OF find_tenant(10)]
  opt_string [OF find_tenant(11)] opt_time [OF find_tenant(12), where rest = "[]", simplified]

lemma dec_tenant_json: "tenant_ok t \<Longrightarrow> dec_struct tenant_fields (tenant_json t) zero_tenant = Some t"
  by (simp add: tenant_ok_def tenant_json_def zero_tenant_def tenant_steps)

lemma tenant_json_depth: "json_depth (tenant_json t) \<le> 2"
proof -
  have "json_depth (tenant_json t) \<le> Suc 1" unfolding tenant_json_def json_depth_parts
    by (intro conjI json_depth_opt) (simp_all add: json_depth_map)
  then show ?thesis by simp
qed

interpretation tenant_codec: json_codec zero_tenant "dec_struct tenant_fields" tenant_json tenant_ok
proof
  fix x
  show "json_ok (tenant_json x)" if "tenant_ok x"
    using that by (simp add: tenant_json_def tenant_ok_def json_ok_parts utf8_ascii del: json_ok.simps)
  show "json_depth (tenant_json x) \<le> 100" using tenant_json_depth [of x] by simp
qed (rule dec_tenant_json)

interpretation tenants_codec: json_codec "[]" "dec_slice zero_tenant (dec_struct tenant_fields)" "\<lambda>ts. JArr (map tenant_json ts)"
  "list_all tenant_ok"
proof (rule slice_codec [OF tenant_codec.json_codec_axioms])
  show "json_depth (tenant_json x) \<le> 50" for x using tenant_json_depth [of x] by simp
qed

subsection \<open>Requests to create a tenant\<close>

definition create_tenant_ok :: "CreateTenantRequest \<Rightarrow> bool" where
  "create_tenant_ok r \<longleftrightarrow> opt_ok utf8_valid (ctr_Description r) \<and> opt_ok utf8_valid (ctr_KubernetesVersion r)
     \<and> opt_ok labels_ok (ctr_Labels r) \<and> utf8_valid (ctr_Name r) \<and> opt_ok utf8_valid (ctr_Subdomain r)
     \<and> utf8_valid (ctr_UniqueId r)"

lemma find_create_tenant:
  "find_field create_tenant_fields ''description'' =
     Some (field ctr_Description (\<lambda>x. ctr_Description_update (\<lambda>_. x)) (dec_ptr '''' dec_string))"
  "find_field create_tenant_fields ''kubernetesVersion'' =
     Some (field ctr_KubernetesVersion (\<lambda>x. ctr_KubernetesVersion_update (\<lambda>_. x)) (dec_ptr '''' dec_string))"
  "find_field create_tenant_fields ''labels'' = Some (field ctr_Labels (\<lambda>x. ctr_Labels_update (\<lambda>_. x)) (dec_ptr [] dec_map))"
  "find_field create_tenant_fields ''name'' = Some (field ctr_Name (\<lambda>x. ctr_Name_update (\<lambda>_. x)) dec_string)"
  "find_field create_tenant_fields ''replicas'' = Some (field ctr_Replicas (\<lambda>x. ctr_Replicas_update (\<lambda>_. x)) (dec_ptr 0 dec_goint))"
  "find_field create_tenant_fields ''subdomain'' =
     Some (field ctr_Subdomain (\<lambda>x. ctr_Subdomain_update (\<lambda>_. x)) (dec_ptr '''' dec_string))"
  "find_field create_tenant_fields ''uniqueId'' = Some (field ctr_UniqueId (\<lambda>x. ctr_UniqueId_update (\<lambda>_. x)) dec_string)"
  by (simp_all add: find_field_def create_tenant_fields_def)

lemmas create_tenant_steps = opt_string [OF find_create_tenant(1)] opt_string [OF find_create_tenant(2)]
  opt_map [OF find_create_tenant(3)] member_string [OF find_create_tenant(4)] opt_goint [OF find_create_tenant(5)]
  opt_string [OF find_create_tenant(6)] member_string [OF find_create_tenant(7), where rest = "[]", simplified]

interpretation create_tenant_codec: json_codec zero_create_tenant "dec_struct create_tenant_fields" create_tenant_json create_tenant_ok
proof
  fix x
  show "json_ok (create_tenant_json x)" if "create_tenant_ok x"
    using that by (simp add: create_tenant_json_def create_tenant_ok_def json_ok_parts utf8_ascii del: json_ok.simps)
  have "json_depth (create_tenant_json x) \<le> Suc 1" unfolding create_tenant_json_def json_depth_parts
    by (intro conjI json_depth_opt) (simp_all add: json_depth_map)
  then show "json_depth (create_tenant_json x) \<le> 100" by simp
  show "dec_struct create_tenant_fields (create_tenant_json x) zero_create_tenant = Some x" if "create_tenant_ok x"
    using that by (simp add: create_tenant_ok_def create_tenant_json_def zero_create_tenant_def create_tenant_steps)
qed

subsection \<open>Errors\<close>

definition error_item_ok :: "ErrorItem \<Rightarrow> bool" where
  "error_item_ok e \<longleftrightarrow> opt_ok utf8_valid (ei_Code e) \<and> utf8_valid (ei_Field e) \<and> utf8_valid (ei_Message e)"

lemma find_error_item:
  "find_field error_item_fields ''code'' = Some (field ei_Code (\<lambda>x. ei_Code_update (\<lambda>_. x)) (dec_ptr '''' dec_string))"
  "find_field error_item_fields ''field'' = Some (field ei_Field (\<lambda>x. ei_Field_update (\<lambda>_. x)) dec_string)"
  "find_field error_item_fields ''message'' = Some (field ei_Message (\<lambda>x. ei_Message_update (\<lambda>_. x)) dec_string)"
  by (simp_all add: find_field_def error_item_fields_def)

lemmas error_item_steps = opt_string [OF find_error_item(1)] member_string [OF find_error_item(2)]
  member_string [OF find_error_item(3), where rest = "[]", simplified]

lemma error_item_depth: "json_depth (error_item_json e) \<le> 1"
proof -
  have "json_depth (error_item_json e) \<le> Suc 0" unfolding error_item_json_def json_depth_parts
    by (intro conjI json_depth_opt) simp_all
  then show ?thesis by simp
qed

interpretation error_item_codec: json_codec zero_error_item "dec_struct error_item_fields" error_item_json error_item_ok
proof
  fix x
  show "json_ok (error_item_json x)" if "error_item_ok x"
    using that by (simp add: error_item_json_def error_item_ok_def json_ok_parts utf8_ascii del: json_ok.simps)
  show "json_depth (error_item_json x) \<le> 100" using error_item_depth [of x] by simp
  show "dec_struct error_item_fields (error_item_json x) zero_error_item = Some x" if "error_item_ok x"
    using that by (simp add: error_item_ok_def error_item_json_def zero_error_item_def error_item_steps)
qed

lemma error_items_depth: "json_depth (JArr (map error_item_json es)) \<le> 2"
proof -
  have "fold max (map json_depth (map error_item_json es)) 0 \<le> 1" unfolding fold_max_le using error_item_depth by simp
  then show ?thesis by simp
qed

interpretation error_items_codec: json_codec "[]" "dec_slice zero_error_item (dec_struct error_item_fields)"
  "\<lambda>es. JArr (map error_item_json es)" "list_all error_item_ok"
proof (rule slice_codec [OF error_item_codec.json_codec_axioms])
  show "json_depth (error_item_json x) \<le> 50" for x using error_item_depth [of x] by simp
qed

definition error_ok :: "Error \<Rightarrow> bool" where
  "error_ok e \<longleftrightarrow> opt_ok utf8_valid (er_Detail e) \<and> opt_ok (list_all error_item_ok) (er_Errors e)
     \<and> opt_ok utf8_valid (er_Instance e) \<and> int64 (er_Status e) \<and> utf8_valid (er_Title e) \<and> utf8_valid (er_Type e)"

lemma find_error:
  "find_field error_fields ''detail'' = Some (field er_Detail (\<lambda>x. er_Detail_update (\<lambda>_. x)) (dec_ptr '''' dec_string))"
  "find_field error_fields ''errors'' = Some (field er_Errors (\<lambda>x. er_Errors_update (\<lambda>_. x))
     (dec_ptr [] (dec_slice zero_error_item (dec_struct error_item_fields))))"
  "find_field error_fields ''instance'' = Some (field er_Instance (\<lambda>x. er_Instance_update (\<lambda>_. x)) (dec_ptr '''' dec_string))"
  "find_field error_fields ''status'' = Some (field er_Status (\<lambda>x. er_Status_update (\<lambda>_. x)) dec_int)"
  "find_field error_fields ''title'' = Some (field er_Title (\<lambda>x. er_Title_update (\<lambda>_. x)) dec_string)"
  "find_field error_fields ''type'' = Some (field er_Type (\<lambda>x. er_Type_update (\<lambda>_. x)) dec_string)"
  by (simp_all add: find_field_def error_fields_def)

lemma opt_errors:
  assumes "opt_ok (list_all error_item_ok) x" and "er_Errors s = None" and "s\<lparr>er_Errors := None\<rparr> = s"
  shows "dec_members error_fields (opt_member ''errors'' (\<lambda>es. JArr (map error_item_json es)) x @ rest) s =
    dec_members error_fields rest (s\<lparr>er_Errors := x\<rparr>)"
proof (rule dec_members_opt [OF find_error(2) assms(2,3)])
  fix y
  assume "x = Some y"
  then show "JArr (map error_item_json y) \<noteq> JNull
    \<and> dec_slice zero_error_item (dec_struct error_item_fields) (JArr (map error_item_json y)) [] = Some y"
    using assms(1) error_items_codec.dec_enc [of y] by simp
qed

lemmas error_steps = opt_string [OF find_error(1)] opt_errors opt_string [OF find_error(3)] member_int [OF find_error(4)]
  member_string [OF find_error(5)] member_string [OF find_error(6), where rest = "[]", simplified]

interpretation error_codec: json_codec zero_error "dec_struct error_fields" error_json error_ok
proof
  fix x
  show "json_ok (error_json x)" if "error_ok x"
    using that json_ok_opt [where p = "list_all error_item_ok", OF _ _ error_items_codec.enc_ok]
    by (simp add: error_json_def error_ok_def json_ok_parts utf8_ascii del: json_ok.simps)
  have "json_depth (error_json x) \<le> Suc 2" unfolding error_json_def json_depth_parts
    by (intro conjI json_depth_opt error_items_depth) simp_all
  then show "json_depth (error_json x) \<le> 100" by simp
  show "dec_struct error_fields (error_json x) zero_error = Some x" if "error_ok x"
    using that by (simp add: error_ok_def error_json_def zero_error_def error_steps)
qed

subsection \<open>Bootstrap tokens\<close>

definition token_ok :: "BootstrapTokenListItem \<Rightarrow> bool" where
  "token_ok t \<longleftrightarrow> time_ok (btl_CreatedAt t) \<and> time_ok (btl_ExpiresAt t) \<and> utf8_valid (btl_Id t) \<and> utf8_valid (btl_Name t)
     \<and> utf8_valid (btl_Secret t)"

lemma find_token:
  "find_field token_fields ''createdAt'' = Some (field btl_CreatedAt (\<lambda>x. btl_CreatedAt_update (\<lambda>_. x)) dec_time)"
  "find_field token_fields ''expiresAt'' = Some (field btl_ExpiresAt (\<lambda>x. btl_ExpiresAt_update (\<lambda>_. x)) dec_time)"
  "find_field token_fields ''id'' = Some (field btl_Id (\<lambda>x. btl_Id_update (\<lambda>_. x)) dec_string)"
  "find_field token_fields ''name'' = Some (field btl_Name (\<lambda>x. btl_Name_update (\<lambda>_. x)) dec_string)"
  "find_field token_fields ''secret'' = Some (field btl_Secret (\<lambda>x. btl_Secret_update (\<lambda>_. x)) dec_string)"
  by (simp_all add: find_field_def token_fields_def)

lemmas token_steps = member_time [OF find_token(1)] member_time [OF find_token(2)] member_string [OF find_token(3)]
  member_string [OF find_token(4)] member_string [OF find_token(5), where rest = "[]", simplified]

lemma token_depth: "json_depth (token_json t) \<le> 1"
proof -
  have "json_depth (token_json t) \<le> Suc 0" unfolding token_json_def json_depth_parts by simp
  then show ?thesis by simp
qed

interpretation token_codec: json_codec zero_token "dec_struct token_fields" token_json token_ok
proof
  fix x
  show "json_ok (token_json x)" if "token_ok x"
    using that by (simp add: token_json_def token_ok_def json_ok_parts utf8_ascii del: json_ok.simps)
  show "json_depth (token_json x) \<le> 100" using token_depth [of x] by simp
  show "dec_struct token_fields (token_json x) zero_token = Some x" if "token_ok x"
    using that by (simp add: token_ok_def token_json_def zero_token_def token_steps)
qed

interpretation tokens_codec: json_codec "[]" "dec_slice zero_token (dec_struct token_fields)" "\<lambda>ts. JArr (map token_json ts)"
  "list_all token_ok"
proof (rule slice_codec [OF token_codec.json_codec_axioms])
  show "json_depth (token_json x) \<le> 50" for x using token_depth [of x] by simp
qed

end
