(* ===== verification/Serving.thy ===== *)
theory Serving
  imports Noplane_Client Gen_Json_Laws
begin

text \<open>
  One request through the generated server with its default options: the handler of each operation
  is run on a fresh writer, and what it answers is a function, \<open>strict_answer\<close>, of what the typed
  implementation returned. Both ends use Go's JSON codec, whose round trips are restated for the
  bodies of requests and answers.
\<close>

section \<open>Serving one request\<close>

text \<open>
  A server runs a handler on a fresh writer and sends what was written; when the handler panics the
  connection is dropped.
\<close>

definition serve :: "'s HandlerFunc \<Rightarrow> ServerRequest \<Rightarrow> 's \<Rightarrow> (error + Response) \<times> 's" where
  "serve handler r s =
     (case handler r (s, new_ResponseWriter) of
        (Returns _, (s', w)) \<Rightarrow> (Inr (received w), s')
      | (Panics _, (s', w)) \<Rightarrow> (Inl (ForeignError ''EOF''), s'))"

text \<open>The server with the default options: no middlewares, errors answered with their text.\<close>

definition strict_defaults :: "(string \<Rightarrow> string) \<Rightarrow> 's StrictServerInterface \<Rightarrow> 's strictHandler" where
  "strict_defaults quote ssi = \<lparr> sh_ssi = ssi, sh_middlewares = [],
     sh_options = \<lparr> so_RequestErrorHandlerFunc = Some (error_handler quote 400),
       so_ResponseErrorHandlerFunc = Some (error_handler quote 500) \<rparr> \<rparr>"

definition default_wrapper :: "(string \<Rightarrow> string) \<Rightarrow> 's StrictServerInterface \<Rightarrow> 's ServerInterfaceWrapper" where
  "default_wrapper quote ssi = \<lparr> siw_Handler = NewStrictHandler go_server_json quote ssi [],
     siw_HandlerMiddlewares = [], siw_ErrorHandlerFunc = Some (error_handler quote 400) \<rparr>"

lemma default_wrapper_options:
  "options_wrapper quote (NewStrictHandler go_server_json quote ssi []) no_options = default_wrapper quote ssi"
  by (simp add: options_wrapper_def no_options_def default_wrapper_def)

lemma default_wrapper_handler:
  "siw_Handler (default_wrapper quote ssi) = strict_interface go_server_json (strict_defaults quote ssi)"
  by (simp add: default_wrapper_def NewStrictHandler_def NewStrictHandlerWithOptions_def strict_defaults_def)

text \<open>The context a typed handler gets.\<close>

definition scoped :: "ServerRequest \<Rightarrow> ServerRequest" where
  "scoped r = r\<lparr>sv_Context := (sv_Context r)(BearerAuthScopes \<mapsto> [])\<rparr>"

lemma wrapper_serve_default: "wrapper_serve (default_wrapper quote ssi) handler r = handler (scoped r)"
  by (simp add: wrapper_serve_def default_wrapper_def scoped_def)

lemma wrapper_bind_default:
  "BindStyledParameter rt param (chi_URLParam rt r param) = Inr val \<Longrightarrow>
     wrapper_bind rt (default_wrapper quote ssi) param handler r = handler val (scoped r)"
  by (simp add: wrapper_bind_def wrapper_serve_default)

section \<open>What a typed result is answered with\<close>

definition strict_answer ::
  "(string \<Rightarrow> string) \<Rightarrow> operation \<Rightarrow> response_any option \<times> error option \<Rightarrow> Response"
where
  "strict_answer quote oper result =
     (let failed = (\<lambda>err w. received (http_Error (error_Error quote err) 500 w)) in
      case result of
        (_, Some err) \<Rightarrow> failed err new_ResponseWriter
      | (None, None) \<Rightarrow> received new_ResponseWriter
      | (Some response, None) \<Rightarrow>
          (case response_visit go_server_json oper response of
             Some visit \<Rightarrow>
               (case visit new_ResponseWriter of (None, w) \<Rightarrow> received w | (Some err, w) \<Rightarrow> failed err w)
           | None \<Rightarrow> failed (Errorf ''unexpected response type: %T'' [FmtS (response_type response)]) new_ResponseWriter))"

lemma strict_answer_failed:
  "strict_answer quote oper (resp, Some err) = received (http_Error (error_Error quote err) 500 new_ResponseWriter)"
  by (cases resp) (simp_all add: strict_answer_def)

lemma strict_respond_run:
  "\<exists>w. strict_respond go_server_json (strict_defaults quote ssi) oper r result (s, new_ResponseWriter) = (Returns (), (s, w))
     \<and> received w = strict_answer quote oper result"
proof (cases result)
  case (Pair resp err)
  show ?thesis
  proof (cases err)
    case (Some e)
    then show ?thesis
      using Pair strict_answer_failed [of quote oper resp e]
      by (cases resp) (simp_all add: strict_respond_def strict_defaults_def call_error_handler_def error_handler_def)
  next
    case None
    then show ?thesis
      using Pair
      by (auto simp: strict_respond_def strict_defaults_def strict_answer_def call_error_handler_def error_handler_def
          go_bind_def go_return_def Let_def split: option.splits prod.splits)
  qed
qed

lemma serve_strict_run:
  assumes "handler (sv_Context r) r request (s, new_ResponseWriter) = (Returns result, (s', new_ResponseWriter))"
  shows "(case strict_run go_server_json (strict_defaults quote ssi) oper handler request r (s, new_ResponseWriter) of
     (Returns _, (s', w)) \<Rightarrow> (Inr (received w), s') | (Panics _, (s', w)) \<Rightarrow> (Inl (ForeignError ''EOF''), s'))
     = (Inr (strict_answer quote oper result), s')"
proof -
  obtain w where "strict_respond go_server_json (strict_defaults quote ssi) oper r result (s', new_ResponseWriter) = (Returns (), (s', w))"
    and "received w = strict_answer quote oper result"
    using strict_respond_run [of quote ssi oper r result s'] by blast
  moreover have "sh_middlewares (strict_defaults quote ssi) = []" by (simp add: strict_defaults_def)
  ultimately show ?thesis using assms by (simp add: strict_run_def go_bind_def)
qed

lemma typed_call_run:
  "typed_call (Some q) call inject (s, w) =
     (case call q s of
        (Returns (response, err), s') \<Rightarrow> (Returns (map_option inject response, err), (s', w))
      | (Panics e, s') \<Rightarrow> (Panics e, (s', w)))"
  by (simp add: typed_call_def go_bind_def with_backend_run go_return_def split: prod.split outcome.split)

lemma sh_ssi_defaults [simp]: "sh_ssi (strict_defaults quote ssi) = ssi"
  by (simp add: strict_defaults_def)

text \<open>The answers with JSON, and with text.\<close>

definition json_writer :: "int \<Rightarrow> bytes \<Rightarrow> ResponseWriter" where
  "json_writer c bs = \<lparr> rw_Header = Header_Set empty_Header ''Content-Type'' ''application/json'',
     rw_Sent = Some (c, Header_Set empty_Header ''Content-Type'' ''application/json''), rw_Body = bs, rw_WriteErr = None \<rparr>"

lemma visit_json_run:
  "bodyAllowedForStatus c \<Longrightarrow> visit_json c (Inr bs) new_ResponseWriter = (None, json_writer c (bs @ [CHR 0x0A]))"
  by (simp add: visit_json_def new_ResponseWriter_def rw_SetHeader_def rw_WriteHeader_def rw_Write_def json_writer_def)

lemma received_json_writer: "received (json_writer c bs) = json_response c bs"
  by (simp add: json_writer_def received_def json_response_def)

lemma strict_answer_Some:
  "strict_answer quote oper (Some x, None) =
     (case response_visit go_server_json oper x of
        Some visit \<Rightarrow>
          (case visit new_ResponseWriter of
             (None, w) \<Rightarrow> received w
           | (Some err, w) \<Rightarrow> received (http_Error (error_Error quote err) 500 w))
      | None \<Rightarrow> strict_answer quote oper (None, Some (Errorf ''unexpected response type: %T'' [FmtS (response_type x)])))"
  unfolding strict_answer_failed by (simp add: strict_answer_def)

lemma strict_answer_error:
  "rs_StatusCode (strict_answer quote oper (resp, Some err)) = 500"
  "\<not> json_with_status (strict_answer quote oper (resp, Some err)) c"
  "rs_Body (strict_answer quote oper (resp, Some err)) = Inr (error_Error quote err @ [CHR 0x0A])"
proof -
  have w: "rw_Sent new_ResponseWriter = None" "rw_WriteErr new_ResponseWriter = None" "bodyAllowedForStatus 500"
    "rw_Body new_ResponseWriter = []"
    by (simp_all add: new_ResponseWriter_def bodyAllowedForStatus_def)
  have plain: "\<not> strings_Contains ''text/plain; charset=utf-8'' ''json''" by code_simp
  show "rs_StatusCode (strict_answer quote oper (resp, Some err)) = 500"
    "rs_Body (strict_answer quote oper (resp, Some err)) = Inr (error_Error quote err @ [CHR 0x0A])"
    using http_Error_fresh(1,3) [OF w(1-3), of "error_Error quote err"] w(4) by (simp_all add: strict_answer_failed)
  show "\<not> json_with_status (strict_answer quote oper (resp, Some err)) c"
    using http_Error_fresh(2) [OF w(1-3), of "error_Error quote err"] plain by (simp add: strict_answer_failed json_with_status_def)
qed

lemma strict_answer_nil:
  "strict_answer quote oper (None, None) = \<lparr> rs_StatusCode = 200, rs_Status = '''', rs_Header = empty_Header, rs_Body = Inr [] \<rparr>"
  by (simp add: strict_answer_def received_def new_ResponseWriter_def)

lemma empty_answer_not_json:
  "\<not> json_with_status \<lparr> rs_StatusCode = d, rs_Status = '''', rs_Header = empty_Header, rs_Body = b \<rparr> c"
  by (simp add: json_with_status_def Header_Get_def empty_Header_def strings_HasPrefix_def)

lemma json_with_status_response: "json_with_status (json_response d bs) c \<longleftrightarrow> d = c"
proof -
  have "strings_Contains ''application/json'' ''json''" by code_simp
  then show ?thesis by (simp add: json_with_status_def json_response_def Header_Get_Set)
qed

section \<open>The handlers of the operations\<close>

lemma strict_body_decoded:
  "decode (sv_Body r) = (Inr body, rest) \<Longrightarrow> strict_body sh decode k r = k body (r\<lparr>sv_Body := rest\<rparr>)"
  by (simp add: strict_body_def)

lemmas strict_method_defs = strict_GetTenants_def strict_CreateTenant_def strict_ValidateTenantUniqueId_def
  strict_DeleteTenant_def strict_GetTenantKubeconfig_def strict_ListTenantTokens_def strict_CreateTenantToken_def

lemma serve_run:
  assumes "\<And>w. handler r (s, w) = strict_run go_server_json (strict_defaults quote ssi) oper inner request r' (s, w)"
    and "inner (sv_Context r') r' request (s, new_ResponseWriter) = (Returns result, (s', new_ResponseWriter))"
  shows "serve handler r s = (Inr (strict_answer quote oper result), s')"
  using serve_strict_run [of inner r' request s result s' quote ssi oper, OF assms(2)] assms(1) by (simp add: serve_def)

lemma serve_GetTenants:
  assumes "ssi_GetTenants ssi (sv_Context (scoped r)) GetTenantsRequestObject s = (Returns (resp, err), s')"
  shows "serve (Wrapper_GetTenants (default_wrapper quote ssi)) r s =
    (Inr (strict_answer quote OpGetTenants (map_option AnyGetTenants resp, err)), s')"
  by (rule serve_run, simp add: Wrapper_GetTenants_def wrapper_serve_default default_wrapper_handler strict_interface_def strict_GetTenants_def)
    (simp add: typed_call_run assms)

lemma serve_DeleteTenant:
  assumes "BindStyledParameter rt ''tenantId'' (chi_URLParam rt r ''tenantId'') = Inr ident"
    and "ssi_DeleteTenant ssi (sv_Context (scoped r)) \<lparr> dtq_TenantId = ident \<rparr> s = (Returns (resp, err), s')"
  shows "serve (Wrapper_DeleteTenant rt (default_wrapper quote ssi)) r s =
    (Inr (strict_answer quote OpDeleteTenant (map_option AnyDeleteTenant resp, err)), s')"
  by (rule serve_run, simp add: Wrapper_DeleteTenant_def wrapper_bind_default [OF assms(1)] default_wrapper_handler strict_interface_def
      strict_DeleteTenant_def)
    (simp add: typed_call_run assms(2))

lemma serve_GetTenantKubeconfig:
  assumes "BindStyledParameter rt ''tenantId'' (chi_URLParam rt r ''tenantId'') = Inr ident"
    and "ssi_GetTenantKubeconfig ssi (sv_Context (scoped r)) \<lparr> gkq_TenantId = ident \<rparr> s = (Returns (resp, err), s')"
  shows "serve (Wrapper_GetTenantKubeconfig rt (default_wrapper quote ssi)) r s =
    (Inr (strict_answer quote OpGetTenantKubeconfig (map_option AnyGetTenantKubeconfig resp, err)), s')"
  by (rule serve_run, simp add: Wrapper_GetTenantKubeconfig_def wrapper_bind_default [OF assms(1)] default_wrapper_handler strict_interface_def
      strict_GetTenantKubeconfig_def)
    (simp add: typed_call_run assms(2))

lemma serve_CreateTenant:
  assumes "fst (decode_CreateTenantRequest go_server_json (sv_Body r)) = Inr body"
    and "ssi_CreateTenant ssi (sv_Context (scoped r)) \<lparr> ctq_Body = Some body \<rparr> s = (Returns (resp, err), s')"
  shows "serve (Wrapper_CreateTenant (default_wrapper quote ssi)) r s =
    (Inr (strict_answer quote OpCreateTenant (map_option AnyCreateTenant resp, err)), s')"
proof -
  have d: "decode_CreateTenantRequest go_server_json (sv_Body (scoped r)) =
      (Inr body, snd (decode_CreateTenantRequest go_server_json (sv_Body r)))"
    using assms(1) by (simp add: scoped_def prod_eq_iff)
  show ?thesis
    by (rule serve_run, simp add: Wrapper_CreateTenant_def wrapper_serve_default default_wrapper_handler strict_interface_def
        strict_CreateTenant_def strict_body_decoded [of "decode_CreateTenantRequest go_server_json", OF d])
      (simp add: typed_call_run assms(2))
qed

lemma serve_CreateTenantToken:
  assumes "BindStyledParameter rt ''tenantId'' (chi_URLParam rt r ''tenantId'') = Inr ident"
    and "fst (decode_CreateTokenRequest go_server_json (sv_Body r)) = Inr body"
    and "ssi_CreateTenantToken ssi (sv_Context (scoped r)) \<lparr> tkq_TenantId = ident, tkq_Body = Some body \<rparr> s = (Returns (resp, err), s')"
  shows "serve (Wrapper_CreateTenantToken rt (default_wrapper quote ssi)) r s =
    (Inr (strict_answer quote OpCreateTenantToken (map_option AnyCreateTenantToken resp, err)), s')"
proof -
  have d: "decode_CreateTokenRequest go_server_json (sv_Body (scoped r)) =
      (Inr body, snd (decode_CreateTokenRequest go_server_json (sv_Body r)))"
    using assms(2) by (simp add: scoped_def prod_eq_iff)
  show ?thesis
    by (rule serve_run, simp add: Wrapper_CreateTenantToken_def wrapper_bind_default [OF assms(1)] default_wrapper_handler strict_interface_def
        strict_CreateTenantToken_def strict_body_decoded [of "decode_CreateTokenRequest go_server_json", OF d])
      (simp add: typed_call_run assms(3))
qed

section \<open>Encoding and decoding at the two ends\<close>

lemma go_server_json_encodes:
  "tenant_ok t \<Longrightarrow> encode_Tenant go_server_json t = Inr (json_print (tenant_json t))"
  "list_all tenant_ok ts \<Longrightarrow> encode_Tenants go_server_json (Some ts) = Inr (json_print (JArr (map tenant_json ts)))"
  "encode_Error go_server_json e = Inr (json_print (error_json e))"
  "encode_KubeconfigBody go_server_json k = Inr (json_print (kubeconfig_json k))"
  "token_ok b \<Longrightarrow> encode_Token go_server_json b = Inr (json_print (token_json b))"
  by (auto simp: go_server_json_def marshal_def tenant_ok_def tenant_times_def token_ok_def token_times_def all_items_def
      opt_ok_def list_all_iff split: option.splits)

lemma go_json_decodes:
  "tenant_ok t \<Longrightarrow> unmarshal_Tenant go_json (json_print (tenant_json t) @ [CHR 0x0A]) = Inr t"
  "list_all tenant_ok ts \<Longrightarrow> unmarshal_Tenants go_json (json_print (JArr (map tenant_json ts)) @ [CHR 0x0A]) = Inr ts"
  "error_ok e \<Longrightarrow> unmarshal_Error go_json (json_print (error_json e) @ [CHR 0x0A]) = Inr e"
  "kubeconfig_ok k \<Longrightarrow> unmarshal_KubeconfigBody go_json (json_print (kubeconfig_json k) @ [CHR 0x0A]) = Inr k"
  "token_ok b \<Longrightarrow> unmarshal_Token go_json (json_print (token_json b) @ [CHR 0x0A]) = Inr b"
  by (simp_all add: go_json_def tenant_codec.unmarshal_print tenants_codec.unmarshal_print error_codec.unmarshal_print
      kubeconfig_codec.unmarshal_print token_codec.unmarshal_print del: json_print.simps)

lemma request_decodes:
  "create_tenant_ok q \<Longrightarrow> marshal_CreateTenantRequest go_json q = Inr bs \<Longrightarrow>
     fst (decode_CreateTenantRequest go_server_json (Inr bs)) = Inr q"
  "create_token_ok k \<Longrightarrow> marshal_CreateTokenRequest go_json k = Inr bs \<Longrightarrow>
     fst (decode_CreateTokenRequest go_server_json (Inr bs)) = Inr k"
  by (auto simp: go_json_def go_server_json_def marshal_def create_tenant_codec.stream_decode_print
      create_token_codec.stream_decode_print)

lemma bodyAllowed [simp]:
  "bodyAllowedForStatus 200" "bodyAllowedForStatus 201" "bodyAllowedForStatus 400" "bodyAllowedForStatus 403"
  "bodyAllowedForStatus 404" "bodyAllowedForStatus 500"
  by (simp_all add: bodyAllowedForStatus_def)

lemma json_response_simps [simp]:
  "rs_StatusCode (json_response d bs) = d" "rs_Body (json_response d bs) = Inr bs"
  by (simp_all add: json_response_def)

lemmas answer_simps = strict_answer_Some visit_json_run received_json_writer strict_answer_error strict_answer_nil json_with_status_response empty_answer_not_json
  go_server_json_encodes go_json_decodes

end
