(* ===== verification/Routing.thy ===== *)
theory Routing
  imports Serving
begin

text \<open>
  Between the client and the generated server: how an address is made of an operation's path, how a
  request arrives, and how a chi router finds the handler of a path and the parameters in it. The
  library functions are parameters; here is what their documentation promises for identifiers that
  need no escaping in a path. The theorems of \<open>Client_Server\<close> use it to follow an identifier from
  the client's call to the implementation behind the server.
\<close>

section \<open>Patterns\<close>

text \<open>A parameter of a pattern matches one path segment that is not empty.\<close>

fun split_path :: "string \<Rightarrow> string list" where
  "split_path [] = [[]]"
| "split_path (c # s) =
     (if c = CHR ''/'' then [] # split_path s
      else case split_path s of [] \<Rightarrow> [[c]] | seg # segs \<Rightarrow> (c # seg) # segs)"

fun match_segments :: "string list \<Rightarrow> string list \<Rightarrow> (string \<times> string) list option" where
  "match_segments [] [] = Some []"
| "match_segments (p # ps) (x # xs) =
     (if take 1 p = ''{''
      then if x = [] then None else map_option (\<lambda>m. (butlast (drop 1 p), x) # m) (match_segments ps xs)
      else if p = x then match_segments ps xs else None)"
| "match_segments _ _ = None"

definition route_match :: "ServerRequest \<Rightarrow> 's route \<Rightarrow> (string \<times> string) list option" where
  "route_match r rt =
     (case rt of (m, p, _) \<Rightarrow> if m = sv_Method r then match_segments (split_path p) (split_path (sv_Path r)) else None)"

section \<open>Identifiers in a path\<close>

text \<open>The characters that RFC 3986 calls unreserved, which no encoding touches; dot segments are resolved away.\<close>

definition plain_char :: "char \<Rightarrow> bool" where
  "plain_char c \<longleftrightarrow> btw 48 57 c \<or> btw 65 90 c \<or> btw 97 122 c \<or> c \<in> {CHR ''-'', CHR ''_'', CHR ''.'', CHR ''~''}"

definition plain_segment :: "string \<Rightarrow> bool" where
  "plain_segment x \<longleftrightarrow> x \<noteq> '''' \<and> x \<noteq> ''.'' \<and> x \<noteq> ''..'' \<and> list_all plain_char x"

fun slashed :: "string list \<Rightarrow> string" where
  "slashed [] = ''''"
| "slashed [x] = x"
| "slashed (x # xs) = x @ ''/'' @ slashed xs"

lemma plain_segment_no_slash: "plain_segment x \<Longrightarrow> CHR ''/'' \<notin> set x"
  by (auto simp: plain_segment_def plain_char_def btw_def list_all_iff)

lemma split_path_no_slash: "CHR ''/'' \<notin> set x \<Longrightarrow> split_path x = [x]"
  by (induction x) auto

lemma split_path_append: "CHR ''/'' \<notin> set x \<Longrightarrow> split_path (x @ CHR ''/'' # y) = x # split_path y"
  by (induction x) auto

section \<open>What the libraries document\<close>

text \<open>
  On plain segments the styling of a path parameter and its binding on the other side are the
  identity, and resolving a relative path of such segments against the address of the service
  appends it.
\<close>

definition plain_urls :: "('u, 'n) GoHttp \<Rightarrow> bool" where
  "plain_urls h \<longleftrightarrow>
     (\<forall>name x. plain_segment x \<longrightarrow> styleParam h name x = Inr x)
   \<and> (\<forall>u ps v. url_Parse h ''https://api.noplane.io/api/v1/'' = Inr u \<longrightarrow> list_all plain_segment ps \<longrightarrow>
        url_ParseRef h u (''./'' @ slashed ps) = Inr v \<longrightarrow> url_String h v = ''https://api.noplane.io/api/v1/'' @ slashed ps)"

definition binds_plain :: "ChiRuntime \<Rightarrow> bool" where
  "binds_plain rt \<longleftrightarrow> (\<forall>name x. plain_segment x \<longrightarrow> BindStyledParameter rt name x = Inr x)"

text \<open>The request constructor keeps the method, the address and the body it is given.\<close>

definition keeps_request :: "('u, 'n) GoHttp \<Rightarrow> bool" where
  "keeps_request h \<longleftrightarrow> (\<forall>m u b req. http_NewRequest h m u b = Inr req \<longrightarrow> rq_Method req = m \<and> rq_URL req = u \<and> rq_Body req = b)"

text \<open>
  A request reaches the server: the transport hands it over with its method, its body, and the
  path below the address of the service, where the server is mounted, and returns what it answers.
\<close>

definition arrives :: "('u, 's) GoHttp \<Rightarrow> string \<Rightarrow> error + Request \<Rightarrow> 's HandlerFunc \<Rightarrow> ServerRequest \<Rightarrow> bool" where
  "arrives h apiKey built server r \<longleftrightarrow>
     (\<exists>req. built = Inr req \<and> sv_Method r = rq_Method req \<and> rq_URL req = ''https://api.noplane.io/api/v1'' @ sv_Path r
        \<and> sv_Body r = Inr (case rq_Body req of None \<Rightarrow> [] | Some bs \<Rightarrow> bs)
        \<and> (\<forall>s. http_DefaultDo h (authorized apiKey req) s = serve server r s))"

text \<open>
  A router with these routes: a request whose method and path match exactly one of them is served
  by its handler, which reads the matched parameters. Which of several matching routes wins is
  left open.
\<close>

definition chi_dispatches :: "ChiRuntime \<Rightarrow> 's route list \<Rightarrow> 's HandlerFunc \<Rightarrow> bool" where
  "chi_dispatches rt table server \<longleftrightarrow>
     (\<forall>r e ps. e \<in> set table \<longrightarrow> route_match r e = Some ps \<longrightarrow> (\<forall>e' \<in> set table. route_match r e' \<noteq> None \<longrightarrow> e' = e) \<longrightarrow>
        server r = snd (snd e) r \<and> (\<forall>(name, x) \<in> set ps. chi_URLParam rt r name = x))"

section \<open>From the client's call to the handler\<close>

lemma built_request:
  assumes "plain_urls h" and "keeps_request h" and "plain_segment ident"
    and "build_param_request h ''https://api.noplane.io/api/v1/'' param ident (\<lambda>p. ''/tenants/'' @ p @ ''/'' @ action) m b = Inr req"
    and "plain_segment action"
  shows "rq_Method req = m" and "rq_URL req = ''https://api.noplane.io/api/v1/tenants/'' @ ident @ ''/'' @ action" and "rq_Body req = b"
proof -
  have t: "list_all plain_segment [''tenants'', ident, action]"
    using assms(3,5) by (simp add: plain_segment_def plain_char_def btw_def)
  have ref: "operation_ref (''/tenants/'' @ ident @ ''/'' @ action) = ''./'' @ slashed [''tenants'', ident, action]"
    by (simp add: operation_ref_def)
  have style: "styleParam h param ident = Inr ident" using assms(1,3) by (simp add: plain_urls_def)
  note build = assms(4) [unfolded build_param_request_def style sum.case build_request_def ref]
  obtain u v where u: "url_Parse h ''https://api.noplane.io/api/v1/'' = Inr u"
    and v: "url_ParseRef h u (''./'' @ slashed [''tenants'', ident, action]) = Inr v"
    and new: "http_NewRequest h m (url_String h v) b = Inr req"
    using build by (auto split: sum.splits)
  have "url_String h v = ''https://api.noplane.io/api/v1/'' @ slashed [''tenants'', ident, action]"
    using assms(1) u v t unfolding plain_urls_def by blast
  then show "rq_Method req = m" "rq_URL req = ''https://api.noplane.io/api/v1/tenants/'' @ ident @ ''/'' @ action" "rq_Body req = b"
    using assms(2) new by (auto simp: keeps_request_def)
qed

lemma serve_cong: "handler r = handler' r \<Longrightarrow> serve handler r s = serve handler' r s"
  by (simp add: serve_def)

text \<open>The paths of the two operations that end below a tenant.\<close>

lemma split_tenant_path:
  assumes "plain_segment ident" and "plain_segment action"
  shows "split_path (''/tenants/'' @ ident @ ''/'' @ action) = ['''', ''tenants'', ident, action]"
  using split_path_append [OF plain_segment_no_slash [OF assms(1)], of action]
    split_path_no_slash [OF plain_segment_no_slash [OF assms(2)]]
  by simp

lemma default_routes:
  "Handler route_table rt quote (NewStrictHandler go_server_json quote ssi []) =
     (let w = default_wrapper quote ssi in
      [(''GET'', ''/tenants'', Wrapper_GetTenants w), (''POST'', ''/tenants'', Wrapper_CreateTenant w),
       (''GET'', ''/tenants/validate/unique-id/{uniqueID}'', Wrapper_ValidateTenantUniqueId rt w),
       (''DELETE'', ''/tenants/{tenantId}'', Wrapper_DeleteTenant rt w),
       (''GET'', ''/tenants/{tenantId}/kubeconfig'', Wrapper_GetTenantKubeconfig rt w),
       (''GET'', ''/tenants/{tenantId}/token'', Wrapper_ListTenantTokens rt w),
       (''POST'', ''/tenants/{tenantId}/token'', Wrapper_CreateTenantToken rt w)])"
  unfolding Handler_def route_table_routes default_wrapper_options by (simp add: no_options_def Let_def)

lemma plain_actions: "plain_segment ''kubeconfig''" "plain_segment ''token''"
  by (simp_all add: plain_segment_def plain_char_def btw_def)

lemma dispatched:
  assumes "chi_dispatches rt (Handler route_table rt quote (NewStrictHandler go_server_json quote ssi [])) server"
    and "plain_segment ident"
  shows "sv_Method r = ''GET'' \<Longrightarrow> sv_Path r = ''/tenants/'' @ ident @ ''/kubeconfig'' \<Longrightarrow>
      server r = Wrapper_GetTenantKubeconfig rt (default_wrapper quote ssi) r \<and> chi_URLParam rt r ''tenantId'' = ident"
    and "sv_Method r = ''POST'' \<Longrightarrow> sv_Path r = ''/tenants/'' @ ident @ ''/token'' \<Longrightarrow>
      server r = Wrapper_CreateTenantToken rt (default_wrapper quote ssi) r \<and> chi_URLParam rt r ''tenantId'' = ident"
proof -
  let ?table = "Handler route_table rt quote (NewStrictHandler go_server_json quote ssi [])"
  have ne: "ident \<noteq> []" using assms(2) by (simp add: plain_segment_def)
  have law: "server r = snd (snd e) r \<and> chi_URLParam rt r ''tenantId'' = ident"
    if "e \<in> set ?table" "route_match r e = Some [(''tenantId'', ident)]"
      "\<And>e'. e' \<in> set ?table \<Longrightarrow> route_match r e' \<noteq> None \<Longrightarrow> e' = e" for e
  proof -
    from assms(1) have "server r = snd (snd e) r \<and> (\<forall>(name, x) \<in> set [(''tenantId'', ident)]. chi_URLParam rt r name = x)"
      by (intro assms(1) [unfolded chi_dispatches_def, THEN spec, THEN spec, THEN spec, THEN mp, THEN mp, THEN mp] ballI impI that)
    then show ?thesis by simp
  qed
  {
    assume r: "sv_Method r = ''GET''" "sv_Path r = ''/tenants/'' @ ident @ ''/kubeconfig''"
    have path: "split_path (sv_Path r) = ['''', ''tenants'', ident, ''kubeconfig'']"
      using split_tenant_path [OF assms(2) plain_actions(1)] r(2) by simp
    let ?e = "(''GET'', ''/tenants/{tenantId}/kubeconfig'', Wrapper_GetTenantKubeconfig rt (default_wrapper quote ssi))"
    have in_table: "?e \<in> set ?table" unfolding default_routes Let_def by simp
    have matches: "route_match r ?e = Some [(''tenantId'', ident)]" by (simp add: route_match_def path r(1) ne)
    have only: "e' = ?e" if "e' \<in> set ?table" "route_match r e' \<noteq> None" for e'
      using that unfolding default_routes Let_def set_simps insert_iff empty_iff
      by (elim disjE) (simp_all add: route_match_def path r(1) split: if_splits)
    from law [OF in_table matches only]
    show "server r = Wrapper_GetTenantKubeconfig rt (default_wrapper quote ssi) r \<and> chi_URLParam rt r ''tenantId'' = ident" by simp
  next
    assume r: "sv_Method r = ''POST''" "sv_Path r = ''/tenants/'' @ ident @ ''/token''"
    have path: "split_path (sv_Path r) = ['''', ''tenants'', ident, ''token'']"
      using split_tenant_path [OF assms(2) plain_actions(2)] r(2) by simp
    let ?e = "(''POST'', ''/tenants/{tenantId}/token'', Wrapper_CreateTenantToken rt (default_wrapper quote ssi))"
    have in_table: "?e \<in> set ?table" unfolding default_routes Let_def by simp
    have matches: "route_match r ?e = Some [(''tenantId'', ident)]" by (simp add: route_match_def path r(1) ne)
    have only: "e' = ?e" if "e' \<in> set ?table" "route_match r e' \<noteq> None" for e'
      using that unfolding default_routes Let_def set_simps insert_iff empty_iff
      by (elim disjE) (simp_all add: route_match_def path r(1) split: if_splits)
    from law [OF in_table matches only]
    show "server r = Wrapper_CreateTenantToken rt (default_wrapper quote ssi) r \<and> chi_URLParam rt r ''tenantId'' = ident" by simp
  }
qed

text \<open>What arrives of a request for an operation below a tenant.\<close>

lemma arrives_path:
  assumes "plain_urls h" and "keeps_request h" and "plain_segment ident" and "plain_segment action"
    and "built = build_param_request h ''https://api.noplane.io/api/v1/'' param ident (\<lambda>p. ''/tenants/'' @ p @ ''/'' @ action) m b
      \<or> built = with_content_type ct
          (build_param_request h ''https://api.noplane.io/api/v1/'' param ident (\<lambda>p. ''/tenants/'' @ p @ ''/'' @ action) m b)"
    and "arrives h apiKey built server r"
  shows "sv_Method r = m" and "sv_Path r = ''/tenants/'' @ ident @ ''/'' @ action"
proof -
  obtain req where req: "built = Inr req" "sv_Method r = rq_Method req" "rq_URL req = ''https://api.noplane.io/api/v1'' @ sv_Path r"
    using assms(6) by (auto simp: arrives_def)
  obtain req0 where
    "build_param_request h ''https://api.noplane.io/api/v1/'' param ident (\<lambda>p. ''/tenants/'' @ p @ ''/'' @ action) m b = Inr req0"
    and same: "rq_Method req = rq_Method req0" "rq_URL req = rq_URL req0"
    using assms(5) req(1) by (auto simp: with_content_type_def split: sum.splits)
  note b = built_request [OF assms(1-3) this(1) assms(4)]
  show "sv_Method r = m" using req(2) same(1) b(1) by simp
  show "sv_Path r = ''/tenants/'' @ ident @ ''/'' @ action" using req(3) same(2) b(2) by simp
qed

end
