(* ===== verification/Demo_Server.thy ===== *)
theory Demo_Server
  imports Routing
begin

text \<open>
  A concrete network, router and implementation, to apply the theorems of \<open>Client_Server\<close>: the
  route table that \<open>HandlerWithOptions\<close> fills is searched the way chi documents it, a parameter of
  a pattern matching one path segment, and the implementation keeps its tenants in a list.
\<close>

section \<open>Router\<close>

fun mux_serve :: "'s route list \<Rightarrow> 's HandlerFunc" where
  "mux_serve [] r = with_writer (\<lambda>w. ((), rw_WriteHeader 404 w))"
| "mux_serve (rt # rts) r = (if route_match r rt \<noteq> None then snd (snd rt) r else mux_serve rts r)"

definition patterns :: "string list" where
  "patterns = [''/tenants/validate/unique-id/{uniqueID}'', ''/tenants/{tenantId}'', ''/tenants/{tenantId}/kubeconfig'',
     ''/tenants/{tenantId}/token'']"

text \<open>A parameter is looked up in the first pattern that matches the path and has it.\<close>

definition demo_chi :: ChiRuntime where
  "demo_chi = \<lparr> chi_URLParam = (\<lambda>r name.
       case List.map_filter (\<lambda>p. Option.bind (match_segments (split_path p) (split_path (sv_Path r))) (\<lambda>m. map_of m name)) patterns of
         [] \<Rightarrow> '''' | v # _ \<Rightarrow> v),
     BindStyledParameter = (\<lambda>name val. Inr val) \<rparr>"

section \<open>Network\<close>

definition server_request :: "Request \<Rightarrow> ServerRequest" where
  "server_request req = \<lparr> sv_Method = rq_Method req, sv_Path = drop (length ''https://api.noplane.io/api/v1'') (rq_URL req),
     sv_Header = rq_Header req, sv_Body = Inr (case rq_Body req of None \<Rightarrow> [] | Some bs \<Rightarrow> bs), sv_Context = Map.empty \<rparr>"

definition demo_http :: "'s HandlerFunc \<Rightarrow> (string, 's) GoHttp" where
  "demo_http handler = \<lparr> url_Parse = (\<lambda>u. Inr u), url_ParseRef = (\<lambda>u r. Inr (u @ drop 2 r)), url_String = (\<lambda>u. u),
     http_NewRequest = (\<lambda>m u b. Inr \<lparr> rq_Method = m, rq_URL = u, rq_Header = empty_Header, rq_Body = b \<rparr>),
     http_DefaultDo = (\<lambda>req. serve handler (server_request req)), styleParam = (\<lambda>p v. Inr v) \<rparr>"

section \<open>Implementation\<close>

definition demo_tenant :: "CreateTenantRequest \<Rightarrow> Tenant" where
  "demo_tenant q = \<lparr> tn_CreatedAt = 0, tn_Description = ctr_Description q, tn_Hash = ''h'',
     tn_Hostname = Some (ctr_UniqueId q @ ''.example.com''), tn_Id = ctr_UniqueId q,
     tn_KubernetesVersion = ctr_KubernetesVersion q, tn_Labels = ctr_Labels q, tn_Name = ctr_Name q, tn_Owner = ''o'',
     tn_Replicas = ctr_Replicas q, tn_Subdomain = ctr_Subdomain q, tn_UpdatedAt = None \<rparr>"

definition demo_error :: "int \<Rightarrow> string \<Rightarrow> Error" where
  "demo_error status detail = \<lparr> er_Detail = Some detail, er_Errors = None, er_Instance = None, er_Status = status,
     er_Title = ''error'', er_Type = ''about:blank'' \<rparr>"

definition demo_token :: "string \<Rightarrow> BootstrapTokenListItem" where
  "demo_token name = \<lparr> btl_CreatedAt = 0, btl_ExpiresAt = 3600 * Second, btl_Id = ''abcdef'', btl_Name = name,
     btl_Secret = ''0123456789abcdef'' \<rparr>"

definition has_tenant :: "string \<Rightarrow> Tenant list \<Rightarrow> bool" where
  "has_tenant ident = list_ex (\<lambda>t. tn_Id t = ident)"

definition demo_ssi :: "Tenant list StrictServerInterface" where
  "demo_ssi = \<lparr>
     ssi_GetTenants = (\<lambda>ctx q s. (Returns (Some (GetTenants200JSONResponse (Some s)), None), s)),
     ssi_CreateTenant = (\<lambda>ctx q s.
       case ctq_Body q of
         None \<Rightarrow> (Returns (Some (CreateTenant400JSONResponse (demo_error 400 ''no body'')), None), s)
       | Some b \<Rightarrow> (Returns (Some (CreateTenant201JSONResponse (demo_tenant b)), None), s @ [demo_tenant b])),
     ssi_ValidateTenantUniqueId = (\<lambda>ctx q s.
       (Returns (Some (ValidateTenantUniqueId200JSONResponse \<lparr> av_Available = (\<not> has_tenant (vtq_UniqueID q) s) \<rparr>), None), s)),
     ssi_DeleteTenant = (\<lambda>ctx q s.
       if has_tenant (dtq_TenantId q) s
       then (Returns (Some DeleteTenant204Response, None), filter (\<lambda>t. tn_Id t \<noteq> dtq_TenantId q) s)
       else (Returns (Some (DeleteTenant404JSONResponse (demo_error 404 ''no such tenant'')), None), s)),
     ssi_GetTenantKubeconfig = (\<lambda>ctx q s.
       if has_tenant (gkq_TenantId q) s
       then (Returns (Some (GetTenantKubeconfig200JSONResponse \<lparr> kb_Kubeconfig = ''kubeconfig of '' @ gkq_TenantId q \<rparr>), None), s)
       else (Returns (None, Some (Errorf ''no tenant %q'' [FmtS (gkq_TenantId q)])), s)),
     ssi_ListTenantTokens = (\<lambda>ctx q s. (Returns (Some (ListTenantTokens200JSONResponse None), None), s)),
     ssi_CreateTenantToken = (\<lambda>ctx q s.
       (Returns (Some (CreateTenantToken201JSONResponse (demo_token (tkq_TenantId q))), None), s)) \<rparr>"

text \<open>The whole server: the routes of the generated code over this implementation.\<close>

definition demo_server :: "Tenant list HandlerFunc" where
  "demo_server = mux_serve (Handler route_table demo_chi (\<lambda>s. s) (NewStrictHandler go_server_json (\<lambda>s. s) demo_ssi []))"

definition demo_wrapper :: "Tenant list ServerInterfaceWrapper" where
  "demo_wrapper = default_wrapper (\<lambda>s. s) demo_ssi"

lemma demo_server_routes:
  "demo_server = mux_serve
     [(''GET'', ''/tenants'', Wrapper_GetTenants demo_wrapper), (''POST'', ''/tenants'', Wrapper_CreateTenant demo_wrapper),
      (''GET'', ''/tenants/validate/unique-id/{uniqueID}'', Wrapper_ValidateTenantUniqueId demo_chi demo_wrapper),
      (''DELETE'', ''/tenants/{tenantId}'', Wrapper_DeleteTenant demo_chi demo_wrapper),
      (''GET'', ''/tenants/{tenantId}/kubeconfig'', Wrapper_GetTenantKubeconfig demo_chi demo_wrapper),
      (''GET'', ''/tenants/{tenantId}/token'', Wrapper_ListTenantTokens demo_chi demo_wrapper),
      (''POST'', ''/tenants/{tenantId}/token'', Wrapper_CreateTenantToken demo_chi demo_wrapper)]"
  unfolding demo_server_def Handler_def route_table_routes default_wrapper_options
  by (simp add: no_options_def demo_wrapper_def Let_def)

lemma demo_http_simps [simp]:
  "url_Parse (demo_http handler) u = Inr u" "url_ParseRef (demo_http handler) u r = Inr (u @ drop 2 r)"
  "url_String (demo_http handler) u = u" "styleParam (demo_http handler) p v = Inr v"
  "http_NewRequest (demo_http handler) m u b = Inr \<lparr> rq_Method = m, rq_URL = u, rq_Header = empty_Header, rq_Body = b \<rparr>"
  "http_DefaultDo (demo_http handler) req = serve handler (server_request req)"
  by (simp_all add: demo_http_def)

lemmas demo_builders = NewGetTenantsRequest_def NewCreateTenantRequest_def NewCreateTenantRequestWithBody_def
  NewDeleteTenantRequest_def NewGetTenantKubeconfigRequest_def NewCreateTenantTokenRequest_def
  NewCreateTenantTokenRequestWithBody_def build_request_def build_param_request_def with_content_type_def operation_ref_def

text \<open>The router does what \<open>chi_dispatches\<close> asks of one.\<close>

lemma mux_serve_unique:
  assumes "e \<in> set table" and "route_match r e \<noteq> None" and "\<And>e'. e' \<in> set table \<Longrightarrow> route_match r e' \<noteq> None \<Longrightarrow> e' = e"
  shows "mux_serve table r = snd (snd e) r"
  using assms
proof (induction table)
  case (Cons rte rest)
  show ?case
  proof (cases "route_match r rte = None")
    case True
    then have "e \<in> set rest" using Cons.prems(1,2) by auto
    then have "mux_serve rest r = snd (snd e) r" using Cons.prems by (intro Cons.IH) simp_all
    then show ?thesis using True by simp
  next
    case False
    then have "rte = e" by (intro Cons.prems(3)) simp_all
    then show ?thesis using False by simp
  qed
qed simp

lemma match_one: "match_segments [p] xs = Some ps \<longleftrightarrow>
    (\<exists>x. xs = [x] \<and> (if take 1 p = ''{'' then x \<noteq> [] \<and> ps = [(butlast (drop 1 p), x)] else x = p \<and> ps = []))"
  by (cases xs; cases "tl xs") auto

lemma match_more: "match_segments (p # q # qs) xs = Some ps \<longleftrightarrow>
    (\<exists>x ys ps'. xs = x # ys \<and> match_segments (q # qs) ys = Some ps'
       \<and> (if take 1 p = ''{'' then x \<noteq> [] \<and> ps = (butlast (drop 1 p), x) # ps' else x = p \<and> ps = ps'))"
  by (cases xs) auto

lemma split_patterns:
  "split_path ''/tenants'' = ['''', ''tenants'']"
  "split_path ''/tenants/validate/unique-id/{uniqueID}'' = ['''', ''tenants'', ''validate'', ''unique-id'', ''{uniqueID}'']"
  "split_path ''/tenants/{tenantId}'' = ['''', ''tenants'', ''{tenantId}'']"
  "split_path ''/tenants/{tenantId}/kubeconfig'' = ['''', ''tenants'', ''{tenantId}'', ''kubeconfig'']"
  "split_path ''/tenants/{tenantId}/token'' = ['''', ''tenants'', ''{tenantId}'', ''token'']"
  by code_simp+

lemma demo_URLParam:
  assumes "p \<in> set (''/tenants'' # patterns)" and "match_segments (split_path p) (split_path (sv_Path r)) = Some ps"
    and "(name, x) \<in> set ps"
  shows "chi_URLParam demo_chi r name = x"
proof -
  have "p \<in> {''/tenants'', ''/tenants/validate/unique-id/{uniqueID}'', ''/tenants/{tenantId}'',
      ''/tenants/{tenantId}/kubeconfig'', ''/tenants/{tenantId}/token''}"
    using assms(1) by (simp add: patterns_def)
  then show ?thesis
    using assms(2,3)
    by (elim insertE emptyE)
      (auto simp: split_patterns match_one match_more demo_chi_def patterns_def List.map_filter_simps
        simp del: split_path.simps)
qed

lemma demo_dispatches:
  "chi_dispatches demo_chi (Handler route_table demo_chi (\<lambda>s. s) (NewStrictHandler go_server_json (\<lambda>s. s) demo_ssi [])) demo_server"
proof -
  let ?table = "Handler route_table demo_chi (\<lambda>s. s) (NewStrictHandler go_server_json (\<lambda>s. s) demo_ssi [])"
  have law: "demo_server r = snd (snd e) r \<and> (\<forall>(name, x) \<in> set ps. chi_URLParam demo_chi r name = x)"
    if "e \<in> set ?table" "route_match r e = Some ps" "\<forall>e' \<in> set ?table. route_match r e' \<noteq> None \<longrightarrow> e' = e" for r e ps
  proof -
    have "demo_server r = snd (snd e) r"
      unfolding demo_server_def by (rule mux_serve_unique [OF that(1) _ that(3) [rule_format]]) (simp_all add: that(2))
    moreover have p: "fst (snd e) \<in> set (''/tenants'' # patterns)"
      using that(1) unfolding default_routes Let_def set_simps insert_iff empty_iff patterns_def
      by (elim disjE) simp_all
    moreover have m: "match_segments (split_path (fst (snd e))) (split_path (sv_Path r)) = Some ps"
      using that(2) by (auto simp: route_match_def split: prod.splits if_splits)
    ultimately show ?thesis using demo_URLParam [OF p m] by (simp add: split_def)
  qed
  show ?thesis unfolding chi_dispatches_def by (intro allI impI law)
qed

text \<open>A request whose path and method pick a route is served by its handler.\<close>

lemma demo_routes:
  "sv_Method r = ''GET'' \<Longrightarrow> sv_Path r = ''/tenants'' \<Longrightarrow> demo_server r = Wrapper_GetTenants demo_wrapper r"
  "sv_Method r = ''POST'' \<Longrightarrow> sv_Path r = ''/tenants'' \<Longrightarrow> demo_server r = Wrapper_CreateTenant demo_wrapper r"
  "sv_Method r = ''DELETE'' \<Longrightarrow> sv_Path r = ''/tenants/t1'' \<Longrightarrow> demo_server r = Wrapper_DeleteTenant demo_chi demo_wrapper r"
  "sv_Method r = ''GET'' \<Longrightarrow> sv_Path r = ''/tenants/t1/kubeconfig'' \<Longrightarrow>
     demo_server r = Wrapper_GetTenantKubeconfig demo_chi demo_wrapper r"
  "sv_Method r = ''POST'' \<Longrightarrow> sv_Path r = ''/tenants/t1/token'' \<Longrightarrow>
     demo_server r = Wrapper_CreateTenantToken demo_chi demo_wrapper r"
  by (simp_all add: demo_server_routes route_match_def)

lemma demo_param:
  "sv_Path r \<in> {''/tenants/t1'', ''/tenants/t1/kubeconfig'', ''/tenants/t1/token''} \<Longrightarrow>
     BindStyledParameter demo_chi ''tenantId'' (chi_URLParam demo_chi r ''tenantId'') = Inr ''t1''"
  by (auto simp: demo_chi_def patterns_def List.map_filter_simps)

end
