(* ===== verification/Client_Server.thy ===== *)
theory Client_Server
  imports Demo_Server
begin

text \<open>
  The client of \<^verbatim>\<open>client.go\<close> against the generated server of the same package, with the network and
  chi's router in between. For creating, listing and deleting, the theorems assume of the exchange
  that its body reaches the handler of its operation, \<open>delivered\<close>. For the kubeconfig and for tokens
  they assume only what \<open>Routing\<close> says of addresses, transport and router, and follow the method,
  the path and the identifier through the request builder, the generated route table and the
  binding of the parameter. What the client then returns is a function of what the typed
  implementation behind the server returned: the two halves of the generated code fit together.
  The witnesses run the exchanges on the server of \<open>Demo_Server\<close>.
\<close>

section \<open>The client of the controller against the server\<close>

text \<open>
  One exchange over the network: the request was built, and the transport hands its body to the
  handler, whatever the state of the server. Method and path are left to \<open>arrives\<close>, and the headers
  the transport adds on the way, such as Date and Content-Length, are left out.
\<close>

definition delivered :: "('u, 's) GoHttp \<Rightarrow> string \<Rightarrow> error + Request \<Rightarrow> 's HandlerFunc \<Rightarrow> ServerRequest \<Rightarrow> bool" where
  "delivered h apiKey built handler r \<longleftrightarrow>
     (\<exists>req. built = Inr req \<and> sv_Body r = Inr (case rq_Body req of None \<Rightarrow> [] | Some bs \<Rightarrow> bs)
        \<and> (\<forall>s. http_DefaultDo h (authorized apiKey req) s = serve handler r s))"

text \<open>The library's request constructor keeps the body it is given.\<close>

definition keeps_body :: "('u, 'n) GoHttp \<Rightarrow> bool" where
  "keeps_body h \<longleftrightarrow> (\<forall>m u b req. http_NewRequest h m u (Some b) = Inr req \<longrightarrow> rq_Body req = Some b)"

lemma keeps_request_body: "keeps_request h \<Longrightarrow> keeps_body h"
  by (simp add: keeps_request_def keeps_body_def)

lemma arrives_delivered: "arrives h apiKey built server r \<Longrightarrow> server r = handler r \<Longrightarrow> delivered h apiKey built handler r"
  using serve_cong [of server r handler] by (auto simp: arrives_def delivered_def)

lemma exchange_served:
  assumes "delivered h apiKey built handler r" and "serve handler r s = (Inr rsp, s')"
  shows "exchange h apiKey built parse s = (parse rsp, s')"
  using assms by (auto simp: delivered_def exchange_def)

lemma delivered_body:
  assumes "delivered h apiKey (NewCreateTenantRequest h go_json server body) handler r" and "keeps_body h" and "create_tenant_ok body"
  shows "fst (decode_CreateTenantRequest go_server_json (sv_Body r)) = Inr body"
proof -
  obtain req where req: "NewCreateTenantRequest h go_json server body = Inr req"
    and r: "sv_Body r = Inr (case rq_Body req of None \<Rightarrow> [] | Some bs \<Rightarrow> bs)"
    using assms(1) by (auto simp: delivered_def)
  obtain bs where bs: "marshal_CreateTenantRequest go_json body = Inr bs" by (simp add: go_json_def marshal_def)
  have "rq_Body req = Some bs"
    using req bs assms(2)
    by (auto simp: NewCreateTenantRequest_def NewCreateTenantRequestWithBody_def with_content_type_def build_request_def
        keeps_body_def split: sum.splits)
  then show ?thesis using request_decodes(1) [OF assms(3) bs] r by simp
qed

fun created_ok :: "CreateTenantResponseObject \<Rightarrow> bool" where
  "created_ok (CreateTenant201JSONResponse t) = tenant_ok t"
| "created_ok (CreateTenant400JSONResponse e) = error_ok e"
| "created_ok (CreateTenant403JSONResponse e) = error_ok e"
| "created_ok (CreateTenant500JSONResponse e) = error_ok e"
| "created_ok (OtherCreateTenantResponse _ _) = False"

text \<open>What the client makes of a typed result; a result with a response of another type is left open.\<close>

fun created_result :: "CreateTenantResponseObject option \<times> error option \<Rightarrow> error + Plane" where
  "created_result (_, Some err) = Inl (apiError 500 None)"
| "created_result (None, None) = Inl (unexpected_status 200 [])"
| "created_result (Some (CreateTenant201JSONResponse t), None) = Inr (plane_of t)"
| "created_result (Some (CreateTenant400JSONResponse e), None) = Inl (apiError 400 (Some e))"
| "created_result (Some (CreateTenant403JSONResponse e), None) = Inl (apiError 403 (Some e))"
| "created_result (Some (CreateTenant500JSONResponse e), None) = Inl (apiError 500 (Some e))"

lemma create_tenant_body_ok:
  "utf8_valid (cr_Name req) \<Longrightarrow> utf8_valid (cr_KubernetesVersion req) \<Longrightarrow> create_tenant_ok (create_tenant_body req)"
  by (simp add: create_tenant_ok_def create_tenant_body_def)

text \<open>
  C20: Creating a plane, end to end: the typed implementation behind the generated server is called
  with exactly the request \<open>CreatePlane\<close> describes, once, and what it returns is what the client
  returns: the tenant as a plane, or the error with its status and detail. Its strings are UTF-8,
  as are those of the response, which is one the API declares, with times the encoder accepts.
\<close>
theorem Client_CreatePlane_served:
  assumes "keeps_body h"
    and "delivered h apiKey (NewCreateTenantRequest h go_json ''https://api.noplane.io/api/v1/'' (create_tenant_body req))
      (Wrapper_CreateTenant (default_wrapper quote ssi)) r"
    and "utf8_valid (cr_Name req)" and "utf8_valid (cr_KubernetesVersion req)"
    and "ssi_CreateTenant ssi (sv_Context (scoped r)) \<lparr> ctq_Body = Some (create_tenant_body req) \<rparr> s = (Returns (resp, err), s')"
    and "opt_ok created_ok resp"
  shows "Client_CreatePlane go_json (api_client h go_json apiKey) req s = (Returns (created_result (resp, err)), s')"
proof -
  have body: "fst (decode_CreateTenantRequest go_server_json (sv_Body r)) = Inr (create_tenant_body req)"
    by (rule delivered_body [OF assms(2,1) create_tenant_body_ok [OF assms(3,4)]])
  note run = exchange_served [OF assms(2) serve_CreateTenant [OF body assms(5)]]
  show ?thesis
    unfolding Client_CreatePlane_run run using assms(6)
    by (cases "(resp, err)" rule: created_result.cases)
      (simp_all add: ParseCreateTenantResponse_def answer_simps decode_into_def CreateTenantResponse_StatusCode_def)
qed

text \<open>Looking planes up, from the answer to the list of tenants.\<close>

fun tenants_ok :: "GetTenantsResponseObject \<Rightarrow> bool" where
  "tenants_ok (GetTenants200JSONResponse ts) = opt_ok (list_all tenant_ok) ts"
| "tenants_ok (GetTenants500JSONResponse e) = error_ok e"
| "tenants_ok (OtherGetTenantsResponse _ _) = False"

fun tenants_result :: "GetTenantsResponseObject option \<times> error option \<Rightarrow> error + Tenant list" where
  "tenants_result (_, Some err) = Inl (apiError 500 None)"
| "tenants_result (None, None) = Inr []"
| "tenants_result (Some (GetTenants200JSONResponse None), None) = Inr []"
| "tenants_result (Some (GetTenants200JSONResponse (Some ts)), None) = Inr ts"
| "tenants_result (Some (GetTenants500JSONResponse e), None) = Inl (apiError 500 (Some e))"

lemma null_tenants: "encode_Tenants go_server_json None = Inr ''null''" "unmarshal_Tenants go_json (''null'' @ [CHR 0x0A]) = Inr []"
  by (simp_all add: go_server_json_def go_json_def marshal_def all_items_def, code_simp)

lemma listTenants_served:
  assumes "delivered h apiKey (NewGetTenantsRequest h ''https://api.noplane.io/api/v1/'') (Wrapper_GetTenants (default_wrapper quote ssi)) r"
    and "ssi_GetTenants ssi (sv_Context (scoped r)) GetTenantsRequestObject s = (Returns (resp, err), s')"
    and "opt_ok tenants_ok resp"
  shows "listTenants go_json (api_client h go_json apiKey) s = (Returns (tenants_result (resp, err)), s')"
proof -
  note run = exchange_served [OF assms(1) serve_GetTenants [OF assms(2)]]
  show ?thesis
    unfolding listTenants_def api_exchanges go_bind_call run using assms(3) null_tenants
    by (cases "(resp, err)" rule: tenants_result.cases)
      (simp_all add: ParseGetTenantsResponse_def answer_simps decode_into_def GetTenantsResponse_StatusCode_def go_return_def
        del: json_print.simps)
qed

text \<open>
  C21: The lookups, end to end: \<open>GetPlane\<close> and \<open>GetPlaneByName\<close> return the first tenant of the
  implementation's list with the identifier or the name asked for, as a plane, and say that there
  is none otherwise; a nil list, and a nil answer, read as the empty list.
\<close>
theorem Client_lookups_served:
  assumes "delivered h apiKey (NewGetTenantsRequest h ''https://api.noplane.io/api/v1/'') (Wrapper_GetTenants (default_wrapper quote ssi)) r"
    and "ssi_GetTenants ssi (sv_Context (scoped r)) GetTenantsRequestObject s = (Returns (resp, err), s')"
    and "opt_ok tenants_ok resp"
  shows "Client_GetPlane go_json (api_client h go_json apiKey) ident s =
      (Returns (case tenants_result (resp, err) of Inl e \<Rightarrow> Inl e
         | Inr ts \<Rightarrow> (case find (\<lambda>t. tn_Id t = ident) ts of
             None \<Rightarrow> Inl (Errorf ''plane %q not found'' [FmtS ident]) | Some t \<Rightarrow> Inr (plane_of t))), s')
    \<and> Client_GetPlaneByName go_json (api_client h go_json apiKey) name s =
      (Returns (case tenants_result (resp, err) of Inl e \<Rightarrow> Inl e
         | Inr ts \<Rightarrow> (case find (\<lambda>t. tn_Name t = name) ts of
             None \<Rightarrow> Inl (Errorf ''plane with name %q not found'' [FmtS name]) | Some t \<Rightarrow> Inr (plane_of t))), s')"
  using Client_lookup_run [OF listTenants_served [OF assms]] by blast

fun kubeconfig_response_ok :: "GetTenantKubeconfigResponseObject \<Rightarrow> bool" where
  "kubeconfig_response_ok (GetTenantKubeconfig200JSONResponse b) = kubeconfig_ok b"
| "kubeconfig_response_ok (GetTenantKubeconfig400JSONResponse e) = error_ok e"
| "kubeconfig_response_ok (GetTenantKubeconfig403JSONResponse e) = error_ok e"
| "kubeconfig_response_ok (GetTenantKubeconfig404JSONResponse e) = error_ok e"
| "kubeconfig_response_ok (GetTenantKubeconfig500JSONResponse e) = error_ok e"
| "kubeconfig_response_ok (OtherGetTenantKubeconfigResponse _ _) = False"

fun kubeconfig_result :: "GetTenantKubeconfigResponseObject option \<times> error option \<Rightarrow> error + bytes" where
  "kubeconfig_result (_, Some err) = Inl (apiError 500 None)"
| "kubeconfig_result (None, None) = Inl (Errorf ''empty kubeconfig response'' [])"
| "kubeconfig_result (Some (GetTenantKubeconfig200JSONResponse b), None) = Inr (kb_Kubeconfig b)"
| "kubeconfig_result (Some (GetTenantKubeconfig400JSONResponse e), None) = Inl (apiError 400 (Some e))"
| "kubeconfig_result (Some (GetTenantKubeconfig403JSONResponse e), None) = Inl (apiError 403 (Some e))"
| "kubeconfig_result (Some (GetTenantKubeconfig404JSONResponse e), None) = Inl (apiError 404 (Some e))"
| "kubeconfig_result (Some (GetTenantKubeconfig500JSONResponse e), None) = Inl (apiError 500 (Some e))"

text \<open>The kubeconfig, for a request that was delivered to the handler with the identifier bound.\<close>

lemma GetKubeconfig_delivered:
  assumes "delivered h apiKey (NewGetTenantKubeconfigRequest h ''https://api.noplane.io/api/v1/'' ident)
      (Wrapper_GetTenantKubeconfig rt (default_wrapper quote ssi)) r"
    and "BindStyledParameter rt ''tenantId'' (chi_URLParam rt r ''tenantId'') = Inr ident"
    and "ssi_GetTenantKubeconfig ssi (sv_Context (scoped r)) \<lparr> gkq_TenantId = ident \<rparr> s = (Returns (resp, err), s')"
    and "opt_ok kubeconfig_response_ok resp"
  shows "Client_GetKubeconfig go_json (api_client h go_json apiKey) ident s = (Returns (kubeconfig_result (resp, err)), s')"
proof -
  note run = exchange_served [OF assms(1) serve_GetTenantKubeconfig [OF assms(2,3)]]
  show ?thesis
    unfolding Client_GetKubeconfig_def api_exchanges go_bind_call run using assms(4)
    by (cases "(resp, err)" rule: kubeconfig_result.cases)
      (simp_all add: ParseGetTenantKubeconfigResponse_def answer_simps decode_into_def GetTenantKubeconfigResponse_StatusCode_def
        go_return_def)
qed

text \<open>
  C22: The kubeconfig, end to end. The transport hands the client's request to the server built from
  the generated routes, and identifiers need no escaping in a path: then the implementation is
  asked for the plane the client asked for, and what it answers is what \<open>GetKubeconfig\<close> returns,
  unchanged when it is UTF-8; each of its declared error answers, with UTF-8 texts and a status
  of 64 bits, is the client's error with the same status and detail, and an implementation that
  fails is a status 500 without detail.
\<close>
theorem Client_GetKubeconfig_served:
  assumes "plain_urls h" and "keeps_request h" and "binds_plain rt" and "plain_segment ident"
    and "chi_dispatches rt (Handler route_table rt quote (NewStrictHandler go_server_json quote ssi [])) server"
    and "arrives h apiKey (NewGetTenantKubeconfigRequest h ''https://api.noplane.io/api/v1/'' ident) server r"
    and "ssi_GetTenantKubeconfig ssi (sv_Context (scoped r)) \<lparr> gkq_TenantId = ident \<rparr> s = (Returns (resp, err), s')"
    and "opt_ok kubeconfig_response_ok resp"
  shows "Client_GetKubeconfig go_json (api_client h go_json apiKey) ident s = (Returns (kubeconfig_result (resp, err)), s')"
proof -
  have built: "NewGetTenantKubeconfigRequest h ''https://api.noplane.io/api/v1/'' ident =
      build_param_request h ''https://api.noplane.io/api/v1/'' ''tenantId'' ident
        (\<lambda>p. ''/tenants/'' @ p @ ''/'' @ ''kubeconfig'') ''GET'' None"
    by (simp add: NewGetTenantKubeconfigRequest_def)
  note path = arrives_path [OF assms(1,2,4) plain_actions(1) disjI1 [OF built] assms(6)]
  have server: "server r = Wrapper_GetTenantKubeconfig rt (default_wrapper quote ssi) r" "chi_URLParam rt r ''tenantId'' = ident"
    using dispatched(1) [OF assms(5,4) path(1)] path(2) by simp_all
  have bound: "BindStyledParameter rt ''tenantId'' (chi_URLParam rt r ''tenantId'') = Inr ident"
    using server(2) assms(3,4) by (simp add: binds_plain_def)
  have there: "delivered h apiKey (NewGetTenantKubeconfigRequest h ''https://api.noplane.io/api/v1/'' ident)
      (Wrapper_GetTenantKubeconfig rt (default_wrapper quote ssi)) r"
    by (rule arrives_delivered [where handler = "Wrapper_GetTenantKubeconfig rt (default_wrapper quote ssi)", OF assms(6)])
      (rule server(1))
  show ?thesis by (rule GetKubeconfig_delivered [OF there bound assms(7,8)])
qed

fun deleted_ok :: "DeleteTenantResponseObject \<Rightarrow> bool" where
  "deleted_ok DeleteTenant204Response = True"
| "deleted_ok (DeleteTenant400JSONResponse e) = error_ok e"
| "deleted_ok (DeleteTenant403JSONResponse e) = error_ok e"
| "deleted_ok (DeleteTenant404JSONResponse e) = error_ok e"
| "deleted_ok (DeleteTenant500JSONResponse e) = error_ok e"
| "deleted_ok (OtherDeleteTenantResponse _ _) = False"

fun deleted_result :: "DeleteTenantResponseObject option \<times> error option \<Rightarrow> error option" where
  "deleted_result (_, Some err) = Some (apiError 500 None)"
| "deleted_result (None, None) = Some (unexpected_status 200 [])"
| "deleted_result (Some DeleteTenant204Response, None) = None"
| "deleted_result (Some (DeleteTenant400JSONResponse e), None) = Some (apiError 400 (Some e))"
| "deleted_result (Some (DeleteTenant403JSONResponse e), None) = Some (apiError 403 (Some e))"
| "deleted_result (Some (DeleteTenant404JSONResponse e), None) = Some (apiError 404 (Some e))"
| "deleted_result (Some (DeleteTenant500JSONResponse e), None) = Some (apiError 500 (Some e))"

lemma visit_204: "VisitDeleteTenantResponse sj DeleteTenant204Response new_ResponseWriter =
    (None, new_ResponseWriter\<lparr>rw_Sent := Some (204, empty_Header)\<rparr>)"
  by (simp add: rw_WriteHeader_def new_ResponseWriter_def)

lemma received_204: "received (new_ResponseWriter\<lparr>rw_Sent := Some (204, empty_Header)\<rparr>) =
    \<lparr> rs_StatusCode = 204, rs_Status = '''', rs_Header = empty_Header, rs_Body = Inr [] \<rparr>"
  by (simp add: received_def new_ResponseWriter_def)

text \<open>
  C23: Deleting a plane, end to end: the client reports success exactly when the implementation
  answered 204, and never that the plane was not found, even when the implementation says so with
  a 404.
\<close>
theorem Client_DeletePlane_served:
  assumes "delivered h apiKey (NewDeleteTenantRequest h ''https://api.noplane.io/api/v1/'' ident)
      (Wrapper_DeleteTenant rt (default_wrapper quote ssi)) r"
    and "BindStyledParameter rt ''tenantId'' (chi_URLParam rt r ''tenantId'') = Inr ident"
    and "ssi_DeleteTenant ssi (sv_Context (scoped r)) \<lparr> dtq_TenantId = ident \<rparr> s = (Returns (resp, err), s')"
    and "opt_ok deleted_ok resp"
  shows "Client_DeletePlane go_json (api_client h go_json apiKey) ident s = (Returns (deleted_result (resp, err)), s')
    \<and> \<not> IsNotFound (deleted_result (resp, err))"
proof -
  note run = exchange_served [OF assms(1) serve_DeleteTenant [OF assms(2,3)]]
  show ?thesis
    unfolding Client_DeletePlane_def api_exchanges go_bind_call run using assms(4)
    by (cases "(resp, err)" rule: deleted_result.cases)
      (simp_all add: ParseDeleteTenantResponse_def answer_simps visit_204 received_204 decode_into_def
        DeleteTenantResponse_StatusCode_def go_return_def apiError_def unexpected_status_def IsNotFound_def
        del: VisitDeleteTenantResponse.simps(1) split: option.split)
qed

section \<open>Tokens, and requests that are not JSON\<close>

fun token_created_ok :: "CreateTenantTokenResponseObject \<Rightarrow> bool" where
  "token_created_ok (CreateTenantToken201JSONResponse t) = token_ok t"
| "token_created_ok (CreateTenantToken400JSONResponse e) = error_ok e"
| "token_created_ok (CreateTenantToken403JSONResponse e) = error_ok e"
| "token_created_ok (CreateTenantToken404JSONResponse e) = error_ok e"
| "token_created_ok (CreateTenantToken500JSONResponse e) = error_ok e"
| "token_created_ok (OtherCreateTenantTokenResponse _ _) = False"

text \<open>The typed response a parsed answer stands for; none when the answer is not one of the API's.\<close>

definition token_response :: "CreateTenantTokenResponse \<Rightarrow> CreateTenantTokenResponseObject option" where
  "token_response p =
     (case (tkr_JSON201 p, tkr_JSON400 p, tkr_JSON403 p, tkr_JSON404 p, tkr_JSON500 p) of
        (Some t, _, _, _, _) \<Rightarrow> Some (CreateTenantToken201JSONResponse t)
      | (_, Some e, _, _, _) \<Rightarrow> Some (CreateTenantToken400JSONResponse e)
      | (_, _, Some e, _, _) \<Rightarrow> Some (CreateTenantToken403JSONResponse e)
      | (_, _, _, Some e, _) \<Rightarrow> Some (CreateTenantToken404JSONResponse e)
      | (_, _, _, _, Some e) \<Rightarrow> Some (CreateTenantToken500JSONResponse e)
      | _ \<Rightarrow> None)"

lemma delivered_token_body:
  assumes "delivered h apiKey (NewCreateTenantTokenRequest h go_json server ident body) handler r" and "keeps_body h"
    and "create_token_ok body"
  shows "fst (decode_CreateTokenRequest go_server_json (sv_Body r)) = Inr body"
proof -
  obtain req where req: "NewCreateTenantTokenRequest h go_json server ident body = Inr req"
    and r: "sv_Body r = Inr (case rq_Body req of None \<Rightarrow> [] | Some bs \<Rightarrow> bs)"
    using assms(1) by (auto simp: delivered_def)
  obtain bs where bs: "marshal_CreateTokenRequest go_json body = Inr bs" by (simp add: go_json_def marshal_def)
  have "rq_Body req = Some bs"
    using req bs assms(2)
    by (auto simp: NewCreateTenantTokenRequest_def NewCreateTenantTokenRequestWithBody_def with_content_type_def
        build_param_request_def build_request_def keeps_body_def split: sum.splits)
  then show ?thesis using request_decodes(2) [OF assms(3) bs] r by simp
qed

text \<open>Creating a token, for a request that was delivered to the handler with the identifier bound.\<close>

lemma CreateTenantToken_delivered:
  assumes "keeps_body h"
    and "delivered h apiKey (NewCreateTenantTokenRequest h go_json ''https://api.noplane.io/api/v1/'' ident body)
      (Wrapper_CreateTenantToken rt (default_wrapper quote ssi)) r"
    and "BindStyledParameter rt ''tenantId'' (chi_URLParam rt r ''tenantId'') = Inr ident" and "create_token_ok body"
    and "ssi_CreateTenantToken ssi (sv_Context (scoped r)) \<lparr> tkq_TenantId = ident, tkq_Body = Some body \<rparr> s = (Returns (Some resp, None), s')"
    and "token_created_ok resp"
  shows "\<exists>p. CreateTenantTokenWithResponse go_json (np_client (api_client h go_json apiKey)) ident body [] s = (Returns (Inr p), s')
    \<and> token_response p = Some resp"
proof -
  have req: "fst (decode_CreateTokenRequest go_server_json (sv_Body r)) = Inr body"
    by (rule delivered_token_body [OF assms(2,1,4)])
  have run: "CreateTenantTokenWithResponse go_json (np_client (api_client h go_json apiKey)) ident body [] s =
      (Returns (ParseCreateTenantTokenResponse go_json (strict_answer quote OpCreateTenantToken (Some (AnyCreateTenantToken resp), None))), s')"
    using exchange_served [OF assms(2) serve_CreateTenantToken [OF assms(3) req assms(5)],
        of "ParseCreateTenantTokenResponse go_json"]
    by (simp add: CreateTenantTokenWithResponse_def api_client_def client_interface_def V1_CreateTenantToken_def
        with_response_exchange go_call_def)
  show ?thesis
    unfolding run using assms(6)
    by (cases resp) (simp_all add: ParseCreateTenantTokenResponse_def answer_simps decode_into_def token_response_def)
qed

text \<open>
  C24: The generated client and server agree on creating tokens. The transport hands the client's
  request to the server built from the generated routes, and identifiers need no escaping in a
  path: then the implementation gets the tenant and the lifetime (UTF-8) that were asked for, and
  the declared response it returns, with UTF-8 texts, times the encoder accepts and a status of 64
  bits, is what the client parses, at the same status.
\<close>
theorem CreateTenantToken_served:
  assumes "plain_urls h" and "keeps_request h" and "binds_plain rt" and "plain_segment ident" and "create_token_ok body"
    and "chi_dispatches rt (Handler route_table rt quote (NewStrictHandler go_server_json quote ssi [])) server"
    and "arrives h apiKey (NewCreateTenantTokenRequest h go_json ''https://api.noplane.io/api/v1/'' ident body) server r"
    and "ssi_CreateTenantToken ssi (sv_Context (scoped r)) \<lparr> tkq_TenantId = ident, tkq_Body = Some body \<rparr> s = (Returns (Some resp, None), s')"
    and "token_created_ok resp"
  shows "\<exists>p. CreateTenantTokenWithResponse go_json (np_client (api_client h go_json apiKey)) ident body [] s = (Returns (Inr p), s')
    \<and> token_response p = Some resp"
proof -
  obtain buf where "marshal_CreateTokenRequest go_json body = Inr buf" by (simp add: go_json_def marshal_def)
  then have built: "NewCreateTenantTokenRequest h go_json ''https://api.noplane.io/api/v1/'' ident body =
      with_content_type ''application/json'' (build_param_request h ''https://api.noplane.io/api/v1/'' ''tenantId'' ident
        (\<lambda>p. ''/tenants/'' @ p @ ''/'' @ ''token'') ''POST'' (Some buf))"
    by (simp add: NewCreateTenantTokenRequest_def NewCreateTenantTokenRequestWithBody_def)
  note path = arrives_path [OF assms(1,2,4) plain_actions(2) disjI2 [OF built] assms(7)]
  have server: "server r = Wrapper_CreateTenantToken rt (default_wrapper quote ssi) r" "chi_URLParam rt r ''tenantId'' = ident"
    using dispatched(2) [OF assms(6,4) path(1)] path(2) by simp_all
  have bound: "BindStyledParameter rt ''tenantId'' (chi_URLParam rt r ''tenantId'') = Inr ident"
    using server(2) assms(3,4) by (simp add: binds_plain_def)
  have there: "delivered h apiKey (NewCreateTenantTokenRequest h go_json ''https://api.noplane.io/api/v1/'' ident body)
      (Wrapper_CreateTenantToken rt (default_wrapper quote ssi)) r"
    by (rule arrives_delivered [where handler = "Wrapper_CreateTenantToken rt (default_wrapper quote ssi)", OF assms(7)])
      (rule server(1))
  show ?thesis by (rule CreateTenantToken_delivered [OF keeps_request_body [OF assms(2)] there bound assms(5,8,9)])
qed

lemma serve_undecoded:
  assumes "handler r = strict_body (strict_defaults quote ssi) decode k (scoped r)" and "fst (decode (sv_Body r)) = Inl err"
  shows "\<exists>rsp. serve handler r s = (Inr rsp, s) \<and> rs_StatusCode rsp = 400
    \<and> rs_Body rsp = Inr (error_Error quote (Wrapf ''can't decode JSON body: %w'' [] err) @ [CHR 0x0A])"
proof -
  have w: "rw_Sent new_ResponseWriter = None" "rw_WriteErr new_ResponseWriter = None" "bodyAllowedForStatus 400"
    "rw_Body new_ResponseWriter = []"
    by (simp_all add: new_ResponseWriter_def)
  have "sv_Body (scoped r) = sv_Body r" by (simp add: scoped_def)
  then obtain rest where "decode (sv_Body (scoped r)) = (Inl err, rest)" using assms(2) by (cases "decode (sv_Body r)") simp
  then have "serve handler r s =
      (Inr (received (http_Error (error_Error quote (Wrapf ''can't decode JSON body: %w'' [] err)) 400 new_ResponseWriter)), s)"
    by (simp add: serve_def assms(1) strict_body_def strict_defaults_def call_error_handler_def error_handler_def)
  then show ?thesis using http_Error_fresh(1,3) [OF w(1-3)] w(4) by simp
qed

text \<open>
  C25: A request whose body does not decode as what its operation expects never reaches the
  implementation: the server answers 400 in plain text with the cause, and its state is what it
  was. This holds for each of the two operations with a body, whether or not the other one could
  decode it, for the second once its path parameter is bound.
\<close>
theorem undecodable_body_rejected:
  "(fst (decode_CreateTenantRequest go_server_json (sv_Body r)) = Inl err \<longrightarrow>
      (\<exists>rsp. serve (Wrapper_CreateTenant (default_wrapper quote ssi)) r s = (Inr rsp, s) \<and> rs_StatusCode rsp = 400
        \<and> rs_Body rsp = Inr (error_Error quote (Wrapf ''can't decode JSON body: %w'' [] err) @ [CHR 0x0A])))
   \<and> (fst (decode_CreateTokenRequest go_server_json (sv_Body r)) = Inl err'
        \<and> BindStyledParameter rt ''tenantId'' (chi_URLParam rt r ''tenantId'') = Inr ident \<longrightarrow>
      (\<exists>rsp. serve (Wrapper_CreateTenantToken rt (default_wrapper quote ssi)) r s = (Inr rsp, s) \<and> rs_StatusCode rsp = 400
        \<and> rs_Body rsp = Inr (error_Error quote (Wrapf ''can't decode JSON body: %w'' [] err') @ [CHR 0x0A])))"
proof (intro conjI impI)
  assume "fst (decode_CreateTenantRequest go_server_json (sv_Body r)) = Inl err"
  then show "\<exists>rsp. serve (Wrapper_CreateTenant (default_wrapper quote ssi)) r s = (Inr rsp, s) \<and> rs_StatusCode rsp = 400
      \<and> rs_Body rsp = Inr (error_Error quote (Wrapf ''can't decode JSON body: %w'' [] err) @ [CHR 0x0A])"
    by (intro serve_undecoded)
      (simp_all add: Wrapper_CreateTenant_def wrapper_serve_default default_wrapper_handler strict_interface_def
        strict_CreateTenant_def)
next
  assume "fst (decode_CreateTokenRequest go_server_json (sv_Body r)) = Inl err'
    \<and> BindStyledParameter rt ''tenantId'' (chi_URLParam rt r ''tenantId'') = Inr ident"
  then have "fst (decode_CreateTokenRequest go_server_json (sv_Body r)) = Inl err'"
    and "BindStyledParameter rt ''tenantId'' (chi_URLParam rt r ''tenantId'') = Inr ident" by simp_all
  then show "\<exists>rsp. serve (Wrapper_CreateTenantToken rt (default_wrapper quote ssi)) r s = (Inr rsp, s) \<and> rs_StatusCode rsp = 400
      \<and> rs_Body rsp = Inr (error_Error quote (Wrapf ''can't decode JSON body: %w'' [] err') @ [CHR 0x0A])"
    by (intro serve_undecoded)
      (simp_all add: Wrapper_CreateTenantToken_def wrapper_serve_default wrapper_bind_default
        default_wrapper_handler strict_interface_def strict_CreateTenantToken_def)
qed

section \<open>Exchanges with the demonstration server\<close>

lemma demo_delivered:
  assumes "built = Inr req"
    and "demo_server (server_request (authorized k req)) = handler (server_request (authorized k req))"
  shows "delivered (demo_http demo_server) k built handler (server_request (authorized k req))"
  using assms by (auto simp: delivered_def server_request_def authorized_def intro: serve_cong)

lemma demo_plain_urls: "plain_urls (demo_http handler)"
  by (simp add: plain_urls_def)

lemma demo_keeps_request: "keeps_request (demo_http handler)"
  by (simp add: keeps_request_def)

lemma demo_binds_plain: "binds_plain demo_chi"
  by (simp add: binds_plain_def demo_chi_def)

lemma demo_arrives:
  assumes "built = Inr req" and "rq_URL req = ''https://api.noplane.io/api/v1'' @ path"
  shows "arrives (demo_http demo_server) k built demo_server (server_request (authorized k req))"
  using assms by (auto simp: arrives_def server_request_def authorized_def)

lemma plain_t1: "plain_segment ''t1''"
  by (simp add: plain_segment_def plain_char_def btw_def)

lemma demo_keeps_body: "keeps_body (demo_http handler)"
  by (simp add: keeps_body_def)

definition demo_plane :: CreateRequest where
  "demo_plane = \<lparr> cr_Name = ''t1'', cr_KubernetesVersion = ''v1.30.0'' \<rparr>"

definition demo_state :: "Tenant list" where
  "demo_state = [demo_tenant (create_tenant_body demo_plane)]"

lemma demo_tenant_ok: "tenant_ok (demo_tenant (create_tenant_body demo_plane))"
proof -
  have "time_ok 0" by (simp add: time_ok_iff day_ns_def days_before_year_def)
  then show ?thesis by (simp add: tenant_ok_def demo_tenant_def create_tenant_body_def demo_plane_def utf8_ascii)
qed

theorem Client_CreatePlane_served_witness:
  "Client_CreatePlane go_json (api_client (demo_http demo_server) go_json ''key'') demo_plane [] =
     (Returns (Inr (plane_of (demo_tenant (create_tenant_body demo_plane)))), demo_state)"
proof -
  let ?h = "demo_http demo_server"
  obtain req where req: "NewCreateTenantRequest ?h go_json ''https://api.noplane.io/api/v1/'' (create_tenant_body demo_plane) = Inr req"
    "rq_Method req = ''POST''" "rq_URL req = ''https://api.noplane.io/api/v1/tenants''"
    by (simp add: demo_builders go_json_def marshal_def)
  have d: "delivered ?h ''key'' (NewCreateTenantRequest ?h go_json ''https://api.noplane.io/api/v1/'' (create_tenant_body demo_plane))
      (Wrapper_CreateTenant (default_wrapper (\<lambda>s. s) demo_ssi)) (server_request (authorized ''key'' req))"
    by (rule demo_delivered [OF req(1)])
      (use req(2,3) demo_routes(2) in \<open>simp add: server_request_def authorized_def demo_wrapper_def\<close>)
  have "Client_CreatePlane go_json (api_client ?h go_json ''key'') demo_plane [] =
      (Returns (created_result (Some (CreateTenant201JSONResponse (demo_tenant (create_tenant_body demo_plane))), None)), demo_state)"
    by (rule Client_CreatePlane_served [OF demo_keeps_body d])
      (simp_all add: demo_plane_def [symmetric] demo_ssi_def demo_state_def demo_tenant_ok, simp_all add: demo_plane_def utf8_ascii)
  then show ?thesis by simp
qed

theorem Client_lookups_served_witness:
  "Client_GetPlane go_json (api_client (demo_http demo_server) go_json ''key'') ''t1'' demo_state =
     (Returns (Inr (plane_of (demo_tenant (create_tenant_body demo_plane)))), demo_state)"
proof -
  let ?h = "demo_http demo_server"
  obtain req where req: "NewGetTenantsRequest ?h ''https://api.noplane.io/api/v1/'' = Inr req"
    "rq_Method req = ''GET''" "rq_URL req = ''https://api.noplane.io/api/v1/tenants''"
    by (simp add: demo_builders)
  have d: "delivered ?h ''key'' (NewGetTenantsRequest ?h ''https://api.noplane.io/api/v1/'')
      (Wrapper_GetTenants (default_wrapper (\<lambda>s. s) demo_ssi)) (server_request (authorized ''key'' req))"
    by (rule demo_delivered [OF req(1)])
      (use req(2,3) demo_routes(1) in \<open>simp add: server_request_def authorized_def demo_wrapper_def\<close>)
  have i: "ssi_GetTenants demo_ssi ctx q demo_state = (Returns (Some (GetTenants200JSONResponse (Some demo_state)), None), demo_state)" for ctx q
    by (simp add: demo_ssi_def)
  have ok: "opt_ok tenants_ok (Some (GetTenants200JSONResponse (Some demo_state)))"
    using demo_tenant_ok by (simp add: demo_state_def)
  show ?thesis
    using Client_lookups_served [OF d i ok, of "''t1''" "''t1''"]
    by (simp add: demo_state_def demo_tenant_def create_tenant_body_def demo_plane_def)
qed

theorem Client_GetKubeconfig_served_witness:
  "Client_GetKubeconfig go_json (api_client (demo_http demo_server) go_json ''key'') ''t1'' demo_state =
     (Returns (Inr ''kubeconfig of t1''), demo_state)"
proof -
  let ?h = "demo_http demo_server"
  obtain req where req: "NewGetTenantKubeconfigRequest ?h ''https://api.noplane.io/api/v1/'' ''t1'' = Inr req"
    "rq_Method req = ''GET''" "rq_URL req = ''https://api.noplane.io/api/v1/tenants/t1/kubeconfig''"
    by (simp add: demo_builders)
  let ?r = "server_request (authorized ''key'' req)"
  have d: "arrives ?h ''key'' (NewGetTenantKubeconfigRequest ?h ''https://api.noplane.io/api/v1/'' ''t1'') demo_server ?r"
    by (rule demo_arrives [OF req(1)]) (simp add: req(3))
  have i: "ssi_GetTenantKubeconfig demo_ssi ctx \<lparr> gkq_TenantId = ''t1'' \<rparr> demo_state =
      (Returns (Some (GetTenantKubeconfig200JSONResponse \<lparr> kb_Kubeconfig = ''kubeconfig of t1'' \<rparr>), None), demo_state)" for ctx
    by (simp add: demo_ssi_def demo_state_def has_tenant_def demo_tenant_def create_tenant_body_def demo_plane_def)
  show ?thesis
    using Client_GetKubeconfig_served [OF demo_plain_urls demo_keeps_request demo_binds_plain plain_t1 demo_dispatches d i] by (simp add: kubeconfig_ok_def utf8_ascii)
qed

theorem Client_DeletePlane_served_witness:
  "Client_DeletePlane go_json (api_client (demo_http demo_server) go_json ''key'') ''t1'' [] =
     (Returns (Some (apiError 404 (Some (demo_error 404 ''no such tenant'')))), [])"
proof -
  let ?h = "demo_http demo_server"
  obtain req where req: "NewDeleteTenantRequest ?h ''https://api.noplane.io/api/v1/'' ''t1'' = Inr req"
    "rq_Method req = ''DELETE''" "rq_URL req = ''https://api.noplane.io/api/v1/tenants/t1''"
    by (simp add: demo_builders)
  let ?r = "server_request (authorized ''key'' req)"
  have r: "sv_Method ?r = ''DELETE''" "sv_Path ?r = ''/tenants/t1''"
    using req(2,3) by (simp_all add: server_request_def authorized_def)
  have d: "delivered ?h ''key'' (NewDeleteTenantRequest ?h ''https://api.noplane.io/api/v1/'' ''t1'')
      (Wrapper_DeleteTenant demo_chi (default_wrapper (\<lambda>s. s) demo_ssi)) ?r"
    by (rule demo_delivered [OF req(1)]) (use demo_routes(3) [OF r] in \<open>simp add: demo_wrapper_def\<close>)
  have p: "BindStyledParameter demo_chi ''tenantId'' (chi_URLParam demo_chi ?r ''tenantId'') = Inr ''t1''"
    by (rule demo_param) (simp add: r)
  have i: "ssi_DeleteTenant demo_ssi ctx \<lparr> dtq_TenantId = ''t1'' \<rparr> [] =
      (Returns (Some (DeleteTenant404JSONResponse (demo_error 404 ''no such tenant'')), None), [])" for ctx
    by (simp add: demo_ssi_def has_tenant_def)
  show ?thesis
    using Client_DeletePlane_served [OF d p i] by (simp add: error_ok_def demo_error_def int64_def utf8_ascii)
qed

theorem CreateTenantToken_served_witness:
  "\<exists>p. CreateTenantTokenWithResponse go_json (np_client (api_client (demo_http demo_server) go_json ''key'')) ''t1''
       \<lparr> ctk_Ttl = ''1h'' \<rparr> [] demo_state = (Returns (Inr p), demo_state)
     \<and> token_response p = Some (CreateTenantToken201JSONResponse (demo_token ''t1''))"
proof -
  let ?h = "demo_http demo_server"
  obtain req where req: "NewCreateTenantTokenRequest ?h go_json ''https://api.noplane.io/api/v1/'' ''t1'' \<lparr> ctk_Ttl = ''1h'' \<rparr> = Inr req"
    "rq_Method req = ''POST''" "rq_URL req = ''https://api.noplane.io/api/v1/tenants/t1/token''"
    by (simp add: demo_builders go_json_def marshal_def)
  let ?r = "server_request (authorized ''key'' req)"
  have d: "arrives ?h ''key'' (NewCreateTenantTokenRequest ?h go_json ''https://api.noplane.io/api/v1/'' ''t1'' \<lparr> ctk_Ttl = ''1h'' \<rparr>)
      demo_server ?r"
    by (rule demo_arrives [OF req(1)]) (simp add: req(3))
  have i: "ssi_CreateTenantToken demo_ssi ctx \<lparr> tkq_TenantId = ''t1'', tkq_Body = b \<rparr> demo_state =
      (Returns (Some (CreateTenantToken201JSONResponse (demo_token ''t1'')), None), demo_state)" for ctx b
    by (simp add: demo_ssi_def)
  have "time_ok 0" "time_ok (3600 * Second)" by (simp_all add: time_ok_iff day_ns_def days_before_year_def Second_def)
  then have ok: "token_created_ok (CreateTenantToken201JSONResponse (demo_token ''t1''))"
    by (simp add: token_ok_def demo_token_def utf8_ascii)
  have b: "create_token_ok \<lparr> ctk_Ttl = ''1h'' \<rparr>" by (simp add: create_token_ok_def utf8_ascii)
  show ?thesis
    by (rule CreateTenantToken_served [OF demo_plain_urls demo_keeps_request demo_binds_plain plain_t1 b demo_dispatches d i ok])
qed

text \<open>
  A body that is fine for a token as far as it is read, every field it has being unknown there, but
  has a number for the name of a tenant; and a body cut off after its first brace.
\<close>

definition posted :: "bytes \<Rightarrow> ServerRequest" where
  "posted body = \<lparr> sv_Method = ''POST'', sv_Path = ''/tenants/t1/token'', sv_Header = empty_Header,
     sv_Body = Inr body, sv_Context = Map.empty \<rparr>"

definition mistyped_body :: bytes where
  "mistyped_body = [CHR ''{'', CHR 34, CHR ''n'', CHR ''a'', CHR ''m'', CHR ''e'', CHR 34, CHR '':'', CHR ''5'', CHR ''}'']"

lemma mistyped_decodes:
  "isl (fst (decode_CreateTenantRequest go_server_json (Inr mistyped_body)))"
  "\<not> isl (fst (decode_CreateTokenRequest go_server_json (Inr mistyped_body)))"
  by code_simp+

theorem undecodable_body_rejected_witness:
  "(\<exists>rsp. serve (Wrapper_CreateTenant (default_wrapper (\<lambda>s. s) demo_ssi)) (posted mistyped_body) demo_state = (Inr rsp, demo_state)
     \<and> rs_StatusCode rsp = 400)
   \<and> (\<exists>rsp. serve (Wrapper_CreateTenantToken demo_chi (default_wrapper (\<lambda>s. s) demo_ssi)) (posted ''{'') demo_state = (Inr rsp, demo_state)
     \<and> rs_StatusCode rsp = 400)"
proof -
  have body: "sv_Body (posted b) = Inr b" for b by (simp add: posted_def)
  obtain e where 1: "fst (decode_CreateTenantRequest go_server_json (sv_Body (posted mistyped_body))) = Inl e"
    unfolding body using mistyped_decodes(1) by (auto simp: isl_def)
  have 2: "fst (decode_CreateTokenRequest go_server_json (sv_Body (posted ''{''))) = Inl json_error"
    by (simp add: go_server_json_def stream_decode_def body skip_def is_space_def read_value.simps read_members.simps)
  have 3: "BindStyledParameter demo_chi ''tenantId'' (chi_URLParam demo_chi (posted ''{'') ''tenantId'') = Inr ''t1''"
    by (rule demo_param) (simp add: posted_def)
  note rejected = undecodable_body_rejected [where quote = "\<lambda>s. s" and ssi = demo_ssi and s = demo_state and rt = demo_chi]
  show ?thesis
    using rejected [THEN conjunct1, THEN mp, OF 1] rejected [THEN conjunct2, THEN mp, OF conjI [OF 2 3]] by blast
qed

end
